(* ===== verification/Js_Prelude.thy ===== *)
theory Js_Prelude
  imports Complex_Main "HOL-Library.Word"
begin

text \<open>
  The part of ECMAScript that the BlackPearl web console relies on, shared by every component:
  results of code that may throw, strings as sequences of 16-bit code units with the methods the
  console calls (\<open>trim\<close>, \<open>split\<close>, \<open>includes\<close>, \<open>join\<close>, \<open>padStart\<close>).
\<close>

named_theorems js_simps \<open>evaluation rules for closed strings and numbers\<close>
named_theorems result_simps \<open>rules for computations that may throw\<close>

section \<open>Computations that may throw\<close>

text \<open>\<open>Inl e\<close> is a thrown error (a rejected promise), \<open>Inr v\<close> a normal completion.\<close>

definition bind_result :: "'e + 'a \<Rightarrow> ('a \<Rightarrow> 'e + 'b) \<Rightarrow> 'e + 'b" where
  "bind_result r f = (case r of Inl e \<Rightarrow> Inl e | Inr v \<Rightarrow> f v)"

lemma bind_result_simps [simp, result_simps]:
  "bind_result (Inl e) f = Inl e"
  "bind_result (Inr v) f = f v"
  by (simp_all add: bind_result_def)

lemma bind_result_Inr_iff [result_simps]:
  "bind_result r f = Inr w \<longleftrightarrow> (\<exists>v. r = Inr v \<and> f v = Inr w)"
  by (cases r) auto

lemma bind_result_Inl_iff [result_simps]:
  "bind_result r f = Inl e \<longleftrightarrow> r = Inl e \<or> (\<exists>v. r = Inr v \<and> f v = Inl e)"
  by (cases r) auto

section \<open>Strings\<close>

text \<open>A string is a sequence of 16-bit code units; \<open>length\<close> is the number of code units.\<close>

type_synonym code_unit = "16 word"
type_synonym jsstring = "code_unit list"

definition cu :: "char \<Rightarrow> code_unit" where
  "cu c = of_nat (of_char c)"

definition js :: "string \<Rightarrow> jsstring" where
  "js s = map cu s"

lemma unat_cu: "unat (cu c) = of_char c"
proof -
  have "(of_char c :: nat) < 256" by simp
  then have "(of_char c :: nat) < 2 ^ 16" by (rule less_le_trans) simp
  then have "(of_char c :: nat) mod 2 ^ 16 = of_char c" by (rule mod_less)
  then show ?thesis by (simp add: cu_def unat_of_nat)
qed

lemma cu_eq_iff [simp, js_simps]: "cu a = cu b \<longleftrightarrow> a = b"
  by (metis unat_cu of_char_eq_iff)

lemma cu_less_eq_iff [js_simps]: "cu a \<le> cu b \<longleftrightarrow> (of_char a :: nat) \<le> of_char b"
  by (simp add: word_le_nat_alt unat_cu)

lemma js_simps_list [simp, js_simps]:
  "js [] = []"
  "js (c # s) = cu c # js s"
  by (simp_all add: js_def)

lemma js_append [js_simps]: "js (s @ t) = js s @ js t"
  by (simp add: js_def)

lemma js_inject: "js s = js t \<longleftrightarrow> s = t"
  by (simp add: js_def inj_map_eq_map inj_def)

lemma length_js [simp]: "length (js s) = length s"
  by (simp add: js_def)

subsection \<open>Character classes\<close>

definition is_digit_cu :: "code_unit \<Rightarrow> bool" where
  "is_digit_cu c \<longleftrightarrow> cu CHR ''0'' \<le> c \<and> c \<le> cu CHR ''9''"

definition is_hex_cu :: "code_unit \<Rightarrow> bool" where
  "is_hex_cu c \<longleftrightarrow> is_digit_cu c \<or> (cu CHR ''a'' \<le> c \<and> c \<le> cu CHR ''f'')"

definition is_upper_cu :: "code_unit \<Rightarrow> bool" where
  "is_upper_cu c \<longleftrightarrow> cu CHR ''A'' \<le> c \<and> c \<le> cu CHR ''Z''"

definition is_lower_cu :: "code_unit \<Rightarrow> bool" where
  "is_lower_cu c \<longleftrightarrow> cu CHR ''a'' \<le> c \<and> c \<le> cu CHR ''z''"

text \<open>The class \<open>\w\<close>, without the flags that would add further characters.\<close>

definition is_word_cu :: "code_unit \<Rightarrow> bool" where
  "is_word_cu c \<longleftrightarrow> is_digit_cu c \<or> is_upper_cu c \<or> is_lower_cu c \<or> c = cu CHR ''_''"

text \<open>White space and line terminators: the class \<open>\s\<close> and what \<open>trim\<close> removes.\<close>

definition is_space_cu :: "code_unit \<Rightarrow> bool" where
  "is_space_cu c \<longleftrightarrow>
     (let n = unat c in
      n \<in> set [9, 10, 11, 12, 13, 32, 160, 0x1680, 0x2028, 0x2029, 0x202F, 0x205F, 0x3000, 0xFEFF]
      \<or> (0x2000 \<le> n \<and> n \<le> 0x200A))"

text \<open>The characters that the dot of a regular expression does not match.\<close>

definition is_line_terminator_cu :: "code_unit \<Rightarrow> bool" where
  "is_line_terminator_cu c \<longleftrightarrow> unat c \<in> set [10, 13, 0x2028, 0x2029]"

lemmas char_class_defs =
  is_digit_cu_def is_hex_cu_def is_upper_cu_def is_lower_cu_def is_word_cu_def is_space_cu_def
  is_line_terminator_cu_def

lemma digit_is_word [simp]: "is_digit_cu c \<Longrightarrow> is_word_cu c"
  by (simp add: is_word_cu_def)

lemma digit_not_space [simp]: "is_digit_cu c \<Longrightarrow> \<not> is_space_cu c"
  by (auto simp: is_digit_cu_def is_space_cu_def word_le_nat_alt unat_cu Let_def)

subsection \<open>String methods\<close>

definition trim :: "jsstring \<Rightarrow> jsstring" where
  "trim s = rev (dropWhile is_space_cu (rev (dropWhile is_space_cu s)))"

lemma trim_Nil [simp]: "trim [] = []"
  by (simp add: trim_def)

lemma trim_empty_iff: "trim s = [] \<longleftrightarrow> (\<forall>c \<in> set s. is_space_cu c)"
proof -
  have "trim s = [] \<longleftrightarrow> (\<forall>c \<in> set (dropWhile is_space_cu s). is_space_cu c)"
    by (simp add: trim_def)
  also have "\<dots> \<longleftrightarrow> (\<forall>c \<in> set s. is_space_cu c)"
    by (induction s) auto
  finally show ?thesis .
qed

lemma dropWhile_rev_hd:
  "s \<noteq> [] \<Longrightarrow> \<not> P (hd s) \<Longrightarrow> rev (dropWhile P (rev s)) \<noteq> [] \<and> hd (rev (dropWhile P (rev s))) = hd s"
  by (cases s) (auto simp: dropWhile_append)

lemma hd_trim: "trim s \<noteq> [] \<Longrightarrow> \<not> is_space_cu (hd (trim s))"
  unfolding trim_def
  by (metis dropWhile_rev_hd hd_dropWhile rev.simps(1) dropWhile.simps(1))

lemma last_trim: "trim s \<noteq> [] \<Longrightarrow> \<not> is_space_cu (last (trim s))"
  unfolding trim_def by (metis last_rev rev_is_Nil_conv hd_dropWhile)

lemma dropWhile_hd_False: "s = [] \<or> \<not> P (hd s) \<Longrightarrow> dropWhile P s = s"
  by (cases s) auto

lemma trim_idem [simp]: "trim (trim s) = trim s"
proof (cases "trim s = []")
  case True
  then show ?thesis by simp
next
  case False
  then have "dropWhile is_space_cu (trim s) = trim s"
    by (simp add: dropWhile_hd_False hd_trim)
  moreover have "dropWhile is_space_cu (rev (trim s)) = rev (trim s)"
    using False by (simp add: dropWhile_hd_False hd_rev last_trim)
  ultimately show ?thesis by (simp add: trim_def [of "trim s"])
qed

text \<open>\<open>s.split(sep)\<close> for a one-character separator: never empty.\<close>

fun split_on :: "code_unit \<Rightarrow> jsstring \<Rightarrow> jsstring list" where
  "split_on sep [] = [[]]"
| "split_on sep (c # s) =
     (if c = sep then [] # split_on sep s
      else (case split_on sep s of [] \<Rightarrow> [[c]] | w # ws \<Rightarrow> (c # w) # ws))"

lemma split_on_nonempty [simp]: "split_on sep s \<noteq> []"
  by (induction s) (auto split: list.splits)

text \<open>\<open>xs.at(-1)\<close>, undefined on the empty array.\<close>

definition at_last :: "'a list \<Rightarrow> 'a option" where
  "at_last xs = (if xs = [] then None else Some (last xs))"

lemma split_on_no_sep: "sep \<notin> set s \<Longrightarrow> split_on sep s = [s]"
  by (induction s) auto

lemma split_on_append:
  "sep \<notin> set s \<Longrightarrow> \<exists>w ws. split_on sep (p @ sep # s) = w # ws @ [s]"
  by (induction p) (auto simp: split_on_no_sep)

lemma last_split_on: "sep \<notin> set s \<Longrightarrow> last (split_on sep (p @ sep # s)) = s"
  using split_on_append [of sep s p] by auto

text \<open>\<open>s.includes(t)\<close>.\<close>

fun js_includes :: "jsstring \<Rightarrow> jsstring \<Rightarrow> bool" where
  "js_includes [] t \<longleftrightarrow> t = []"
| "js_includes (c # s) t \<longleftrightarrow> take (length t) (c # s) = t \<or> js_includes s t"

text \<open>\<open>s.padStart(n, fill)\<close> for a one-character filler.\<close>

definition padStart :: "nat \<Rightarrow> code_unit \<Rightarrow> jsstring \<Rightarrow> jsstring" where
  "padStart n fill s = replicate (n - length s) fill @ s"

lemma length_padStart [simp]: "length (padStart n fill s) = max n (length s)"
  by (simp add: padStart_def)

definition join :: "jsstring \<Rightarrow> jsstring list \<Rightarrow> jsstring" where
  "join sep ws = (case ws of [] \<Rightarrow> [] | w # ws' \<Rightarrow> w @ concat (map (\<lambda>v. sep @ v) ws'))"

end
