(* ===== verification/Js_Number.thy ===== *)
theory Js_Number
  imports Js_Prelude "HOL-Library.Log_Nat"
begin

text \<open>
  ECMAScript numbers. A finite number is a rational; every double is one, so a statement for all
  finite numbers holds for all doubles. The arithmetic operators compute exactly and then round to
  the nearest double, ties to even, overflowing to an infinity, as IEEE 754 binary64 does. The two
  zeros are one value: nothing in the console distinguishes them. Text conversions follow
  \<open>Number::toString\<close>, \<open>toFixed\<close> and \<open>parseInt\<close>.
\<close>

datatype number = NaN | Infinity bool | Fin rat

section \<open>Rounding to a double\<close>

definition round_half_even :: "rat \<Rightarrow> int" where
  "round_half_even z =
     (let f = \<lfloor>z\<rfloor>; d = z - of_int f in
      if d < 1 / 2 then f else if 1 / 2 < d then f + 1 else if even f then f else f + 1)"

text \<open>The exponent \<open>k\<close> with \<open>2\<^sup>k \<le> x < 2\<^sup>k\<^sup>+\<^sup>1\<close> of a positive rational.\<close>

definition ilog2 :: "rat \<Rightarrow> int" where
  "ilog2 x =
     (let (p, q) = quotient_of x;
          k = int (floorlog 2 (nat p)) - int (floorlog 2 (nat q))
      in if 2 powi k \<le> x then k else k - 1)"

definition to_double :: "rat \<Rightarrow> number" where
  "to_double x =
     (if x = 0 then Fin 0
      else let e = max (ilog2 \<bar>x\<bar> - 52) (-1074);
               y = of_int (round_half_even (x / 2 powi e)) * 2 powi e
           in if 2 ^ 1024 \<le> \<bar>y\<bar> then Infinity (x < 0) else Fin y)"

lemma round_half_even_of_int [simp]: "round_half_even (of_int n) = n"
  by (simp add: round_half_even_def)

lemma ilog2_le:
  assumes "0 < x"
  shows "2 powi ilog2 x \<le> x"
proof -
  obtain p q where pq: "quotient_of x = (p, q)" by force
  then have q: "0 < q" and x: "x = of_int p / of_int q"
    using quotient_of_denom_pos quotient_of_div by blast+
  with assms have p: "0 < p" by (simp add: zero_less_divide_iff)
  define a where "a = floorlog 2 (nat p)"
  define b where "b = floorlog 2 (nat q)"
  have "2 ^ (a - 1) \<le> nat p" "nat q < 2 ^ b" "0 < a"
    using floorlog_bounds [of "nat p" 2] floorlog_bounds [of "nat q" 2] p q
    by (auto simp: a_def b_def floorlog_def)
  then have "(2::int) ^ (a - 1) \<le> p" "q < 2 ^ b"
    using p q by (simp_all add: nat_less_iff le_nat_iff)
  then have "(of_int (2 ^ (a - 1)) :: rat) \<le> of_int p" "(of_int q :: rat) < of_int (2 ^ b)"
    by (simp_all only: of_int_le_iff of_int_less_iff)
  then have "(2::rat) ^ (a - 1) / 2 ^ b \<le> x"
    using p q unfolding x by (intro frac_le) auto
  moreover have "(2::rat) powi (int a - int b - 1) = 2 ^ (a - 1) / 2 ^ b"
    using \<open>0 < a\<close> by (simp add: power_int_diff Suc_leI power_diff)
  ultimately show ?thesis
    by (simp add: ilog2_def pq a_def b_def Let_def)
qed

text \<open>Integers up to \<open>Number.MAX_SAFE_INTEGER\<close> are doubles, and so are their quotients by
  powers of two: rounding leaves them alone.\<close>

definition safe_integer :: "int \<Rightarrow> bool" where
  "safe_integer n \<longleftrightarrow> \<bar>n\<bar> < 2 ^ 53"

lemma to_double_dyadic:
  assumes "safe_integer n" and "j \<le> 1000"
  shows "to_double (of_int n / 2 ^ j) = Fin (of_int n / 2 ^ j)"
proof (cases "n = 0")
  case True
  then show ?thesis by (simp add: to_double_def)
next
  case False
  define x :: rat where "x = of_int n / 2 ^ j"
  define e where "e = max (ilog2 \<bar>x\<bar> - 52) (-1074)"
  have n53: "(of_int \<bar>n\<bar> :: rat) < of_int (2 ^ 53)"
    using assms(1) by (simp only: safe_integer_def of_int_less_iff)
  have x: "x \<noteq> 0" "\<bar>x\<bar> = of_int \<bar>n\<bar> / 2 ^ j"
    using False by (simp_all add: x_def)
  have "(2::rat) powi ilog2 \<bar>x\<bar> \<le> \<bar>x\<bar>" using x(1) by (intro ilog2_le) simp
  also have "\<dots> < 2 ^ 53 / 2 ^ j" using n53 x(2) by (simp add: divide_strict_right_mono)
  also have "\<dots> = (2::rat) powi (53 - int j)" by (simp add: power_int_diff)
  finally have "ilog2 \<bar>x\<bar> < 53 - int j"
    using power_int_increasing [of "53 - int j" "ilog2 \<bar>x\<bar>" "2::rat"] by (meson not_le one_le_numeral)
  then have "e \<le> - int j" using assms(2) by (simp add: e_def)
  then obtain k where k: "e = - int (j + k)"
    by (metis add.inverse_inverse le_minus_iff of_nat_le_iff nonneg_int_cases le_iff_add int_ops(1)
        of_nat_0_le_iff order_trans)
  have powi: "(2::rat) powi e = inverse (2 ^ (j + k))"
    unfolding k power_int_minus power_int_of_nat ..
  have "x / 2 powi e = of_int (n * 2 ^ k)"
    by (simp add: powi x_def divide_inverse power_add)
  then have "(of_int (round_half_even (x / 2 powi e)) :: rat) = of_int n * 2 ^ k"
    by (metis of_int_mult of_int_numeral of_int_power round_half_even_of_int)
  then have y: "(of_int (round_half_even (x / 2 powi e)) :: rat) * 2 powi e = x"
    by (simp add: powi x_def power_add field_simps)
  have "\<bar>x\<bar> \<le> of_int \<bar>n\<bar>" unfolding x(2) by (simp add: field_simps mult_le_cancel_left1)
  also have "\<dots> < 2 ^ 1024"
    using n53 power_strict_increasing [of 53 1024 "2::rat"] by simp
  finally have "\<not> (2::rat) ^ 1024 \<le> \<bar>x\<bar>" by simp
  then show ?thesis
    using x(1) y unfolding x_def [symmetric] by (simp add: to_double_def Let_def e_def)
qed

lemma to_double_safe_integer: "safe_integer n \<Longrightarrow> to_double (of_int n) = Fin (of_int n)"
  using to_double_dyadic [of n 0] by simp

section \<open>Operators and tests\<close>

fun js_add :: "number \<Rightarrow> number \<Rightarrow> number" where
  "js_add (Fin a) (Fin b) = to_double (a + b)"
| "js_add (Infinity s) (Fin b) = Infinity s"
| "js_add (Fin a) (Infinity s) = Infinity s"
| "js_add (Infinity s) (Infinity t) = (if s = t then Infinity s else NaN)"
| "js_add a b = NaN"

fun js_neg :: "number \<Rightarrow> number" where
  "js_neg NaN = NaN"
| "js_neg (Infinity s) = Infinity (\<not> s)"
| "js_neg (Fin a) = Fin (- a)"

definition js_sub :: "number \<Rightarrow> number \<Rightarrow> number" where
  "js_sub a b = js_add a (js_neg b)"

text \<open>Division by a positive finite constant, the only division the console performs.\<close>

fun js_div_pos :: "number \<Rightarrow> rat \<Rightarrow> number" where
  "js_div_pos (Fin a) d = to_double (a / d)"
| "js_div_pos (Infinity s) d = Infinity s"
| "js_div_pos NaN d = NaN"

fun js_less :: "number \<Rightarrow> number \<Rightarrow> bool" where
  "js_less (Fin a) (Fin b) \<longleftrightarrow> a < b"
| "js_less (Fin a) (Infinity s) \<longleftrightarrow> \<not> s"
| "js_less (Infinity s) (Fin b) \<longleftrightarrow> s"
| "js_less (Infinity s) (Infinity t) \<longleftrightarrow> s \<and> \<not> t"
| "js_less a b \<longleftrightarrow> False"

text \<open>Strict equality on numbers: \<open>NaN === NaN\<close> is false.\<close>

definition js_num_eq :: "number \<Rightarrow> number \<Rightarrow> bool" where
  "js_num_eq a b \<longleftrightarrow> a \<noteq> NaN \<and> a = b"

text \<open>\<open>a >= b\<close> is \<open>a > b\<close> or \<open>a === b\<close>, false when either is \<open>NaN\<close>.\<close>

definition js_ge :: "number \<Rightarrow> number \<Rightarrow> bool" where
  "js_ge a b \<longleftrightarrow> js_less b a \<or> js_num_eq a b"

definition js_le :: "number \<Rightarrow> number \<Rightarrow> bool" where
  "js_le a b \<longleftrightarrow> js_ge b a"

definition js_max :: "number \<Rightarrow> number \<Rightarrow> number" where
  "js_max a b = (if js_less a b then b else a)"

definition isInteger :: "number \<Rightarrow> bool" where
  "isInteger a = (case a of Fin r \<Rightarrow> of_int \<lfloor>r\<rfloor> = r | _ \<Rightarrow> False)"

definition of_count :: "nat \<Rightarrow> number" where
  "of_count n = Fin (of_nat n)"

lemmas js_order_defs = js_ge_def js_le_def js_num_eq_def

lemma js_ge_Fin [simp, js_simps]: "js_ge (Fin a) (Fin b) \<longleftrightarrow> b \<le> a"
  by (auto simp: js_order_defs)

lemma js_le_Fin [simp, js_simps]: "js_le (Fin a) (Fin b) \<longleftrightarrow> a \<le> b"
  by (auto simp: js_le_def)

lemma js_num_eq_Fin [simp, js_simps]: "js_num_eq (Fin a) (Fin b) \<longleftrightarrow> a = b"
  by (simp add: js_num_eq_def)

lemma js_num_eq_imp_eq: "js_num_eq a b \<Longrightarrow> a = b"
  by (simp add: js_num_eq_def)

lemma isInteger_iff: "isInteger a \<longleftrightarrow> (\<exists>n. a = Fin (of_int n))"
  by (cases a) (auto simp: isInteger_def intro: sym)

lemma isInteger_Fin_of_int [simp, js_simps]: "isInteger (Fin (of_int n))"
  by (auto simp: isInteger_iff)

lemma isInteger_of_count [simp]: "isInteger (of_count n)"
  by (simp add: isInteger_def of_count_def)

lemma of_count_inject [simp]: "of_count m = of_count n \<longleftrightarrow> m = n"
  by (simp add: of_count_def)

lemma js_sub_safe:
  assumes "safe_integer (a - b)"
  shows "js_sub (Fin (of_int a)) (Fin (of_int b)) = Fin (of_int (a - b))"
  using to_double_safe_integer [OF assms] by (simp add: js_sub_def)

lemma js_add_safe:
  assumes "safe_integer (a + b)"
  shows "js_add (Fin (of_int a)) (Fin (of_int b)) = Fin (of_int (a + b))"
  using to_double_safe_integer [OF assms] by simp

section \<open>Numbers as text\<close>

text \<open>The decimal digits of a natural number, most significant first.\<close>

fun decimal_digits :: "nat \<Rightarrow> nat list" where
  "decimal_digits n = (if n < 10 then [n] else decimal_digits (n div 10) @ [n mod 10])"

declare decimal_digits.simps [simp del]

definition digit_cu :: "nat \<Rightarrow> code_unit" where
  "digit_cu d = of_nat (48 + d)"

definition nat_to_string :: "nat \<Rightarrow> jsstring" where
  "nat_to_string n = map digit_cu (decimal_digits n)"

definition digit_value :: "code_unit \<Rightarrow> nat" where
  "digit_value c = unat c - 48"

text \<open>\<open>Number.parseInt(s, 10)\<close> on a nonempty run of digits.\<close>

definition parse_digits :: "jsstring \<Rightarrow> nat" where
  "parse_digits s = foldl (\<lambda>n c. 10 * n + digit_value c) 0 s"

text \<open>
  \<open>Number::toString\<close> for radix ten looks for the least number \<open>k\<close> of digits with an integer
  \<open>s\<close> of \<open>k\<close> digits and \<open>s * 10\<^sup>n\<^sup>-\<^sup>k\<close> rounding to the number. For integers below
  \<open>2\<^sup>5\<^sup>3\<close> these are its own digits; otherwise the two candidates next to the number are tried
  for each \<open>k\<close> up to 17, which is enough for every double.
\<close>

definition ilog10_plus1 :: "rat \<Rightarrow> int" where
  "ilog10_plus1 x =
     (if 1 \<le> x then int (length (decimal_digits (nat \<lfloor>x\<rfloor>)))
      else 1 - int (length (decimal_digits (nat (\<lceil>1 / x\<rceil> - 1)))))"

definition shortest_digits :: "rat \<Rightarrow> nat \<times> int" where
  "shortest_digits x =
     (let n = ilog10_plus1 x;
          cands = concat (map (\<lambda>k. let z = x / 10 powi (n - int k); s = nat \<lfloor>z\<rfloor>
                                in if z - of_nat s \<le> 1 / 2 then [(s, k), (s + 1, k)]
                                   else [(s + 1, k), (s, k)]) [1..<18])
      in case find (\<lambda>(s, k). to_double (of_nat s * 10 powi (n - int k)) = Fin x) cands of
           Some (s, k) \<Rightarrow> (s, n - int k)
         | None \<Rightarrow> (nat (round_half_even (x / 10 powi (n - 17))), n - 17))"

definition decimal_to_string :: "nat \<Rightarrow> int \<Rightarrow> jsstring" where
  "decimal_to_string s m =
     (let ds = nat_to_string s; k = int (length ds); n = k + m in
      if 0 \<le> m \<and> n \<le> 21 then ds @ replicate (nat m) (cu CHR ''0'')
      else if 0 < n \<and> n \<le> 21 then take (nat n) ds @ js ''.'' @ drop (nat n) ds
      else if -6 < n \<and> n \<le> 0 then js ''0.'' @ replicate (nat (- n)) (cu CHR ''0'') @ ds
      else let e = nat_to_string (nat \<bar>n - 1\<bar>);
               sg = (if n - 1 < 0 then js ''-'' else js ''+'')
           in (if k = 1 then ds else take 1 ds @ js ''.'' @ drop 1 ds) @ js ''e'' @ sg @ e)"

definition number_to_string :: "number \<Rightarrow> jsstring" where
  "number_to_string a =
     (case a of
        NaN \<Rightarrow> js ''NaN''
      | Infinity neg \<Rightarrow> (if neg then js ''-Infinity'' else js ''Infinity'')
      | Fin r \<Rightarrow>
          (if r < 0 then js ''-'' else []) @
          (if isInteger (Fin r) \<and> \<bar>r\<bar> < 2 ^ 53 then nat_to_string (nat \<lfloor>\<bar>r\<bar>\<rfloor>)
           else case shortest_digits \<bar>r\<bar> of (s, m) \<Rightarrow> decimal_to_string s m))"

text \<open>
  \<open>x.toFixed(f)\<close>: the integer \<open>n\<close> nearest to \<open>x * 10\<^sup>f\<close>, the larger on a tie, with the point
  put \<open>f\<close> places from its right end. From \<open>10\<^sup>2\<^sup>1\<close> on it is \<open>String(x)\<close>.
\<close>

definition toFixed :: "nat \<Rightarrow> number \<Rightarrow> jsstring" where
  "toFixed f a =
     (case a of
        Fin r \<Rightarrow>
          (if 10 ^ 21 \<le> \<bar>r\<bar> then number_to_string a
           else let n = nat \<lfloor>\<bar>r\<bar> * 10 ^ f + 1 / 2\<rfloor>;
                    ds = padStart (f + 1) (cu CHR ''0'') (nat_to_string n);
                    i = length ds - f
                in (if r < 0 then js ''-'' else []) @ take i ds
                   @ (if f = 0 then [] else js ''.'' @ drop i ds))
      | _ \<Rightarrow> number_to_string a)"

section \<open>Reading back what was written\<close>

lemma unat_digit_cu: "d < 10 \<Longrightarrow> unat (digit_cu d) = 48 + d"
  unfolding digit_cu_def by (subst unat_of_nat) simp

lemma digit_value_digit_cu [simp]: "d < 10 \<Longrightarrow> digit_value (digit_cu d) = d"
  by (simp add: digit_value_def unat_digit_cu)

lemma is_digit_digit_cu [simp]: "d < 10 \<Longrightarrow> is_digit_cu (digit_cu d)"
  by (simp add: is_digit_cu_def word_le_nat_alt unat_cu unat_digit_cu)

lemma digit_value_less: "is_digit_cu c \<Longrightarrow> digit_value c < 10"
  by (auto simp: is_digit_cu_def digit_value_def word_le_nat_alt unat_cu)

lemma parse_digits_snoc: "parse_digits (s @ [c]) = 10 * parse_digits s + digit_value c"
  by (simp add: parse_digits_def)

lemma parse_digits_append:
  "parse_digits (s @ t) = parse_digits s * 10 ^ length t + parse_digits t"
proof (induction t rule: rev_induct)
  case Nil
  show ?case by (simp add: parse_digits_def)
next
  case (snoc c t)
  have "parse_digits (s @ t @ [c]) = 10 * parse_digits (s @ t) + digit_value c"
    using parse_digits_snoc [of "s @ t" c] by simp
  also have "\<dots> = parse_digits s * 10 ^ length (t @ [c]) + parse_digits (t @ [c])"
    by (simp add: snoc parse_digits_snoc algebra_simps)
  finally show ?case .
qed

lemma parse_digits_bound: "\<forall>c \<in> set s. is_digit_cu c \<Longrightarrow> parse_digits s < 10 ^ length s"
proof (induction s rule: rev_induct)
  case Nil
  show ?case by (simp add: parse_digits_def)
next
  case (snoc c s)
  then have "parse_digits s < 10 ^ length s" "digit_value c < 10"
    by (simp_all add: digit_value_less)
  then show ?case by (simp add: parse_digits_snoc)
qed

lemma digits_at_most:
  assumes "\<forall>c \<in> set s. is_digit_cu c" "length s \<le> k"
  shows "parse_digits s < 10 ^ k"
  using parse_digits_bound [OF assms(1)] power_increasing [OF assms(2), of "10::nat"]
  by (simp add: order_less_le_trans)

lemma parse_nat_to_string [simp]: "parse_digits (nat_to_string n) = n"
proof (induction n rule: decimal_digits.induct)
  case (1 n)
  show ?case
  proof (cases "n < 10")
    case True
    then show ?thesis
      by (subst nat_to_string_def, subst decimal_digits.simps) (simp add: parse_digits_def)
  next
    case False
    then have "nat_to_string n = nat_to_string (n div 10) @ [digit_cu (n mod 10)]"
      by (subst nat_to_string_def, subst decimal_digits.simps) (simp add: nat_to_string_def)
    with 1 False show ?thesis by (simp add: parse_digits_snoc)
  qed
qed

lemma decimal_digits_less: "\<forall>d \<in> set (decimal_digits n). d < 10"
proof (induction n rule: decimal_digits.induct)
  case (1 n)
  then show ?case by (subst decimal_digits.simps) auto
qed

lemma nat_to_string_digits: "\<forall>c \<in> set (nat_to_string n). is_digit_cu c"
  using decimal_digits_less by (auto simp: nat_to_string_def)

lemma length_decimal_digits: "n < 10 ^ k \<Longrightarrow> 0 < k \<Longrightarrow> length (decimal_digits n) \<le> k"
proof (induction n arbitrary: k rule: decimal_digits.induct)
  case (1 n)
  show ?case
  proof (cases "n < 10")
    case True
    with "1.prems" show ?thesis by (subst decimal_digits.simps) simp
  next
    case False
    then obtain k' where k': "k = Suc k'" "0 < k'"
      using "1.prems" by (cases k; cases "k - 1") auto
    with "1.prems" have "n div 10 < 10 ^ k'" by (simp add: div_less_iff_less_mult mult.commute)
    with "1.IH" [OF False this k'(2)] False k'(1) show ?thesis
      by (subst decimal_digits.simps) simp
  qed
qed

lemma length_nat_to_string: "n < 10 ^ k \<Longrightarrow> 0 < k \<Longrightarrow> length (nat_to_string n) \<le> k"
  by (simp add: nat_to_string_def length_decimal_digits)

lemma nat_to_string_nonempty [simp]: "nat_to_string n \<noteq> []"
  by (subst nat_to_string_def, subst decimal_digits.simps) simp

lemma number_to_string_of_count:
  "n < 2 ^ 53 \<Longrightarrow> number_to_string (of_count n) = nat_to_string n"
proof -
  assume "n < 2 ^ 53"
  then have "rat_of_nat n < rat_of_nat (2 ^ 53)" by (simp only: of_nat_less_iff)
  then show ?thesis
    by (simp add: number_to_string_def of_count_def isInteger_def)
qed

lemma parse_padStart:
  "parse_digits (padStart k (cu CHR ''0'') (nat_to_string n)) = n"
proof -
  have "parse_digits (replicate m (cu CHR ''0'')) = 0" for m
    by (induction m) (auto simp: parse_digits_def digit_value_def unat_cu)
  then show ?thesis by (simp add: padStart_def parse_digits_append)
qed

lemma padStart_digits: "\<forall>c \<in> set (padStart k (cu CHR ''0'') (nat_to_string n)). is_digit_cu c"
  using nat_to_string_digits by (auto simp: padStart_def is_digit_cu_def cu_less_eq_iff)

end
