(* ===== verification/Js_Json.thy ===== *)
theory Js_Json
  imports Js_Number
begin

text \<open>
  Parsed JSON as the console sees it, with the \<open>typeof\<close> tests its type guards use, and the
  contract of such a guard as a locale: what a guard accepts can be read at the guard's type
  without loss, and every value of the type is accepted when it is written as JSON.
\<close>

datatype json =
    JNull
  | JBool bool
  | JNumber number
  | JString jsstring
  | JArray "json list"
  | JObject "(jsstring \<times> json) list"

text \<open>Reading \<open>value.k\<close>: undefined is \<open>None\<close>; of duplicate keys the last one counts.\<close>

fun property :: "json \<Rightarrow> string \<Rightarrow> json option" where
  "property (JObject ps) k = map_of (rev ps) (js k)"
| "property v k = None"

fun isArray :: "json option \<Rightarrow> bool" where
  "isArray (Some (JArray vs)) = True"
| "isArray v = False"

fun is_string :: "json option \<Rightarrow> bool" where
  "is_string (Some (JString s)) = True"
| "is_string v = False"

fun is_number :: "json option \<Rightarrow> bool" where
  "is_number (Some (JNumber n)) = True"
| "is_number v = False"

fun is_boolean :: "json option \<Rightarrow> bool" where
  "is_boolean (Some (JBool b)) = True"
| "is_boolean v = False"

text \<open>Reading a property at a type. Outside the type the value is arbitrary; the guards exclude it.\<close>

fun as_string :: "json option \<Rightarrow> jsstring" where
  "as_string (Some (JString s)) = s"
| "as_string v = []"

fun as_number :: "json option \<Rightarrow> number" where
  "as_number (Some (JNumber n)) = n"
| "as_number v = NaN"

fun as_boolean :: "json option \<Rightarrow> bool" where
  "as_boolean (Some (JBool b)) = b"
| "as_boolean v = False"

fun as_array :: "json option \<Rightarrow> json list" where
  "as_array (Some (JArray vs)) = vs"
| "as_array v = []"

definition as_optional :: "(json option \<Rightarrow> 'a) \<Rightarrow> json option \<Rightarrow> 'a option" where
  "as_optional f v = (if v = None then None else Some (f v))"

text \<open>An object literal: undefined members are left out.\<close>

fun members :: "(string \<times> json option) list \<Rightarrow> (jsstring \<times> json) list" where
  "members [] = []"
| "members ((k, None) # kvs) = members kvs"
| "members ((k, Some v) # kvs) = (js k, v) # members kvs"

definition obj :: "(string \<times> json option) list \<Rightarrow> json" where
  "obj kvs = JObject (members kvs)"

lemma is_string_iff: "is_string v \<longleftrightarrow> (\<exists>s. v = Some (JString s))"
  by (cases v rule: is_string.cases) auto

lemma is_number_iff: "is_number v \<longleftrightarrow> (\<exists>n. v = Some (JNumber n))"
  by (cases v rule: is_number.cases) auto

lemma is_boolean_iff: "is_boolean v \<longleftrightarrow> (\<exists>b. v = Some (JBool b))"
  by (cases v rule: is_boolean.cases) auto

lemma isArray_iff: "isArray v \<longleftrightarrow> (\<exists>vs. v = Some (JArray vs))"
  by (cases v rule: isArray.cases) auto

lemmas typeof_iffs = is_string_iff is_number_iff is_boolean_iff isArray_iff

lemma as_optional_simps [simp]:
  "as_optional f None = None"
  "as_optional f (Some v) = Some (f (Some v))"
  by (simp_all add: as_optional_def)

text \<open>Encoding an optional member keeps the member.\<close>

lemma map_as_optional [simp]:
  "v = None \<or> is_string v \<Longrightarrow> map_option JString (as_optional as_string v) = v"
  "v = None \<or> is_number v \<Longrightarrow> map_option JNumber (as_optional as_number v) = v"
  "v = None \<or> is_boolean v \<Longrightarrow> map_option JBool (as_optional as_boolean v) = v"
  by (auto simp: typeof_iffs)

lemma typeof_Some [simp]:
  "is_string v \<Longrightarrow> Some (JString (as_string v)) = v"
  "is_number v \<Longrightarrow> Some (JNumber (as_number v)) = v"
  "is_boolean v \<Longrightarrow> Some (JBool (as_boolean v)) = v"
  "isArray v \<Longrightarrow> Some (JArray (as_array v)) = v"
  by (auto simp: typeof_iffs)

lemma map_of_rev_distinct: "distinct (map fst ps) \<Longrightarrow> map_of (rev ps) = map_of ps"
proof (rule ext)
  fix k assume "distinct (map fst ps)"
  then have "map_of (rev ps) k = Some v \<longleftrightarrow> map_of ps k = Some v" for v
    by (simp add: map_of_eq_Some_iff rev_map [symmetric])
  then show "map_of (rev ps) k = map_of ps k"
    by (metis option.exhaust)
qed

lemma fst_members: "fst ` set (members kvs) \<subseteq> js ` set (map fst kvs)"
  by (induction kvs rule: members.induct) auto

lemma distinct_members: "distinct (map fst kvs) \<Longrightarrow> distinct (map fst (members kvs))"
proof (induction kvs rule: members.induct)
  case (3 k v kvs)
  moreover have "js k \<notin> js ` set (map fst kvs)"
    using 3 by (force simp: js_inject)
  ultimately show ?case using fst_members [of kvs] by auto
qed auto

lemma map_of_members:
  "distinct (map fst kvs) \<Longrightarrow> map_of (members kvs) (js k) = Option.bind (map_of kvs k) id"
proof (induction kvs rule: members.induct)
  case (2 k' kvs)
  have "map_of kvs k' = None"
    using 2 by (simp add: map_of_eq_None_iff)
  with 2 show ?case by (auto simp: js_inject)
qed (auto simp: js_inject)

lemma property_obj:
  "distinct (map fst kvs) \<Longrightarrow> property (obj kvs) k = Option.bind (map_of kvs k) id"
  by (simp add: obj_def map_of_rev_distinct distinct_members map_of_members)

section \<open>The contract of a type guard\<close>

text \<open>
  A guard \<open>(value: unknown) => value is T\<close> with the reading of an accepted value at \<open>T\<close>, the
  JSON form of a \<open>T\<close>, and the constraints beyond the type that the guard enforces. The first law
  is what makes the narrowing sound: the listed members of an accepted value are exactly the members
  of the value it is read as.
\<close>

locale type_guard =
  fixes guard :: "json \<Rightarrow> bool"
    and view :: "json \<Rightarrow> 'a"
    and encode :: "'a \<Rightarrow> json"
    and fields :: "string list"
    and constraint :: "'a \<Rightarrow> bool"
  assumes faithful: "guard v \<Longrightarrow> k \<in> set fields \<Longrightarrow> property (encode (view v)) k = property v k"
    and constrained: "guard v \<Longrightarrow> constraint (view v)"
    and accepts: "constraint x \<Longrightarrow> guard (encode x)"
    and view_encode: "view (encode x) = x"
begin

lemma encode_inject: "encode x = encode y \<longleftrightarrow> x = y"
  using view_encode by metis

lemma guard_encode: "guard (encode x) \<longleftrightarrow> constraint x"
  using accepts constrained view_encode by metis

lemma view_determined:
  assumes "guard v" "guard w" "view v = view w" "k \<in> set fields"
  shows "property v k = property w k"
  using assms faithful by metis

lemma range_view: "view ` {v. guard v} = {x. constraint x}"
  using accepts constrained view_encode by (auto simp: image_iff) metis

end

end
