(* ===== verification/Js_Regex.thy ===== *)
theory Js_Regex
  imports Js_Prelude
begin

text \<open>
  Regular expressions with ECMAScript's backtracking semantics: a pattern maps a match state (the
  text behind the position, reversed, the text ahead, and the captures) to the list of states the
  backtracking search would reach, in the order it would try them. The first one is the match. The
  language of a pattern is the declarative counterpart; the engine is sound for it, and complete for
  patterns without assertions.

  The flag \<open>i\<close> compares canonical characters. All characters of the console's patterns are
  ASCII, and canonicalisation never maps a character above 127 to one below 128, so folding the
  ASCII letters decides those comparisons.
\<close>

type_synonym captures = "nat \<Rightarrow> jsstring option"
type_synonym mstate = "jsstring \<times> jsstring \<times> captures"

datatype regex =
    RChar code_unit
  | RSet "code_unit \<Rightarrow> bool"
  | RSeq regex regex
  | RAlt regex regex
  | RRep nat "nat option" bool regex
  | RGroup nat regex
  | RStart
  | REnd
  | RWordBoundary

definition canonicalize :: "bool \<Rightarrow> code_unit \<Rightarrow> code_unit" where
  "canonicalize ic c = (if ic \<and> is_lower_cu c then c - 32 else c)"

definition char_matches :: "bool \<Rightarrow> code_unit \<Rightarrow> code_unit \<Rightarrow> bool" where
  "char_matches ic p c \<longleftrightarrow> canonicalize ic p = canonicalize ic c"

primrec groups_of :: "regex \<Rightarrow> nat list" where
  "groups_of (RChar c) = []"
| "groups_of (RSet p) = []"
| "groups_of (RSeq r1 r2) = groups_of r1 @ groups_of r2"
| "groups_of (RAlt r1 r2) = groups_of r1 @ groups_of r2"
| "groups_of (RRep mn mx g r) = groups_of r"
| "groups_of (RGroup i r) = i # groups_of r"
| "groups_of RStart = []"
| "groups_of REnd = []"
| "groups_of RWordBoundary = []"

definition ahead :: "mstate \<Rightarrow> jsstring" where
  "ahead s = fst (snd s)"

definition reset_groups :: "nat list \<Rightarrow> mstate \<Rightarrow> mstate" where
  "reset_groups gs = (\<lambda>(pre, rest, caps). (pre, rest, \<lambda>i. if i \<in> set gs then None else caps i))"

text \<open>
  Quantifiers. While the minimum is not reached every iteration counts; after it, an iteration that
  consumes nothing fails, which is what makes the search stop.
\<close>

function repeat_matcher ::
  "(mstate \<Rightarrow> mstate list) \<Rightarrow> nat \<Rightarrow> nat option \<Rightarrow> bool \<Rightarrow> mstate \<Rightarrow> mstate list" where
  "repeat_matcher f mn mx greedy s =
     (if mx = Some 0 then [s]
      else let mx' = map_option (\<lambda>n. n - 1) mx in
           if 0 < mn then concat (map (\<lambda>s'. repeat_matcher f (mn - 1) mx' greedy s') (f s))
           else let more = concat (map (\<lambda>s'. repeat_matcher f 0 mx' greedy s')
                                     (filter (\<lambda>s'. length (ahead s') < length (ahead s)) (f s)))
                in if greedy then more @ [s] else s # more)"
  by pat_completeness auto
termination
  by (relation "measures [\<lambda>(f, mn, mx, g, s). mn, \<lambda>(f, mn, mx, g, s). length (ahead s)]") auto

declare repeat_matcher.simps [simp del]

definition word_at :: "jsstring \<Rightarrow> bool" where
  "word_at s = (case s of [] \<Rightarrow> False | c # _ \<Rightarrow> is_word_cu c)"

primrec run_regex :: "bool \<Rightarrow> regex \<Rightarrow> mstate \<Rightarrow> mstate list" where
  "run_regex ic (RChar p) = (\<lambda>(pre, rest, caps). case rest of [] \<Rightarrow> []
     | c # cs \<Rightarrow> if char_matches ic p c then [(c # pre, cs, caps)] else [])"
| "run_regex ic (RSet p) = (\<lambda>(pre, rest, caps). case rest of [] \<Rightarrow> []
     | c # cs \<Rightarrow> if p c then [(c # pre, cs, caps)] else [])"
| "run_regex ic (RSeq r1 r2) = (\<lambda>s. concat (map (run_regex ic r2) (run_regex ic r1 s)))"
| "run_regex ic (RAlt r1 r2) = (\<lambda>s. run_regex ic r1 s @ run_regex ic r2 s)"
| "run_regex ic (RRep mn mx greedy r) =
     repeat_matcher (\<lambda>s. run_regex ic r (reset_groups (groups_of r) s)) mn mx greedy"
| "run_regex ic (RGroup i r) = (\<lambda>s.
     map (\<lambda>(pre', rest', caps').
            (pre', rest', caps'(i \<mapsto> take (length (ahead s) - length rest') (ahead s))))
         (run_regex ic r s))"
| "run_regex ic RStart = (\<lambda>s. if fst s = [] then [s] else [])"
| "run_regex ic REnd = (\<lambda>s. if ahead s = [] then [s] else [])"
| "run_regex ic RWordBoundary = (\<lambda>s. if word_at (fst s) \<noteq> word_at (ahead s) then [s] else [])"

section \<open>\<open>exec\<close>, \<open>test\<close> and \<open>replace\<close>\<close>

text \<open>\<open>exec\<close> tries the positions from left to right; the result is the state it started from
  and the state of the match.\<close>

fun exec_from :: "bool \<Rightarrow> regex \<Rightarrow> jsstring \<Rightarrow> jsstring \<Rightarrow> (mstate \<times> mstate) option" where
  "exec_from ic r pre rest =
     (case run_regex ic r (pre, rest, Map.empty) of
        s # _ \<Rightarrow> Some ((pre, rest, Map.empty), s)
      | [] \<Rightarrow> (case rest of [] \<Rightarrow> None | c # cs \<Rightarrow> exec_from ic r (c # pre) cs))"

declare exec_from.simps [simp del]

definition exec_regex :: "bool \<Rightarrow> regex \<Rightarrow> jsstring \<Rightarrow> (mstate \<times> mstate) option" where
  "exec_regex ic r s = exec_from ic r [] s"

definition test_regex :: "bool \<Rightarrow> regex \<Rightarrow> jsstring \<Rightarrow> bool" where
  "test_regex ic r s \<longleftrightarrow> exec_regex ic r s \<noteq> None"

text \<open>The matched text and the captures of a successful \<open>exec\<close>.\<close>

definition matched_text :: "mstate \<times> mstate \<Rightarrow> jsstring" where
  "matched_text m = take (length (ahead (fst m)) - length (ahead (snd m))) (ahead (fst m))"

definition capture :: "mstate \<times> mstate \<Rightarrow> nat \<Rightarrow> jsstring option" where
  "capture m i = snd (snd (snd m)) i"

text \<open>\<open>s.replace(re, repl)\<close> for a constant replacement and no \<open>g\<close> flag.\<close>

definition replace_first :: "bool \<Rightarrow> regex \<Rightarrow> jsstring \<Rightarrow> jsstring \<Rightarrow> jsstring" where
  "replace_first ic r repl s =
     (case exec_regex ic r s of None \<Rightarrow> s
      | Some (s0, s1) \<Rightarrow> rev (fst s0) @ repl @ ahead s1)"

text \<open>With the \<open>g\<close> flag: after an empty match the scan moves on by one character.\<close>

function replace_from :: "bool \<Rightarrow> regex \<Rightarrow> jsstring \<Rightarrow> jsstring \<Rightarrow> jsstring \<Rightarrow> jsstring" where
  "replace_from ic r repl pre rest =
     (case run_regex ic r (pre, rest, Map.empty) of
        (pre', rest', caps') # _ \<Rightarrow>
          if length rest' < length rest then repl @ replace_from ic r repl pre' rest'
          else repl @ (case rest of [] \<Rightarrow> [] | c # cs \<Rightarrow> c # replace_from ic r repl (c # pre) cs)
      | [] \<Rightarrow> (case rest of [] \<Rightarrow> [] | c # cs \<Rightarrow> c # replace_from ic r repl (c # pre) cs))"
  by pat_completeness auto
termination
  by (relation "measure (\<lambda>(ic, r, repl, pre, rest). length rest)") auto

declare replace_from.simps [simp del]

definition replace_all :: "bool \<Rightarrow> regex \<Rightarrow> jsstring \<Rightarrow> jsstring \<Rightarrow> jsstring" where
  "replace_all ic r repl s = replace_from ic r repl [] s"

text \<open>Pattern shorthands: the quantifiers and literal words.\<close>

abbreviation star :: "regex \<Rightarrow> regex" where "star r \<equiv> RRep 0 None True r"
abbreviation star_lazy :: "regex \<Rightarrow> regex" where "star_lazy r \<equiv> RRep 0 None False r"
abbreviation plus :: "regex \<Rightarrow> regex" where "plus r \<equiv> RRep 1 None True r"
abbreviation opt :: "regex \<Rightarrow> regex" where "opt r \<equiv> RRep 0 (Some 1) True r"
abbreviation between :: "nat \<Rightarrow> nat \<Rightarrow> regex \<Rightarrow> regex" where "between a b r \<equiv> RRep a (Some b) True r"

fun seq_of :: "regex list \<Rightarrow> regex" where
  "seq_of [] = RRep 0 (Some 0) True RStart"
| "seq_of [r] = r"
| "seq_of (r # rs) = RSeq r (seq_of rs)"

fun alt_of :: "regex list \<Rightarrow> regex" where
  "alt_of [] = RSet (\<lambda>_. False)"
| "alt_of [r] = r"
| "alt_of (r # rs) = RAlt r (alt_of rs)"

definition word_regex :: "string \<Rightarrow> regex" where
  "word_regex w = seq_of (map (\<lambda>c. RChar (cu c)) w)"

definition any_of :: "string \<Rightarrow> regex" where
  "any_of cs = RSet (\<lambda>c. c \<in> set (js cs))"

definition dot :: regex where "dot = RSet (\<lambda>c. \<not> is_line_terminator_cu c)"
definition digit_class :: regex where "digit_class = RSet is_digit_cu"
definition space_class :: regex where "space_class = RSet is_space_cu"

section \<open>The language of a pattern\<close>

primrec wf_regex :: "regex \<Rightarrow> bool" where
  "wf_regex (RChar c) \<longleftrightarrow> True"
| "wf_regex (RSet p) \<longleftrightarrow> True"
| "wf_regex (RSeq r1 r2) \<longleftrightarrow> wf_regex r1 \<and> wf_regex r2"
| "wf_regex (RAlt r1 r2) \<longleftrightarrow> wf_regex r1 \<and> wf_regex r2"
| "wf_regex (RRep mn mx g r) \<longleftrightarrow> wf_regex r \<and> (\<forall>n. mx = Some n \<longrightarrow> mn \<le> n)"
| "wf_regex (RGroup i r) \<longleftrightarrow> wf_regex r"
| "wf_regex RStart \<longleftrightarrow> True"
| "wf_regex REnd \<longleftrightarrow> True"
| "wf_regex RWordBoundary \<longleftrightarrow> True"

primrec lang :: "bool \<Rightarrow> regex \<Rightarrow> jsstring set" where
  "lang ic (RChar p) = {[c] | c. char_matches ic p c}"
| "lang ic (RSet p) = {[c] | c. p c}"
| "lang ic (RSeq r1 r2) = {u @ v | u v. u \<in> lang ic r1 \<and> v \<in> lang ic r2}"
| "lang ic (RAlt r1 r2) = lang ic r1 \<union> lang ic r2"
| "lang ic (RRep mn mx g r) =
     {concat ts | ts. mn \<le> length ts \<and> (\<forall>n. mx = Some n \<longrightarrow> length ts \<le> n) \<and> set ts \<subseteq> lang ic r}"
| "lang ic (RGroup i r) = lang ic r"
| "lang ic RStart = {[]}"
| "lang ic REnd = {[]}"
| "lang ic RWordBoundary = {[]}"

primrec assertion_free :: "regex \<Rightarrow> bool" where
  "assertion_free (RChar c) \<longleftrightarrow> True"
| "assertion_free (RSet p) \<longleftrightarrow> True"
| "assertion_free (RSeq r1 r2) \<longleftrightarrow> assertion_free r1 \<and> assertion_free r2"
| "assertion_free (RAlt r1 r2) \<longleftrightarrow> assertion_free r1 \<and> assertion_free r2"
| "assertion_free (RRep mn mx g r) \<longleftrightarrow> assertion_free r"
| "assertion_free (RGroup i r) \<longleftrightarrow> assertion_free r"
| "assertion_free RStart \<longleftrightarrow> False"
| "assertion_free REnd \<longleftrightarrow> False"
| "assertion_free RWordBoundary \<longleftrightarrow> False"

text \<open>The group bodies of a pattern, and the groups that every match sets.\<close>

primrec group_bodies :: "regex \<Rightarrow> (nat \<times> regex) set" where
  "group_bodies (RChar c) = {}"
| "group_bodies (RSet p) = {}"
| "group_bodies (RSeq r1 r2) = group_bodies r1 \<union> group_bodies r2"
| "group_bodies (RAlt r1 r2) = group_bodies r1 \<union> group_bodies r2"
| "group_bodies (RRep mn mx g r) = group_bodies r"
| "group_bodies (RGroup i r) = insert (i, r) (group_bodies r)"
| "group_bodies RStart = {}"
| "group_bodies REnd = {}"
| "group_bodies RWordBoundary = {}"

primrec must_capture :: "nat \<Rightarrow> regex \<Rightarrow> bool" where
  "must_capture i (RChar c) \<longleftrightarrow> False"
| "must_capture i (RSet p) \<longleftrightarrow> False"
| "must_capture i (RSeq r1 r2) \<longleftrightarrow>
     must_capture i r1 \<and> i \<notin> set (groups_of r2) \<or> must_capture i r2"
| "must_capture i (RAlt r1 r2) \<longleftrightarrow> must_capture i r1 \<and> must_capture i r2"
| "must_capture i (RRep mn mx g r) \<longleftrightarrow> False"
| "must_capture i (RGroup j r) \<longleftrightarrow> i = j \<or> must_capture i r"
| "must_capture i RStart \<longleftrightarrow> False"
| "must_capture i REnd \<longleftrightarrow> False"
| "must_capture i RWordBoundary \<longleftrightarrow> False"

subsection \<open>Repetition as iteration\<close>

definition yields :: "(mstate \<Rightarrow> mstate list) \<Rightarrow> mstate \<Rightarrow> mstate \<Rightarrow> bool" where
  "yields f s s' \<longleftrightarrow> s' \<in> set (f s)"

lemma repeat_matcher_sound:
  assumes "s' \<in> set (repeat_matcher f mn mx g s)" and "\<forall>k. mx = Some k \<longrightarrow> mn \<le> k"
  shows "\<exists>n. mn \<le> n \<and> (\<forall>k. mx = Some k \<longrightarrow> n \<le> k) \<and> (yields f ^^ n) s s'"
  using assms
proof (induction f mn mx g s rule: repeat_matcher.induct)
  case (1 f mn mx g s)
  let ?mx' = "map_option (\<lambda>n. n - 1) mx"
  have extend: "\<exists>n. mn \<le> n \<and> (\<forall>k. mx = Some k \<longrightarrow> n \<le> k) \<and> (yields f ^^ n) s s'"
    if "s1 \<in> set (f s)" "mx \<noteq> Some 0"
      "\<exists>n. mn - 1 \<le> n \<and> (\<forall>k. ?mx' = Some k \<longrightarrow> n \<le> k) \<and> (yields f ^^ n) s1 s'" for s1
  proof -
    from that(3) obtain n where n: "mn - 1 \<le> n" "\<forall>k. ?mx' = Some k \<longrightarrow> n \<le> k"
      "(yields f ^^ n) s1 s'" by blast
    have "(yields f ^^ Suc n) s s'"
      by (rule relpowp_Suc_I2 [OF _ n(3)]) (simp add: yields_def that(1))
    moreover have "\<forall>k. mx = Some k \<longrightarrow> Suc n \<le> k"
      using n(2) that(2) by (cases mx) auto
    ultimately show ?thesis using n(1) by (intro exI [of _ "Suc n"]) auto
  qed
  show ?case
  proof (cases "mx = Some 0")
    case True
    with "1.prems" show ?thesis
      by (intro exI [of _ 0]) (auto simp: repeat_matcher.simps [of f mn])
  next
    case mx: False
    have mx': "\<forall>k. ?mx' = Some k \<longrightarrow> mn - 1 \<le> k"
      using "1.prems"(2) mx by auto
    show ?thesis
    proof (cases "0 < mn")
      case True
      with "1.prems"(1) mx obtain s1 where s1: "s1 \<in> set (f s)"
        "s' \<in> set (repeat_matcher f (mn - 1) ?mx' g s1)"
        by (auto simp: repeat_matcher.simps [of f mn] Let_def)
      from "1.IH"(1) [OF mx refl True s1 mx'] s1(1) mx show ?thesis by (intro extend)
    next
      case False
      with "1.prems"(1) mx consider "s' = s" | s1 where "s1 \<in> set (f s)"
        "length (ahead s1) < length (ahead s)" "s' \<in> set (repeat_matcher f 0 ?mx' g s1)"
        by (auto simp: repeat_matcher.simps [of f mn] Let_def split: if_splits)
      then show ?thesis
      proof cases
        case 1
        with False show ?thesis by (intro exI [of _ 0]) auto
      next
        case (2 s1)
        then have "s1 \<in> set (filter (\<lambda>s'. length (ahead s') < length (ahead s)) (f s))" by simp
        from "1.IH"(2) [OF mx refl False this 2(3)] mx' False 2(1) mx show ?thesis
          by (intro extend) auto
      qed
    qed
  qed
qed

subsection \<open>Soundness: a match consumes a word of the language\<close>

definition advances :: "bool \<Rightarrow> regex \<Rightarrow> mstate \<Rightarrow> mstate \<Rightarrow> bool" where
  "advances ic r s s' \<longleftrightarrow> (\<exists>t \<in> lang ic r. ahead s = t @ ahead s' \<and> fst s' = rev t @ fst s)"

definition cap :: "mstate \<Rightarrow> captures" where
  "cap s = snd (snd s)"

lemma mstate_simps [simp]:
  "ahead (pre, rest, caps) = rest"
  "cap (pre, rest, caps) = caps"
  "ahead (reset_groups gs s) = ahead s"
  "fst (reset_groups gs s) = fst s"
  "cap (reset_groups gs s) i = (if i \<in> set gs then None else cap s i)"
  by (simp_all add: ahead_def cap_def reset_groups_def split: prod.splits)

lemma iterate_advances:
  assumes "\<And>s s'. yields f s s' \<Longrightarrow> advances ic r s s'" and "(yields f ^^ n) s s'"
  shows "\<exists>ts. length ts = n \<and> set ts \<subseteq> lang ic r \<and> ahead s = concat ts @ ahead s'
           \<and> fst s' = rev (concat ts) @ fst s"
  using assms(2)
proof (induction n arbitrary: s)
  case 0
  then show ?case by simp
next
  case (Suc n)
  from Suc.prems obtain s1 where s1: "yields f s s1" "(yields f ^^ n) s1 s'"
    by (metis relpowp_Suc_D2)
  from assms(1) [OF s1(1)] obtain t where t: "t \<in> lang ic r" "ahead s = t @ ahead s1"
    "fst s1 = rev t @ fst s" by (auto simp: advances_def)
  from Suc.IH [OF s1(2)] obtain ts where "length ts = n" "set ts \<subseteq> lang ic r"
    "ahead s1 = concat ts @ ahead s'" "fst s' = rev (concat ts) @ fst s1" by blast
  with t show ?case by (intro exI [of _ "t # ts"]) auto
qed

lemma run_group:
  assumes "s' \<in> set (run_regex ic (RGroup i r) s)"
  obtains s1 where "s1 \<in> set (run_regex ic r s)" "fst s' = fst s1" "ahead s' = ahead s1"
    "cap s' = (cap s1)(i \<mapsto> take (length (ahead s) - length (ahead s1)) (ahead s))"
  using assms by (auto simp: ahead_def cap_def)

lemma run_advances: "wf_regex r \<Longrightarrow> s' \<in> set (run_regex ic r s) \<Longrightarrow> advances ic r s s'"
proof (induction r arbitrary: s s')
  case (RChar p)
  then show ?case by (auto simp: advances_def split: prod.splits list.splits if_splits)
next
  case (RSet p)
  then show ?case by (auto simp: advances_def split: prod.splits list.splits if_splits)
next
  case (RSeq r1 r2)
  then obtain s1 where s1: "s1 \<in> set (run_regex ic r1 s)" "s' \<in> set (run_regex ic r2 s1)" by auto
  have "advances ic r1 s s1" "advances ic r2 s1 s'"
    using RSeq.IH(1) [OF _ s1(1)] RSeq.IH(2) [OF _ s1(2)] RSeq.prems(1) by simp_all
  then show ?case by (fastforce simp: advances_def)
next
  case (RAlt r1 r2)
  then consider "s' \<in> set (run_regex ic r1 s)" | "s' \<in> set (run_regex ic r2 s)" by auto
  then have "advances ic r1 s s' \<or> advances ic r2 s s'"
    using RAlt.IH RAlt.prems(1) by cases simp_all
  then show ?case by (auto simp: advances_def)
next
  case (RRep mn mx g r)
  let ?f = "\<lambda>s. run_regex ic r (reset_groups (groups_of r) s)"
  have step: "advances ic r s1 s2" if "yields ?f s1 s2" for s1 s2
    using RRep.IH [of s2 "reset_groups (groups_of r) s1"] RRep.prems(1) that
    by (auto simp: yields_def advances_def)
  from RRep.prems repeat_matcher_sound [of s' ?f mn mx g s]
  obtain n where n: "mn \<le> n" "\<forall>k. mx = Some k \<longrightarrow> n \<le> k" "(yields ?f ^^ n) s s'" by auto
  from iterate_advances [OF step n(3)] obtain ts where "length ts = n" "set ts \<subseteq> lang ic r"
    "ahead s = concat ts @ ahead s'" "fst s' = rev (concat ts) @ fst s" by blast
  with n(1,2) show ?case by (auto simp: advances_def intro!: bexI [of _ "concat ts"])
next
  case (RGroup i r)
  from RGroup.prems(2) show ?case
    by (rule run_group) (use RGroup.IH RGroup.prems(1) in \<open>simp add: advances_def\<close>)
qed (auto simp: advances_def split: if_splits)

subsection \<open>Captures\<close>

lemma iterate_captures:
  assumes "\<And>s s' t. yields f s s' \<Longrightarrow> cap s' i = Some t \<Longrightarrow> cap s i = Some t \<or> P t"
    and "(yields f ^^ n) s s'" and "cap s' i = Some t"
  shows "cap s i = Some t \<or> P t"
  using assms(2)
proof (induction n arbitrary: s)
  case 0
  then show ?case using assms(3) by simp
next
  case (Suc n)
  then show ?case by (metis assms(1) relpowp_Suc_D2)
qed

lemma run_captures:
  assumes "wf_regex r" and "s' \<in> set (run_regex ic r s)" and "cap s' i = Some t"
  shows "cap s i = Some t \<or> (\<exists>r'. (i, r') \<in> group_bodies r \<and> t \<in> lang ic r')"
  using assms
proof (induction r arbitrary: s s' t)
  case (RChar p)
  then show ?case by (auto split: prod.splits list.splits if_splits)
next
  case (RSet p)
  then show ?case by (auto split: prod.splits list.splits if_splits)
next
  case (RSeq r1 r2)
  then obtain s1 where "s1 \<in> set (run_regex ic r1 s)" "s' \<in> set (run_regex ic r2 s1)" by auto
  with RSeq show ?case by (metis UnCI group_bodies.simps(3) wf_regex.simps(3))
next
  case (RAlt r1 r2)
  then consider "s' \<in> set (run_regex ic r1 s)" | "s' \<in> set (run_regex ic r2 s)" by auto
  then show ?case
    using RAlt.IH [OF _ _ RAlt.prems(3)] RAlt.prems(1) by cases (simp, blast)+
next
  case (RRep mn mx g r)
  let ?f = "\<lambda>s. run_regex ic r (reset_groups (groups_of r) s)"
  let ?P = "\<lambda>t. \<exists>r'. (i, r') \<in> group_bodies r \<and> t \<in> lang ic r'"
  have step: "cap s1 i = Some u \<or> ?P u" if "yields ?f s1 s2" "cap s2 i = Some u" for s1 s2 u
    using RRep.IH [of s2 "reset_groups (groups_of r) s1" u] RRep.prems(1) that
    by (auto simp: yields_def split: if_splits)
  from RRep.prems repeat_matcher_sound [of s' ?f mn mx g s]
  obtain n where "(yields ?f ^^ n) s s'" by auto
  from iterate_captures [OF step this RRep.prems(3)] show ?case by simp
next
  case (RGroup j r)
  from RGroup.prems(2) obtain s1 where s1: "s1 \<in> set (run_regex ic r s)"
    "cap s' = (cap s1)(j \<mapsto> take (length (ahead s) - length (ahead s1)) (ahead s))"
    by (rule run_group)
  show ?case
  proof (cases "i = j")
    case True
    from run_advances [OF _ s1(1)] RGroup.prems(1)
    obtain u where "u \<in> lang ic r" "ahead s = u @ ahead s1" by (auto simp: advances_def)
    with s1(2) True RGroup.prems(3) show ?thesis by auto
  next
    case False
    with RGroup.IH [OF _ s1(1)] RGroup.prems s1(2) show ?thesis by auto
  qed
qed (auto split: if_splits)

lemma iterate_frame:
  assumes "\<And>s s'. yields f s s' \<Longrightarrow> cap s' i = cap s i" and "(yields f ^^ n) s s'"
  shows "cap s' i = cap s i"
  using assms(2)
proof (induction n arbitrary: s)
  case (Suc n)
  then show ?case by (metis assms(1) relpowp_Suc_D2)
qed simp

lemma run_frame:
  "wf_regex r \<Longrightarrow> i \<notin> set (groups_of r) \<Longrightarrow> s' \<in> set (run_regex ic r s) \<Longrightarrow> cap s' i = cap s i"
proof (induction r arbitrary: s s')
  case (RRep mn mx g r)
  let ?f = "\<lambda>s. run_regex ic r (reset_groups (groups_of r) s)"
  have step: "cap s2 i = cap s1 i" if "yields ?f s1 s2" for s1 s2
    using RRep.IH [of s2 "reset_groups (groups_of r) s1"] RRep.prems that
    by (auto simp: yields_def)
  from RRep.prems repeat_matcher_sound [of s' ?f mn mx g s]
  obtain n where "(yields ?f ^^ n) s s'" by auto
  from iterate_frame [OF step this] show ?case .
next
  case (RSeq r1 r2)
  then obtain s1 where s1: "s1 \<in> set (run_regex ic r1 s)" "s' \<in> set (run_regex ic r2 s1)" by auto
  from RSeq.IH(1) [OF _ _ s1(1)] RSeq.IH(2) [OF _ _ s1(2)] RSeq.prems(1,2) show ?case by simp
qed (auto split: prod.splits list.splits if_splits)

lemma run_must_capture:
  "wf_regex r \<Longrightarrow> must_capture i r \<Longrightarrow> s' \<in> set (run_regex ic r s) \<Longrightarrow> \<exists>t. cap s' i = Some t"
proof (induction r arbitrary: s s')
  case (RSeq r1 r2)
  then obtain s1 where s1: "s1 \<in> set (run_regex ic r1 s)" "s' \<in> set (run_regex ic r2 s1)" by auto
  show ?case
  proof (cases "must_capture i r2")
    case True
    with RSeq.IH(2) RSeq.prems(1) s1(2) show ?thesis by simp
  next
    case False
    with RSeq.prems(2) have "must_capture i r1" "i \<notin> set (groups_of r2)" by auto
    with RSeq.IH(1) [OF _ _ s1(1)] run_frame [OF _ _ s1(2)] RSeq.prems(1) show ?thesis by simp
  qed
next
  case (RGroup j r)
  from RGroup.prems(3) show ?case
    by (rule run_group)
      (metis RGroup.IH RGroup.prems(1,2) fun_upd_apply must_capture.simps(6) wf_regex.simps(6))
qed auto

subsection \<open>Completeness without assertions\<close>

lemma repeat_matcher_complete:
  assumes f: "\<And>s t rest. t \<in> L \<Longrightarrow> ahead s = t @ rest \<Longrightarrow> \<exists>s' \<in> set (f s). ahead s' = rest"
    and "set ts \<subseteq> L" "mn \<le> length ts" "\<forall>k. mx = Some k \<longrightarrow> length ts \<le> k"
    and "[] \<notin> set (drop mn ts)" "ahead s = concat ts @ rest"
  shows "\<exists>s' \<in> set (repeat_matcher f mn mx g s). ahead s' = rest"
  using assms(2-)
proof (induction ts arbitrary: mn mx s)
  case Nil
  then show ?case by (subst repeat_matcher.simps) (auto simp: Let_def)
next
  case (Cons t ts)
  from f [of t s "concat ts @ rest"] Cons.prems obtain s1
    where s1: "s1 \<in> set (f s)" "ahead s1 = concat ts @ rest" by auto
  let ?mx' = "map_option (\<lambda>n. n - 1) mx"
  have mx: "mx \<noteq> Some 0" and mx': "\<forall>k. ?mx' = Some k \<longrightarrow> length ts \<le> k"
    using Cons.prems(3) by auto
  have "\<exists>s' \<in> set (repeat_matcher f (mn - 1) ?mx' g s1). ahead s' = rest"
  proof (rule Cons.IH)
    show "[] \<notin> set (drop (mn - 1) ts)"
      using Cons.prems(4) by (cases mn) (auto dest: in_set_dropD)
  qed (use Cons.prems mx' s1(2) in auto)
  then obtain s' where s': "s' \<in> set (repeat_matcher f (mn - 1) ?mx' g s1)" "ahead s' = rest"
    by blast
  show ?case
  proof (cases "0 < mn")
    case True
    with s1(1) s' mx show ?thesis
      by (intro bexI [of _ s']) (auto simp: repeat_matcher.simps [of f mn] Let_def)
  next
    case False
    with Cons.prems(4,5) s1(2) have "length (ahead s1) < length (ahead s)" by auto
    with False s1(1) s' mx show ?thesis
      by (cases s1) (intro bexI [of _ s'], auto simp: repeat_matcher.simps [of f 0 mx g s] Let_def)
  qed
qed

text \<open>Empty iterations can be moved to the front and those beyond the minimum left out.\<close>

lemma normalise_iterations:
  assumes "set ts \<subseteq> L" "mn \<le> length ts"
  obtains ts' where "set ts' \<subseteq> L" "mn \<le> length ts'" "length ts' \<le> length ts"
    "[] \<notin> set (drop mn ts')" "concat ts' = concat ts"
proof
  let ?ns = "filter (\<lambda>t. t \<noteq> []) ts"
  let ?ts' = "replicate (mn - length ?ns) [] @ ?ns"
  have "[] \<in> set ts" if "length ?ns < mn"
    using that assms(2) by (metis (mono_tags, lifting) filter_True not_le)
  then show "set ?ts' \<subseteq> L" using assms(1) by (cases "length ?ns < mn") auto
  show "mn \<le> length ?ts'" by simp
  show "length ?ts' \<le> length ts"
    using assms(2) length_filter_le [of "\<lambda>t. t \<noteq> []" ts] by (simp del: length_filter_le)
  show "[] \<notin> set (drop mn ?ts')" by (auto dest: in_set_dropD)
  show "concat ?ts' = concat ts" by (induction ts) auto
qed

lemma run_complete:
  "assertion_free r \<Longrightarrow> t \<in> lang ic r \<Longrightarrow> ahead s = t @ rest \<Longrightarrow>
   \<exists>s' \<in> set (run_regex ic r s). ahead s' = rest"
proof (induction r arbitrary: s t rest)
  case (RChar p)
  then show ?case by (cases s) auto
next
  case (RSet p)
  then show ?case by (cases s) auto
next
  case (RSeq r1 r2)
  then obtain u v where uv: "t = u @ v" "u \<in> lang ic r1" "v \<in> lang ic r2" by auto
  from RSeq.IH(1) [OF _ uv(2), of s "v @ rest"] RSeq.prems uv(1)
  obtain s1 where s1: "s1 \<in> set (run_regex ic r1 s)" "ahead s1 = v @ rest" by auto
  from RSeq.IH(2) [OF _ uv(3) s1(2)] RSeq.prems s1(1) show ?case by auto
next
  case (RAlt r1 r2)
  from RAlt.prems(2) consider "t \<in> lang ic r1" | "t \<in> lang ic r2" by auto
  then show ?case
  proof cases
    case 1
    with RAlt.IH(1) [OF _ _ RAlt.prems(3)] RAlt.prems(1) show ?thesis by auto
  next
    case 2
    with RAlt.IH(2) [OF _ _ RAlt.prems(3)] RAlt.prems(1) show ?thesis by auto
  qed
next
  case (RRep mn mx g r)
  let ?f = "\<lambda>s. run_regex ic r (reset_groups (groups_of r) s)"
  from RRep.prems(2) obtain ts where ts: "t = concat ts" "mn \<le> length ts"
    "\<forall>n. mx = Some n \<longrightarrow> length ts \<le> n" "set ts \<subseteq> lang ic r" by auto
  obtain ts' where ts': "set ts' \<subseteq> lang ic r" "mn \<le> length ts'" "length ts' \<le> length ts"
    "[] \<notin> set (drop mn ts')" "concat ts' = concat ts"
    using normalise_iterations [OF ts(4,2)] by metis
  have "\<exists>s' \<in> set (repeat_matcher ?f mn mx g s). ahead s' = rest"
  proof (rule repeat_matcher_complete [OF _ ts'(1,2) _ ts'(4)])
    show "\<exists>s' \<in> set (?f s0). ahead s' = rest0" if "u \<in> lang ic r" "ahead s0 = u @ rest0" for s0 u rest0
      using RRep.IH [OF _ that(1), of "reset_groups (groups_of r) s0" rest0] RRep.prems(1) that(2)
      by simp
    show "\<forall>k. mx = Some k \<longrightarrow> length ts' \<le> k" using ts(3) ts'(3) by auto
    show "ahead s = concat ts' @ rest" using RRep.prems(3) ts(1) ts'(5) by simp
  qed
  then show ?case by simp
next
  case (RGroup i r)
  from RGroup.IH [OF _ _ RGroup.prems(3)] RGroup.prems(1,2)
  obtain pre1 rest1 caps1 where "(pre1, rest1, caps1) \<in> set (run_regex ic r s)" "rest1 = rest"
    by auto
  then show ?case by force
qed auto

section \<open>Anchored patterns decide their language\<close>

definition anchored :: "regex \<Rightarrow> regex" where
  "anchored r = RSeq RStart (RSeq r REnd)"

lemma exec_from_behind: "pre \<noteq> [] \<Longrightarrow> exec_from ic (anchored r) pre rest = None"
  by (induction rest arbitrary: pre) (subst exec_from.simps, simp add: anchored_def)+

lemma exec_anchored:
  "exec_regex ic (anchored r) s =
     (case filter (\<lambda>s'. ahead s' = []) (run_regex ic r ([], s, Map.empty)) of
        [] \<Rightarrow> None | s' # _ \<Rightarrow> Some (([], s, Map.empty), s'))"
proof -
  let ?s = "([], s, Map.empty) :: mstate"
  have end_only: "concat (map (run_regex ic REnd) ss) = filter (\<lambda>s'. ahead s' = []) ss" for ss
    by (induction ss) auto
  have "run_regex ic (RSeq r REnd) ?s = filter (\<lambda>s'. ahead s' = []) (run_regex ic r ?s)"
    by (simp only: run_regex.simps(3) end_only)
  then have "run_regex ic (anchored r) ?s = filter (\<lambda>s'. ahead s' = []) (run_regex ic r ?s)"
    unfolding anchored_def by (subst run_regex.simps(3)) (simp del: run_regex.simps(3))
  then show ?thesis
    unfolding exec_regex_def
    by (subst exec_from.simps) (simp add: exec_from_behind split: list.splits)
qed

lemma test_anchored:
  assumes "wf_regex r" "assertion_free r"
  shows "test_regex ic (anchored r) s \<longleftrightarrow> s \<in> lang ic r"
proof
  assume "test_regex ic (anchored r) s"
  then have "filter (\<lambda>s'. ahead s' = []) (run_regex ic r ([], s, Map.empty)) \<noteq> []"
    by (auto simp: test_regex_def exec_anchored)
  then obtain s' where "s' \<in> set (run_regex ic r ([], s, Map.empty))" "ahead s' = []"
    by (metis (mono_tags, lifting) filter_empty_conv)
  with run_advances [OF assms(1)] show "s \<in> lang ic r" by (fastforce simp: advances_def)
next
  assume "s \<in> lang ic r"
  with run_complete [OF assms(2), of s ic "([], s, Map.empty)" "[]"]
  obtain s' where "s' \<in> set (run_regex ic r ([], s, Map.empty))" "ahead s' = []" by auto
  then have "filter (\<lambda>s'. ahead s' = []) (run_regex ic r ([], s, Map.empty)) \<noteq> []"
    by (auto simp: filter_empty_conv)
  then show "test_regex ic (anchored r) s"
    by (auto simp: test_regex_def exec_anchored split: list.splits)
qed

text \<open>A class repeated between two bounds: the words of that length over the class.\<close>

lemma concat_singletons: "set ts \<subseteq> {[c] | c. p c} \<Longrightarrow> length (concat ts) = length ts \<and> (\<forall>c \<in> set (concat ts). p c)"
  by (induction ts) auto

lemma lang_RRep_RSet:
  "lang ic (RRep mn mx g (RSet p)) =
     {s. mn \<le> length s \<and> (\<forall>n. mx = Some n \<longrightarrow> length s \<le> n) \<and> (\<forall>c \<in> set s. p c)}"
proof (rule set_eqI, rule iffI)
  fix s assume "s \<in> {s. mn \<le> length s \<and> (\<forall>n. mx = Some n \<longrightarrow> length s \<le> n) \<and> (\<forall>c \<in> set s. p c)}"
  moreover have "concat (map (\<lambda>c. [c]) s) = s" by (induction s) auto
  ultimately show "s \<in> lang ic (RRep mn mx g (RSet p))"
    by (auto intro!: exI [of _ "map (\<lambda>c. [c]) s"])
qed (use concat_singletons in fastforce)

section \<open>Reading a match step by step\<close>

lemma exec_anchored_Some:
  assumes "exec_regex ic (anchored r) s = Some m"
  obtains s' where "s' \<in> set (run_regex ic r ([], s, Map.empty))" "ahead s' = []"
    "m = (([], s, Map.empty), s')"
proof -
  from assms obtain s' ss where f: "filter (\<lambda>s'. ahead s' = []) (run_regex ic r ([], s, Map.empty)) = s' # ss"
    and m: "m = (([], s, Map.empty), s')"
    by (auto simp: exec_anchored split: list.splits)
  from f have "s' \<in> set (filter (\<lambda>s'. ahead s' = []) (run_regex ic r ([], s, Map.empty)))" by simp
  with m that [of s'] show ?thesis by simp
qed

lemma run_seq:
  assumes "s' \<in> set (run_regex ic (RSeq r1 r2) s)"
  obtains s1 where "s1 \<in> set (run_regex ic r1 s)" "s' \<in> set (run_regex ic r2 s1)"
  using assms by auto

text \<open>A group not touched later keeps the text its body consumed.\<close>

lemma run_group_text:
  assumes "s' \<in> set (run_regex ic (RGroup i r) s)" "wf_regex r"
  obtains t where "t \<in> lang ic r" "ahead s = t @ ahead s'" "cap s' i = Some t"
proof -
  from assms(1) obtain s1 where s1: "s1 \<in> set (run_regex ic r s)" "ahead s' = ahead s1"
    "cap s' = (cap s1)(i \<mapsto> take (length (ahead s) - length (ahead s1)) (ahead s))"
    by (rule run_group)
  from run_advances [OF assms(2) s1(1)] obtain t where "t \<in> lang ic r" "ahead s = t @ ahead s1"
    by (auto simp: advances_def)
  with s1(2,3) that show ?thesis by simp
qed

lemma exec_from_Some:
  assumes "exec_from ic r pre rest = Some m"
  shows "\<exists>pre' rest' s'. m = ((pre', rest', Map.empty), s')
    \<and> s' \<in> set (run_regex ic r (pre', rest', Map.empty)) \<and> rev pre @ rest = rev pre' @ rest'"
  using assms
proof (induction rest arbitrary: pre)
  case Nil
  then show ?case by (subst (asm) exec_from.simps) (auto split: list.splits)
next
  case (Cons c cs)
  show ?case
  proof (cases "run_regex ic r (pre, c # cs, Map.empty)")
    case Nil
    with Cons.prems have "exec_from ic r (c # pre) cs = Some m"
      by (subst (asm) exec_from.simps) simp
    from Cons.IH [OF this] show ?thesis by simp
  next
    case (Cons s' ss)
    with Cons.prems have "m = ((pre, c # cs, Map.empty), s')"
      by (subst (asm) exec_from.simps) simp
    with Cons show ?thesis by (intro exI [of _ pre] exI [of _ "c # cs"] exI [of _ s']) simp
  qed
qed

lemma matched_text_lang:
  assumes "exec_regex ic r s = Some m" "wf_regex r"
  shows "matched_text m \<in> lang ic r"
proof -
  from exec_from_Some [of ic r "[]" s m] assms(1) obtain pre' rest' s'
    where m: "m = ((pre', rest', Map.empty), s')" "s' \<in> set (run_regex ic r (pre', rest', Map.empty))"
    by (auto simp: exec_regex_def)
  from run_advances [OF assms(2) m(2)] obtain t where "t \<in> lang ic r" "rest' = t @ ahead s'"
    by (auto simp: advances_def)
  with m(1) show ?thesis by (simp add: matched_text_def)
qed

lemma lang_RChar_ascii:
  "lang ic (RChar p) = {[c] | c. canonicalize ic p = canonicalize ic c}"
  by (simp add: char_matches_def)

lemma lang_opt: "lang ic (opt r) = insert [] (lang ic r)"
proof (intro set_eqI iffI)
  fix t assume "t \<in> lang ic (opt r)"
  then obtain ts where "t = concat ts" "length ts \<le> 1" "set ts \<subseteq> lang ic r" by auto
  then show "t \<in> insert [] (lang ic r)" by (cases ts) auto
next
  fix t assume "t \<in> insert [] (lang ic r)"
  then consider "t = concat []" | "t = concat [t]" "t \<in> lang ic r" by auto
  then show "t \<in> lang ic (opt r)"
  proof cases
    case 1
    then show ?thesis by (auto intro!: exI [of _ "[]"])
  next
    case 2
    then show ?thesis by (auto intro!: exI [of _ "[t]"])
  qed
qed

lemma lang_RSeqI: "u \<in> lang ic r1 \<Longrightarrow> v \<in> lang ic r2 \<Longrightarrow> u @ v \<in> lang ic (RSeq r1 r2)"
  by auto

lemma lang_RSeqE:
  assumes "t \<in> lang ic (RSeq r1 r2)"
  obtains u v where "t = u @ v" "u \<in> lang ic r1" "v \<in> lang ic r2"
  using assms by auto

end
