(* ===== verification/Setup_Types.thy ===== *)
theory Setup_Types
  imports Js_Json Js_Regex
begin

text \<open>
  The data of the setup API (\<open>web/src/lib/api.ts\<close>, the exported types): media candidates,
  configurations of published media, setup and Watchlist status, acquisition intents and jobs, each
  with its reading from JSON and its JSON form. String unions are datatypes; an optional member is
  an \<open>option\<close>.
\<close>

section \<open>Enumerations\<close>

datatype media_type = Movie | Episode
datatype media_extension = Mp4 | Mkv
datatype show_policy = Off | Pilot
datatype job_state = Queued | Selected | Preparing | Succeeded | Failed | ManualReview
datatype job_error =
    ProviderUnavailable | Unauthorized | NoRelease | NoPlayableMedia | MaterializationFailed
  | Stalled | AmbiguousMutation

fun media_type_string :: "media_type \<Rightarrow> string" where
  "media_type_string Movie = ''movie''"
| "media_type_string Episode = ''episode''"

fun extension_string :: "media_extension \<Rightarrow> string" where
  "extension_string Mp4 = ''.mp4''"
| "extension_string Mkv = ''.mkv''"

fun show_policy_string :: "show_policy \<Rightarrow> string" where
  "show_policy_string Off = ''off''"
| "show_policy_string Pilot = ''pilot''"

fun job_state_string :: "job_state \<Rightarrow> string" where
  "job_state_string Queued = ''queued''"
| "job_state_string Selected = ''selected''"
| "job_state_string Preparing = ''preparing''"
| "job_state_string Succeeded = ''succeeded''"
| "job_state_string Failed = ''failed''"
| "job_state_string ManualReview = ''manual_review''"

fun job_error_string :: "job_error \<Rightarrow> string" where
  "job_error_string ProviderUnavailable = ''provider_unavailable''"
| "job_error_string Unauthorized = ''unauthorized''"
| "job_error_string NoRelease = ''no_release''"
| "job_error_string NoPlayableMedia = ''no_playable_media''"
| "job_error_string MaterializationFailed = ''materialization_failed''"
| "job_error_string Stalled = ''stalled''"
| "job_error_string AmbiguousMutation = ''ambiguous_mutation''"

definition all_job_states :: "job_state list" where
  "all_job_states = [Queued, Selected, Preparing, Succeeded, Failed, ManualReview]"

definition all_job_errors :: "job_error list" where
  "all_job_errors = [ProviderUnavailable, Unauthorized, NoRelease, NoPlayableMedia,
     MaterializationFailed, Stalled, AmbiguousMutation]"

definition json_str :: "string \<Rightarrow> json" where
  "json_str s = JString (js s)"

text \<open>Reading a member of a string union: the member of the list with that text.\<close>

definition as_member :: "('a \<Rightarrow> string) \<Rightarrow> 'a list \<Rightarrow> json option \<Rightarrow> 'a" where
  "as_member text xs v = (case find (\<lambda>x. v = Some (json_str (text x))) xs of Some x \<Rightarrow> x | None \<Rightarrow> hd xs)"

definition as_media_type :: "json option \<Rightarrow> media_type" where
  "as_media_type = as_member media_type_string [Movie, Episode]"
definition as_extension :: "json option \<Rightarrow> media_extension" where
  "as_extension = as_member extension_string [Mp4, Mkv]"
definition as_show_policy :: "json option \<Rightarrow> show_policy" where
  "as_show_policy = as_member show_policy_string [Off, Pilot]"
definition as_job_state :: "json option \<Rightarrow> job_state" where
  "as_job_state = as_member job_state_string all_job_states"
definition as_job_error :: "json option \<Rightarrow> job_error" where
  "as_job_error = as_member job_error_string all_job_errors"

lemmas as_enum_defs =
  as_media_type_def as_extension_def as_show_policy_def as_job_state_def as_job_error_def
  all_job_states_def all_job_errors_def

lemma json_str_inject [simp]: "json_str s = json_str t \<longleftrightarrow> s = t"
  by (simp add: json_str_def js_inject)

lemma as_enum_string [simp]:
  "as_media_type (Some (json_str (media_type_string m))) = m"
  "as_extension (Some (json_str (extension_string e))) = e"
  "as_show_policy (Some (json_str (show_policy_string p))) = p"
  "as_job_state (Some (json_str (job_state_string st))) = st"
  "as_job_error (Some (json_str (job_error_string err))) = err"
  subgoal by (cases m) (simp_all add: as_enum_defs as_member_def)
  subgoal by (cases e) (simp_all add: as_enum_defs as_member_def)
  subgoal by (cases p) (simp_all add: as_enum_defs as_member_def)
  subgoal by (cases st) (simp_all add: as_enum_defs as_member_def)
  subgoal by (cases err) (simp_all add: as_enum_defs as_member_def)
  done

section \<open>Records\<close>

record media_candidate =
  mc_provider :: "jsstring option"
  mc_objectId :: jsstring
  mc_name :: jsstring
  mc_extension :: media_extension
  mc_size :: number

record setup_configuration =
  sc_objectId :: jsstring
  sc_name :: jsstring
  sc_extension :: media_extension
  sc_size :: number
  sc_mediaType :: media_type
  sc_title :: jsstring
  sc_year :: number
  sc_showTitle :: "jsstring option"
  sc_season :: "number option"
  sc_episode :: "number option"

text \<open>\<open>Availability\<close> is the part of a setup status that counts saved and active items.\<close>

record availability =
  av_savedItemCount :: number
  av_activeItemCount :: number
  av_unavailableItemCount :: number
  av_degraded :: bool

record setup_status = availability +
  ss_setupRequired :: bool
  ss_tokenConfigured :: bool
  ss_csrfToken :: jsstring
  ss_selected :: "setup_configuration option"
  ss_selectedItems :: "setup_configuration list option"

text \<open>\<open>SetupStatusPayload\<close>: the same with the availability members optional.\<close>

record setup_status_payload =
  sp_setupRequired :: bool
  sp_tokenConfigured :: bool
  sp_csrfToken :: jsstring
  sp_selected :: "setup_configuration option"
  sp_selectedItems :: "setup_configuration list option"
  sp_savedItemCount :: "number option"
  sp_activeItemCount :: "number option"
  sp_unavailableItemCount :: "number option"
  sp_degraded :: "bool option"

record apply_item =
  ai_objectId :: jsstring
  ai_mediaType :: media_type
  ai_title :: jsstring
  ai_year :: number
  ai_showTitle :: "jsstring option"
  ai_season :: "number option"
  ai_episode :: "number option"

record apply_input =
  in_token :: "jsstring option"
  in_items :: "apply_item list"

text \<open>Both members are strings in every authorization the console builds or \<open>undefined\<close>.\<close>

record setup_authorization =
  auth_session :: "jsstring option"
  auth_bootstrap :: "jsstring option"

record apply_result =
  ar_selected :: setup_configuration
  ar_selectedItems :: "setup_configuration list"

record watchlist_queue =
  wq_pendingMovies :: number
  wq_acquiring :: number
  wq_succeeded :: number
  wq_notCached :: number
  wq_retryable :: number
  wq_manualReview :: number
  wq_observedShows :: number

record watchlist_status =
  ws_enabled :: bool
  ws_healthy :: bool
  ws_acquisitionEnabled :: bool
  ws_showPolicy :: show_policy
  ws_lastSyncAt :: "jsstring option"
  ws_queue :: watchlist_queue

record acquisition_job =
  aj_id :: jsstring
  aj_state :: job_state
  aj_mediaType :: media_type
  aj_title :: jsstring
  aj_year :: number
  aj_season :: "number option"
  aj_episode :: "number option"
  aj_progress :: number
  aj_errorCode :: "job_error option"
  aj_createdAt :: jsstring
  aj_updatedAt :: jsstring

datatype acquisition_intent =
    MovieIntent jsstring number
  | EpisodeIntent jsstring number number number

text \<open>The results of the operations: a value with the session that the response carried.\<close>

type_synonym discovery_result = "media_candidate list \<times> jsstring"
type_synonym acquisition_status = bool
type_synonym watchlist_status_result = "watchlist_status \<times> jsstring"
type_synonym acquisition_status_result = "acquisition_status \<times> jsstring"
type_synonym acquisition_job_submission = "(acquisition_job \<times> bool) \<times> jsstring"

end
