(* ===== verification/Console_Suggest.thy ===== *)
theory Console_Suggest
  imports Setup_Types
begin

text \<open>
  How the console guesses Plex metadata from a file name (\<open>web/src/components/setup-console.tsx\<close>,
  \<open>suggestTitle\<close> to \<open>suggestEpisodeTitle\<close>). The patterns are those of the source, run by the
  engine of \<open>Js_Regex\<close>. The current year, \<open>new Date().getFullYear()\<close>, is an argument.
\<close>

section \<open>Patterns\<close>

text \<open>\<open>/\.(mkv|mp4)$/i\<close>\<close>

definition extension_pattern :: regex where
  "extension_pattern = seq_of [RChar (cu CHR ''.''), RGroup 1 (RAlt (word_regex ''mkv'') (word_regex ''mp4'')), REnd]"

text \<open>\<open>/[._]+/g\<close> and \<open>/\s+/g\<close>\<close>

definition dots_pattern :: regex where
  "dots_pattern = plus (any_of ''._'')"

definition spaces_pattern :: regex where
  "spaces_pattern = plus space_class"

text \<open>\<open>/\b(19|20)\d{2}\b/\<close>\<close>

definition year_pattern :: regex where
  "year_pattern = seq_of [RWordBoundary, RGroup 1 (RAlt (word_regex ''19'') (word_regex ''20'')),
     RRep 2 (Some 2) True digit_class, RWordBoundary]"

text \<open>\<open>/^(.*?)[ ._-]+S(\d{1,2})E(\d{1,3})(?:[ ._-]+(.*))?$/i\<close>\<close>

definition separator_class :: regex where
  "separator_class = any_of '' ._-''"

definition episode_body :: regex where
  "episode_body = seq_of [RGroup 1 (star_lazy dot), plus separator_class,
     RChar (cu CHR ''S''), RGroup 2 (between 1 2 digit_class),
     RChar (cu CHR ''E''), RGroup 3 (between 1 3 digit_class),
     opt (RSeq (plus separator_class) (RGroup 4 (star dot)))]"

definition episode_pattern :: regex where
  "episode_pattern = anchored episode_body"

text \<open>\<open>/\s*-\s*$/\<close>, \<open>/^\s*-\s*/\<close> and \<open>/\s*\[[^\]]*\]\s*$/\<close>\<close>

definition trailing_dash_pattern :: regex where
  "trailing_dash_pattern = seq_of [star space_class, RChar (cu CHR ''-''), star space_class, REnd]"

definition leading_dash_pattern :: regex where
  "leading_dash_pattern = seq_of [RStart, star space_class, RChar (cu CHR ''-''), star space_class]"

definition bracket_pattern :: regex where
  "bracket_pattern = seq_of [star space_class, RChar (cu CHR ''[''), star (RSet (\<lambda>c. c \<noteq> cu CHR '']'')),
     RChar (cu CHR '']''), star space_class, REnd]"

text \<open>\<open>/^(?:\d{3,4}p|UHD|WEB(?:-DL)?|BluRay|HDR|DV|x26[45]|h26[45])\b/i\<close>\<close>

definition quality_pattern :: regex where
  "quality_pattern = seq_of [RStart, alt_of [
     RSeq (between 3 4 digit_class) (RChar (cu CHR ''p'')),
     word_regex ''UHD'',
     RSeq (word_regex ''WEB'') (opt (word_regex ''-DL'')),
     word_regex ''BluRay'', word_regex ''HDR'', word_regex ''DV'',
     RSeq (word_regex ''x26'') (any_of ''45''),
     RSeq (word_regex ''h26'') (any_of ''45'')], RWordBoundary]"

section \<open>Suggestions\<close>

record selection_draft =
  sd_objectId :: jsstring
  sd_mediaType :: media_type
  sd_title :: jsstring
  sd_year :: number
  sd_showTitle :: jsstring
  sd_season :: number
  sd_episode :: number

text \<open>\<open>name.split("/").at(-1) ?? name\<close>\<close>

definition base_name :: "jsstring \<Rightarrow> jsstring" where
  "base_name name = (case at_last (split_on (cu CHR ''/'') name) of None \<Rightarrow> name | Some base \<Rightarrow> base)"

definition strip_extension :: "jsstring \<Rightarrow> jsstring" where
  "strip_extension s = replace_first True extension_pattern [] s"

definition cleanDisplayTitle :: "jsstring \<Rightarrow> jsstring" where
  "cleanDisplayTitle value =
     trim (replace_all False spaces_pattern (js '' '') (replace_all False dots_pattern (js '' '') value))"

definition suggestTitle :: "jsstring \<Rightarrow> jsstring" where
  "suggestTitle name =
     (let base = base_name name in
      trim (replace_all False spaces_pattern (js '' '')
              (replace_all False dots_pattern (js '' '') (strip_extension base))))"

definition suggestYear :: "number \<Rightarrow> jsstring \<Rightarrow> number" where
  "suggestYear currentYear value =
     (case exec_regex False year_pattern value of
        Some matched \<Rightarrow> of_count (parse_digits (matched_text matched))
      | None \<Rightarrow> currentYear)"

definition suggestEpisodeTitle :: "jsstring option \<Rightarrow> number \<Rightarrow> jsstring" where
  "suggestEpisodeTitle value episode =
     (let fallback = js ''Episode '' @ padStart 2 (cu CHR ''0'') (number_to_string episode) in
      case value of
        None \<Rightarrow> fallback
      | Some v \<Rightarrow>
          if v = [] then fallback
          else
            let cleaned = replace_first False leading_dash_pattern []
                            (cleanDisplayTitle (replace_first False bracket_pattern [] v))
            in if cleaned = [] \<or> test_regex True quality_pattern cleaned then fallback else cleaned)"

definition suggestDraft :: "number \<Rightarrow> media_candidate \<Rightarrow> media_type option \<Rightarrow> selection_draft" where
  "suggestDraft currentYear candidate forcedType =
     (let base = strip_extension (base_name (mc_name candidate));
          episodeMatch = exec_regex True episode_pattern base;
          mediaType = (case forcedType of Some t \<Rightarrow> t
                       | None \<Rightarrow> if episodeMatch \<noteq> None then Episode else Movie);
          group = (\<lambda>i. Option.bind episodeMatch (\<lambda>m. capture m i))
      in if mediaType = Episode then
           let showSource = (case group 1 of Some s \<Rightarrow> s | None \<Rightarrow> base);
               year = suggestYear currentYear (mc_name candidate);
               showTitle = replace_first False trailing_dash_pattern []
                             (cleanDisplayTitle (replace_first False year_pattern [] showSource));
               number_of = (\<lambda>i. case episodeMatch of None \<Rightarrow> Fin 1
                                | Some _ \<Rightarrow> (case group i of Some s \<Rightarrow> of_count (parse_digits s) | None \<Rightarrow> NaN));
               season = number_of 2;
               episode = number_of 3
           in \<lparr>sd_objectId = mc_objectId candidate, sd_mediaType = mediaType,
               sd_title = suggestEpisodeTitle (group 4) episode, sd_year = year,
               sd_showTitle = showTitle, sd_season = season, sd_episode = episode\<rparr>
         else \<lparr>sd_objectId = mc_objectId candidate, sd_mediaType = mediaType,
               sd_title = suggestTitle (mc_name candidate), sd_year = suggestYear currentYear base,
               sd_showTitle = [], sd_season = Fin 1, sd_episode = Fin 1\<rparr>)"

section \<open>What a match of the episode pattern says\<close>

definition is_separator :: "code_unit \<Rightarrow> bool" where
  "is_separator c \<longleftrightarrow> c \<in> set (js '' ._-'')"

text \<open>The language of the pattern, written out.\<close>

definition episode_tail :: "jsstring \<Rightarrow> bool" where
  "episode_tail tail \<longleftrightarrow> tail = [] \<or>
     (is_separator (hd tail) \<and> (\<forall>c \<in> set (tl tail). \<not> is_line_terminator_cu c))"

definition episode_split ::
  "jsstring \<Rightarrow> jsstring \<Rightarrow> jsstring \<Rightarrow> code_unit \<Rightarrow> jsstring \<Rightarrow> code_unit \<Rightarrow> jsstring \<Rightarrow> jsstring \<Rightarrow> bool" where
  "episode_split base show seps c1 ds c2 de tail \<longleftrightarrow>
     base = show @ seps @ c1 # ds @ c2 # de @ tail
     \<and> (\<forall>c \<in> set show. \<not> is_line_terminator_cu c)
     \<and> seps \<noteq> [] \<and> (\<forall>c \<in> set seps. is_separator c)
     \<and> c1 \<in> set (js ''Ss'') \<and> c2 \<in> set (js ''Ee'')
     \<and> 1 \<le> length ds \<and> length ds \<le> 2 \<and> (\<forall>c \<in> set ds. is_digit_cu c)
     \<and> 1 \<le> length de \<and> length de \<le> 3 \<and> (\<forall>c \<in> set de. is_digit_cu c)
     \<and> episode_tail tail"

lemma canonicalize_cu: "canonicalize True (cu a) = canonicalize True c \<Longrightarrow> is_upper_cu (cu a) \<Longrightarrow>
    c = cu a \<or> unat c = of_char a + 32"
proof -
  assume eq: "canonicalize True (cu a) = canonicalize True c" and up: "is_upper_cu (cu a)"
  have "\<not> is_lower_cu (cu a)"
    using up by (auto simp: is_upper_cu_def is_lower_cu_def word_le_nat_alt unat_cu)
  with eq have a: "cu a = canonicalize True c" by (simp add: canonicalize_def)
  show ?thesis
  proof (cases "is_lower_cu c")
    case True
    then have "32 \<le> c" by (auto simp: is_lower_cu_def word_le_nat_alt unat_cu)
    then have "unat (c - 32) = unat c - 32" by (simp add: unat_sub)
    with a True \<open>32 \<le> c\<close> show ?thesis
      by (simp add: canonicalize_def word_le_nat_alt) (metis unat_cu le_add_diff_inverse2)
  next
    case False
    with a show ?thesis by (simp add: canonicalize_def)
  qed
qed

lemma char_matches_S: "char_matches True (cu CHR ''S'') c \<longleftrightarrow> c \<in> set (js ''Ss'')"
proof
  assume "char_matches True (cu CHR ''S'') c"
  then have "c = cu CHR ''S'' \<or> unat c = 115"
    using canonicalize_cu [of "CHR ''S''" c]
    by (simp add: char_matches_def is_upper_cu_def cu_less_eq_iff)
  then show "c \<in> set (js ''Ss'')"
    by (auto simp: word_unat_eq_iff unat_cu)
qed (auto simp: char_matches_def canonicalize_def is_lower_cu_def cu_less_eq_iff word_unat_eq_iff unat_cu unat_sub word_le_nat_alt)

lemma char_matches_E: "char_matches True (cu CHR ''E'') c \<longleftrightarrow> c \<in> set (js ''Ee'')"
proof
  assume "char_matches True (cu CHR ''E'') c"
  then have "c = cu CHR ''E'' \<or> unat c = 101"
    using canonicalize_cu [of "CHR ''E''" c]
    by (simp add: char_matches_def is_upper_cu_def cu_less_eq_iff)
  then show "c \<in> set (js ''Ee'')"
    by (auto simp: word_unat_eq_iff unat_cu)
qed (auto simp: char_matches_def canonicalize_def is_lower_cu_def cu_less_eq_iff word_unat_eq_iff unat_cu unat_sub word_le_nat_alt)

lemmas class_defs = separator_class_def any_of_def dot_def digit_class_def space_class_def

definition tail_regex :: regex where
  "tail_regex = opt (RSeq (plus separator_class) (RGroup 4 (star dot)))"

lemma separator_set: "(\<lambda>c. c \<in> set (js '' ._-'')) = is_separator"
  by (auto simp: is_separator_def)

lemma separator_not_line_terminator: "is_separator c \<Longrightarrow> \<not> is_line_terminator_cu c"
  by (auto simp: is_separator_def is_line_terminator_cu_def unat_cu)

lemma lang_separators:
  "lang ic (plus separator_class) = {s. s \<noteq> [] \<and> (\<forall>c \<in> set s. is_separator c)}"
  unfolding class_defs separator_set lang_RRep_RSet by (auto simp: Suc_le_eq)

lemma lang_dots: "lang ic (RRep 0 None g dot) = {s. \<forall>c \<in> set s. \<not> is_line_terminator_cu c}"
  unfolding class_defs lang_RRep_RSet by auto

lemma lang_digits:
  "lang ic (between a b digit_class) = {s. a \<le> length s \<and> length s \<le> b \<and> (\<forall>c \<in> set s. is_digit_cu c)}"
  unfolding class_defs lang_RRep_RSet by auto

lemma lang_tail: "lang ic tail_regex = {t. episode_tail t}"
proof -
  let ?r = "RSeq (plus separator_class) (RGroup 4 (star dot))"
  have "lang ic ?r = {u @ v | u v. u \<noteq> [] \<and> (\<forall>c \<in> set u. is_separator c)
      \<and> (\<forall>c \<in> set v. \<not> is_line_terminator_cu c)}"
    unfolding lang.simps(3,6) lang_separators lang_dots by auto
  also have "\<dots> = {t. t \<noteq> [] \<and> is_separator (hd t) \<and> (\<forall>c \<in> set (tl t). \<not> is_line_terminator_cu c)}"
  proof (intro set_eqI iffI)
    fix t assume "t \<in> {t. t \<noteq> [] \<and> is_separator (hd t) \<and> (\<forall>c \<in> set (tl t). \<not> is_line_terminator_cu c)}"
    then show "t \<in> {u @ v | u v. u \<noteq> [] \<and> (\<forall>c \<in> set u. is_separator c) \<and> (\<forall>c \<in> set v. \<not> is_line_terminator_cu c)}"
      by (intro CollectI exI [of _ "[hd t]"] exI [of _ "tl t"]) auto
  next
    fix t assume "t \<in> {u @ v | u v. u \<noteq> [] \<and> (\<forall>c \<in> set u. is_separator c) \<and> (\<forall>c \<in> set v. \<not> is_line_terminator_cu c)}"
    then obtain c u v where "t = c # u @ v" "is_separator c" "\<forall>c \<in> set u. is_separator c"
      "\<forall>c \<in> set v. \<not> is_line_terminator_cu c"
      by (auto simp: neq_Nil_conv)
    then show "t \<in> {t. t \<noteq> [] \<and> is_separator (hd t) \<and> (\<forall>c \<in> set (tl t). \<not> is_line_terminator_cu c)}"
      by (auto dest: separator_not_line_terminator)
  qed
  finally show ?thesis unfolding tail_regex_def lang_opt by (auto simp: episode_tail_def)
qed

lemma episode_body_eq:
  "episode_body = RSeq (RGroup 1 (star_lazy dot)) (RSeq (plus separator_class)
     (RSeq (RChar (cu CHR ''S'')) (RSeq (RGroup 2 (between 1 2 digit_class))
     (RSeq (RChar (cu CHR ''E'')) (RSeq (RGroup 3 (between 1 3 digit_class)) tail_regex)))))"
  by (simp add: episode_body_def tail_regex_def)

lemma lang_S: "lang True (RChar (cu CHR ''S'')) = {[c] | c. c \<in> set (js ''Ss'')}"
  by (simp only: lang.simps(1) char_matches_S)

lemma lang_E: "lang True (RChar (cu CHR ''E'')) = {[c] | c. c \<in> set (js ''Ee'')}"
  by (simp only: lang.simps(1) char_matches_E)

lemmas episode_langs = lang_separators lang_dots lang_digits lang_tail lang_S lang_E lang.simps(6)

text \<open>The language of the pattern is the set of names that split.\<close>

lemma lang_episode_body:
  "base \<in> lang True episode_body \<longleftrightarrow> (\<exists>sh sp c1 ds c2 de tl. episode_split base sh sp c1 ds c2 de tl)"
proof
  assume "base \<in> lang True episode_body"
  then obtain sh sp s1 ds s2 de tl where
    "base = sh @ sp @ s1 @ ds @ s2 @ de @ tl" "sh \<in> lang True (RGroup 1 (star_lazy dot))"
    "sp \<in> lang True (plus separator_class)" "s1 \<in> lang True (RChar (cu CHR ''S''))"
    "ds \<in> lang True (RGroup 2 (between 1 2 digit_class))" "s2 \<in> lang True (RChar (cu CHR ''E''))"
    "de \<in> lang True (RGroup 3 (between 1 3 digit_class))" "tl \<in> lang True tail_regex"
    unfolding episode_body_eq by (elim lang_RSeqE) blast
  then show "\<exists>sh sp c1 ds c2 de tl. episode_split base sh sp c1 ds c2 de tl"
    unfolding episode_langs episode_split_def by fastforce
next
  assume "\<exists>sh sp c1 ds c2 de tl. episode_split base sh sp c1 ds c2 de tl"
  then obtain sh sp c1 ds c2 de tl where split: "episode_split base sh sp c1 ds c2 de tl" by blast
  then have "sh @ sp @ [c1] @ ds @ [c2] @ de @ tl \<in> lang True episode_body"
    unfolding episode_body_eq
    by (intro lang_RSeqI; unfold episode_langs) (auto simp: episode_split_def)
  with split show "base \<in> lang True episode_body" by (simp add: episode_split_def)
qed

lemma wf_episode: "wf_regex episode_body" "assertion_free episode_body" "assertion_free tail_regex"
  by (simp_all add: episode_body_eq tail_regex_def class_defs)

lemma test_episode_pattern:
  "test_regex True episode_pattern base \<longleftrightarrow> (\<exists>sh sp c1 ds c2 de tl. episode_split base sh sp c1 ds c2 de tl)"
  unfolding episode_pattern_def by (subst test_anchored [OF wf_episode(1,2)]) (rule lang_episode_body)

text \<open>The captures of a match are the parts of one such split.\<close>

lemma exec_episode_pattern:
  assumes "exec_regex True episode_pattern base = Some m"
  obtains sh sp c1 ds c2 de tl where "episode_split base sh sp c1 ds c2 de tl"
    "capture m 1 = Some sh" "capture m 2 = Some ds" "capture m 3 = Some de"
proof -
  from assms obtain s7 where s7: "s7 \<in> set (run_regex True episode_body ([], base, Map.empty))"
    "ahead s7 = []" "m = (([], base, Map.empty), s7)"
    unfolding episode_pattern_def by (rule exec_anchored_Some)
  let ?s0 = "([], base, Map.empty) :: mstate"
  from s7(1) obtain s1 s2 s3 s4 s5 s6 where st:
    "s1 \<in> set (run_regex True (RGroup 1 (star_lazy dot)) ?s0)"
    "s2 \<in> set (run_regex True (plus separator_class) s1)"
    "s3 \<in> set (run_regex True (RChar (cu CHR ''S'')) s2)"
    "s4 \<in> set (run_regex True (RGroup 2 (between 1 2 digit_class)) s3)"
    "s5 \<in> set (run_regex True (RChar (cu CHR ''E'')) s4)"
    "s6 \<in> set (run_regex True (RGroup 3 (between 1 3 digit_class)) s5)"
    "s7 \<in> set (run_regex True tail_regex s6)"
    unfolding episode_body_eq by (elim run_seq) blast
  have wf: "wf_regex (star_lazy dot)" "wf_regex (plus separator_class)" "wf_regex (RChar c)"
    "wf_regex (between 1 2 digit_class)" "wf_regex (between 1 3 digit_class)" "wf_regex tail_regex" for c
    by (simp_all add: class_defs tail_regex_def)
  obtain sh where sh: "sh \<in> lang True (star_lazy dot)" "ahead ?s0 = sh @ ahead s1" "cap s1 1 = Some sh"
    using run_group_text [OF st(1) wf(1)] .
  obtain ds where ds: "ds \<in> lang True (between 1 2 digit_class)" "ahead s3 = ds @ ahead s4" "cap s4 2 = Some ds"
    using run_group_text [OF st(4) wf(4)] .
  obtain de where de: "de \<in> lang True (between 1 3 digit_class)" "ahead s5 = de @ ahead s6" "cap s6 3 = Some de"
    using run_group_text [OF st(6) wf(5)] .
  obtain sp t3 t5 tl where adv: "sp \<in> lang True (plus separator_class)" "ahead s1 = sp @ ahead s2"
    "t3 \<in> lang True (RChar (cu CHR ''S''))" "ahead s2 = t3 @ ahead s3"
    "t5 \<in> lang True (RChar (cu CHR ''E''))" "ahead s4 = t5 @ ahead s5"
    "tl \<in> lang True tail_regex" "ahead s6 = tl @ ahead s7"
    using run_advances [OF wf(2) st(2)] run_advances [OF wf(3) st(3)] run_advances [OF wf(3) st(5)]
      run_advances [OF wf(6) st(7)] by (auto simp only: advances_def)
  from adv(3,5) obtain c1 c2 where c: "t3 = [c1]" "c1 \<in> set (js ''Ss'')" "t5 = [c2]" "c2 \<in> set (js ''Ee'')"
    unfolding lang_S lang_E by blast
  have "episode_split base sh sp c1 ds c2 de tl"
    using sh(1,2) ds(1,2) de(1,2) adv c s7(2) unfolding episode_langs episode_split_def by simp
  moreover have "cap s7 1 = Some sh" "cap s7 2 = Some ds" "cap s7 3 = Some de"
    using sh(3) ds(3) de(3) run_frame [OF _ _ st(2)] run_frame [OF _ _ st(3)] run_frame [OF _ _ st(4)]
      run_frame [OF _ _ st(5)] run_frame [OF _ _ st(6)] run_frame [OF _ _ st(7)] wf
    by (simp_all add: class_defs tail_regex_def)
  ultimately show ?thesis using that s7(3) by (simp add: capture_def cap_def)
qed

section \<open>Bounds of a suggestion\<close>

lemma lang_year_pattern:
  assumes "t \<in> lang False year_pattern"
  obtains ds where "t = js ''19'' @ ds \<or> t = js ''20'' @ ds" "length ds = 2" "\<forall>c \<in> set ds. is_digit_cu c"
proof -
  have word: "char_matches False p c \<longleftrightarrow> c = p" for p c
    by (auto simp: char_matches_def canonicalize_def)
  have digits: "lang False (RRep 2 (Some 2) True digit_class) = {s. length s = 2 \<and> (\<forall>c \<in> set s. is_digit_cu c)}"
    unfolding lang_digits by auto
  have "t \<in> {u @ v | u v. u \<in> {js ''19'', js ''20''} \<and> v \<in> {s. length s = 2 \<and> (\<forall>c \<in> set s. is_digit_cu c)}}"
    using assms digits by (auto simp: year_pattern_def word_regex_def word simp del: lang.simps(5))
  then show ?thesis using that by auto
qed

lemma suggestYear_bounds:
  "suggestYear currentYear value = currentYear \<or>
   (\<exists>y. suggestYear currentYear value = of_count y \<and> 1900 \<le> y \<and> y \<le> 2099)"
proof (cases "exec_regex False year_pattern value")
  case (Some m)
  have "wf_regex year_pattern" by (simp add: year_pattern_def word_regex_def class_defs)
  from matched_text_lang [OF Some this] obtain ds
    where t: "matched_text m = js ''19'' @ ds \<or> matched_text m = js ''20'' @ ds"
      and ds: "length ds = 2" "\<forall>c \<in> set ds. is_digit_cu c"
    by (rule lang_year_pattern)
  from parse_digits_bound [OF ds(2)] ds(1) have "parse_digits ds < 100" by simp
  moreover have "parse_digits (js ''19'') = 19" "parse_digits (js ''20'') = 20"
    by (simp_all add: parse_digits_def digit_value_def unat_cu)
  ultimately have "1900 \<le> parse_digits (matched_text m)" "parse_digits (matched_text m) \<le> 2099"
    using t ds(1) parse_digits_append [of "js ''19''" ds] parse_digits_append [of "js ''20''" ds] by auto
  with Some show ?thesis by (auto simp: suggestYear_def)
qed (simp add: suggestYear_def)

text \<open>Season and episode of a suggestion, from the captured digits or the default.\<close>

lemma suggestDraft_numbers:
  "\<exists>s e. sd_season (suggestDraft cy c f) = of_count s \<and> sd_episode (suggestDraft cy c f) = of_count e
     \<and> s \<le> 99 \<and> e \<le> 999"
proof -
  define base where "base = strip_extension (base_name (mc_name c))"
  have one: "Fin 1 = of_count 1" by (simp add: of_count_def)
  show ?thesis
  proof (cases "exec_regex True episode_pattern base")
    case None
    then show ?thesis
      by (auto simp: suggestDraft_def base_def Let_def one intro!: exI [of _ "1::nat"] split: option.splits)
  next
    case (Some m)
    then obtain sh sp c1 ds c2 de tl where sp: "episode_split base sh sp c1 ds c2 de tl"
      and caps: "capture m 2 = Some ds" "capture m 3 = Some de"
      using exec_episode_pattern by metis
    have "parse_digits ds \<le> 99" "parse_digits de \<le> 999"
      using digits_at_most [of ds 2] digits_at_most [of de 3] sp by (auto simp: episode_split_def)
    with Some caps show ?thesis
      by (auto simp: suggestDraft_def base_def [symmetric] Let_def one)
  qed
qed

lemma suggestDraft_type:
  "sd_mediaType (suggestDraft cy c f) = (case f of Some t \<Rightarrow> t
     | None \<Rightarrow> if test_regex True episode_pattern (strip_extension (base_name (mc_name c))) then Episode else Movie)"
  by (auto simp: suggestDraft_def test_regex_def Let_def split: option.splits)

lemma suggestDraft_objectId [simp]: "sd_objectId (suggestDraft cy c f) = mc_objectId c"
  by (simp add: suggestDraft_def Let_def)

lemma suggestDraft_year:
  "sd_year (suggestDraft cy c f) = cy \<or> (\<exists>y. sd_year (suggestDraft cy c f) = of_count y \<and> 1900 \<le> y \<and> y \<le> 2099)"
  using suggestYear_bounds by (auto simp: suggestDraft_def Let_def)

text \<open>
  C32. A suggestion without a forced type is an episode exactly when the file's base name, without its
  extension, splits as the naming convention says: a show name, separators, the letter S in either case
  with one or two digits, the letter E with one to three digits, and optionally a separator and a rest
  of one line. The regular expression run by the matcher decides precisely this.
\<close>

theorem suggestDraft_episode_iff:
  "sd_mediaType (suggestDraft currentYear candidate None) = Episode \<longleftrightarrow>
     (\<exists>show seps c1 ds c2 de tail.
        episode_split (strip_extension (base_name (mc_name candidate))) show seps c1 ds c2 de tail)"
  by (simp add: suggestDraft_type test_episode_pattern)

text \<open>
  Whatever the file is called, and whichever type is forced, the suggested season is at most 99, the
  episode at most 999, and the year is the current one or lies between 1900 and 2099; the draft keeps
  the candidate's identifier.
\<close>

lemma suggestDraft_bounds:
  "(\<exists>season episode. sd_season (suggestDraft currentYear candidate forcedType) = of_count season
      \<and> sd_episode (suggestDraft currentYear candidate forcedType) = of_count episode
      \<and> season \<le> 99 \<and> episode \<le> 999)
   \<and> (sd_year (suggestDraft currentYear candidate forcedType) = currentYear
      \<or> (\<exists>y. sd_year (suggestDraft currentYear candidate forcedType) = of_count y \<and> 1900 \<le> y \<and> y \<le> 2099))
   \<and> sd_objectId (suggestDraft currentYear candidate forcedType) = mc_objectId candidate"
  using suggestDraft_numbers suggestDraft_year by simp

end
