(* ===== verification/Setup_Guards.thy ===== *)
theory Setup_Guards
  imports Setup_Types
begin

text \<open>
  The type guards of \<open>web/src/lib/api.ts\<close>: which JSON values the console accepts from the server,
  and how an accepted value is read. Each guard is shown to satisfy the contract \<open>type_guard\<close>.
  \<open>Number.isFinite(Date.parse(s))\<close> is the argument \<open>dateFinite\<close>: which strings
  other than ISO timestamps \<open>Date.parse\<close> accepts is left to the host.
\<close>

section \<open>Guards\<close>

definition isRecord :: "json \<Rightarrow> bool" where
  "isRecord v = (case v of JObject _ \<Rightarrow> True | _ \<Rightarrow> False)"

definition isErrorEnvelope :: "json \<Rightarrow> bool" where
  "isErrorEnvelope v \<longleftrightarrow> isRecord v \<and> is_string (property v ''code'') \<and> is_string (property v ''message'')"

definition isCandidate :: "json \<Rightarrow> bool" where
  "isCandidate v \<longleftrightarrow> isRecord v
     \<and> (property v ''provider'' = None \<or> is_string (property v ''provider''))
     \<and> is_string (property v ''objectId'')
     \<and> is_string (property v ''name'')
     \<and> (property v ''extension'' = Some (json_str ''.mp4'') \<or> property v ''extension'' = Some (json_str ''.mkv''))
     \<and> is_number (property v ''size'')"

definition isConfiguration :: "json \<Rightarrow> bool" where
  "isConfiguration v \<longleftrightarrow> isRecord v
     \<and> is_string (property v ''objectId'')
     \<and> is_string (property v ''name'')
     \<and> (property v ''extension'' = Some (json_str ''.mp4'') \<or> property v ''extension'' = Some (json_str ''.mkv''))
     \<and> is_number (property v ''size'')
     \<and> (property v ''mediaType'' = Some (json_str ''movie'') \<or> property v ''mediaType'' = Some (json_str ''episode''))
     \<and> is_string (property v ''title'')
     \<and> is_number (property v ''year'')
     \<and> (property v ''showTitle'' = None \<or> is_string (property v ''showTitle''))
     \<and> (property v ''season'' = None \<or> is_number (property v ''season''))
     \<and> (property v ''episode'' = None \<or> is_number (property v ''episode''))"

definition isCount :: "json option \<Rightarrow> bool" where
  "isCount v \<longleftrightarrow> is_number v \<and> isInteger (as_number v) \<and> js_ge (as_number v) (Fin 0)"

definition isNonNegativeInteger :: "json option \<Rightarrow> bool" where
  "isNonNegativeInteger v \<longleftrightarrow> is_number v \<and> isInteger (as_number v) \<and> js_ge (as_number v) (Fin 0)"

definition isSetupStatus :: "json \<Rightarrow> bool" where
  "isSetupStatus v =
     (if \<not> isRecord v
         \<or> \<not> is_boolean (property v ''setupRequired'')
         \<or> \<not> is_boolean (property v ''tokenConfigured'')
         \<or> \<not> is_string (property v ''csrfToken'')
         \<or> (case property v ''selected'' of None \<Rightarrow> False | Some c \<Rightarrow> \<not> isConfiguration c)
         \<or> (property v ''selectedItems'' \<noteq> None
            \<and> (\<not> isArray (property v ''selectedItems'')
               \<or> \<not> list_all isConfiguration (as_array (property v ''selectedItems''))))
      then False
      else
        let availabilityMissing = property v ''savedItemCount'' = None
              \<and> property v ''activeItemCount'' = None
              \<and> property v ''unavailableItemCount'' = None
              \<and> property v ''degraded'' = None
        in if availabilityMissing then True
           else if \<not> isNonNegativeInteger (property v ''savedItemCount'')
              \<or> \<not> isNonNegativeInteger (property v ''activeItemCount'')
              \<or> \<not> isNonNegativeInteger (property v ''unavailableItemCount'')
              \<or> \<not> is_boolean (property v ''degraded'')
           then False
           else
             let saved = as_number (property v ''savedItemCount'');
                 active = as_number (property v ''activeItemCount'');
                 unavailable = as_number (property v ''unavailableItemCount'');
                 selectedCount =
                   (if isArray (property v ''selectedItems'')
                    then of_count (length (as_array (property v ''selectedItems'')))
                    else if property v ''selected'' = None then Fin 0 else Fin 1)
             in js_num_eq active selectedCount
                \<and> js_ge saved active
                \<and> js_num_eq unavailable (js_sub saved active)
                \<and> as_boolean (property v ''degraded'') =
                    (js_less (Fin 0) active \<and> js_less (Fin 0) unavailable))"

definition isCandidateEnvelope :: "json \<Rightarrow> bool" where
  "isCandidateEnvelope v \<longleftrightarrow> isRecord v \<and> isArray (property v ''candidates'')
     \<and> list_all isCandidate (as_array (property v ''candidates''))"

definition isSelectionEnvelope :: "json \<Rightarrow> bool" where
  "isSelectionEnvelope v \<longleftrightarrow> isRecord v
     \<and> (case property v ''selected'' of None \<Rightarrow> False | Some c \<Rightarrow> isConfiguration c)
     \<and> isArray (property v ''selectedItems'')
     \<and> 0 < length (as_array (property v ''selectedItems''))
     \<and> list_all isConfiguration (as_array (property v ''selectedItems''))"

definition isAcquisitionStatus :: "json \<Rightarrow> bool" where
  "isAcquisitionStatus v \<longleftrightarrow> isRecord v \<and> is_boolean (property v ''configured'')"

definition isWatchlistQueueStatus :: "json option \<Rightarrow> bool" where
  "isWatchlistQueueStatus q = (case q of None \<Rightarrow> False | Some v \<Rightarrow> isRecord v
     \<and> isCount (property v ''pendingMovies'')
     \<and> isCount (property v ''acquiring'')
     \<and> isCount (property v ''succeeded'')
     \<and> isCount (property v ''notCached'')
     \<and> isCount (property v ''retryable'')
     \<and> isCount (property v ''manualReview'')
     \<and> isCount (property v ''observedShows''))"

definition isWatchlistStatus :: "(jsstring \<Rightarrow> bool) \<Rightarrow> json \<Rightarrow> bool" where
  "isWatchlistStatus dateFinite v \<longleftrightarrow> isRecord v
     \<and> is_boolean (property v ''enabled'')
     \<and> is_boolean (property v ''healthy'')
     \<and> is_boolean (property v ''acquisitionEnabled'')
     \<and> (property v ''showPolicy'' = Some (json_str ''off'') \<or> property v ''showPolicy'' = Some (json_str ''pilot''))
     \<and> (property v ''lastSyncAt'' = None
        \<or> is_string (property v ''lastSyncAt'') \<and> dateFinite (as_string (property v ''lastSyncAt'')))
     \<and> isWatchlistQueueStatus (property v ''queue'')"

definition isAcquisitionJobState :: "json option \<Rightarrow> bool" where
  "isAcquisitionJobState v \<longleftrightarrow>
     v = Some (json_str ''queued'') \<or> v = Some (json_str ''selected'') \<or> v = Some (json_str ''preparing'')
     \<or> v = Some (json_str ''succeeded'') \<or> v = Some (json_str ''failed'') \<or> v = Some (json_str ''manual_review'')"

definition isAcquisitionJobError :: "json option \<Rightarrow> bool" where
  "isAcquisitionJobError v \<longleftrightarrow>
     v = Some (json_str ''provider_unavailable'') \<or> v = Some (json_str ''unauthorized'')
     \<or> v = Some (json_str ''no_release'') \<or> v = Some (json_str ''no_playable_media'')
     \<or> v = Some (json_str ''materialization_failed'') \<or> v = Some (json_str ''stalled'')
     \<or> v = Some (json_str ''ambiguous_mutation'')"

text \<open>\<open>/^[0-9a-f]{n}$/\<close>.\<close>

definition hex_pattern :: "nat \<Rightarrow> regex" where
  "hex_pattern n = anchored (RRep n (Some n) True (RSet is_hex_cu))"

definition isAcquisitionJob :: "(jsstring \<Rightarrow> bool) \<Rightarrow> json \<Rightarrow> bool" where
  "isAcquisitionJob dateFinite v =
     (if \<not> isRecord v
         \<or> \<not> is_string (property v ''id'') \<or> \<not> test_regex False (hex_pattern 32) (as_string (property v ''id''))
         \<or> \<not> isAcquisitionJobState (property v ''state'')
         \<or> (property v ''mediaType'' \<noteq> Some (json_str ''movie'') \<and> property v ''mediaType'' \<noteq> Some (json_str ''episode''))
         \<or> \<not> is_string (property v ''title'') \<or> length (as_string (property v ''title'')) = 0
         \<or> 200 < length (as_string (property v ''title''))
         \<or> \<not> is_number (property v ''year'') \<or> \<not> isInteger (as_number (property v ''year''))
         \<or> js_less (as_number (property v ''year'')) (Fin 1888) \<or> js_less (Fin 2100) (as_number (property v ''year''))
         \<or> \<not> isCount (property v ''progress'') \<or> js_less (Fin 100) (as_number (property v ''progress''))
         \<or> \<not> is_string (property v ''createdAt'') \<or> \<not> dateFinite (as_string (property v ''createdAt''))
         \<or> \<not> is_string (property v ''updatedAt'') \<or> \<not> dateFinite (as_string (property v ''updatedAt''))
         \<or> (property v ''errorCode'' \<noteq> None \<and> \<not> isAcquisitionJobError (property v ''errorCode''))
      then False
      else if property v ''mediaType'' = Some (json_str ''episode'')
      then is_number (property v ''season'') \<and> isInteger (as_number (property v ''season''))
           \<and> js_ge (as_number (property v ''season'')) (Fin 0) \<and> js_le (as_number (property v ''season'')) (Fin 99)
           \<and> is_number (property v ''episode'') \<and> isInteger (as_number (property v ''episode''))
           \<and> js_ge (as_number (property v ''episode'')) (Fin 1) \<and> js_le (as_number (property v ''episode'')) (Fin 999)
      else property v ''season'' = None \<and> property v ''episode'' = None)"

definition isAcquisitionJobSubmission :: "(jsstring \<Rightarrow> bool) \<Rightarrow> json \<Rightarrow> bool" where
  "isAcquisitionJobSubmission dateFinite v \<longleftrightarrow> isRecord v
     \<and> (case property v ''job'' of None \<Rightarrow> False | Some j \<Rightarrow> isAcquisitionJob dateFinite j)
     \<and> is_boolean (property v ''created'')"

definition isAcquisitionJobList :: "(jsstring \<Rightarrow> bool) \<Rightarrow> json \<Rightarrow> bool" where
  "isAcquisitionJobList dateFinite v \<longleftrightarrow> isRecord v \<and> isArray (property v ''jobs'')
     \<and> length (as_array (property v ''jobs'')) \<le> 20
     \<and> list_all (isAcquisitionJob dateFinite) (as_array (property v ''jobs''))"

section \<open>Reading accepted values\<close>

definition as_candidate :: "json \<Rightarrow> media_candidate" where
  "as_candidate v = \<lparr>
     mc_provider = as_optional as_string (property v ''provider''),
     mc_objectId = as_string (property v ''objectId''),
     mc_name = as_string (property v ''name''),
     mc_extension = as_extension (property v ''extension''),
     mc_size = as_number (property v ''size'')\<rparr>"

definition as_configuration :: "json \<Rightarrow> setup_configuration" where
  "as_configuration v = \<lparr>
     sc_objectId = as_string (property v ''objectId''),
     sc_name = as_string (property v ''name''),
     sc_extension = as_extension (property v ''extension''),
     sc_size = as_number (property v ''size''),
     sc_mediaType = as_media_type (property v ''mediaType''),
     sc_title = as_string (property v ''title''),
     sc_year = as_number (property v ''year''),
     sc_showTitle = as_optional as_string (property v ''showTitle''),
     sc_season = as_optional as_number (property v ''season''),
     sc_episode = as_optional as_number (property v ''episode'')\<rparr>"

definition as_status_payload :: "json \<Rightarrow> setup_status_payload" where
  "as_status_payload v = \<lparr>
     sp_setupRequired = as_boolean (property v ''setupRequired''),
     sp_tokenConfigured = as_boolean (property v ''tokenConfigured''),
     sp_csrfToken = as_string (property v ''csrfToken''),
     sp_selected = map_option as_configuration (property v ''selected''),
     sp_selectedItems = as_optional (map as_configuration \<circ> as_array) (property v ''selectedItems''),
     sp_savedItemCount = as_optional as_number (property v ''savedItemCount''),
     sp_activeItemCount = as_optional as_number (property v ''activeItemCount''),
     sp_unavailableItemCount = as_optional as_number (property v ''unavailableItemCount''),
     sp_degraded = as_optional as_boolean (property v ''degraded'')\<rparr>"

definition as_watchlist_queue :: "json \<Rightarrow> watchlist_queue" where
  "as_watchlist_queue v = \<lparr>
     wq_pendingMovies = as_number (property v ''pendingMovies''),
     wq_acquiring = as_number (property v ''acquiring''),
     wq_succeeded = as_number (property v ''succeeded''),
     wq_notCached = as_number (property v ''notCached''),
     wq_retryable = as_number (property v ''retryable''),
     wq_manualReview = as_number (property v ''manualReview''),
     wq_observedShows = as_number (property v ''observedShows'')\<rparr>"

definition as_watchlist_status :: "json \<Rightarrow> watchlist_status" where
  "as_watchlist_status v = \<lparr>
     ws_enabled = as_boolean (property v ''enabled''),
     ws_healthy = as_boolean (property v ''healthy''),
     ws_acquisitionEnabled = as_boolean (property v ''acquisitionEnabled''),
     ws_showPolicy = as_show_policy (property v ''showPolicy''),
     ws_lastSyncAt = as_optional as_string (property v ''lastSyncAt''),
     ws_queue = as_watchlist_queue (case property v ''queue'' of None \<Rightarrow> JNull | Some q \<Rightarrow> q)\<rparr>"

definition as_acquisition_job :: "json \<Rightarrow> acquisition_job" where
  "as_acquisition_job v = \<lparr>
     aj_id = as_string (property v ''id''),
     aj_state = as_job_state (property v ''state''),
     aj_mediaType = as_media_type (property v ''mediaType''),
     aj_title = as_string (property v ''title''),
     aj_year = as_number (property v ''year''),
     aj_season = as_optional as_number (property v ''season''),
     aj_episode = as_optional as_number (property v ''episode''),
     aj_progress = as_number (property v ''progress''),
     aj_errorCode = as_optional as_job_error (property v ''errorCode''),
     aj_createdAt = as_string (property v ''createdAt''),
     aj_updatedAt = as_string (property v ''updatedAt'')\<rparr>"

definition as_candidates :: "json \<Rightarrow> media_candidate list" where
  "as_candidates v = map as_candidate (as_array (property v ''candidates''))"

definition as_apply_result :: "json \<Rightarrow> apply_result" where
  "as_apply_result v = \<lparr>
     ar_selected = as_configuration (case property v ''selected'' of None \<Rightarrow> JNull | Some c \<Rightarrow> c),
     ar_selectedItems = map as_configuration (as_array (property v ''selectedItems''))\<rparr>"

definition as_configured :: "json \<Rightarrow> bool" where
  "as_configured v = as_boolean (property v ''configured'')"

definition as_job_submission :: "json \<Rightarrow> acquisition_job \<times> bool" where
  "as_job_submission v =
     (as_acquisition_job (case property v ''job'' of None \<Rightarrow> JNull | Some j \<Rightarrow> j),
      as_boolean (property v ''created''))"

definition as_job_list :: "json \<Rightarrow> acquisition_job list" where
  "as_job_list v = map as_acquisition_job (as_array (property v ''jobs''))"

section \<open>JSON forms\<close>

definition encode_candidate :: "media_candidate \<Rightarrow> json" where
  "encode_candidate c = obj [
     (''provider'', map_option JString (mc_provider c)),
     (''objectId'', Some (JString (mc_objectId c))),
     (''name'', Some (JString (mc_name c))),
     (''extension'', Some (json_str (extension_string (mc_extension c)))),
     (''size'', Some (JNumber (mc_size c)))]"

definition encode_configuration :: "setup_configuration \<Rightarrow> json" where
  "encode_configuration c = obj [
     (''objectId'', Some (JString (sc_objectId c))),
     (''name'', Some (JString (sc_name c))),
     (''extension'', Some (json_str (extension_string (sc_extension c)))),
     (''size'', Some (JNumber (sc_size c))),
     (''mediaType'', Some (json_str (media_type_string (sc_mediaType c)))),
     (''title'', Some (JString (sc_title c))),
     (''year'', Some (JNumber (sc_year c))),
     (''showTitle'', map_option JString (sc_showTitle c)),
     (''season'', map_option JNumber (sc_season c)),
     (''episode'', map_option JNumber (sc_episode c))]"

definition encode_watchlist_queue :: "watchlist_queue \<Rightarrow> json" where
  "encode_watchlist_queue q = obj [
     (''pendingMovies'', Some (JNumber (wq_pendingMovies q))),
     (''acquiring'', Some (JNumber (wq_acquiring q))),
     (''succeeded'', Some (JNumber (wq_succeeded q))),
     (''notCached'', Some (JNumber (wq_notCached q))),
     (''retryable'', Some (JNumber (wq_retryable q))),
     (''manualReview'', Some (JNumber (wq_manualReview q))),
     (''observedShows'', Some (JNumber (wq_observedShows q)))]"

definition encode_watchlist_status :: "watchlist_status \<Rightarrow> json" where
  "encode_watchlist_status s = obj [
     (''enabled'', Some (JBool (ws_enabled s))),
     (''healthy'', Some (JBool (ws_healthy s))),
     (''acquisitionEnabled'', Some (JBool (ws_acquisitionEnabled s))),
     (''showPolicy'', Some (json_str (show_policy_string (ws_showPolicy s)))),
     (''lastSyncAt'', map_option JString (ws_lastSyncAt s)),
     (''queue'', Some (encode_watchlist_queue (ws_queue s)))]"

definition encode_acquisition_job :: "acquisition_job \<Rightarrow> json" where
  "encode_acquisition_job j = obj [
     (''id'', Some (JString (aj_id j))),
     (''state'', Some (json_str (job_state_string (aj_state j)))),
     (''mediaType'', Some (json_str (media_type_string (aj_mediaType j)))),
     (''title'', Some (JString (aj_title j))),
     (''year'', Some (JNumber (aj_year j))),
     (''season'', map_option JNumber (aj_season j)),
     (''episode'', map_option JNumber (aj_episode j)),
     (''progress'', Some (JNumber (aj_progress j))),
     (''errorCode'', map_option (\<lambda>e. json_str (job_error_string e)) (aj_errorCode j)),
     (''createdAt'', Some (JString (aj_createdAt j))),
     (''updatedAt'', Some (JString (aj_updatedAt j)))]"

lemmas view_defs =
  as_candidate_def as_configuration_def as_status_payload_def as_watchlist_queue_def
  as_watchlist_status_def as_acquisition_job_def

lemmas encode_defs =
  encode_candidate_def encode_configuration_def encode_watchlist_queue_def
  encode_watchlist_status_def encode_acquisition_job_def

section \<open>Well-formed values\<close>

definition count_number :: "number \<Rightarrow> bool" where
  "count_number n \<longleftrightarrow> isInteger n \<and> js_ge n (Fin 0)"

definition in_range :: "int \<Rightarrow> int \<Rightarrow> number \<Rightarrow> bool" where
  "in_range lo hi n \<longleftrightarrow> isInteger n \<and> js_ge n (Fin (of_int lo)) \<and> js_le n (Fin (of_int hi))"

definition wf_queue :: "watchlist_queue \<Rightarrow> bool" where
  "wf_queue q \<longleftrightarrow> count_number (wq_pendingMovies q) \<and> count_number (wq_acquiring q)
     \<and> count_number (wq_succeeded q) \<and> count_number (wq_notCached q) \<and> count_number (wq_retryable q)
     \<and> count_number (wq_manualReview q) \<and> count_number (wq_observedShows q)"

definition wf_watchlist :: "(jsstring \<Rightarrow> bool) \<Rightarrow> watchlist_status \<Rightarrow> bool" where
  "wf_watchlist dateFinite s \<longleftrightarrow>
     (case ws_lastSyncAt s of None \<Rightarrow> True | Some t \<Rightarrow> dateFinite t) \<and> wf_queue (ws_queue s)"

definition hex_string :: "nat \<Rightarrow> jsstring \<Rightarrow> bool" where
  "hex_string n s \<longleftrightarrow> length s = n \<and> (\<forall>c \<in> set s. is_hex_cu c)"

definition wf_job :: "(jsstring \<Rightarrow> bool) \<Rightarrow> acquisition_job \<Rightarrow> bool" where
  "wf_job dateFinite j \<longleftrightarrow> hex_string 32 (aj_id j)
     \<and> 1 \<le> length (aj_title j) \<and> length (aj_title j) \<le> 200
     \<and> in_range 1888 2100 (aj_year j) \<and> in_range 0 100 (aj_progress j)
     \<and> dateFinite (aj_createdAt j) \<and> dateFinite (aj_updatedAt j)
     \<and> (case aj_mediaType j of
          Movie \<Rightarrow> aj_season j = None \<and> aj_episode j = None
        | Episode \<Rightarrow> (case aj_season j of None \<Rightarrow> False | Some s \<Rightarrow> in_range 0 99 s)
                    \<and> (case aj_episode j of None \<Rightarrow> False | Some e \<Rightarrow> in_range 1 999 e))"

section \<open>The guards satisfy their contract\<close>

lemma test_hex_pattern [simp]: "test_regex ic (hex_pattern n) s \<longleftrightarrow> hex_string n s"
  unfolding hex_pattern_def by (subst test_anchored) (auto simp: lang_RRep_RSet hex_string_def simp del: lang.simps)

lemma isRecord_obj [simp]: "isRecord (obj kvs)"
  by (simp add: isRecord_def obj_def)

lemma enum_faithful [simp]:
  "v = Some (json_str ''.mp4'') \<or> v = Some (json_str ''.mkv'') \<Longrightarrow>
     Some (json_str (extension_string (as_extension v))) = v"
  "v = Some (json_str ''movie'') \<or> v = Some (json_str ''episode'') \<Longrightarrow>
     Some (json_str (media_type_string (as_media_type v))) = v"
  "v = Some (json_str ''off'') \<or> v = Some (json_str ''pilot'') \<Longrightarrow>
     Some (json_str (show_policy_string (as_show_policy v))) = v"
  "isAcquisitionJobState v \<Longrightarrow> Some (json_str (job_state_string (as_job_state v))) = v"
  "isAcquisitionJobError v \<Longrightarrow> Some (json_str (job_error_string (as_job_error v))) = v"
  unfolding isAcquisitionJobState_def isAcquisitionJobError_def
  by (auto simp: as_enum_defs as_member_def)

lemma enum_accepted [simp]:
  "extension_string e = ''.mp4'' \<or> extension_string e = ''.mkv''"
  "media_type_string m = ''movie'' \<or> media_type_string m = ''episode''"
  "show_policy_string p = ''off'' \<or> show_policy_string p = ''pilot''"
  "isAcquisitionJobState (Some (json_str (job_state_string st)))"
  "isAcquisitionJobError (Some (json_str (job_error_string err)))"
  subgoal by (cases e) simp_all
  subgoal by (cases m) simp_all
  subgoal by (cases p) simp_all
  subgoal by (cases st) (simp_all add: isAcquisitionJobState_def)
  subgoal by (cases err) (simp_all add: isAcquisitionJobError_def)
  done

lemma optional_encoded [simp]:
  "is_string (map_option JString x) \<longleftrightarrow> x \<noteq> None"
  "is_number (map_option JNumber y) \<longleftrightarrow> y \<noteq> None"
  "as_optional as_string (map_option JString x) = x"
  "as_optional as_number (map_option JNumber y) = y"
  "as_optional as_job_error (map_option (\<lambda>e. json_str (job_error_string e)) z) = z"
  "map_option (\<lambda>e. json_str (job_error_string e)) z = None \<longleftrightarrow> z = None"
  by (cases x; cases y; cases z; simp)+

text \<open>The members of an encoded value, read by name.\<close>

lemma property_encode_candidate:
  "property (encode_candidate c) k = Option.bind (map_of [
     (''provider'', map_option JString (mc_provider c)),
     (''objectId'', Some (JString (mc_objectId c))),
     (''name'', Some (JString (mc_name c))),
     (''extension'', Some (json_str (extension_string (mc_extension c)))),
     (''size'', Some (JNumber (mc_size c)))] k) id"
  unfolding encode_candidate_def by (rule property_obj) simp

lemma property_encode_configuration:
  "property (encode_configuration c) k = Option.bind (map_of [
     (''objectId'', Some (JString (sc_objectId c))),
     (''name'', Some (JString (sc_name c))),
     (''extension'', Some (json_str (extension_string (sc_extension c)))),
     (''size'', Some (JNumber (sc_size c))),
     (''mediaType'', Some (json_str (media_type_string (sc_mediaType c)))),
     (''title'', Some (JString (sc_title c))),
     (''year'', Some (JNumber (sc_year c))),
     (''showTitle'', map_option JString (sc_showTitle c)),
     (''season'', map_option JNumber (sc_season c)),
     (''episode'', map_option JNumber (sc_episode c))] k) id"
  unfolding encode_configuration_def by (rule property_obj) simp

lemma property_encode_watchlist_queue:
  "property (encode_watchlist_queue q) k = Option.bind (map_of [
     (''pendingMovies'', Some (JNumber (wq_pendingMovies q))),
     (''acquiring'', Some (JNumber (wq_acquiring q))),
     (''succeeded'', Some (JNumber (wq_succeeded q))),
     (''notCached'', Some (JNumber (wq_notCached q))),
     (''retryable'', Some (JNumber (wq_retryable q))),
     (''manualReview'', Some (JNumber (wq_manualReview q))),
     (''observedShows'', Some (JNumber (wq_observedShows q)))] k) id"
  unfolding encode_watchlist_queue_def by (rule property_obj) simp

lemma property_encode_watchlist_status:
  "property (encode_watchlist_status s) k = Option.bind (map_of [
     (''enabled'', Some (JBool (ws_enabled s))),
     (''healthy'', Some (JBool (ws_healthy s))),
     (''acquisitionEnabled'', Some (JBool (ws_acquisitionEnabled s))),
     (''showPolicy'', Some (json_str (show_policy_string (ws_showPolicy s)))),
     (''lastSyncAt'', map_option JString (ws_lastSyncAt s)),
     (''queue'', Some (encode_watchlist_queue (ws_queue s)))] k) id"
  unfolding encode_watchlist_status_def by (rule property_obj) simp

lemma property_encode_acquisition_job:
  "property (encode_acquisition_job j) k = Option.bind (map_of [
     (''id'', Some (JString (aj_id j))),
     (''state'', Some (json_str (job_state_string (aj_state j)))),
     (''mediaType'', Some (json_str (media_type_string (aj_mediaType j)))),
     (''title'', Some (JString (aj_title j))),
     (''year'', Some (JNumber (aj_year j))),
     (''season'', map_option JNumber (aj_season j)),
     (''episode'', map_option JNumber (aj_episode j)),
     (''progress'', Some (JNumber (aj_progress j))),
     (''errorCode'', map_option (\<lambda>e. json_str (job_error_string e)) (aj_errorCode j)),
     (''createdAt'', Some (JString (aj_createdAt j))),
     (''updatedAt'', Some (JString (aj_updatedAt j)))] k) id"
  unfolding encode_acquisition_job_def by (rule property_obj) simp

lemmas property_encode =
  property_encode_candidate property_encode_configuration property_encode_watchlist_queue property_encode_watchlist_status property_encode_acquisition_job

lemma isRecord_encode [simp]:
  "isRecord (encode_candidate x0)"
  "isRecord (encode_configuration x1)"
  "isRecord (encode_watchlist_queue x2)"
  "isRecord (encode_watchlist_status x3)"
  "isRecord (encode_acquisition_job x4)"
  by (simp_all add: encode_defs)

lemmas guard_contract_simps = property_encode view_defs

interpretation candidate: type_guard isCandidate as_candidate encode_candidate
  "[''provider'', ''objectId'', ''name'', ''extension'', ''size'']" "\<lambda>_. True"
proof unfold_locales
  fix v k assume "isCandidate v" "k \<in> set [''provider'', ''objectId'', ''name'', ''extension'', ''size'']"
  then show "property (encode_candidate (as_candidate v)) k = property v k"
    by (auto simp: guard_contract_simps isCandidate_def)
next
  fix x show "isCandidate (encode_candidate x)"
    by (auto simp: guard_contract_simps isCandidate_def)
qed (simp_all add: guard_contract_simps)

interpretation configuration: type_guard isConfiguration as_configuration encode_configuration
  "[''objectId'', ''name'', ''extension'', ''size'', ''mediaType'', ''title'', ''year'',
    ''showTitle'', ''season'', ''episode'']" "\<lambda>_. True"
proof unfold_locales
  fix v k assume "isConfiguration v" "k \<in> set [''objectId'', ''name'', ''extension'', ''size'',
    ''mediaType'', ''title'', ''year'', ''showTitle'', ''season'', ''episode'']"
  then show "property (encode_configuration (as_configuration v)) k = property v k"
    by (auto simp: guard_contract_simps isConfiguration_def)
next
  fix x show "isConfiguration (encode_configuration x)"
    by (auto simp: guard_contract_simps isConfiguration_def)
qed (simp_all add: guard_contract_simps)

lemma isCount_iff: "isCount v \<longleftrightarrow> is_number v \<and> count_number (as_number v)"
  by (simp add: isCount_def count_number_def)

lemma isNonNegativeInteger_iff: "isNonNegativeInteger v \<longleftrightarrow> isCount v"
  by (simp add: isNonNegativeInteger_def isCount_def)

lemma in_range_iff: "in_range lo hi n \<longleftrightarrow> (\<exists>i. n = Fin (of_int i) \<and> lo \<le> i \<and> i \<le> hi)"
  by (auto simp: in_range_def isInteger_iff)

lemma count_number_iff: "count_number n \<longleftrightarrow> (\<exists>i. n = of_count i)"
proof
  assume "count_number n"
  then obtain i where i: "n = Fin (of_int i)" "0 \<le> i"
    by (auto simp: count_number_def isInteger_iff)
  then have "n = of_count (nat i)" by (simp add: of_count_def)
  then show "\<exists>i. n = of_count i" ..
qed (auto simp: count_number_def of_count_def isInteger_def)

lemma count_number_range: "in_range lo hi n \<Longrightarrow> 0 \<le> lo \<Longrightarrow> count_number n"
  by (auto simp: in_range_iff count_number_def)

text \<open>Outside the guard's bounds is the same as not in range, for integers.\<close>

lemma integer_in_range:
  "isInteger n \<Longrightarrow>
   in_range lo hi n \<longleftrightarrow> \<not> js_less n (Fin (of_int lo)) \<and> \<not> js_less (Fin (of_int hi)) n"
  by (auto simp: in_range_def isInteger_iff)

interpretation queue: type_guard "\<lambda>v. isWatchlistQueueStatus (Some v)" as_watchlist_queue encode_watchlist_queue
  "[''pendingMovies'', ''acquiring'', ''succeeded'', ''notCached'', ''retryable'', ''manualReview'',
    ''observedShows'']" wf_queue
proof unfold_locales
  fix v k assume "isWatchlistQueueStatus (Some v)" "k \<in> set [''pendingMovies'', ''acquiring'',
    ''succeeded'', ''notCached'', ''retryable'', ''manualReview'', ''observedShows'']"
  then show "property (encode_watchlist_queue (as_watchlist_queue v)) k = property v k"
    by (auto simp: guard_contract_simps isWatchlistQueueStatus_def isCount_iff)
next
  fix v assume "isWatchlistQueueStatus (Some v)"
  then show "wf_queue (as_watchlist_queue v)"
    by (simp add: isWatchlistQueueStatus_def wf_queue_def view_defs isCount_iff)
next
  fix x assume "wf_queue x"
  then show "isWatchlistQueueStatus (Some (encode_watchlist_queue x))"
    by (simp add: guard_contract_simps isWatchlistQueueStatus_def wf_queue_def isCount_iff)
qed (simp add: guard_contract_simps)

interpretation watchlist: type_guard "isWatchlistStatus dateFinite" as_watchlist_status encode_watchlist_status
  "[''enabled'', ''healthy'', ''acquisitionEnabled'', ''showPolicy'', ''lastSyncAt'']"
  "wf_watchlist dateFinite" for dateFinite
proof unfold_locales
  fix v k assume v: "isWatchlistStatus dateFinite v"
    and "k \<in> set [''enabled'', ''healthy'', ''acquisitionEnabled'', ''showPolicy'', ''lastSyncAt'']"
  moreover have "property v ''lastSyncAt'' = None \<or> is_string (property v ''lastSyncAt'')"
    using v by (auto simp: isWatchlistStatus_def)
  ultimately show "property (encode_watchlist_status (as_watchlist_status v)) k = property v k"
    unfolding list.set insert_iff
    by (elim disjE) (simp_all add: property_encode as_watchlist_status_def isWatchlistStatus_def)
next
  fix v assume v: "isWatchlistStatus dateFinite v"
  then obtain q where "property v ''queue'' = Some q" "wf_queue (as_watchlist_queue q)"
    using queue.constrained
    by (auto simp: isWatchlistStatus_def isWatchlistQueueStatus_def split: option.splits)
  with v show "wf_watchlist dateFinite (as_watchlist_status v)"
    by (auto simp: wf_watchlist_def as_watchlist_status_def isWatchlistStatus_def as_optional_def)
next
  fix x assume "wf_watchlist dateFinite x"
  then show "isWatchlistStatus dateFinite (encode_watchlist_status x)"
    by (auto simp: property_encode isWatchlistStatus_def wf_watchlist_def queue.guard_encode
        split: option.splits)
qed (simp add: property_encode as_watchlist_status_def queue.view_encode)

text \<open>What an accepted job satisfies, member by member.\<close>

lemma isAcquisitionJob_iff:
  "isAcquisitionJob dateFinite v \<longleftrightarrow> isRecord v
     \<and> is_string (property v ''id'') \<and> hex_string 32 (as_string (property v ''id''))
     \<and> isAcquisitionJobState (property v ''state'')
     \<and> (property v ''mediaType'' = Some (json_str ''movie'') \<or> property v ''mediaType'' = Some (json_str ''episode''))
     \<and> is_string (property v ''title'') \<and> 1 \<le> length (as_string (property v ''title''))
     \<and> length (as_string (property v ''title'')) \<le> 200
     \<and> is_number (property v ''year'') \<and> in_range 1888 2100 (as_number (property v ''year''))
     \<and> is_number (property v ''progress'') \<and> in_range 0 100 (as_number (property v ''progress''))
     \<and> is_string (property v ''createdAt'') \<and> dateFinite (as_string (property v ''createdAt''))
     \<and> is_string (property v ''updatedAt'') \<and> dateFinite (as_string (property v ''updatedAt''))
     \<and> (property v ''errorCode'' = None \<or> isAcquisitionJobError (property v ''errorCode''))
     \<and> (if property v ''mediaType'' = Some (json_str ''episode'')
        then is_number (property v ''season'') \<and> in_range 0 99 (as_number (property v ''season''))
             \<and> is_number (property v ''episode'') \<and> in_range 1 999 (as_number (property v ''episode''))
        else property v ''season'' = None \<and> property v ''episode'' = None)"
proof -
  have year: "isInteger n \<and> \<not> js_less n (Fin 1888) \<and> \<not> js_less (Fin 2100) n \<longleftrightarrow> in_range 1888 2100 n" for n
    using integer_in_range [of n 1888 2100] by (auto simp: in_range_def)
  have progress: "isCount w \<and> \<not> js_less (Fin 100) (as_number w)
      \<longleftrightarrow> is_number w \<and> in_range 0 100 (as_number w)" for w
    using integer_in_range [of "as_number w" 0 100] by (auto simp: isCount_iff in_range_def count_number_def isInteger_iff)
  have title: "length (as_string w) \<noteq> 0 \<longleftrightarrow> 1 \<le> length (as_string w)"
    "\<not> 200 < length (as_string w) \<longleftrightarrow> length (as_string w) \<le> 200" for w by linarith+
  show ?thesis
    unfolding isAcquisitionJob_def test_hex_pattern in_range_def [of 0 99] in_range_def [of 1 999]
      if_bool_eq_conj of_int_0 of_int_1 of_int_numeral
    using year [of "as_number (property v ''year'')"] progress [of "property v ''progress''"]
      title [of "property v ''title''"]
    by sat
qed

interpretation job: type_guard "isAcquisitionJob dateFinite" as_acquisition_job encode_acquisition_job
  "[''id'', ''state'', ''mediaType'', ''title'', ''year'', ''season'', ''episode'', ''progress'',
    ''errorCode'', ''createdAt'', ''updatedAt'']"
  "wf_job dateFinite" for dateFinite
proof unfold_locales
  fix v k assume v: "isAcquisitionJob dateFinite v"
    and "k \<in> set [''id'', ''state'', ''mediaType'', ''title'', ''year'', ''season'', ''episode'',
      ''progress'', ''errorCode'', ''createdAt'', ''updatedAt'']"
  moreover have "property v ''season'' = None \<or> is_number (property v ''season'')"
    "property v ''episode'' = None \<or> is_number (property v ''episode'')"
    "map_option (\<lambda>e. json_str (job_error_string e)) (as_optional as_job_error (property v ''errorCode''))
       = property v ''errorCode''"
    using v by (auto simp: isAcquisitionJob_iff as_optional_def split: if_splits)
  ultimately show "property (encode_acquisition_job (as_acquisition_job v)) k = property v k"
    unfolding list.set insert_iff
    by (elim disjE) (simp_all add: property_encode as_acquisition_job_def isAcquisitionJob_iff)
next
  fix v assume v: "isAcquisitionJob dateFinite v"
  have "as_media_type (property v ''mediaType'') = Episode \<longleftrightarrow> property v ''mediaType'' = Some (json_str ''episode'')"
    using v by (auto simp: isAcquisitionJob_iff as_enum_defs as_member_def)
  with v show "wf_job dateFinite (as_acquisition_job v)"
    by (auto simp: wf_job_def as_acquisition_job_def isAcquisitionJob_iff as_optional_def
        split: media_type.splits if_splits)
next
  fix x assume "wf_job dateFinite x"
  then show "isAcquisitionJob dateFinite (encode_acquisition_job x)"
    by (cases "aj_mediaType x"; cases "aj_errorCode x")
      (auto simp: isAcquisitionJob_iff property_encode wf_job_def split: option.splits)
next
  fix x show "as_acquisition_job (encode_acquisition_job x) = x"
    by (simp add: property_encode as_acquisition_job_def)
qed

section \<open>Envelopes\<close>

text \<open>The elements of an accepted envelope are accepted, so they are read without loss.\<close>

lemma isCandidateEnvelope_elements:
  "isCandidateEnvelope v \<Longrightarrow> list_all isCandidate (as_array (property v ''candidates''))"
  by (simp add: isCandidateEnvelope_def)

lemma isSelectionEnvelope_nonempty:
  "isSelectionEnvelope v \<Longrightarrow> ar_selectedItems (as_apply_result v) \<noteq> []"
  by (auto simp: isSelectionEnvelope_def as_apply_result_def)

lemma isAcquisitionJobList_jobs:
  assumes "isAcquisitionJobList dateFinite v"
  shows "length (as_job_list v) \<le> 20" "\<forall>j \<in> set (as_job_list v). wf_job dateFinite j"
  using assms job.constrained
  by (auto simp: isAcquisitionJobList_def as_job_list_def list_all_iff)

lemma isAcquisitionJobSubmission_job:
  "isAcquisitionJobSubmission dateFinite v \<Longrightarrow> wf_job dateFinite (fst (as_job_submission v))"
  using job.constrained
  by (auto simp: isAcquisitionJobSubmission_def as_job_submission_def split: option.splits)

end
