(* ===== verification/Js_Url.thy ===== *)
theory Js_Url
  imports Js_Prelude
begin

text \<open>
  Percent encoding as the console uses it: \<open>encodeURIComponent\<close>, and the parser behind
  \<open>URLSearchParams\<close> with its lossy UTF-8 decoder. Strings are code units, bytes are numbers below 256.
\<close>

section \<open>UTF-8\<close>

definition is_high_surrogate :: "code_unit \<Rightarrow> bool" where
  "is_high_surrogate c \<longleftrightarrow> 0xD800 \<le> unat c \<and> unat c \<le> 0xDBFF"

definition is_low_surrogate :: "code_unit \<Rightarrow> bool" where
  "is_low_surrogate c \<longleftrightarrow> 0xDC00 \<le> unat c \<and> unat c \<le> 0xDFFF"

definition surrogate_value :: "code_unit \<Rightarrow> code_unit \<Rightarrow> nat" where
  "surrogate_value c d = (unat c - 0xD800) * 1024 + (unat d - 0xDC00) + 0x10000"

definition utf8_bytes :: "nat \<Rightarrow> nat list" where
  "utf8_bytes n =
     (if n < 0x80 then [n]
      else if n < 0x800 then [0xC0 + n div 64, 0x80 + n mod 64]
      else if n < 0x10000 then [0xE0 + n div 4096, 0x80 + n div 64 mod 64, 0x80 + n mod 64]
      else [0xF0 + n div 262144, 0x80 + n div 4096 mod 64, 0x80 + n div 64 mod 64, 0x80 + n mod 64])"

text \<open>The code units of a code point.\<close>

definition utf16_units :: "nat \<Rightarrow> jsstring" where
  "utf16_units n = (if n < 0x10000 then [of_nat n]
     else [of_nat (0xD800 + (n - 0x10000) div 1024), of_nat (0xDC00 + (n - 0x10000) mod 1024)])"

text \<open>Encoding a string; an unpaired surrogate becomes the replacement character.\<close>

fun utf8_encode :: "jsstring \<Rightarrow> nat list" where
  "utf8_encode [] = []"
| "utf8_encode (c # s) =
     (if is_low_surrogate c then utf8_bytes 0xFFFD @ utf8_encode s
      else if is_high_surrogate c then
        (case s of d # s' \<Rightarrow>
             if is_low_surrogate d then utf8_bytes (surrogate_value c d) @ utf8_encode s'
             else utf8_bytes 0xFFFD @ utf8_encode s
         | [] \<Rightarrow> utf8_bytes 0xFFFD)
      else utf8_bytes (unat c) @ utf8_encode s)"

text \<open>
  Decoding: the bytes still needed, the bounds of the next one and the code point so far. A byte
  out of bounds ends the sequence with a replacement character and is read again.
\<close>

definition lead_byte :: "nat \<Rightarrow> (nat \<times> nat \<times> nat \<times> nat) option" where
  "lead_byte b =
     (if 0xC2 \<le> b \<and> b \<le> 0xDF then Some (1, 0x80, 0xBF, b - 0xC0)
      else if 0xE0 \<le> b \<and> b \<le> 0xEF
      then Some (2, if b = 0xE0 then 0xA0 else 0x80, if b = 0xED then 0x9F else 0xBF, b - 0xE0)
      else if 0xF0 \<le> b \<and> b \<le> 0xF4
      then Some (3, if b = 0xF0 then 0x90 else 0x80, if b = 0xF4 then 0x8F else 0xBF, b - 0xF0)
      else None)"

function utf8_decode_from :: "nat \<times> nat \<times> nat \<times> nat \<Rightarrow> nat list \<Rightarrow> jsstring" where
  "utf8_decode_from (needed, lower, upper, point) [] = (if needed = 0 then [] else [0xFFFD])"
| "utf8_decode_from (needed, lower, upper, point) (b # bs) =
     (if needed = 0 then
        (if b < 0x80 then of_nat b # utf8_decode_from (0, 0x80, 0xBF, 0) bs
         else case lead_byte b of
             None \<Rightarrow> 0xFFFD # utf8_decode_from (0, 0x80, 0xBF, 0) bs
           | Some st \<Rightarrow> utf8_decode_from st bs)
      else if b < lower \<or> upper < b then 0xFFFD # utf8_decode_from (0, 0x80, 0xBF, 0) (b # bs)
      else if needed = 1 then utf16_units (point * 64 + (b - 0x80)) @ utf8_decode_from (0, 0x80, 0xBF, 0) bs
      else utf8_decode_from (needed - 1, 0x80, 0xBF, point * 64 + (b - 0x80)) bs)"
  by pat_completeness auto
termination
  by (relation "measure (\<lambda>((needed, lower, upper, point), bs). 2 * length bs + (if needed = 0 then 0 else 1))") auto

definition utf8_decode :: "nat list \<Rightarrow> jsstring" where
  "utf8_decode bs = utf8_decode_from (0, 0x80, 0xBF, 0) bs"

section \<open>Percent encoding\<close>

definition is_unreserved_cu :: "code_unit \<Rightarrow> bool" where
  "is_unreserved_cu c \<longleftrightarrow>
     is_digit_cu c \<or> is_upper_cu c \<or> is_lower_cu c \<or> c \<in> set (js ''-_.!~*()'') \<or> unat c = 39"

definition hex_digit_upper :: "nat \<Rightarrow> code_unit" where
  "hex_digit_upper d = of_nat (if d < 10 then 48 + d else 55 + d)"

definition percent_encode :: "nat \<Rightarrow> jsstring" where
  "percent_encode n =
     concat (map (\<lambda>b. [cu CHR ''%'', hex_digit_upper (b div 16), hex_digit_upper (b mod 16)]) (utf8_bytes n))"

text \<open>
  \<open>encodeURIComponent\<close>: characters outside the unreserved set become the percent-encoded bytes
  of their UTF-8 form; an unpaired surrogate throws a \<open>URIError\<close>, here \<open>None\<close>.
\<close>

fun encodeURIComponent :: "jsstring \<Rightarrow> jsstring option" where
  "encodeURIComponent [] = Some []"
| "encodeURIComponent (c # s) =
     (if is_unreserved_cu c then map_option (Cons c) (encodeURIComponent s)
      else if is_low_surrogate c then None
      else if is_high_surrogate c then
        (case s of [] \<Rightarrow> None
         | d # s' \<Rightarrow>
             if is_low_surrogate d
             then map_option (append (percent_encode (surrogate_value c d))) (encodeURIComponent s')
             else None)
      else map_option (append (percent_encode (unat c))) (encodeURIComponent s))"

text \<open>The value of a hexadecimal digit in a byte sequence, and percent decoding of bytes.\<close>

definition hex_value :: "nat \<Rightarrow> nat option" where
  "hex_value b =
     (if 48 \<le> b \<and> b \<le> 57 then Some (b - 48)
      else if 65 \<le> b \<and> b \<le> 70 then Some (b - 55)
      else if 97 \<le> b \<and> b \<le> 102 then Some (b - 87) else None)"

fun percent_decode :: "nat list \<Rightarrow> nat list" where
  "percent_decode [] = []"
| "percent_decode (b # bs) =
     (if b = 37 then
        (case bs of h # l # bs' \<Rightarrow>
            (case (hex_value h, hex_value l) of
               (Some x, Some y) \<Rightarrow> (16 * x + y) # percent_decode bs'
             | _ \<Rightarrow> 37 # percent_decode bs)
         | _ \<Rightarrow> 37 # percent_decode bs)
      else b # percent_decode bs)"

section \<open>Search parameters\<close>

definition plus_to_space :: "jsstring \<Rightarrow> jsstring" where
  "plus_to_space s = map (\<lambda>c. if c = cu CHR ''+'' then cu CHR '' '' else c) s"

definition form_decode :: "jsstring \<Rightarrow> jsstring" where
  "form_decode s = utf8_decode (percent_decode (utf8_encode (plus_to_space s)))"

text \<open>A component of a query: name and value around the first equals sign.\<close>

definition split_pair :: "jsstring \<Rightarrow> jsstring \<times> jsstring" where
  "split_pair s = (form_decode (takeWhile (\<lambda>c. c \<noteq> cu CHR ''='') s),
                   form_decode (drop 1 (dropWhile (\<lambda>c. c \<noteq> cu CHR ''='') s)))"

text \<open>\<open>new URLSearchParams(query).get(name)\<close> for a query without a leading question mark; one is
  dropped.\<close>

definition search_params :: "jsstring \<Rightarrow> (jsstring \<times> jsstring) list" where
  "search_params query =
     (let q = (case query of c # cs \<Rightarrow> if c = cu CHR ''?'' then cs else query | [] \<Rightarrow> []) in
      map split_pair (filter (\<lambda>s. s \<noteq> []) (split_on (cu CHR ''&'') q)))"

definition search_params_get :: "jsstring \<Rightarrow> jsstring \<Rightarrow> jsstring option" where
  "search_params_get query name = map_of (search_params query) name"

section \<open>Decoding undoes encoding\<close>

declare utf8_decode_from.simps [simp del]

definition scalar_value :: "nat \<Rightarrow> bool" where
  "scalar_value n \<longleftrightarrow> n < 0x110000 \<and> \<not> (0xD800 \<le> n \<and> n \<le> 0xDFFF)"

lemma utf8_decode_Nil [simp]: "utf8_decode [] = []"
  by (simp add: utf8_decode_def utf8_decode_from.simps)

lemma utf8_decode_ascii [simp]: "b < 128 \<Longrightarrow> utf8_decode (b # bs) = of_nat b # utf8_decode bs"
  by (simp add: utf8_decode_def utf8_decode_from.simps)

lemma continue_last:
  "lower \<le> b \<Longrightarrow> b \<le> upper \<Longrightarrow>
   utf8_decode_from (Suc 0, lower, upper, p) (b # bs) = utf16_units (p * 64 + (b - 0x80)) @ utf8_decode bs"
  by (simp add: utf8_decode_def utf8_decode_from.simps)

lemma continue_more:
  "lower \<le> b \<Longrightarrow> b \<le> upper \<Longrightarrow> 1 < k \<Longrightarrow>
   utf8_decode_from (k, lower, upper, p) (b # bs) = utf8_decode_from (k - 1, 0x80, 0xBF, p * 64 + (b - 0x80)) bs"
  by (simp add: utf8_decode_from.simps)

lemma start_sequence: "lead_byte b = Some st \<Longrightarrow> 128 \<le> b \<Longrightarrow> utf8_decode (b # bs) = utf8_decode_from st bs"
  by (simp add: utf8_decode_def utf8_decode_from.simps)

lemma mod_64_bound: "m mod 64 \<le> (63 :: nat)"
  using mod_less_divisor [of 64 m] by linarith

lemma base_64_digits:
  "q = 64 * a + b \<Longrightarrow> 64 * q + r = n \<Longrightarrow> (a * 64 + b) * 64 + r = (n :: nat)"
  by simp

lemma utf8_decode_bytes:
  assumes "scalar_value n"
  shows "utf8_decode (utf8_bytes n @ bs) = utf16_units n @ utf8_decode bs"
proof -
  consider "n < 0x80" | "0x80 \<le> n" "n < 0x800" | "0x800 \<le> n" "n < 0x10000" | "0x10000 \<le> n" by linarith
  then show ?thesis
  proof cases
    case 1
    then show ?thesis by (simp add: utf8_bytes_def utf16_units_def)
  next
    case 2
    then have "2 \<le> n div 64" "n div 64 < 32"
      using div_le_mono [of 128 n 64] by (simp_all add: less_mult_imp_div_less)
    then have "lead_byte (0xC0 + n div 64) = Some (1, 0x80, 0xBF, n div 64)"
      by (simp add: lead_byte_def)
    with 2 show ?thesis
      by (simp add: utf8_bytes_def start_sequence continue_last mod_64_bound)
  next
    case 3
    then have "n div 4096 < 16" by (simp add: less_mult_imp_div_less)
    then have "lead_byte (0xE0 + n div 4096) =
        Some (2, if n div 4096 = 0 then 0xA0 else 0x80, if n div 4096 = 13 then 0x9F else 0xBF, n div 4096)"
      by (simp add: lead_byte_def)
    moreover have split: "n div 64 = 64 * (n div 4096) + n div 64 mod 64"
      using mult_div_mod_eq [of 64 "n div 64"] by (simp flip: div_mult2_eq)
    moreover have "32 \<le> n div 64" "n div 64 < 864 \<or> 896 \<le> n div 64"
      using div_le_mono [of 2048 n 64] div_le_mono [of 57344 n 64] 3 assms
      by (auto simp: scalar_value_def less_mult_imp_div_less)
    then have "(if n div 4096 = 0 then 0xA0 else 0x80) \<le> 0x80 + n div 64 mod 64"
      "0x80 + n div 64 mod 64 \<le> (if n div 4096 = 13 then 0x9F else 0xBF)"
      using split mod_64_bound [of "n div 64"] by (auto split: if_splits)
    moreover have "(n div 4096 * 64 + n div 64 mod 64) * 64 + n mod 64 = n"
      by (rule base_64_digits [OF split mult_div_mod_eq])
    ultimately show ?thesis
      using 3 by (simp add: utf8_bytes_def start_sequence continue_more continue_last mod_64_bound)
  next
    case 4
    have split: "n div 4096 = 64 * (n div 262144) + n div 4096 mod 64"
      using mult_div_mod_eq [of 64 "n div 4096"] by (simp flip: div_mult2_eq)
    have split': "n div 64 = 64 * (n div 4096) + n div 64 mod 64"
      using mult_div_mod_eq [of 64 "n div 64"] by (simp flip: div_mult2_eq)
    have "16 \<le> n div 4096" "n div 4096 < 272"
      using div_le_mono [of 65536 n 4096] 4 assms by (simp_all add: scalar_value_def less_mult_imp_div_less)
    with split have top: "n div 262144 \<le> 4" "n div 262144 = 4 \<Longrightarrow> n div 4096 mod 64 \<le> 15"
      "n div 262144 = 0 \<Longrightarrow> 16 \<le> n div 4096 mod 64"
      by linarith+
    then have "lead_byte (0xF0 + n div 262144) =
        Some (3, if n div 262144 = 0 then 0x90 else 0x80, if n div 262144 = 4 then 0x8F else 0xBF, n div 262144)"
      by (simp add: lead_byte_def)
    moreover have "(if n div 262144 = 0 then 0x90 else 0x80) \<le> 0x80 + n div 4096 mod 64"
      "0x80 + n div 4096 mod 64 \<le> (if n div 262144 = 4 then 0x8F else 0xBF)"
      using top mod_64_bound [of "n div 4096"] by auto
    moreover have "((n div 262144 * 64 + n div 4096 mod 64) * 64 + n div 64 mod 64) * 64 + n mod 64 = n"
      using base_64_digits [OF split' mult_div_mod_eq] split by (simp add: mult.commute)
    ultimately show ?thesis
      using 4 by (simp add: utf8_bytes_def start_sequence continue_more continue_last mod_64_bound)
  qed
qed

text \<open>ASCII strings.\<close>

definition ascii :: "jsstring \<Rightarrow> bool" where
  "ascii s \<longleftrightarrow> (\<forall>c \<in> set s. unat c < 128)"

lemma ascii_simps [simp]:
  "ascii []" "ascii (c # s) \<longleftrightarrow> unat c < 128 \<and> ascii s" "ascii (s @ t) \<longleftrightarrow> ascii s \<and> ascii t"
  by (auto simp: ascii_def)

lemma utf8_encode_ascii: "ascii s \<Longrightarrow> utf8_encode s = map unat s"
  by (induction s rule: utf8_encode.induct)
    (auto simp: is_low_surrogate_def is_high_surrogate_def utf8_bytes_def)

lemma unreserved_ascii: "is_unreserved_cu c \<Longrightarrow> unat c < 128 \<and> unat c \<noteq> 37 \<and> c \<noteq> cu CHR ''+''"
  by (auto simp: is_unreserved_cu_def is_digit_cu_def is_upper_cu_def is_lower_cu_def word_le_nat_alt unat_cu
      word_unat_eq_iff)

lemma hex_digit_upper:
  "d < 16 \<Longrightarrow> unat (hex_digit_upper d) = (if d < 10 then 48 + d else 55 + d)"
  unfolding hex_digit_upper_def by (subst unat_of_nat) simp

lemma hex_value_digit: "d < 16 \<Longrightarrow> hex_value (unat (hex_digit_upper d)) = Some d"
  by (simp add: hex_digit_upper hex_value_def)

lemma utf8_bytes_less: "n < 0x110000 \<Longrightarrow> \<forall>b \<in> set (utf8_bytes n). b < 256"
  by (auto simp: utf8_bytes_def less_mult_imp_div_less)

lemma percent_decode_byte:
  "b < 256 \<Longrightarrow> percent_decode (37 # unat (hex_digit_upper (b div 16)) # unat (hex_digit_upper (b mod 16)) # bs)
     = b # percent_decode bs"
  by (simp add: hex_value_digit less_mult_imp_div_less)

lemma percent_decode_bytes:
  "\<forall>b \<in> set bytes. b < 256 \<Longrightarrow>
   percent_decode (map unat (concat (map (\<lambda>b. [cu CHR ''%'', hex_digit_upper (b div 16), hex_digit_upper (b mod 16)]) bytes)) @ bs)
     = bytes @ percent_decode bs"
  by (induction bytes) (simp_all add: unat_cu percent_decode_byte del: percent_decode.simps(2))

lemma percent_decode_encode:
  "n < 0x110000 \<Longrightarrow> percent_decode (map unat (percent_encode n) @ bs) = utf8_bytes n @ percent_decode bs"
  unfolding percent_encode_def by (rule percent_decode_bytes [OF utf8_bytes_less])

lemma unreserved_hex_digit: "d < 16 \<Longrightarrow> is_unreserved_cu (hex_digit_upper d)"
  by (auto simp: is_unreserved_cu_def is_digit_cu_def is_upper_cu_def word_le_nat_alt unat_cu hex_digit_upper)

lemma percent_encode_chars:
  "n < 0x110000 \<Longrightarrow> \<forall>c \<in> set (percent_encode n). is_unreserved_cu c \<or> c = cu CHR ''%''"
  using utf8_bytes_less [of n]
  by (auto simp: percent_encode_def less_mult_imp_div_less intro!: unreserved_hex_digit)

lemma surrogate_value_scalar:
  "is_high_surrogate c \<Longrightarrow> is_low_surrogate d \<Longrightarrow> scalar_value (surrogate_value c d) \<and> 0x10000 \<le> surrogate_value c d"
  by (auto simp: is_high_surrogate_def is_low_surrogate_def surrogate_value_def scalar_value_def)

lemma utf16_surrogates:
  "is_high_surrogate c \<Longrightarrow> is_low_surrogate d \<Longrightarrow> utf16_units (surrogate_value c d) = [c, d]"
proof -
  assume s: "is_high_surrogate c" "is_low_surrogate d"
  define h l where "h = unat c - 0xD800" and "l = unat d - 0xDC00"
  then have hl: "unat c = 0xD800 + h" "unat d = 0xDC00 + l" "l < 1024"
    using s by (auto simp: is_high_surrogate_def is_low_surrogate_def)
  have v: "surrogate_value c d - 0x10000 = h * 1024 + l" "\<not> surrogate_value c d < 0x10000"
    by (simp_all add: surrogate_value_def h_def l_def)
  have "of_nat (0xD800 + h) = c" "of_nat (0xDC00 + l) = d"
    unfolding hl(1,2) [symmetric] by simp_all
  then show ?thesis
    unfolding utf16_units_def v(1) using v(2) hl(3) by (simp only: if_False div_mult_self3 div_less mod_mult_self3 mod_less) simp
qed

lemma unit_scalar:
  "\<not> is_low_surrogate c \<Longrightarrow> \<not> is_high_surrogate c \<Longrightarrow> scalar_value (unat c)"
  using unsigned_less [of c, where ?'a = nat]
  by (auto simp: is_high_surrogate_def is_low_surrogate_def scalar_value_def)

lemma utf16_unit: "utf16_units (unat c) = [c]"
  using unsigned_less [of c, where ?'a = nat] by (simp add: utf16_units_def)

text \<open>The shape of an encoded string: what its first character contributes.\<close>

lemma encodeURIComponent_cases:
  assumes "encodeURIComponent (c # s) = Some t"
  obtains (unreserved) u where "is_unreserved_cu c" "encodeURIComponent s = Some u" "t = c # u"
    | (unit) u where "scalar_value (unat c)" "encodeURIComponent s = Some u" "t = percent_encode (unat c) @ u"
        "\<not> is_unreserved_cu c" "\<not> is_low_surrogate c" "\<not> is_high_surrogate c"
    | (pair) d s' u where "s = d # s'" "is_high_surrogate c" "is_low_surrogate d" "encodeURIComponent s' = Some u"
        "t = percent_encode (surrogate_value c d) @ u" "\<not> is_unreserved_cu c" "\<not> is_low_surrogate c"
  using assms unit_scalar [of c] by (auto split: if_splits list.splits)

lemma encodeURIComponent_chars:
  "encodeURIComponent s = Some t \<Longrightarrow> \<forall>c \<in> set t. is_unreserved_cu c \<or> c = cu CHR ''%''"
proof (induction s arbitrary: t rule: encodeURIComponent.induct)
  case (2 c s)
  from "2.prems" show ?case
  proof (cases rule: encodeURIComponent_cases)
    case (unreserved u)
    then show ?thesis using "2.IH"(1) by simp
  next
    case (unit u)
    then show ?thesis
      using "2.IH"(3) percent_encode_chars [of "unat c"] by (simp add: ball_Un scalar_value_def)
  next
    case (pair d s' u)
    then show ?thesis
      using "2.IH"(2) percent_encode_chars [of "surrogate_value c d"] surrogate_value_scalar [of c d]
      by (simp add: ball_Un scalar_value_def)
  qed
qed simp

lemma percent_decode_round:
  "encodeURIComponent s = Some t \<Longrightarrow> utf8_decode (percent_decode (map unat t)) = s"
proof (induction s arbitrary: t rule: encodeURIComponent.induct)
  case (2 c s)
  from "2.prems" show ?case
  proof (cases rule: encodeURIComponent_cases)
    case (unreserved u)
    then show ?thesis using "2.IH"(1) unreserved_ascii [of c] by simp
  next
    case (unit u)
    then show ?thesis
      using "2.IH"(3) by (simp add: percent_decode_encode scalar_value_def utf8_decode_bytes utf16_unit)
  next
    case (pair d s' u)
    note sv = surrogate_value_scalar [OF pair(2,3)]
    then have "surrogate_value c d < 0x110000" by (simp add: scalar_value_def)
    with pair sv show ?thesis
      using "2.IH"(2) by (simp add: percent_decode_encode utf8_decode_bytes utf16_surrogates)
  qed
qed simp

lemma form_decode_encoded:
  assumes "encodeURIComponent s = Some t"
  shows "form_decode t = s"
proof -
  have chars: "\<forall>c \<in> set t. is_unreserved_cu c \<or> c = cu CHR ''%''"
    by (rule encodeURIComponent_chars [OF assms])
  then have plus: "plus_to_space t = t"
    unfolding plus_to_space_def by (intro map_idI) (use unreserved_ascii [of "cu CHR ''+''"] in auto)
  have "ascii t"
    using chars unreserved_ascii unfolding ascii_def by (auto simp: unat_cu)
  then show ?thesis
    using percent_decode_round [OF assms] by (simp add: form_decode_def plus utf8_encode_ascii)
qed

lemma encoded_no_separator:
  "encodeURIComponent s = Some t \<Longrightarrow> cu CHR ''&'' \<notin> set t \<and> cu CHR ''='' \<notin> set t \<and> cu CHR ''?'' \<notin> set t"
proof -
  have "\<not> is_unreserved_cu (cu CHR ''&'')" "\<not> is_unreserved_cu (cu CHR ''='')" "\<not> is_unreserved_cu (cu CHR ''?'')"
    by code_simp+
  then show "encodeURIComponent s = Some t \<Longrightarrow> ?thesis"
    using encodeURIComponent_chars [of s t] by auto
qed

text \<open>A parameter that is written with \<open>encodeURIComponent\<close> is read back.\<close>

lemma search_params_get_encoded:
  assumes "encodeURIComponent name = Some n" "encodeURIComponent v = Some t" "n \<noteq> []"
  shows "search_params_get (n @ cu CHR ''='' # t) name = Some v"
proof -
  let ?q = "n @ cu CHR ''='' # t"
  have n: "\<forall>c \<in> set n. c \<noteq> cu CHR ''=''" "cu CHR ''&'' \<notin> set ?q"
    using encoded_no_separator [OF assms(1)] encoded_no_separator [OF assms(2)] by auto
  have "(case ?q of c # cs \<Rightarrow> if c = cu CHR ''?'' then cs else ?q | [] \<Rightarrow> []) = ?q"
    using assms(3) encoded_no_separator [OF assms(1)] by (cases n) auto
  then have "search_params ?q = [split_pair ?q]"
    by (simp add: search_params_def split_on_no_sep [OF n(2)])
  moreover have "takeWhile (\<lambda>c. c \<noteq> cu CHR ''='') ?q = n" "dropWhile (\<lambda>c. c \<noteq> cu CHR ''='') ?q = cu CHR ''='' # t"
    using n(1) by (simp_all add: takeWhile_tail dropWhile_append3)
  ultimately show ?thesis
    using form_decode_encoded assms(1,2) by (simp add: search_params_get_def split_pair_def)
qed

end
