(* ===== verification/Setup_Client.thy ===== *)
theory Setup_Client
  imports Setup_Guards Js_Url
begin

text \<open>
  The operations of \<open>web/src/lib/api.ts\<close>. An operation builds a request and turns the response
  into its result; the two halves are separate definitions, because the console does other things
  while a request is in flight, and \<open>perform\<close> joins them. The network is the argument
  \<open>fetch\<close>: \<open>None\<close> is a rejected promise, a response body \<open>None\<close> one that is not JSON.
\<close>

section \<open>Requests, responses and errors\<close>

text \<open>\<open>SetupAPIError\<close> carries a code and a message; any other thrown value is \<open>HostError\<close>.\<close>

datatype api_error = SetupAPIError jsstring jsstring | HostError

record http_request =
  rq_method :: string
  rq_url :: jsstring
  rq_cache :: string
  rq_headers :: "(string \<times> jsstring) list"
  rq_body :: "json option"

record http_response =
  rs_ok :: bool
  rs_header :: "string \<Rightarrow> jsstring option"
  rs_body :: "json option"

type_synonym 'a outcome = "api_error + 'a"

definition deliver :: "(http_response \<Rightarrow> 'a outcome) \<Rightarrow> http_response option \<Rightarrow> 'a outcome" where
  "deliver handle answer = (case answer of None \<Rightarrow> Inl HostError | Some response \<Rightarrow> handle response)"

definition perform ::
  "(http_request \<Rightarrow> http_response option) \<Rightarrow> http_request \<Rightarrow> (http_response \<Rightarrow> 'a outcome) \<Rightarrow> 'a outcome" where
  "perform fetch request handle = deliver handle (fetch request)"

section \<open>Shared helpers\<close>

text \<open>A member of an authorization counts when it is a nonempty string.\<close>

definition truthy :: "jsstring option \<Rightarrow> bool" where
  "truthy s = (case s of None \<Rightarrow> False | Some t \<Rightarrow> t \<noteq> [])"

definition header_if :: "string \<Rightarrow> jsstring option \<Rightarrow> (string \<times> jsstring) list" where
  "header_if name s = (case s of None \<Rightarrow> [] | Some t \<Rightarrow> if t \<noteq> [] then [(name, t)] else [])"

definition mutationHeaders :: "jsstring \<Rightarrow> setup_authorization \<Rightarrow> (string \<times> jsstring) list" where
  "mutationHeaders csrfToken authorization =
     [(''Content-Type'', js ''application/json''), (''X-BlackPearl-CSRF'', csrfToken)]
     @ header_if ''X-BlackPearl-Session'' (auth_session authorization)
     @ header_if ''X-BlackPearl-Bootstrap'' (auth_bootstrap authorization)"

definition readSession :: "http_response \<Rightarrow> jsstring outcome" where
  "readSession response =
     (let session = (case rs_header response ''X-BlackPearl-Session'' of None \<Rightarrow> [] | Some s \<Rightarrow> s) in
      if \<not> test_regex False (hex_pattern 64) session
      then Inl (SetupAPIError (js ''invalid_session'')
                  (js ''BlackPearl returned an invalid setup authorization response.''))
      else Inr session)"

definition readJSON ::
  "http_response \<Rightarrow> (json \<Rightarrow> bool) \<Rightarrow> (json \<Rightarrow> 'a) \<Rightarrow> string \<Rightarrow> 'a outcome" where
  "readJSON response validate narrow fallbackCode =
     (case rs_body response of
        None \<Rightarrow> Inl HostError
      | Some value \<Rightarrow>
          if \<not> rs_ok response then
            (if isErrorEnvelope value
             then Inl (SetupAPIError (as_string (property value ''code'')) (as_string (property value ''message'')))
             else Inl (SetupAPIError (js ''request_failed'') (js ''BlackPearl could not complete that request.'')))
          else if \<not> validate value
          then Inl (SetupAPIError (js fallbackCode) (js ''BlackPearl returned an unexpected response.''))
          else Inr (narrow value))"

text \<open>\<open>JSON.stringify\<close> writes numbers that are not finite as \<open>null\<close>.\<close>

definition json_number :: "number \<Rightarrow> json" where
  "json_number n = (case n of Fin r \<Rightarrow> JNumber n | _ \<Rightarrow> JNull)"

definition get_request :: "string \<Rightarrow> http_request" where
  "get_request url = \<lparr>rq_method = ''GET'', rq_url = js url, rq_cache = ''no-store'',
     rq_headers = [], rq_body = None\<rparr>"

definition paired_request ::
  "string \<Rightarrow> jsstring \<Rightarrow> jsstring \<Rightarrow> setup_authorization \<Rightarrow> json option \<Rightarrow> http_request" where
  "paired_request method url csrfToken authorization body =
     \<lparr>rq_method = method, rq_url = url, rq_cache = ''no-store'',
      rq_headers = mutationHeaders csrfToken authorization, rq_body = body\<rparr>"

text \<open>Attaching the session that the response carries to a result.\<close>

definition with_session :: "http_response \<Rightarrow> 'a outcome \<Rightarrow> ('a \<times> jsstring) outcome" where
  "with_session response result =
     bind_result result (\<lambda>x. bind_result (readSession response) (\<lambda>session. Inr (x, session)))"

section \<open>Operations\<close>

subsection \<open>Setup\<close>

definition restored_items :: "'a option \<Rightarrow> 'a list option \<Rightarrow> 'a list" where
  "restored_items selected selectedItems =
     (case selectedItems of Some items \<Rightarrow> items
      | None \<Rightarrow> (case selected of None \<Rightarrow> [] | Some c \<Rightarrow> [c]))"

definition status_of_payload :: "setup_status_payload \<Rightarrow> setup_status" where
  "status_of_payload payload =
     (let selectedItems = restored_items (sp_selected payload) (sp_selectedItems payload);
          status = (\<lambda>saved active unavailable degraded.
            \<lparr>av_savedItemCount = saved, av_activeItemCount = active,
             av_unavailableItemCount = unavailable, av_degraded = degraded,
             ss_setupRequired = sp_setupRequired payload, ss_tokenConfigured = sp_tokenConfigured payload,
             ss_csrfToken = sp_csrfToken payload, ss_selected = sp_selected payload,
             ss_selectedItems = sp_selectedItems payload\<rparr>)
      in case (sp_savedItemCount payload, sp_activeItemCount payload,
               sp_unavailableItemCount payload, sp_degraded payload) of
           (Some saved, Some active, Some unavailable, Some degraded) \<Rightarrow> status saved active unavailable degraded
         | _ \<Rightarrow> status (of_count (length selectedItems)) (of_count (length selectedItems)) (Fin 0) False)"

definition getStatus_request :: http_request where
  "getStatus_request = get_request ''/api/setup/status''"

definition getStatus_response :: "http_response \<Rightarrow> setup_status outcome" where
  "getStatus_response response =
     bind_result (readJSON response isSetupStatus as_status_payload ''invalid_status'')
       (\<lambda>payload. Inr (status_of_payload payload))"

definition getStatus :: "(http_request \<Rightarrow> http_response option) \<Rightarrow> setup_status outcome" where
  "getStatus fetch = perform fetch getStatus_request getStatus_response"

definition discoverMedia_request :: "jsstring \<Rightarrow> jsstring \<Rightarrow> setup_authorization \<Rightarrow> http_request" where
  "discoverMedia_request token csrfToken authorization =
     paired_request ''POST'' (js ''/api/setup/discover'') csrfToken authorization
       (Some (if token = [] then obj [] else obj [(''token'', Some (JString token))]))"

definition discoverMedia_response :: "http_response \<Rightarrow> discovery_result outcome" where
  "discoverMedia_response response =
     with_session response (readJSON response isCandidateEnvelope as_candidates ''invalid_candidates'')"

definition discoverMedia ::
  "(http_request \<Rightarrow> http_response option) \<Rightarrow> jsstring \<Rightarrow> jsstring \<Rightarrow> setup_authorization
   \<Rightarrow> discovery_result outcome" where
  "discoverMedia fetch token csrfToken authorization =
     perform fetch (discoverMedia_request token csrfToken authorization) discoverMedia_response"

definition json_apply_item :: "apply_item \<Rightarrow> json" where
  "json_apply_item i = obj [
     (''objectId'', Some (JString (ai_objectId i))),
     (''mediaType'', Some (json_str (media_type_string (ai_mediaType i)))),
     (''title'', Some (JString (ai_title i))),
     (''year'', Some (json_number (ai_year i))),
     (''showTitle'', map_option JString (ai_showTitle i)),
     (''season'', map_option json_number (ai_season i)),
     (''episode'', map_option json_number (ai_episode i))]"

definition json_apply_input :: "apply_input \<Rightarrow> json" where
  "json_apply_input input = obj [
     (''token'', map_option JString (in_token input)),
     (''items'', Some (JArray (map json_apply_item (in_items input))))]"

definition applyConfiguration_request :: "apply_input \<Rightarrow> jsstring \<Rightarrow> setup_authorization \<Rightarrow> http_request" where
  "applyConfiguration_request input csrfToken authorization =
     paired_request ''PUT'' (js ''/api/setup/configuration'') csrfToken authorization
       (Some (json_apply_input input))"

definition applyConfiguration_response :: "http_response \<Rightarrow> (apply_result \<times> jsstring) outcome" where
  "applyConfiguration_response response =
     with_session response (readJSON response isSelectionEnvelope as_apply_result ''invalid_configuration'')"

definition applyConfiguration ::
  "(http_request \<Rightarrow> http_response option) \<Rightarrow> apply_input \<Rightarrow> jsstring \<Rightarrow> setup_authorization
   \<Rightarrow> (apply_result \<times> jsstring) outcome" where
  "applyConfiguration fetch input csrfToken authorization =
     perform fetch (applyConfiguration_request input csrfToken authorization) applyConfiguration_response"

subsection \<open>Acquisition and Watchlist\<close>

definition getAcquisitionStatus_request :: http_request where
  "getAcquisitionStatus_request = get_request ''/api/acquisition/status''"

definition getAcquisitionStatus_response :: "http_response \<Rightarrow> acquisition_status outcome" where
  "getAcquisitionStatus_response response =
     readJSON response isAcquisitionStatus as_configured ''invalid_acquisition_status''"

definition getAcquisitionStatus :: "(http_request \<Rightarrow> http_response option) \<Rightarrow> acquisition_status outcome" where
  "getAcquisitionStatus fetch = perform fetch getAcquisitionStatus_request getAcquisitionStatus_response"

definition getWatchlistStatus_request :: "jsstring \<Rightarrow> setup_authorization \<Rightarrow> http_request" where
  "getWatchlistStatus_request csrfToken authorization =
     paired_request ''GET'' (js ''/api/watchlist/status'') csrfToken authorization None"

definition getWatchlistStatus_response :: "(jsstring \<Rightarrow> bool) \<Rightarrow> http_response \<Rightarrow> watchlist_status outcome" where
  "getWatchlistStatus_response dateFinite response =
     readJSON response (isWatchlistStatus dateFinite) as_watchlist_status ''invalid_watchlist_status''"

definition getWatchlistStatus ::
  "(jsstring \<Rightarrow> bool) \<Rightarrow> (http_request \<Rightarrow> http_response option) \<Rightarrow> jsstring \<Rightarrow> setup_authorization
   \<Rightarrow> watchlist_status outcome" where
  "getWatchlistStatus dateFinite fetch csrfToken authorization =
     perform fetch (getWatchlistStatus_request csrfToken authorization) (getWatchlistStatus_response dateFinite)"

definition setWatchlistPolicy_request ::
  "bool \<Rightarrow> show_policy \<Rightarrow> jsstring \<Rightarrow> setup_authorization \<Rightarrow> http_request" where
  "setWatchlistPolicy_request acquisitionEnabled showPolicy csrfToken authorization =
     paired_request ''PUT'' (js ''/api/watchlist/settings'') csrfToken authorization
       (Some (obj [(''acquisitionEnabled'', Some (JBool acquisitionEnabled)),
                   (''showPolicy'', Some (json_str (show_policy_string showPolicy)))]))"

definition setWatchlistPolicy_response ::
  "(jsstring \<Rightarrow> bool) \<Rightarrow> http_response \<Rightarrow> watchlist_status_result outcome" where
  "setWatchlistPolicy_response dateFinite response =
     with_session response
       (readJSON response (isWatchlistStatus dateFinite) as_watchlist_status ''invalid_watchlist_status'')"

definition setWatchlistPolicy ::
  "(jsstring \<Rightarrow> bool) \<Rightarrow> (http_request \<Rightarrow> http_response option) \<Rightarrow> bool \<Rightarrow> show_policy \<Rightarrow> jsstring
   \<Rightarrow> setup_authorization \<Rightarrow> watchlist_status_result outcome" where
  "setWatchlistPolicy dateFinite fetch acquisitionEnabled showPolicy csrfToken authorization =
     perform fetch (setWatchlistPolicy_request acquisitionEnabled showPolicy csrfToken authorization)
       (setWatchlistPolicy_response dateFinite)"

definition configureAcquisition_request ::
  "jsstring \<Rightarrow> jsstring \<Rightarrow> jsstring \<Rightarrow> setup_authorization \<Rightarrow> http_request" where
  "configureAcquisition_request baseUrl apiKey csrfToken authorization =
     paired_request ''PUT'' (js ''/api/acquisition/settings'') csrfToken authorization
       (Some (obj [(''baseUrl'', Some (JString baseUrl)), (''apiKey'', Some (JString apiKey))]))"

definition configureAcquisition_response :: "http_response \<Rightarrow> acquisition_status_result outcome" where
  "configureAcquisition_response response =
     with_session response (readJSON response isAcquisitionStatus as_configured ''invalid_acquisition_status'')"

definition configureAcquisition ::
  "(http_request \<Rightarrow> http_response option) \<Rightarrow> jsstring \<Rightarrow> jsstring \<Rightarrow> jsstring \<Rightarrow> setup_authorization
   \<Rightarrow> acquisition_status_result outcome" where
  "configureAcquisition fetch baseUrl apiKey csrfToken authorization =
     perform fetch (configureAcquisition_request baseUrl apiKey csrfToken authorization)
       configureAcquisition_response"

fun json_intent :: "acquisition_intent \<Rightarrow> json" where
  "json_intent (MovieIntent title year) = obj [
     (''mediaType'', Some (json_str ''movie'')), (''title'', Some (JString title)),
     (''year'', Some (json_number year))]"
| "json_intent (EpisodeIntent title year season episode) = obj [
     (''mediaType'', Some (json_str ''episode'')), (''title'', Some (JString title)),
     (''year'', Some (json_number year)), (''season'', Some (json_number season)),
     (''episode'', Some (json_number episode))]"

definition acquireMedia_request :: "acquisition_intent \<Rightarrow> jsstring \<Rightarrow> setup_authorization \<Rightarrow> http_request" where
  "acquireMedia_request input csrfToken authorization =
     paired_request ''POST'' (js ''/api/acquisition/acquire'') csrfToken authorization (Some (json_intent input))"

definition acquireMedia_response :: "http_response \<Rightarrow> (apply_result \<times> jsstring) outcome" where
  "acquireMedia_response response =
     with_session response (readJSON response isSelectionEnvelope as_apply_result ''invalid_acquisition'')"

definition acquireMedia ::
  "(http_request \<Rightarrow> http_response option) \<Rightarrow> acquisition_intent \<Rightarrow> jsstring \<Rightarrow> setup_authorization
   \<Rightarrow> (apply_result \<times> jsstring) outcome" where
  "acquireMedia fetch input csrfToken authorization =
     perform fetch (acquireMedia_request input csrfToken authorization) acquireMedia_response"

definition submitAcquisitionJob_request ::
  "acquisition_intent \<Rightarrow> jsstring \<Rightarrow> setup_authorization \<Rightarrow> http_request" where
  "submitAcquisitionJob_request input csrfToken authorization =
     paired_request ''POST'' (js ''/api/acquisition/jobs'') csrfToken authorization (Some (json_intent input))"

definition submitAcquisitionJob_response ::
  "(jsstring \<Rightarrow> bool) \<Rightarrow> http_response \<Rightarrow> acquisition_job_submission outcome" where
  "submitAcquisitionJob_response dateFinite response =
     with_session response
       (readJSON response (isAcquisitionJobSubmission dateFinite) as_job_submission ''invalid_acquisition_job'')"

definition submitAcquisitionJob ::
  "(jsstring \<Rightarrow> bool) \<Rightarrow> (http_request \<Rightarrow> http_response option) \<Rightarrow> acquisition_intent \<Rightarrow> jsstring
   \<Rightarrow> setup_authorization \<Rightarrow> acquisition_job_submission outcome" where
  "submitAcquisitionJob dateFinite fetch input csrfToken authorization =
     perform fetch (submitAcquisitionJob_request input csrfToken authorization)
       (submitAcquisitionJob_response dateFinite)"

definition listAcquisitionJobs_request :: "jsstring \<Rightarrow> setup_authorization \<Rightarrow> http_request" where
  "listAcquisitionJobs_request csrfToken authorization =
     paired_request ''GET'' (js ''/api/acquisition/jobs'') csrfToken authorization None"

definition listAcquisitionJobs_response ::
  "(jsstring \<Rightarrow> bool) \<Rightarrow> http_response \<Rightarrow> acquisition_job list outcome" where
  "listAcquisitionJobs_response dateFinite response =
     readJSON response (isAcquisitionJobList dateFinite) as_job_list ''invalid_acquisition_job_list''"

definition listAcquisitionJobs ::
  "(jsstring \<Rightarrow> bool) \<Rightarrow> (http_request \<Rightarrow> http_response option) \<Rightarrow> jsstring \<Rightarrow> setup_authorization
   \<Rightarrow> acquisition_job list outcome" where
  "listAcquisitionJobs dateFinite fetch csrfToken authorization =
     perform fetch (listAcquisitionJobs_request csrfToken authorization) (listAcquisitionJobs_response dateFinite)"

definition getAcquisitionJob_request ::
  "jsstring \<Rightarrow> jsstring \<Rightarrow> setup_authorization \<Rightarrow> http_request option" where
  "getAcquisitionJob_request jobId csrfToken authorization =
     map_option (\<lambda>component.
       paired_request ''GET'' (js ''/api/acquisition/jobs/'' @ component) csrfToken authorization None)
     (encodeURIComponent jobId)"

definition getAcquisitionJob_response ::
  "(jsstring \<Rightarrow> bool) \<Rightarrow> http_response \<Rightarrow> acquisition_job outcome" where
  "getAcquisitionJob_response dateFinite response =
     readJSON response (isAcquisitionJob dateFinite) as_acquisition_job ''invalid_acquisition_job''"

definition getAcquisitionJob ::
  "(jsstring \<Rightarrow> bool) \<Rightarrow> (http_request \<Rightarrow> http_response option) \<Rightarrow> jsstring \<Rightarrow> jsstring
   \<Rightarrow> setup_authorization \<Rightarrow> acquisition_job outcome" where
  "getAcquisitionJob dateFinite fetch jobId csrfToken authorization =
     (case getAcquisitionJob_request jobId csrfToken authorization of
        None \<Rightarrow> Inl HostError
      | Some request \<Rightarrow> perform fetch request (getAcquisitionJob_response dateFinite))"

section \<open>What a result guarantees\<close>

lemma deliver_Inr_iff: "deliver handle answer = Inr x \<longleftrightarrow> (\<exists>r. answer = Some r \<and> handle r = Inr x)"
  by (auto simp: deliver_def split: option.splits)

lemma readJSON_Inr_iff:
  "readJSON response validate narrow code = Inr x \<longleftrightarrow>
     rs_ok response \<and> (\<exists>v. rs_body response = Some v \<and> validate v \<and> x = narrow v)"
  by (auto simp: readJSON_def split: option.splits)

lemma readSession_Inr_iff:
  "readSession response = Inr s \<longleftrightarrow>
     rs_header response ''X-BlackPearl-Session'' = Some s \<and> hex_string 64 s"
  by (auto simp: readSession_def hex_string_def Let_def split: option.splits)

lemma with_session_Inr_iff:
  "with_session response result = Inr (x, s) \<longleftrightarrow> result = Inr x \<and> readSession response = Inr s"
  by (auto simp: with_session_def result_simps)

lemmas outcome_iffs = deliver_Inr_iff readJSON_Inr_iff readSession_Inr_iff with_session_Inr_iff

lemma hex_unreserved: "is_hex_cu c \<Longrightarrow> is_unreserved_cu c"
  by (auto simp: is_hex_cu_def is_unreserved_cu_def is_lower_cu_def word_le_nat_alt unat_cu)

lemma encodeURIComponent_unreserved:
  "\<forall>c \<in> set s. is_unreserved_cu c \<Longrightarrow> encodeURIComponent s = Some s"
  by (induction s) auto

lemma encodeURIComponent_hex: "hex_string n s \<Longrightarrow> encodeURIComponent s = Some s"
  by (auto simp: hex_string_def hex_unreserved intro: encodeURIComponent_unreserved)

text \<open>A guarded operation, proved once for every guard that meets its contract.\<close>

context type_guard
begin

lemma readJSON_constraint:
  "readJSON response guard view code = Inr x \<Longrightarrow> constraint x"
  by (auto simp: readJSON_Inr_iff constrained)

lemma readJSON_encoded:
  assumes "rs_ok response" "rs_body response = Some (encode x)"
  shows "readJSON response guard view code =
    (if constraint x then Inr x
     else Inl (SetupAPIError (js code) (js ''BlackPearl returned an unexpected response.'')))"
  using assms by (simp add: readJSON_def guard_encode view_encode)

end

lemma discoverMedia_session:
  "discoverMedia_response r = Inr (cs, s) \<Longrightarrow> hex_string 64 s"
  by (simp add: discoverMedia_response_def outcome_iffs)

lemma applyConfiguration_result:
  "applyConfiguration_response r = Inr (a, s) \<Longrightarrow> hex_string 64 s \<and> ar_selectedItems a \<noteq> []"
  by (auto simp: applyConfiguration_response_def outcome_iffs isSelectionEnvelope_nonempty)

lemma acquireMedia_result:
  "acquireMedia_response r = Inr (a, s) \<Longrightarrow> hex_string 64 s \<and> ar_selectedItems a \<noteq> []"
  by (auto simp: acquireMedia_response_def outcome_iffs isSelectionEnvelope_nonempty)

lemma configureAcquisition_session:
  "configureAcquisition_response r = Inr (b, s) \<Longrightarrow> hex_string 64 s"
  by (simp add: configureAcquisition_response_def outcome_iffs)

lemma setWatchlistPolicy_result:
  "setWatchlistPolicy_response df r = Inr (w, s) \<Longrightarrow> hex_string 64 s \<and> wf_watchlist df w"
  by (auto simp: setWatchlistPolicy_response_def with_session_Inr_iff readSession_Inr_iff
      dest: watchlist.readJSON_constraint)

lemma getWatchlistStatus_result:
  "getWatchlistStatus_response df r = Inr w \<Longrightarrow> wf_watchlist df w"
  by (auto simp: getWatchlistStatus_response_def dest: watchlist.readJSON_constraint)

lemma submitAcquisitionJob_result:
  "submitAcquisitionJob_response df r = Inr ((j, created), s) \<Longrightarrow> hex_string 64 s \<and> wf_job df j"
  by (auto simp: submitAcquisitionJob_response_def outcome_iffs dest!: isAcquisitionJobSubmission_job)
     (metis fst_conv)

lemma listAcquisitionJobs_result:
  "listAcquisitionJobs_response df r = Inr jobs \<Longrightarrow> length jobs \<le> 20 \<and> (\<forall>j \<in> set jobs. wf_job df j)"
  by (auto simp: listAcquisitionJobs_response_def outcome_iffs dest: isAcquisitionJobList_jobs)

lemma getAcquisitionJob_result:
  "getAcquisitionJob_response df r = Inr j \<Longrightarrow> wf_job df j"
  by (auto simp: getAcquisitionJob_response_def dest: job.readJSON_constraint)

lemmas api_results =
  discoverMedia_session applyConfiguration_result acquireMedia_result configureAcquisition_session
  setWatchlistPolicy_result getWatchlistStatus_result submitAcquisitionJob_result
  listAcquisitionJobs_result getAcquisitionJob_result

end
