(* ===== verification/Setup_Contract.thy ===== *)
theory Setup_Contract
  imports Setup_Client
begin

text \<open>
  What the API client promises the console: the availability counts it reports are consistent with
  the manifest, jobs and Watchlist status satisfy the documented constraints exactly, every
  mutation yields a session secret of the right form, and a job identifier cannot leave its place
  in the path.
\<close>

section \<open>Availability\<close>

abbreviation status_items :: "setup_status \<Rightarrow> setup_configuration list" where
  "status_items s \<equiv> restored_items (ss_selected s) (ss_selectedItems s)"

lemma status_of_payload_items [simp]:
  "status_items (status_of_payload p) = restored_items (sp_selected p) (sp_selectedItems p)"
  by (auto simp: status_of_payload_def Let_def split: option.splits)

lemma status_of_payload_complete:
  assumes "sp_savedItemCount p = Some saved" "sp_activeItemCount p = Some active"
    "sp_unavailableItemCount p = Some unavailable" "sp_degraded p = Some degraded"
  shows "availability.truncate (status_of_payload p) =
    \<lparr>av_savedItemCount = saved, av_activeItemCount = active, av_unavailableItemCount = unavailable,
     av_degraded = degraded\<rparr>"
  using assms by (simp add: status_of_payload_def availability.truncate_def Let_def)

lemma status_of_payload_missing:
  assumes "sp_savedItemCount p = None"
  shows "availability.truncate (status_of_payload p) =
    \<lparr>av_savedItemCount = of_count (length (restored_items (sp_selected p) (sp_selectedItems p))),
     av_activeItemCount = of_count (length (restored_items (sp_selected p) (sp_selectedItems p))),
     av_unavailableItemCount = Fin 0, av_degraded = False\<rparr>"
  using assms by (simp add: status_of_payload_def availability.truncate_def Let_def)

text \<open>The number of published items that the guard counts is the length of the restored list.\<close>

lemma selected_count:
  assumes "isSetupStatus v"
  shows "(if isArray (property v ''selectedItems'')
          then of_count (length (as_array (property v ''selectedItems'')))
          else if property v ''selected'' = None then Fin 0 else Fin 1)
    = of_count (length (restored_items (sp_selected (as_status_payload v)) (sp_selectedItems (as_status_payload v))))"
  using assms
  by (auto simp: isSetupStatus_def as_status_payload_def restored_items_def as_optional_def isArray_iff
      of_count_def split: if_splits option.splits)

definition consistent_availability :: "setup_configuration list \<Rightarrow> availability \<Rightarrow> bool" where
  "consistent_availability items a \<longleftrightarrow>
     (\<exists>saved. av_savedItemCount a = of_count saved
       \<and> av_activeItemCount a = of_count (length items) \<and> length items \<le> saved
       \<and> av_unavailableItemCount a = js_sub (of_count saved) (of_count (length items))
       \<and> (av_degraded a \<longleftrightarrow> 0 < length items \<and> js_less (Fin 0) (av_unavailableItemCount a)))"

lemma isSetupStatus_consistent:
  assumes "isSetupStatus v"
  defines "p \<equiv> as_status_payload v"
  shows "consistent_availability (restored_items (sp_selected p) (sp_selectedItems p))
           (availability.truncate (status_of_payload p))"
proof (cases "property v ''savedItemCount'' = None")
  case True
  then have "availability.truncate (status_of_payload p) =
    \<lparr>av_savedItemCount = of_count (length (restored_items (sp_selected p) (sp_selectedItems p))),
     av_activeItemCount = of_count (length (restored_items (sp_selected p) (sp_selectedItems p))),
     av_unavailableItemCount = Fin 0, av_degraded = False\<rparr>"
    by (intro status_of_payload_missing) (simp add: p_def as_status_payload_def)
  then show ?thesis
    by (simp add: consistent_availability_def js_sub_def of_count_def to_double_def)
next
  case False
  define n where "n = length (restored_items (sp_selected p) (sp_selectedItems p))"
  let ?saved = "as_number (property v ''savedItemCount'')" and ?active = "as_number (property v ''activeItemCount'')"
    and ?unavailable = "as_number (property v ''unavailableItemCount'')"
    and ?degraded = "as_boolean (property v ''degraded'')"
  have g: "isCount (property v ''savedItemCount'')" "isCount (property v ''activeItemCount'')"
    "isCount (property v ''unavailableItemCount'')" "is_boolean (property v ''degraded'')"
    "js_num_eq ?active (of_count n)" "js_ge ?saved ?active"
    "js_num_eq ?unavailable (js_sub ?saved ?active)"
    "?degraded = (js_less (Fin 0) ?active \<and> js_less (Fin 0) ?unavailable)"
    using assms(1) selected_count [OF assms(1)] False
    unfolding isSetupStatus_def Let_def isNonNegativeInteger_iff n_def p_def
    by (auto split: if_splits)
  have "sp_savedItemCount p = Some ?saved" "sp_activeItemCount p = Some ?active"
    "sp_unavailableItemCount p = Some ?unavailable" "sp_degraded p = Some ?degraded"
    using g by (auto simp: p_def as_status_payload_def isCount_iff typeof_iffs)
  note fields = status_of_payload_complete [OF this]
  obtain saved where saved: "?saved = of_count saved"
    using g(1) by (auto simp: isCount_iff count_number_iff)
  have "?active = of_count n" using g(5) by (rule js_num_eq_imp_eq)
  with g saved show ?thesis
    unfolding fields consistent_availability_def n_def [symmetric]
    by (auto dest!: js_num_eq_imp_eq simp: of_count_def intro!: exI [of _ saved])
qed

lemma consistent_counts:
  assumes "consistent_availability items a" "av_savedItemCount a = of_count saved" "saved < 2 ^ 53"
  shows "\<exists>unavailable. av_unavailableItemCount a = of_count unavailable \<and> saved = length items + unavailable
    \<and> av_activeItemCount a = of_count (length items)
    \<and> (av_degraded a \<longleftrightarrow> 0 < length items \<and> length items < saved)"
proof -
  have le: "length items \<le> saved" and a: "av_activeItemCount a = of_count (length items)"
    "av_unavailableItemCount a = js_sub (of_count saved) (of_count (length items))"
    "av_degraded a \<longleftrightarrow> 0 < length items \<and> js_less (Fin 0) (av_unavailableItemCount a)"
    using assms(1,2) by (auto simp: consistent_availability_def)
  have "safe_integer (int saved - int (length items))"
    using assms(3) le by (simp add: safe_integer_def)
  from js_sub_safe [OF this] have "av_unavailableItemCount a = of_count (saved - length items)"
    using le a(2) by (simp add: of_count_def of_nat_diff)
  moreover have "js_less (Fin 0) (of_count k) \<longleftrightarrow> 0 < k" for k by (simp add: of_count_def)
  ultimately show ?thesis
    using a(1,3) le by (intro exI [of _ "saved - length items"]) auto
qed

text \<open>
  A status that \<open>getStatus\<close> returns is consistent: for every manifest below \<open>2\<^sup>5\<^sup>3\<close> saved items the
  saved count is the active count plus the unavailable count, the active count is the number of items
  returned, and the status is degraded exactly when some but not all saved items are active. It
  holds whether the server sent the counts or the client filled them in.
\<close>

lemma getStatus_consistent:
  assumes "getStatus fetch = Inr s" "av_savedItemCount s = of_count saved" "saved < 2 ^ 53"
  shows "\<exists>unavailable. av_unavailableItemCount s = of_count unavailable
    \<and> saved = length (restored_items (ss_selected s) (ss_selectedItems s)) + unavailable
    \<and> av_activeItemCount s = of_count (length (restored_items (ss_selected s) (ss_selectedItems s)))
    \<and> (av_degraded s \<longleftrightarrow> 0 < length (restored_items (ss_selected s) (ss_selectedItems s))
         \<and> length (restored_items (ss_selected s) (ss_selectedItems s)) < saved)"
proof -
  obtain v where "isSetupStatus v" and s: "s = status_of_payload (as_status_payload v)"
    using assms(1)
    by (auto simp: getStatus_def perform_def getStatus_response_def outcome_iffs result_simps)
  then have "consistent_availability (status_items s) (availability.truncate s)"
    using isSetupStatus_consistent [of v] by simp
  from consistent_counts [OF this, of saved] assms(2,3) show ?thesis
    by (simp add: availability.truncate_def)
qed

definition sample_configuration :: setup_configuration where
  "sample_configuration = \<lparr>sc_objectId = js ''7'', sc_name = js ''Sita.Sings.mp4'', sc_extension = Mp4,
     sc_size = Fin 4096, sc_mediaType = Movie, sc_title = js ''Sita Sings the Blues'', sc_year = Fin 2008,
     sc_showTitle = None, sc_season = None, sc_episode = None\<rparr>"

definition sample_status :: json where
  "sample_status = obj [(''setupRequired'', Some (JBool False)), (''tokenConfigured'', Some (JBool True)),
     (''csrfToken'', Some (JString (js ''c5''))),
     (''selectedItems'', Some (JArray [encode_configuration sample_configuration])),
     (''savedItemCount'', Some (JNumber (Fin 3))), (''activeItemCount'', Some (JNumber (Fin 1))),
     (''unavailableItemCount'', Some (JNumber (Fin 2))), (''degraded'', Some (JBool True))]"

definition answer_with :: "json \<Rightarrow> http_response" where
  "answer_with v = \<lparr>rs_ok = True, rs_header = (\<lambda>_. None), rs_body = Some v\<rparr>"

lemma property_sample_status:
  "property sample_status k = Option.bind (map_of
     [(''setupRequired'', Some (JBool False)), (''tokenConfigured'', Some (JBool True)),
      (''csrfToken'', Some (JString (js ''c5''))),
      (''selectedItems'', Some (JArray [encode_configuration sample_configuration])),
      (''savedItemCount'', Some (JNumber (Fin 3))), (''activeItemCount'', Some (JNumber (Fin 1))),
      (''unavailableItemCount'', Some (JNumber (Fin 2))), (''degraded'', Some (JBool True))] k) id"
  unfolding sample_status_def by (rule property_obj) simp

lemma sample_status_accepted: "isSetupStatus sample_status"
  using js_sub_safe [of 3 1]
  by (simp add: isSetupStatus_def property_sample_status configuration.guard_encode of_count_def
      isNonNegativeInteger_def isInteger_def safe_integer_def isRecord_def)
     (simp add: sample_status_def obj_def)

section \<open>Jobs and Watchlist status\<close>

text \<open>The members of a job, and that the guard looks at nothing else.\<close>

definition job_members :: "string list" where
  "job_members = [''id'', ''state'', ''mediaType'', ''title'', ''year'', ''season'', ''episode'', ''progress'', ''errorCode'',
     ''createdAt'', ''updatedAt'']"

lemma isAcquisitionJob_members:
  assumes "list_all (\<lambda>k. property v k = property w k) job_members" "isRecord v" "isRecord w"
  shows "isAcquisitionJob dateFinite v \<longleftrightarrow> isAcquisitionJob dateFinite w"
proof -
  have "property v ''id'' = property w ''id''" "property v ''state'' = property w ''state''"
    "property v ''mediaType'' = property w ''mediaType''" "property v ''title'' = property w ''title''"
    "property v ''year'' = property w ''year''" "property v ''season'' = property w ''season''"
    "property v ''episode'' = property w ''episode''" "property v ''progress'' = property w ''progress''"
    "property v ''errorCode'' = property w ''errorCode''" "property v ''createdAt'' = property w ''createdAt''"
    "property v ''updatedAt'' = property w ''updatedAt''"
    using assms(1) by (simp_all add: job_members_def)
  with assms(2,3) show ?thesis unfolding isAcquisitionJob_iff by simp
qed

lemma isRecord_encoded_job: "isRecord (encode_acquisition_job j)"
  by (simp add: encode_acquisition_job_def)

text \<open>
  C33. The guard for background jobs is exact: a value is accepted exactly when it is a record that agrees with a well-formed
  job on every member of the type, one with a 32-digit identifier, one of the six states and two media types, a title of 1
  to 200 code units, a year from 1888 to 2100, a progress from 0 to 100, readable timestamps, one of the seven error codes or
  none, and a season and an episode that are in range for an episode and absent for a movie. That job is what the client reads.
\<close>

theorem isAcquisitionJob_exact:
  "isAcquisitionJob dateFinite v \<longleftrightarrow> isRecord v
     \<and> (\<exists>j. wf_job dateFinite j \<and> list_all (\<lambda>k. property v k = property (encode_acquisition_job j) k) job_members
          \<and> as_acquisition_job v = j)"
proof
  assume v: "isAcquisitionJob dateFinite v"
  then have "isRecord v" by (simp add: isAcquisitionJob_iff)
  moreover have "wf_job dateFinite (as_acquisition_job v)" using v by (rule job.constrained)
  moreover have "list_all (\<lambda>k. property v k = property (encode_acquisition_job (as_acquisition_job v)) k) job_members"
    using job.faithful [OF v] by (simp add: list_all_iff job_members_def)
  ultimately show "isRecord v \<and> (\<exists>j. wf_job dateFinite j
      \<and> list_all (\<lambda>k. property v k = property (encode_acquisition_job j) k) job_members \<and> as_acquisition_job v = j)" by blast
next
  assume "isRecord v \<and> (\<exists>j. wf_job dateFinite j
      \<and> list_all (\<lambda>k. property v k = property (encode_acquisition_job j) k) job_members \<and> as_acquisition_job v = j)"
  then obtain j where "isRecord v" "wf_job dateFinite j" "list_all (\<lambda>k. property v k = property (encode_acquisition_job j) k) job_members"
    by blast
  with isAcquisitionJob_members [of v "encode_acquisition_job j"] isRecord_encoded_job job.accepts show "isAcquisitionJob dateFinite v"
    by blast
qed

text \<open>
  Asking for a job round-trips: a job served as JSON is what \<open>getAcquisitionJob\<close> returns when it is
  well formed, and otherwise the call fails with \<open>invalid_acquisition_job\<close>; the request goes to the
  identifier's own path, without any escape, whenever the identifier has the form jobs have.
\<close>

lemma getAcquisitionJob_roundtrip:
  assumes "hex_string 32 jobId"
    and "fetch (paired_request ''GET'' (js ''/api/acquisition/jobs/'' @ jobId) csrf auth None)
           = Some (answer_with (encode_acquisition_job j))"
  shows "getAcquisitionJob dateFinite fetch jobId csrf auth =
    (if wf_job dateFinite j then Inr j
     else Inl (SetupAPIError (js ''invalid_acquisition_job'') (js ''BlackPearl returned an unexpected response.'')))"
proof -
  have "getAcquisitionJob dateFinite fetch jobId csrf auth =
    readJSON (answer_with (encode_acquisition_job j)) (isAcquisitionJob dateFinite) as_acquisition_job
      ''invalid_acquisition_job''"
    using assms encodeURIComponent_hex [OF assms(1)]
    by (simp add: getAcquisitionJob_def getAcquisitionJob_request_def perform_def deliver_def
        getAcquisitionJob_response_def)
  then show ?thesis
    by (simp only: job.readJSON_encoded answer_with_def http_response.simps)
qed

definition sample_job :: acquisition_job where
  "sample_job = \<lparr>aj_id = replicate 32 (cu CHR ''a''), aj_state = Preparing, aj_mediaType = Episode,
     aj_title = js ''Lost'', aj_year = Fin 2004, aj_season = Some (Fin 1), aj_episode = Some (Fin 2),
     aj_progress = Fin 40, aj_errorCode = None, aj_createdAt = js ''t'', aj_updatedAt = js ''t''\<rparr>"

lemma hex_a: "hex_string n (replicate n (cu CHR ''a''))"
proof -
  have "is_hex_cu (cu CHR ''a'')" by code_simp
  then show ?thesis by (simp add: hex_string_def)
qed

lemma wf_sample_job: "wf_job (\<lambda>_. True) sample_job"
  using hex_a [of 32]
  by (simp add: wf_job_def sample_job_def in_range_def isInteger_def js_simps)

text \<open>
  The same for the Watchlist: a status served as JSON is returned unchanged when every count is a
  nonnegative integer and the time of the last synchronisation is readable, and rejected otherwise.
\<close>

lemma getWatchlistStatus_roundtrip:
  "getWatchlistStatus dateFinite (\<lambda>rq. Some (answer_with (encode_watchlist_status s))) csrf auth =
    (if wf_watchlist dateFinite s then Inr s
     else Inl (SetupAPIError (js ''invalid_watchlist_status'') (js ''BlackPearl returned an unexpected response.'')))"
  by (simp add: getWatchlistStatus_def perform_def deliver_def getWatchlistStatus_response_def
      watchlist.readJSON_encoded answer_with_def)

section \<open>Sessions\<close>

text \<open>
  No mutation succeeds without a fresh session: whatever the server answers, a result of
  \<open>discoverMedia\<close>, \<open>applyConfiguration\<close>, \<open>setWatchlistPolicy\<close>, \<open>configureAcquisition\<close>,
  \<open>acquireMedia\<close> or \<open>submitAcquisitionJob\<close> carries 64 lowercase hexadecimal digits.
\<close>

lemma mutations_carry_session:
  "(discoverMedia fetch token csrf auth = Inr (cs, session) \<longrightarrow> hex_string 64 session)
   \<and> (applyConfiguration fetch input csrf auth = Inr (a, session) \<longrightarrow> hex_string 64 session)
   \<and> (setWatchlistPolicy dateFinite fetch acq policy csrf auth = Inr (w, session) \<longrightarrow> hex_string 64 session)
   \<and> (configureAcquisition fetch url apiKey csrf auth = Inr (b, session) \<longrightarrow> hex_string 64 session)
   \<and> (acquireMedia fetch intent csrf auth = Inr (a, session) \<longrightarrow> hex_string 64 session)
   \<and> (submitAcquisitionJob dateFinite fetch intent csrf auth = Inr (jc, session) \<longrightarrow> hex_string 64 session)"
proof -
  obtain j c where jc: "jc = (j, c)" by (cases jc)
  show ?thesis
    unfolding jc discoverMedia_def applyConfiguration_def setWatchlistPolicy_def configureAcquisition_def
      acquireMedia_def submitAcquisitionJob_def perform_def deliver_Inr_iff
    by (auto dest: api_results)
qed

section \<open>Paths\<close>

text \<open>
  A job identifier cannot change the path it is put in: whatever the string, the encoded component
  consists of unreserved characters and percent signs, so it holds no slash, question mark or
  number sign.
\<close>

lemma encodeURIComponent_safe:
  "encodeURIComponent s = Some t \<Longrightarrow> \<forall>c \<in> set t. is_unreserved_cu c \<or> c = cu CHR ''%''"
  by (rule encodeURIComponent_chars)

lemma slash_encoded:
  "\<not> is_unreserved_cu (cu CHR ''/'')" "\<not> is_low_surrogate (cu CHR ''/'')" "\<not> is_high_surrogate (cu CHR ''/'')"
  "percent_encode (unat (cu CHR ''/'')) = js ''%2F''"
proof -
  show "\<not> is_unreserved_cu (cu CHR ''/'')" by code_simp
  show "\<not> is_low_surrogate (cu CHR ''/'')" by (simp add: is_low_surrogate_def unat_cu)
  show "\<not> is_high_surrogate (cu CHR ''/'')" by (simp add: is_high_surrogate_def unat_cu)
  have "js ''%2F'' = [cu CHR ''%'', of_nat 50, of_nat 70]" by code_simp
  then show "percent_encode (unat (cu CHR ''/'')) = js ''%2F''"
    by (simp add: percent_encode_def utf8_bytes_def hex_digit_upper_def unat_cu)
qed

text \<open>
  Percent encoding loses nothing: decoding what \<open>encodeURIComponent\<close> writes, as a reader of form data
  does, gives the original string, for every string it accepts. So different identifiers have
  different paths.
\<close>

lemma encodeURIComponent_roundtrip:
  "encodeURIComponent s = Some t \<Longrightarrow> form_decode t = s"
  by (rule form_decode_encoded)

section \<open>Published manifests\<close>

definition selection_envelope :: "setup_configuration \<Rightarrow> setup_configuration list \<Rightarrow> json" where
  "selection_envelope c items = obj [(''selected'', Some (encode_configuration c)),
     (''selectedItems'', Some (JArray (map encode_configuration items)))]"

lemma selection_envelope_read:
  assumes "items \<noteq> []"
  shows "isSelectionEnvelope (selection_envelope c items)"
    "as_apply_result (selection_envelope c items) = \<lparr>ar_selected = c, ar_selectedItems = items\<rparr>"
  using assms configuration.accepts
  by (simp_all add: selection_envelope_def isSelectionEnvelope_def as_apply_result_def property_obj list_all_iff
      configuration.view_encode comp_def)

text \<open>
  Publishing round-trips: when the server answers a configuration with the published manifest and a
  session, the console receives exactly the items served, in order and with every optional member, and
  that session; the same holds of an instant acquisition.
\<close>

lemma published_manifest_roundtrip:
  assumes "items \<noteq> []" "hex_string 64 session" "rs_ok r" "rs_header r ''X-BlackPearl-Session'' = Some session"
    and "rs_body r = Some (selection_envelope c items)"
  shows "applyConfiguration (\<lambda>rq. Some r) input csrf auth = Inr (\<lparr>ar_selected = c, ar_selectedItems = items\<rparr>, session)
    \<and> acquireMedia (\<lambda>rq. Some r) intent csrf auth = Inr (\<lparr>ar_selected = c, ar_selectedItems = items\<rparr>, session)"
  using assms selection_envelope_read [OF assms(1)]
  by (simp add: applyConfiguration_def acquireMedia_def perform_def deliver_def applyConfiguration_response_def
      acquireMedia_response_def with_session_Inr_iff readJSON_Inr_iff readSession_Inr_iff)

end
