(* ===== verification/Console_Format.thy ===== *)
theory Console_Format
  imports Console_Suggest Setup_Contract
begin

text \<open>
  The console's pure helpers (\<open>web/src/components/setup-console.tsx\<close>, below the component): public
  error messages, availability, Watchlist and job texts, validity of drafts and requests, labels and
  byte sizes. Each is one definition with the source's name.
\<close>

section \<open>Messages and availability\<close>

datatype phase = Loading | Credentials | Select | Ready
datatype acquisition_view = Closed | LoadingView | Settings | Search

definition publicMessage :: "api_error \<Rightarrow> jsstring" where
  "publicMessage error = (case error of SetupAPIError code message \<Rightarrow> message
     | HostError \<Rightarrow> js ''BlackPearl could not reach its local setup service.'')"

definition availabilityFromStatus :: "setup_status \<Rightarrow> availability" where
  "availabilityFromStatus status = \<lparr>
     av_savedItemCount = av_savedItemCount status,
     av_activeItemCount = av_activeItemCount status,
     av_unavailableItemCount = av_unavailableItemCount status,
     av_degraded = av_degraded status\<rparr>"

definition completeAvailability :: "setup_configuration list \<Rightarrow> availability" where
  "completeAvailability items = \<lparr>
     av_savedItemCount = of_count (length items),
     av_activeItemCount = of_count (length items),
     av_unavailableItemCount = Fin 0,
     av_degraded = False\<rparr>"

definition degradedAvailabilityMessage :: "'a availability_scheme \<Rightarrow> jsstring" where
  "degradedAvailabilityMessage a =
     number_to_string (av_activeItemCount a) @ js '' of '' @ number_to_string (av_savedItemCount a)
     @ js '' files are available. BlackPearl is retrying the other ''
     @ number_to_string (av_unavailableItemCount a) @ js '' automatically.''"

definition phaseLabel :: "phase \<Rightarrow> jsstring" where
  "phaseLabel p = (if p = Ready then js ''READY'' else if p = Loading then js ''STARTING'' else js ''SETUP'')"

section \<open>Watchlist\<close>

definition waitingItemCount :: "watchlist_status \<Rightarrow> number" where
  "waitingItemCount status =
     js_add (js_add (js_add (wq_pendingMovies (ws_queue status)) (wq_acquiring (ws_queue status)))
                    (wq_notCached (ws_queue status)))
            (wq_retryable (ws_queue status))"

definition watchlistSummary :: "watchlist_status \<Rightarrow> jsstring" where
  "watchlistSummary status =
     (if \<not> ws_enabled status then js ''Plex Watchlist observation is turned off.''
      else if \<not> ws_healthy status then js ''BlackPearl could not read Plex Watchlist during its latest check.''
      else if ws_acquisitionEnabled status \<and> ws_showPolicy status = Pilot
      then js ''BlackPearl will consider newly added authorized movies and only S01E01 for newly added shows. TorBox may download an uncached release.''
      else if ws_acquisitionEnabled status
      then js ''BlackPearl will consider only new authorized movies added after auto add was enabled. TorBox may download an uncached release.''
      else js ''BlackPearl is watching Plex. Automatic adding stays off until your authorized Prowlarr indexers are ready.'')"

section \<open>Requests\<close>

definition mediaTypeFromValue :: "jsstring \<Rightarrow> media_type" where
  "mediaTypeFromValue value = (if value = js ''episode'' then Episode else Movie)"

definition validAcquisitionRequest ::
  "jsstring \<Rightarrow> number \<Rightarrow> media_type \<Rightarrow> number \<Rightarrow> number \<Rightarrow> bool" where
  "validAcquisitionRequest title year mediaType season episode =
     (if trim title = [] \<or> \<not> isInteger year \<or> js_less year (Fin 1888) \<or> js_less (Fin 2100) year then False
      else if mediaType = Movie then True
      else isInteger season \<and> js_ge season (Fin 0) \<and> js_le season (Fin 99)
           \<and> isInteger episode \<and> js_ge episode (Fin 1) \<and> js_le episode (Fin 999))"

definition acquisitionIntent ::
  "media_type \<Rightarrow> jsstring \<Rightarrow> number \<Rightarrow> number \<Rightarrow> number \<Rightarrow> acquisition_intent" where
  "acquisitionIntent mediaType title year season episode =
     (if mediaType = Episode then EpisodeIntent (trim title) year season episode
      else MovieIntent (trim title) year)"

section \<open>Background jobs\<close>

definition terminalAcquisitionJob :: "acquisition_job \<Rightarrow> bool" where
  "terminalAcquisitionJob job \<longleftrightarrow>
     aj_state job = Succeeded \<or> aj_state job = Failed \<or> aj_state job = ManualReview"

definition acquisitionJobStateLabel :: "acquisition_job \<Rightarrow> jsstring" where
  "acquisitionJobStateLabel job = (case aj_state job of
     Queued \<Rightarrow> js ''Queued''
   | Selected \<Rightarrow> js ''Release selected''
   | Preparing \<Rightarrow> (if aj_errorCode job \<noteq> None then js ''Waiting to retry'' else js ''Preparing'')
   | Succeeded \<Rightarrow> js ''Added to Plex''
   | Failed \<Rightarrow> js ''Could not prepare''
   | ManualReview \<Rightarrow> js ''Needs review'')"

definition acquisitionJobProgress :: "acquisition_job \<Rightarrow> number" where
  "acquisitionJobProgress job =
     (if aj_state job = Queued then Fin 5
      else if aj_state job = Selected then Fin 15
      else if aj_state job = Preparing then aj_progress job
      else Fin 100)"

definition acquisitionJobDetail :: "acquisition_job \<Rightarrow> jsstring" where
  "acquisitionJobDetail job =
     (if aj_state job = Queued then js ''BlackPearl saved the request and will choose a verified release next.''
      else if aj_state job = Selected then js ''The release fingerprint is safely stored. BlackPearl is reconciling it with TorBox before creation.''
      else if aj_state job = Preparing \<and> aj_errorCode job = Some Unauthorized then js ''A saved provider key needs attention. Reconnect the provider, then BlackPearl will retry.''
      else if aj_state job = Preparing \<and> aj_errorCode job \<noteq> None then js ''The provider is temporarily unavailable. BlackPearl will retry without duplicating the request.''
      else if aj_state job = Preparing then js ''TorBox is preparing the media while BlackPearl checks for a playable file.''
      else if aj_state job = Succeeded then js ''The media was published through BlackPearl and a Plex library refresh was requested.''
      else if aj_state job = ManualReview then js ''BlackPearl stopped automatic retries because the provider result was ambiguous.''
      else if aj_errorCode job = Some NoRelease then js ''No compatible torrent release was available from the configured authorized indexers.''
      else if aj_errorCode job = Some NoPlayableMedia then js ''The prepared item did not contain a matching MP4 or MKV video.''
      else if aj_errorCode job = Some Stalled then js ''TorBox could not finish this release because no source was available. Search again to try another verified release.''
      else js ''The selected release could not be prepared safely.'')"

definition acquisitionJobMessage :: "acquisition_job \<Rightarrow> jsstring" where
  "acquisitionJobMessage job =
     (if aj_state job = Succeeded then js ''Added '' @ aj_title job @ js '' to Plex.''
      else if aj_state job = Failed then aj_title job @ js '' could not be prepared safely.''
      else if aj_state job = ManualReview then aj_title job @ js '' needs review before BlackPearl will try again.''
      else aj_title job @ js '' is saved for background preparation.'')"

section \<open>Drafts and the manifest\<close>

definition validDraft :: "selection_draft \<Rightarrow> bool" where
  "validDraft draft =
     (if trim (sd_title draft) = [] \<or> \<not> isInteger (sd_year draft)
         \<or> js_less (sd_year draft) (Fin 1888) \<or> js_less (Fin 2100) (sd_year draft) then False
      else if sd_mediaType draft = Movie then True
      else trim (sd_showTitle draft) \<noteq> []
           \<and> isInteger (sd_season draft) \<and> js_ge (sd_season draft) (Fin 0) \<and> js_le (sd_season draft) (Fin 99)
           \<and> isInteger (sd_episode draft) \<and> js_ge (sd_episode draft) (Fin 1) \<and> js_le (sd_episode draft) (Fin 999))"

definition toApplyItem :: "selection_draft \<Rightarrow> apply_item" where
  "toApplyItem draft =
     (if sd_mediaType draft = Episode
      then \<lparr>ai_objectId = sd_objectId draft, ai_mediaType = sd_mediaType draft, ai_title = sd_title draft,
            ai_year = sd_year draft, ai_showTitle = Some (sd_showTitle draft),
            ai_season = Some (sd_season draft), ai_episode = Some (sd_episode draft)\<rparr>
      else \<lparr>ai_objectId = sd_objectId draft, ai_mediaType = sd_mediaType draft, ai_title = sd_title draft,
            ai_year = sd_year draft, ai_showTitle = None, ai_season = None, ai_episode = None\<rparr>)"

definition pad2 :: "number \<Rightarrow> jsstring" where
  "pad2 n = padStart 2 (cu CHR ''0'') (number_to_string n)"

definition manifestLabel :: "setup_configuration \<Rightarrow> jsstring" where
  "manifestLabel item =
     (if sc_mediaType item = Episode
      then (case sc_showTitle item of None \<Rightarrow> js ''TV Show'' | Some t \<Rightarrow> t)
           @ js '' S'' @ pad2 (case sc_season item of None \<Rightarrow> Fin 0 | Some n \<Rightarrow> n)
           @ js ''E'' @ pad2 (case sc_episode item of None \<Rightarrow> Fin 0 | Some n \<Rightarrow> n)
      else sc_title item @ js '' ('' @ number_to_string (sc_year item) @ js '')'')"

section \<open>Byte sizes\<close>

definition byte_units :: "jsstring list" where
  "byte_units = [js ''KB'', js ''MB'', js ''GB'', js ''TB'']"

text \<open>The \<open>do\<close>-\<open>while\<close> loop, entered with the index of the unit its first division reaches.\<close>

function scale_bytes :: "nat \<Rightarrow> number \<Rightarrow> nat \<times> number" where
  "scale_bytes unit value =
     (let value' = js_div_pos value 1024 in
      if js_ge value' (Fin 1024) \<and> unit < length byte_units - 1 then scale_bytes (Suc unit) value'
      else (unit, value'))"
  by pat_completeness auto
termination
  by (relation "measure (\<lambda>(unit, value). length byte_units - unit)") auto

declare scale_bytes.simps [simp del]

definition formatBytes :: "number \<Rightarrow> jsstring" where
  "formatBytes bytes =
     (if js_less bytes (Fin 1024) then number_to_string bytes @ js '' B''
      else case scale_bytes 0 bytes of
        (unit, value) \<Rightarrow> toFixed (if js_ge value (Fin 10) then 1 else 2) value @ js '' '' @ byte_units ! unit)"

section \<open>Facts about the helpers\<close>

lemma validDraft_iff:
  "validDraft d \<longleftrightarrow> trim (sd_title d) \<noteq> [] \<and> in_range 1888 2100 (sd_year d)
     \<and> (sd_mediaType d = Episode \<longrightarrow> trim (sd_showTitle d) \<noteq> []
        \<and> in_range 0 99 (sd_season d) \<and> in_range 1 999 (sd_episode d))"
  using integer_in_range [of "sd_year d" 1888 2100]
  by (cases "sd_mediaType d") (auto simp: validDraft_def in_range_def)

lemma validAcquisitionRequest_iff:
  "validAcquisitionRequest title year mediaType season episode \<longleftrightarrow>
     trim title \<noteq> [] \<and> in_range 1888 2100 year
     \<and> (mediaType = Episode \<longrightarrow> in_range 0 99 season \<and> in_range 1 999 episode)"
  using integer_in_range [of year 1888 2100]
  by (cases mediaType) (auto simp: validAcquisitionRequest_def in_range_def)

text \<open>What the server may rely on in an intent and in an item of a manifest.\<close>

fun wf_intent :: "acquisition_intent \<Rightarrow> bool" where
  "wf_intent (MovieIntent title year) \<longleftrightarrow>
     title \<noteq> [] \<and> trim title = title \<and> in_range 1888 2100 year"
| "wf_intent (EpisodeIntent title year season episode) \<longleftrightarrow>
     title \<noteq> [] \<and> trim title = title \<and> in_range 1888 2100 year
     \<and> in_range 0 99 season \<and> in_range 1 999 episode"

definition wf_apply_item :: "apply_item \<Rightarrow> bool" where
  "wf_apply_item i \<longleftrightarrow> trim (ai_title i) \<noteq> [] \<and> in_range 1888 2100 (ai_year i)
     \<and> (case ai_mediaType i of
          Movie \<Rightarrow> ai_showTitle i = None \<and> ai_season i = None \<and> ai_episode i = None
        | Episode \<Rightarrow> (case ai_showTitle i of None \<Rightarrow> False | Some t \<Rightarrow> trim t \<noteq> [])
                    \<and> (case ai_season i of None \<Rightarrow> False | Some s \<Rightarrow> in_range 0 99 s)
                    \<and> (case ai_episode i of None \<Rightarrow> False | Some e \<Rightarrow> in_range 1 999 e))"

lemma validAcquisitionRequest_intent:
  "validAcquisitionRequest title year mediaType season episode \<Longrightarrow>
   wf_intent (acquisitionIntent mediaType title year season episode)"
  by (cases mediaType) (auto simp: validAcquisitionRequest_iff acquisitionIntent_def)

lemma validDraft_apply_item: "validDraft d \<Longrightarrow> wf_apply_item (toApplyItem d)"
  by (cases "sd_mediaType d") (auto simp: validDraft_iff toApplyItem_def wf_apply_item_def)

lemma toApplyItem_objectId [simp]: "ai_objectId (toApplyItem d) = sd_objectId d"
  by (simp add: toApplyItem_def)

text \<open>Division by 1024 is exact on the sizes that occur, so the loop finds the unit.\<close>

lemma js_div_1024:
  assumes "n < 2 ^ 53" "k \<le> 90"
  shows "js_div_pos (Fin (of_nat n / 1024 ^ k)) 1024 = Fin (of_nat n / 1024 ^ Suc k)"
proof -
  have pow: "(1024::rat) ^ m = 2 ^ (10 * m)" for m
    by (simp add: power_mult)
  have "safe_integer (int n)" using assms(1) by (simp add: safe_integer_def)
  from to_double_dyadic [OF this, of "10 * Suc k"] assms(2) show ?thesis
    unfolding pow [of k] pow [of "Suc k"] by (simp add: power_add mult.commute)
qed

lemma scale_bytes_correct:
  assumes "n < 2 ^ 53" "u \<le> 3" "1024 ^ Suc u \<le> n"
  shows "\<exists>v. scale_bytes u (Fin (of_nat n / 1024 ^ u)) = (v, Fin (of_nat n / 1024 ^ Suc v))
           \<and> v \<le> 3 \<and> 1024 ^ Suc v \<le> n \<and> (v = 3 \<or> n < 1024 ^ Suc (Suc v))"
  using assms(2,3)
proof (induction "3 - u" arbitrary: u)
  case 0
  then have "u = 3" by simp
  with 0 js_div_1024 [OF assms(1), of 3] show ?case
    by (subst scale_bytes.simps) (simp add: byte_units_def)
next
  case (Suc d)
  have step: "js_div_pos (Fin (of_nat n / 1024 ^ u)) 1024 = Fin (of_nat n / 1024 ^ Suc u)"
    using js_div_1024 [OF assms(1), of u] Suc.prems(1) by simp
  have ge: "js_ge (Fin (of_nat n / 1024 ^ Suc u)) (Fin 1024) \<longleftrightarrow> 1024 ^ Suc (Suc u) \<le> n"
  proof -
    have "js_ge (Fin (of_nat n / 1024 ^ Suc u)) (Fin 1024) \<longleftrightarrow> (of_nat (1024 ^ Suc (Suc u)) :: rat) \<le> of_nat n"
      by (simp add: pos_le_divide_eq)
    then show ?thesis by (simp only: of_nat_le_iff)
  qed
  show ?case
  proof (cases "1024 ^ Suc (Suc u) \<le> n")
    case True
    from Suc.hyps(2) have u: "d = 3 - Suc u" "Suc u \<le> 3" by simp_all
    from Suc.hyps(1) [OF u True] True u(2) ge step show ?thesis
      by (subst scale_bytes.simps) (simp add: byte_units_def)
  next
    case False
    with ge step Suc.prems show ?thesis
      by (subst scale_bytes.simps) (auto simp: byte_units_def intro!: exI [of _ u])
  qed
qed

text \<open>
  Sizes are shown in the right unit: for every size from 1024 bytes to \<open>2\<^sup>5\<^sup>3 - 1\<close> the text shows the exact
  quotient of the size by the unit, rounded to one decimal from ten units on and to two below,
  and the unit is the largest of KB, MB, GB and TB that is not larger than the size.
\<close>

lemma formatBytes_unit:
  assumes "1024 \<le> n" "n < 2 ^ 53"
  shows "\<exists>unit. unit \<le> 3 \<and> 1024 ^ Suc unit \<le> n \<and> (unit = 3 \<or> n < 1024 ^ Suc (Suc unit))
    \<and> formatBytes (of_count n) =
        toFixed (if 10 * 1024 ^ Suc unit \<le> n then 1 else 2) (Fin (of_nat n / 1024 ^ Suc unit))
        @ js '' '' @ byte_units ! unit"
proof -
  obtain unit where unit: "scale_bytes 0 (of_count n) = (unit, Fin (of_nat n / 1024 ^ Suc unit))" "unit \<le> 3"
    "1024 ^ Suc unit \<le> n" "unit = 3 \<or> n < 1024 ^ Suc (Suc unit)"
    using scale_bytes_correct [OF assms(2), of 0] assms(1) by (auto simp: of_count_def)
  have "js_ge (Fin (of_nat n / 1024 ^ Suc unit)) (Fin 10) \<longleftrightarrow> (of_nat (10 * 1024 ^ Suc unit) :: rat) \<le> of_nat n"
    by (simp add: pos_le_divide_eq)
  then have "js_ge (Fin (of_nat n / 1024 ^ Suc unit)) (Fin 10) \<longleftrightarrow> 10 * 1024 ^ Suc unit \<le> n"
    by (simp only: of_nat_le_iff)
  moreover have "\<not> js_less (of_count n) (Fin 1024)"
    using assms(1) by (simp add: of_count_def)
  ultimately have "formatBytes (of_count n) =
      toFixed (if 10 * 1024 ^ Suc unit \<le> n then 1 else 2) (Fin (of_nat n / 1024 ^ Suc unit)) @ js '' '' @ byte_units ! unit"
    by (simp only: formatBytes_def unit(1) prod.case if_False)
  with unit(2-4) show ?thesis by blast
qed

text \<open>
  The number of waiting items shown is the exact sum of the pending, acquiring, not cached and
  retryable counts, for all counts whose sum is below \<open>2\<^sup>5\<^sup>3\<close>.
\<close>

lemma waitingItemCount_exact:
  assumes "wq_pendingMovies (ws_queue s) = of_count a" "wq_acquiring (ws_queue s) = of_count b"
    "wq_notCached (ws_queue s) = of_count c" "wq_retryable (ws_queue s) = of_count d" "a + b + c + d < 2 ^ 53"
  shows "waitingItemCount s = of_count (a + b + c + d)"
proof -
  have add: "js_add (of_count m) (of_count k) = of_count (m + k)" if "m + k < 2 ^ 53" for m k
    using js_add_safe [of "int m" "int k"] that by (simp add: of_count_def safe_integer_def)
  show ?thesis using assms by (simp add: waitingItemCount_def add)
qed

text \<open>
  The forms let through exactly the valid input: a draft is valid when its title is not blank, its year
  is a whole number from 1888 to 2100 and, for an episode, its show title is not blank, its season lies
  in 0 to 99 and its episode in 1 to 999; the item built from a valid draft satisfies the constraints
  of the manifest, and the intent built from a valid request those of an acquisition.
\<close>

lemma forms_submit_valid_input:
  "(validDraft d \<longleftrightarrow> trim (sd_title d) \<noteq> [] \<and> in_range 1888 2100 (sd_year d)
      \<and> (if sd_mediaType d = Episode then trim (sd_showTitle d) \<noteq> []
          \<and> in_range 0 99 (sd_season d) \<and> in_range 1 999 (sd_episode d) else True))
   \<and> (validDraft d \<longrightarrow> wf_apply_item (toApplyItem d))
   \<and> (validAcquisitionRequest title year mediaType season episode \<longrightarrow>
        wf_intent (acquisitionIntent mediaType title year season episode))"
  using validDraft_iff validDraft_apply_item validAcquisitionRequest_intent by auto

text \<open>
  The progress bar of a well-formed job never leaves 0 to 100, and it is full exactly for the
  finished states or a preparation reported as complete.
\<close>

lemma acquisitionJobProgress_range:
  assumes "wf_job dateFinite job"
  shows "in_range 0 100 (acquisitionJobProgress job)
    \<and> (acquisitionJobProgress job = Fin 100 \<longleftrightarrow>
         terminalAcquisitionJob job \<or> (aj_state job = Preparing \<and> aj_progress job = Fin 100))"
  using assms
  by (cases "aj_state job")
    (auto simp: acquisitionJobProgress_def terminalAcquisitionJob_def wf_job_def in_range_def isInteger_def)

lemma scale_bytes_unit: "u \<le> 3 \<Longrightarrow> fst (scale_bytes u v) \<le> 3"
proof (induction u v rule: scale_bytes.induct)
  case (1 u v)
  then show ?case
    by (subst scale_bytes.simps) (simp add: Let_def byte_units_def)
qed

text \<open>
  C35. Formatting a size always ends, for every number, the infinities and \<open>NaN\<close> included, and ends with
  one of the five units: the loop stops after at most four divisions and never reads past the table.
\<close>

theorem formatBytes_total:
  "\<exists>amount unit. formatBytes bytes = amount @ js '' '' @ unit \<and> unit \<in> set (js ''B'' # byte_units)"
proof (cases "js_less bytes (Fin 1024)")
  case True
  then have "formatBytes bytes = number_to_string bytes @ js '' '' @ js ''B''"
    by (simp add: formatBytes_def)
  then show ?thesis by (meson list.set_intros(1))
next
  case False
  obtain unit v where uv: "scale_bytes 0 bytes = (unit, v)" by (cases "scale_bytes 0 bytes")
  then have "unit < length byte_units" using scale_bytes_unit [of 0 bytes] by (simp add: byte_units_def)
  then have "byte_units ! unit \<in> set (js ''B'' # byte_units)" by (meson list.set_intros(2) nth_mem)
  moreover have "formatBytes bytes = toFixed (if js_ge v (Fin 10) then 1 else 2) v @ js '' '' @ byte_units ! unit"
    using False uv by (simp only: formatBytes_def prod.case if_False)
  ultimately show ?thesis by blast
qed

end
