(* ===== verification/Console_Names.thy ===== *)
theory Console_Names
  imports Console_Format
begin

text \<open>
  File names and labels fit together: the label \<open>manifestLabel\<close> prints for an episode, used as a
  file name, is read back by \<open>suggestDraft\<close> as the same season and episode of the same show.
\<close>

section \<open>Stripping the extension\<close>

lemma run_extension_pattern:
  assumes "s' \<in> set (run_regex True extension_pattern (pre, rest, caps))"
  shows "length rest = 4 \<and> ahead s' = []"
proof -
  have eq: "extension_pattern = RSeq (RChar (cu CHR ''.''))
      (RSeq (RGroup 1 (RAlt (word_regex ''mkv'') (word_regex ''mp4''))) REnd)"
    by (simp add: extension_pattern_def)
  from assms have "ahead s' = []" unfolding eq by (elim run_seq) (simp split: if_splits)
  moreover from assms have "advances True extension_pattern (pre, rest, caps) s'"
    by (intro run_advances) (simp_all add: eq word_regex_def)
  then have "length rest = 4 + length (ahead s')"
    by (auto simp: advances_def eq word_regex_def)
  ultimately show ?thesis by simp
qed

lemma exec_extension_mkv:
  "exec_from True extension_pattern pre (s @ js ''.mkv'') =
     Some ((rev s @ pre, js ''.mkv'', Map.empty),
           (rev (js ''.mkv'') @ rev s @ pre, [], Map.empty(1 \<mapsto> js ''mkv'')))"
proof (induction s arbitrary: pre)
  case Nil
  show ?case
    by (subst exec_from.simps)
      (simp add: extension_pattern_def word_regex_def char_matches_def ahead_def)
next
  case (Cons c s)
  have "run_regex True extension_pattern (pre, c # s @ js ''.mkv'', Map.empty) = []"
  proof (rule ccontr)
    assume "\<not> ?thesis"
    then obtain s' where "s' \<in> set (run_regex True extension_pattern (pre, c # s @ js ''.mkv'', Map.empty))"
      by (meson list.set_sel(1))
    from run_extension_pattern [OF this] show False by simp
  qed
  then have "exec_from True extension_pattern pre (c # (s @ js ''.mkv'')) =
      exec_from True extension_pattern (c # pre) (s @ js ''.mkv'')"
    by (subst exec_from.simps) simp
  with Cons.IH [of "c # pre"] show ?case by (simp only: append_Cons append_Nil append_assoc rev.simps)
qed

lemma strip_extension_mkv [simp]: "strip_extension (s @ js ''.mkv'') = s"
  using exec_extension_mkv [of "[]" s]
  by (simp add: strip_extension_def replace_first_def exec_regex_def)

lemma base_name_plain: "cu CHR ''/'' \<notin> set name \<Longrightarrow> base_name name = name"
  by (simp add: base_name_def split_on_no_sep at_last_def)

section \<open>A split of a labelled name is unique\<close>

lemma letters_not_separator:
  "c \<in> set (js ''Ss'') \<Longrightarrow> \<not> is_separator c" "c \<in> set (js ''Ee'') \<Longrightarrow> \<not> is_separator c"
  by (auto simp: is_separator_def)

lemma digit_not_separator: "is_digit_cu c \<Longrightarrow> \<not> is_separator c"
  by (auto simp: is_digit_cu_def is_separator_def cu_less_eq_iff)

lemma E_not_digit: "c \<in> set (js ''Ee'') \<Longrightarrow> \<not> is_digit_cu c"
  by (auto simp: is_digit_cu_def cu_less_eq_iff)

definition episode_code :: "code_unit \<Rightarrow> jsstring \<Rightarrow> code_unit \<Rightarrow> jsstring \<Rightarrow> jsstring" where
  "episode_code c1 ds c2 de = c1 # ds @ c2 # de"

lemma episode_code_no_separator:
  assumes "c1 \<in> set (js ''Ss'')" "c2 \<in> set (js ''Ee'')" "\<forall>c \<in> set ds. is_digit_cu c" "\<forall>c \<in> set de. is_digit_cu c"
  shows "\<forall>c \<in> set (episode_code c1 ds c2 de). \<not> is_separator c"
  using assms letters_not_separator digit_not_separator unfolding episode_code_def by auto

text \<open>A separator in front of the label's code cannot lie inside an earlier code of a split.\<close>

lemma episode_split_prefix:
  assumes split: "episode_split base sh sp c1 ds c2 de tail"
    and eq: "episode_code c1 ds c2 de @ tail = us @ c # body" and c: "is_separator c"
  shows "episode_tail (drop (length (episode_code c1 ds c2 de)) us)
    \<and> us = episode_code c1 ds c2 de @ drop (length (episode_code c1 ds c2 de)) us"
proof -
  let ?w = "episode_code c1 ds c2 de"
  have nosep: "\<forall>c \<in> set ?w. \<not> is_separator c"
    using split by (intro episode_code_no_separator) (auto simp: episode_split_def)
  from eq obtain vs where "(?w = us @ vs \<and> vs @ tail = c # body) \<or> (?w @ vs = us \<and> tail = vs @ c # body)"
    by (auto simp: append_eq_append_conv2)
  then consider (inside) "?w = us @ vs" "vs @ tail = c # body" | (after) "us = ?w @ vs" "tail = vs @ c # body"
    by auto
  then show ?thesis
  proof cases
    case inside
    have "vs = []"
    proof (rule ccontr)
      assume "vs \<noteq> []"
      with inside(2) have "c \<in> set vs" by (cases vs) auto
      with inside(1) nosep c show False by auto
    qed
    with inside(1) show ?thesis by (simp add: episode_tail_def)
  next
    case after
    with split have "episode_tail (vs @ c # body)" by (simp add: episode_split_def)
    then have "episode_tail vs" by (cases vs) (auto simp: episode_tail_def)
    with after show ?thesis by simp
  qed
qed

lemma takeWhile_code:
  assumes "ds @ c2 # x = ds' @ c2' # y" "\<forall>c \<in> set ds. is_digit_cu c" "\<forall>c \<in> set ds'. is_digit_cu c"
    "\<not> is_digit_cu c2" "\<not> is_digit_cu c2'"
  shows "ds = ds' \<and> x = y"
proof -
  have "takeWhile is_digit_cu (ds @ c2 # x) = ds" "takeWhile is_digit_cu (ds' @ c2' # y) = ds'"
    using assms(2-) by (simp_all add: takeWhile_append2)
  with assms(1) show ?thesis by auto
qed

lemma label_split_unique:
  assumes split: "episode_split (show @ cu CHR '' '' # episode_code c1' ds' c2' de') sh sp c1 ds c2 de tail"
    and code: "c1' \<in> set (js ''Ss'')" "c2' \<in> set (js ''Ee'')" "\<forall>c \<in> set ds'. is_digit_cu c" "\<forall>c \<in> set de'. is_digit_cu c"
    and title: "show \<noteq> []" "\<not> is_separator (last show)" "\<not> test_regex True episode_pattern show"
  shows "sh = show \<and> ds = ds' \<and> de = de'"
proof -
  let ?body = "episode_code c1' ds' c2' de'"
  let ?rest = "episode_code c1 ds c2 de @ tail"
  have space: "is_separator (cu CHR '' '')" by (simp add: is_separator_def)
  have nosep: "\<forall>c \<in> set ?body. \<not> is_separator c" by (rule episode_code_no_separator [OF code])
  have sp: "sp \<noteq> []" "\<forall>c \<in> set sp. is_separator c" using split by (auto simp: episode_split_def)
  have "(sh @ sp) @ ?rest = (show @ [cu CHR '' '']) @ ?body"
    using split by (simp add: episode_split_def episode_code_def)
  then consider us where "sh @ sp = (show @ [cu CHR '' '']) @ us" "us @ ?rest = ?body"
    | us where "(sh @ sp) @ us = show @ [cu CHR '' '']" "?rest = us @ ?body"
    by (subst (asm) append_eq_append_conv2) blast
  then have u: "sh @ sp = show @ [cu CHR '' ''] \<and> ?rest = ?body"
  proof cases
    case (1 us)
    have "us = []"
    proof (rule ccontr)
      assume "us \<noteq> []"
      with 1(1) sp have "is_separator (last us)" by (metis last_appendR last_in_set)
      with 1(2) nosep \<open>us \<noteq> []\<close> show False by (metis UnI1 last_in_set set_append)
    qed
    with 1 show ?thesis by simp
  next
    case (2 us)
    have "us = []"
    proof (rule ccontr)
      assume "us \<noteq> []"
      then obtain us' where us: "us = us' @ [cu CHR '' '']" "(sh @ sp) @ us' = show"
        using 2(1) by (cases us rule: rev_cases) auto
      from 2(2) us(1) have "?rest = us' @ cu CHR '' '' # ?body" by simp
      from episode_split_prefix [OF split this space] split us(2)
      have "episode_split show sh sp c1 ds c2 de (drop (length (episode_code c1 ds c2 de)) us')"
        by (auto simp: episode_split_def episode_code_def)
      with title(3) show False unfolding test_episode_pattern by blast
    qed
    with 2 show ?thesis by simp
  qed
  from sp(1) obtain sp' x where sp': "sp = sp' @ [x]" by (cases sp rule: rev_cases) auto
  with u have sh: "sh @ sp' = show" by simp
  have "sp' = []"
    using sh sp(2) sp' title(2) by (cases sp' rule: rev_cases) auto
  with sh have sh_eq: "sh = show" by simp
  have eq: "ds @ c2 # (de @ tail) = ds' @ c2' # de'"
    using u by (simp add: episode_code_def)
  have c2: "c2 \<in> set (js ''Ee'')" and ds: "\<forall>c \<in> set ds. is_digit_cu c"
    using split unfolding episode_split_def by blast+
  have de: "ds = ds' \<and> de @ tail = de'"
    by (rule takeWhile_code [OF eq ds code(3) E_not_digit [OF c2] E_not_digit [OF code(2)]])
  have "tail = []"
  proof (rule ccontr)
    assume "tail \<noteq> []"
    with split have "is_separator (hd tail)" by (auto simp: episode_split_def episode_tail_def)
    moreover have "hd tail \<in> set de'" using de \<open>tail \<noteq> []\<close> by auto
    ultimately show False using code(4) digit_not_separator by blast
  qed
  with sh_eq de show ?thesis by simp
qed

section \<open>Reading a label back\<close>

lemma slash_not_padded: "cu CHR ''/'' \<notin> set (padStart k (cu CHR ''0'') (nat_to_string n))"
proof -
  have "\<not> is_digit_cu (cu CHR ''/'')" by (simp add: is_digit_cu_def cu_less_eq_iff)
  then show ?thesis using padStart_digits by blast
qed

lemma pad2_of_count: "n < 1000 \<Longrightarrow> pad2 (of_count n) = padStart 2 (cu CHR ''0'') (nat_to_string n)"
  by (simp add: pad2_def number_to_string_of_count)

lemma manifestLabel_episode:
  assumes "sc_mediaType item = Episode" "sc_showTitle item = Some show"
    "sc_season item = Some (of_count s)" "sc_episode item = Some (of_count e)" "s \<le> 99" "e \<le> 999"
  shows "manifestLabel item = show @ cu CHR '' '' #
    episode_code (cu CHR ''S'') (padStart 2 (cu CHR ''0'') (nat_to_string s))
                 (cu CHR ''E'') (padStart 2 (cu CHR ''0'') (nat_to_string e))"
  using assms by (simp add: manifestLabel_def pad2_of_count episode_code_def)

definition plain_show_title :: "jsstring \<Rightarrow> bool" where
  "plain_show_title show \<longleftrightarrow> show \<noteq> [] \<and> cu CHR ''/'' \<notin> set show
     \<and> (\<forall>c \<in> set show. \<not> is_line_terminator_cu c) \<and> \<not> is_separator (last show)
     \<and> \<not> test_regex True episode_pattern show"

lemma label_splits:
  assumes "plain_show_title show" "s \<le> 99" "e \<le> 999"
  shows "episode_split (show @ cu CHR '' '' #
      episode_code (cu CHR ''S'') (padStart 2 (cu CHR ''0'') (nat_to_string s))
                   (cu CHR ''E'') (padStart 2 (cu CHR ''0'') (nat_to_string e)))
    show [cu CHR '' ''] (cu CHR ''S'') (padStart 2 (cu CHR ''0'') (nat_to_string s))
      (cu CHR ''E'') (padStart 2 (cu CHR ''0'') (nat_to_string e)) []"
proof -
  have "length (nat_to_string s) \<le> 2" "length (nat_to_string e) \<le> 3"
    using length_nat_to_string [of s 2] length_nat_to_string [of e 3] assms(2,3) by simp_all
  then show ?thesis
    using assms(1) padStart_digits
    by (auto simp: episode_split_def episode_code_def plain_show_title_def episode_tail_def is_separator_def)
qed

text \<open>The match of a labelled name captures the show, the season and the episode.\<close>

lemma exec_label:
  assumes "plain_show_title show" "s \<le> 99" "e \<le> 999"
  obtains m where "exec_regex True episode_pattern (show @ cu CHR '' '' #
      episode_code (cu CHR ''S'') (padStart 2 (cu CHR ''0'') (nat_to_string s))
                   (cu CHR ''E'') (padStart 2 (cu CHR ''0'') (nat_to_string e))) = Some m"
    "capture m 1 = Some show"
    "capture m 2 = Some (padStart 2 (cu CHR ''0'') (nat_to_string s))"
    "capture m 3 = Some (padStart 2 (cu CHR ''0'') (nat_to_string e))"
proof -
  let ?ds = "padStart 2 (cu CHR ''0'') (nat_to_string s)"
  let ?de = "padStart 2 (cu CHR ''0'') (nat_to_string e)"
  let ?base = "show @ cu CHR '' '' # episode_code (cu CHR ''S'') ?ds (cu CHR ''E'') ?de"
  have "test_regex True episode_pattern ?base"
    unfolding test_episode_pattern using label_splits [OF assms] by blast
  then obtain m where m: "exec_regex True episode_pattern ?base = Some m"
    by (auto simp: test_regex_def)
  then obtain sh sp c1 ds c2 de tail where split: "episode_split ?base sh sp c1 ds c2 de tail"
    and caps: "capture m 1 = Some sh" "capture m 2 = Some ds" "capture m 3 = Some de"
    by (rule exec_episode_pattern)
  have "sh = show \<and> ds = ?ds \<and> de = ?de"
    using assms(1) padStart_digits
    by (intro label_split_unique [OF split]) (auto simp: plain_show_title_def)
  with m caps that show ?thesis by blast
qed

text \<open>
  C31. Round trip of episode labels: a candidate file named by the label that the console prints for
  an episode (\<open>manifestLabel\<close>), with the extension \<open>.mkv\<close>, is suggested as an episode with
  the same season and episode number, and its show title is derived from exactly the label's show
  title. It holds for every show title without a slash or line break that does not end in a
  separator and does not itself look like an episode name.
\<close>

theorem suggestDraft_manifestLabel:
  assumes "sc_mediaType item = Episode" "sc_showTitle item = Some show" "plain_show_title show"
    and "sc_season item = Some (of_count s)" "s \<le> 99"
    and "sc_episode item = Some (of_count e)" "e \<le> 999"
    and "mc_name candidate = manifestLabel item @ js ''.mkv''"
  shows "sd_mediaType (suggestDraft currentYear candidate None) = Episode
    \<and> sd_season (suggestDraft currentYear candidate None) = of_count s
    \<and> sd_episode (suggestDraft currentYear candidate None) = of_count e
    \<and> sd_showTitle (suggestDraft currentYear candidate None) =
        replace_first False trailing_dash_pattern []
          (cleanDisplayTitle (replace_first False year_pattern [] show))"
proof -
  let ?base = "show @ cu CHR '' '' # episode_code (cu CHR ''S'') (padStart 2 (cu CHR ''0'') (nat_to_string s))
    (cu CHR ''E'') (padStart 2 (cu CHR ''0'') (nat_to_string e))"
  have label: "manifestLabel item = ?base"
    using assms by (intro manifestLabel_episode)
  have slash: "cu CHR ''/'' \<notin> set (manifestLabel item @ js ''.mkv'')"
    using assms(3) slash_not_padded unfolding label
    by (auto simp: plain_show_title_def episode_code_def)
  have base: "strip_extension (base_name (mc_name candidate)) = ?base"
    unfolding assms(8) base_name_plain [OF slash] by (simp only: strip_extension_mkv label)
  obtain m where m: "exec_regex True episode_pattern ?base = Some m" "capture m 1 = Some show"
    "capture m 2 = Some (padStart 2 (cu CHR ''0'') (nat_to_string s))"
    "capture m 3 = Some (padStart 2 (cu CHR ''0'') (nat_to_string e))"
    using exec_label [OF assms(3,5,7)] .
  show ?thesis
    unfolding suggestDraft_def base m(1) Let_def by (simp add: m(2) [unfolded One_nat_def] m(3,4) parse_padStart)
qed

theorem suggestDraft_manifestLabel_witness:
  "sd_season (suggestDraft (Fin 2026)
     \<lparr>mc_provider = None, mc_objectId = js ''1'', mc_name = js ''Lost S02E07.mkv'', mc_extension = Mkv, mc_size = Fin 1\<rparr>
     None) = of_count 2"
proof -
  let ?item = "\<lparr>sc_objectId = js ''1'', sc_name = js ''a.mkv'', sc_extension = Mkv, sc_size = Fin 1,
    sc_mediaType = Episode, sc_title = js ''Pilot'', sc_year = Fin 2004, sc_showTitle = Some (js ''Lost''),
    sc_season = Some (of_count 2), sc_episode = Some (of_count 7)\<rparr>"
  let ?c = "\<lparr>mc_provider = None, mc_objectId = js ''1'', mc_name = js ''Lost S02E07.mkv'', mc_extension = Mkv, mc_size = Fin 1\<rparr>"
  have title: "plain_show_title (js ''Lost'')" by code_simp
  have name: "mc_name ?c = manifestLabel ?item @ js ''.mkv''" by code_simp
  show ?thesis
    using suggestDraft_manifestLabel [of ?item "js ''Lost''" 2 7 ?c "Fin 2026", OF _ _ title _ _ _ _ name] by simp
qed

end
