(* ===== verification/Console_State.thy ===== *)
theory Console_State
  imports Console_Format
begin

text \<open>
  The component \<open>SetupConsole\<close> (\<open>web/src/components/setup-console.tsx\<close>): its React state as a
  record, and around it the browser it runs in: the session storage, the fragment of the address, the
  requests in flight and the polling effect. A handler runs up to its first \<open>await\<close> at once; what
  follows is a task that waits for the response and carries what the closure captured.
\<close>

section \<open>State\<close>

record console_state =
  c_phase :: phase
  c_csrf :: jsstring
  c_tokenConfigured :: bool
  c_token :: jsstring
  c_showToken :: bool
  c_session :: jsstring
  c_bootstrap :: jsstring
  c_candidates :: "media_candidate list"
  c_query :: jsstring
  c_drafts :: "selection_draft list"
  c_selectedItems :: "setup_configuration list"
  c_availability :: availability
  c_acquisitionView :: acquisition_view
  c_prowlarrURL :: jsstring
  c_prowlarrKey :: jsstring
  c_showProwlarrKey :: bool
  c_acquisitionType :: media_type
  c_acquisitionTitle :: jsstring
  c_acquisitionYear :: number
  c_acquisitionSeason :: number
  c_acquisitionEpisode :: number
  c_preparationOffer :: "acquisition_intent option"
  c_activeJob :: "acquisition_job option"
  c_watchlistStatus :: "watchlist_status option"
  c_watchlistLoading :: bool
  c_watchlistError :: jsstring
  c_pending :: bool
  c_message :: jsstring

definition ellipsis :: jsstring where
  "ellipsis = [0x2026]"

definition maximumManifestItems :: nat where "maximumManifestItems = 100"
definition maximumVisibleCandidates :: nat where "maximumVisibleCandidates = 100"

definition initial_state :: "number \<Rightarrow> console_state" where
  "initial_state currentYear = \<lparr>
     c_phase = Loading, c_csrf = [], c_tokenConfigured = False, c_token = [], c_showToken = False,
     c_session = [], c_bootstrap = [], c_candidates = [], c_query = [], c_drafts = [],
     c_selectedItems = [], c_availability = completeAvailability [],
     c_acquisitionView = Closed, c_prowlarrURL = js ''http://prowlarr:9696'', c_prowlarrKey = [],
     c_showProwlarrKey = False, c_acquisitionType = Movie, c_acquisitionTitle = [],
     c_acquisitionYear = currentYear, c_acquisitionSeason = Fin 1, c_acquisitionEpisode = Fin 1,
     c_preparationOffer = None, c_activeJob = None, c_watchlistStatus = None,
     c_watchlistLoading = False, c_watchlistError = [], c_pending = False,
     c_message = js ''Loading BlackPearl setup'' @ ellipsis\<rparr>"

text \<open>Derived values: the filtered candidates, the authorization and whether a saved token is usable.
  \<open>toLocaleLowerCase\<close> depends on the host's locale and is an argument.\<close>

definition matchingCandidates :: "(jsstring \<Rightarrow> jsstring) \<Rightarrow> console_state \<Rightarrow> media_candidate list" where
  "matchingCandidates toLocaleLowerCase st =
     (let normalized = toLocaleLowerCase (trim (c_query st)) in
      filter (\<lambda>candidate. normalized = [] \<or> js_includes (toLocaleLowerCase (mc_name candidate)) normalized)
        (c_candidates st))"

definition visibleCandidates :: "(jsstring \<Rightarrow> jsstring) \<Rightarrow> console_state \<Rightarrow> media_candidate list" where
  "visibleCandidates toLocaleLowerCase st = take maximumVisibleCandidates (matchingCandidates toLocaleLowerCase st)"

definition authorization :: "console_state \<Rightarrow> setup_authorization" where
  "authorization st = \<lparr>auth_session = Some (c_session st), auth_bootstrap = Some (c_bootstrap st)\<rparr>"

definition canUseSavedToken :: "console_state \<Rightarrow> bool" where
  "canUseSavedToken st \<longleftrightarrow> c_tokenConfigured st \<and> (c_session st \<noteq> [] \<or> c_bootstrap st \<noteq> [])"

section \<open>Draft editing\<close>

definition toggle_drafts ::
  "number \<Rightarrow> media_candidate \<Rightarrow> selection_draft list \<Rightarrow> selection_draft list" where
  "toggle_drafts currentYear candidate current =
     (if \<exists>draft \<in> set current. sd_objectId draft = mc_objectId candidate
      then filter (\<lambda>draft. sd_objectId draft \<noteq> mc_objectId candidate) current
      else if maximumManifestItems \<le> length current then current
      else current @ [suggestDraft currentYear candidate None])"

text \<open>\<open>Partial<Omit<SelectionDraft, "objectId">>\<close>: the members the editor changes, one at a time.\<close>

datatype draft_update =
    DraftShowTitle jsstring | DraftTitle jsstring | DraftYear number
  | DraftSeason number | DraftEpisode number

fun apply_draft_update :: "draft_update \<Rightarrow> selection_draft \<Rightarrow> selection_draft" where
  "apply_draft_update (DraftShowTitle t) d = d\<lparr>sd_showTitle := t\<rparr>"
| "apply_draft_update (DraftTitle t) d = d\<lparr>sd_title := t\<rparr>"
| "apply_draft_update (DraftYear y) d = d\<lparr>sd_year := y\<rparr>"
| "apply_draft_update (DraftSeason n) d = d\<lparr>sd_season := n\<rparr>"
| "apply_draft_update (DraftEpisode n) d = d\<lparr>sd_episode := n\<rparr>"

definition update_drafts :: "jsstring \<Rightarrow> draft_update \<Rightarrow> selection_draft list \<Rightarrow> selection_draft list" where
  "update_drafts objectId update current =
     map (\<lambda>draft. if sd_objectId draft = objectId then apply_draft_update update draft else draft) current"

definition replace_drafts ::
  "number \<Rightarrow> media_candidate list \<Rightarrow> jsstring \<Rightarrow> media_type \<Rightarrow> selection_draft list \<Rightarrow> selection_draft list" where
  "replace_drafts currentYear candidates objectId mediaType current =
     (case find (\<lambda>item. mc_objectId item = objectId) candidates of
        None \<Rightarrow> current
      | Some candidate \<Rightarrow>
          map (\<lambda>draft. if sd_objectId draft = objectId
                       then suggestDraft currentYear candidate (Some mediaType) else draft) current)"

definition remove_draft :: "jsstring \<Rightarrow> selection_draft list \<Rightarrow> selection_draft list" where
  "remove_draft objectId current = filter (\<lambda>item. sd_objectId item \<noteq> objectId) current"

text \<open>The drafts \<open>findVideos\<close> starts from when it uses the saved token: the published items
  that discovery still finds.\<close>

definition drafts_from_selection ::
  "media_candidate list \<Rightarrow> setup_configuration list \<Rightarrow> selection_draft list" where
  "drafts_from_selection found items =
     map (\<lambda>item. \<lparr>sd_objectId = sc_objectId item, sd_mediaType = sc_mediaType item,
                   sd_title = sc_title item, sd_year = sc_year item,
                   sd_showTitle = (case sc_showTitle item of None \<Rightarrow> [] | Some t \<Rightarrow> t),
                   sd_season = (case sc_season item of None \<Rightarrow> Fin 1 | Some n \<Rightarrow> n),
                   sd_episode = (case sc_episode item of None \<Rightarrow> Fin 1 | Some n \<Rightarrow> n)\<rparr>)
       (filter (\<lambda>item. sc_objectId item \<in> set (map mc_objectId found)) items)"

section \<open>Browser authorization\<close>

definition setupSessionStorageKey :: jsstring where
  "setupSessionStorageKey = js ''blackpearl.setup.session''"
definition setupBootstrapStorageKey :: jsstring where
  "setupBootstrapStorageKey = js ''blackpearl.setup.bootstrap''"

definition validSetupSecret :: "jsstring option \<Rightarrow> jsstring option" where
  "validSetupSecret value =
     (case value of None \<Rightarrow> None
      | Some s \<Rightarrow> if test_regex False (hex_pattern 64) s then Some s else None)"

record browser =
  b_storage :: "jsstring \<Rightarrow> jsstring option"
  b_hash :: jsstring

text \<open>\<open>window.location.hash.replace(/^#/, "")\<close>\<close>

definition without_number_sign :: "jsstring \<Rightarrow> jsstring" where
  "without_number_sign s = (case s of [] \<Rightarrow> [] | c # cs \<Rightarrow> if c = cu CHR ''#'' then cs else s)"

definition loadBrowserAuthorization :: "browser \<Rightarrow> setup_authorization \<times> browser" where
  "loadBrowserAuthorization b =
     (let session = validSetupSecret (b_storage b setupSessionStorageKey);
          bootstrap = validSetupSecret (b_storage b setupBootstrapStorageKey);
          fragmentBootstrap = validSetupSecret (search_params_get (without_number_sign (b_hash b)) (js ''bootstrap''));
          (bootstrap', b') =
            (case fragmentBootstrap of
               None \<Rightarrow> (bootstrap, b)
             | Some s \<Rightarrow> (Some s, b\<lparr>b_storage := (b_storage b)(setupBootstrapStorageKey \<mapsto> s)\<rparr>));
          b'' = (if b_hash b' \<noteq> [] then b'\<lparr>b_hash := []\<rparr> else b')
      in (\<lparr>auth_session = session, auth_bootstrap = bootstrap'\<rparr>, b''))"

definition storeSession :: "jsstring \<Rightarrow> browser \<Rightarrow> browser" where
  "storeSession session b = b\<lparr>b_storage := (b_storage b)(setupSessionStorageKey \<mapsto> session)\<rparr>"

end
