(* ===== verification/Console_World.thy ===== *)
theory Console_World
  imports Console_State
begin

text \<open>
  The console at run time. A world is the component's state, the browser, the requests in flight
  and the polling effect. The handlers of the component are functions on worlds, split at their
  \<open>await\<close>s: the part before the first one, and one continuation (a task) per response. Responses
  arrive in any order; the step relation is in \<open>Console_Steps\<close>.

  React state: a handler reads the state of the last render, and the setters of one synchronous
  stretch take effect together before the next event. What a closure reads after an \<open>await\<close> is
  captured in the task. The polling effect runs again only when one of its dependencies changed.
\<close>

section \<open>Worlds\<close>

datatype task =
    InitStatus setup_authorization
  | InitWatchlist
  | PollJob nat
  | PollStatus nat
  | FindVideos bool "setup_configuration list"
  | RefreshWatchlist
  | ChangePolicy bool show_policy
  | ApplyDrafts
  | OpenStatus jsstring setup_authorization
  | OpenJobs bool
  | ConnectProwlarr
  | AddRequested acquisition_intent
  | PrepareRequested
  | RefreshJob
  | RefreshJobStatus

text \<open>The dependencies of the polling effect: \<open>activeJob\<close> by identity, then the strings.\<close>

type_synonym poll_deps = "nat option \<times> jsstring \<times> jsstring \<times> jsstring"

record world =
  w_state :: console_state
  w_browser :: browser
  w_tasks :: "(task \<times> http_request) list"
  w_jobRef :: nat
  w_effect :: nat
  w_deps :: poll_deps
  w_timer :: "(jsstring \<times> jsstring \<times> setup_authorization) option"

definition upd :: "(console_state \<Rightarrow> console_state) \<Rightarrow> world \<Rightarrow> world" where
  "upd f w = w\<lparr>w_state := f (w_state w)\<rparr>"

definition send :: "task \<Rightarrow> http_request \<Rightarrow> world \<Rightarrow> world" where
  "send t rq w = w\<lparr>w_tasks := w_tasks w @ [(t, rq)]\<rparr>"

definition store_session :: "jsstring \<Rightarrow> world \<Rightarrow> world" where
  "store_session s w = w\<lparr>w_browser := storeSession s (w_browser w)\<rparr>"

text \<open>\<open>setActiveJob\<close>: a job from a response is a new object, so its identity is new.\<close>

definition set_active_job :: "acquisition_job option \<Rightarrow> world \<Rightarrow> world" where
  "set_active_job j w = w\<lparr>w_state := (w_state w)\<lparr>c_activeJob := j\<rparr>, w_jobRef := Suc (w_jobRef w)\<rparr>"

definition current_deps :: "world \<Rightarrow> poll_deps" where
  "current_deps w =
     (map_option (\<lambda>_. w_jobRef w) (c_activeJob (w_state w)),
      c_bootstrap (w_state w), c_csrf (w_state w), c_session (w_state w))"

abbreviation msg :: "jsstring \<Rightarrow> console_state \<Rightarrow> console_state" where
  "msg m st \<equiv> st\<lparr>c_message := m\<rparr>"

section \<open>Mounting\<close>

text \<open>Both effects run after the first render; the polling one finds no job.\<close>

definition mount :: "number \<Rightarrow> browser \<Rightarrow> world" where
  "mount currentYear b =
     (let (storedAuthorization, b') = loadBrowserAuthorization b in
      \<lparr>w_state = initial_state currentYear, w_browser = b',
       w_tasks = [(InitStatus storedAuthorization, getStatus_request)],
       w_jobRef = 0, w_effect = 0, w_deps = (None, [], [], []), w_timer = None\<rparr>)"

definition or_empty :: "jsstring option \<Rightarrow> jsstring" where
  "or_empty s = (case s of None \<Rightarrow> [] | Some t \<Rightarrow> t)"

definition initStatus_done :: "setup_authorization \<Rightarrow> setup_status outcome \<Rightarrow> world \<Rightarrow> world" where
  "initStatus_done stored result w =
     (case result of
        Inr status \<Rightarrow>
          let restoredItems = restored_items (ss_selected status) (ss_selectedItems status);
              w1 = upd (\<lambda>st. st\<lparr>c_session := or_empty (auth_session stored),
                                c_bootstrap := or_empty (auth_bootstrap stored),
                                c_csrf := ss_csrfToken status,
                                c_tokenConfigured := ss_tokenConfigured status,
                                c_availability := availabilityFromStatus status\<rparr>) w
          in if \<not> ss_setupRequired status \<and> 0 < length restoredItems then
               let w2 = upd (\<lambda>st. st\<lparr>c_selectedItems := restoredItems, c_phase := Ready,
                                     c_message := (if av_degraded status then degradedAvailabilityMessage status
                                                   else js ''BlackPearl is ready for Plex.'')\<rparr>) w1
               in if truthy (auth_session stored) \<or> truthy (auth_bootstrap stored)
                  then send InitWatchlist (getWatchlistStatus_request (ss_csrfToken status) stored)
                         (upd (\<lambda>st. st\<lparr>c_watchlistLoading := True\<rparr>) w2)
                  else w2
             else upd (\<lambda>st. st\<lparr>c_phase := Credentials,
                     c_message := (if ss_tokenConfigured status \<and> \<not> truthy (auth_session stored)
                                      \<and> \<not> truthy (auth_bootstrap stored)
                                   then js ''Re-enter your saved TorBox token to authorize this browser.''
                                   else js ''Enter your TorBox token to find ready videos.'')\<rparr>) w1
      | Inl error \<Rightarrow>
          upd (\<lambda>st. st\<lparr>c_session := or_empty (auth_session stored),
                       c_bootstrap := or_empty (auth_bootstrap stored),
                       c_phase := Credentials, c_message := publicMessage error\<rparr>) w)"

definition initWatchlist_done :: "watchlist_status outcome \<Rightarrow> world \<Rightarrow> world" where
  "initWatchlist_done result w =
     upd (\<lambda>st. st\<lparr>c_watchlistLoading := False\<rparr>)
       (case result of
          Inr s \<Rightarrow> upd (\<lambda>st. st\<lparr>c_watchlistStatus := Some s, c_watchlistError := []\<rparr>) w
        | Inl error \<Rightarrow> upd (\<lambda>st. st\<lparr>c_watchlistError := publicMessage error\<rparr>) w)"

section \<open>The polling effect\<close>

text \<open>Cleaning up the previous run makes its continuations inactive and clears its timer; the new
  run sets a timer unless there is no job or the job is in a terminal state.\<close>

definition run_poll_effect :: "world \<Rightarrow> world" where
  "run_poll_effect w =
     w\<lparr>w_effect := Suc (w_effect w), w_deps := current_deps w,
       w_timer := (case c_activeJob (w_state w) of
           None \<Rightarrow> None
         | Some job \<Rightarrow>
             if terminalAcquisitionJob job then None
             else Some (aj_id job, c_csrf (w_state w), authorization (w_state w)))\<rparr>"

definition poll_active :: "nat \<Rightarrow> world \<Rightarrow> bool" where
  "poll_active generation w \<longleftrightarrow> generation = w_effect w"

definition poll_fire :: "jsstring \<times> jsstring \<times> setup_authorization \<Rightarrow> world \<Rightarrow> world" where
  "poll_fire captured w =
     (let (jobId, csrf, auth) = captured; w' = w\<lparr>w_timer := None\<rparr> in
      case getAcquisitionJob_request jobId csrf auth of
        Some rq \<Rightarrow> send (PollJob (w_effect w)) rq w'
      | None \<Rightarrow> upd (msg (publicMessage HostError)) w')"

definition pollJob_done :: "nat \<Rightarrow> acquisition_job outcome \<Rightarrow> world \<Rightarrow> world" where
  "pollJob_done generation result w =
     (if \<not> poll_active generation w then w
      else case result of
        Inr job \<Rightarrow>
          let w1 = upd (msg (acquisitionJobMessage job)) (set_active_job (Some job) w)
          in if aj_state job = Succeeded then send (PollStatus generation) getStatus_request w1 else w1
      | Inl error \<Rightarrow> upd (msg (publicMessage error)) w)"

definition refresh_selection :: "setup_status \<Rightarrow> console_state \<Rightarrow> console_state" where
  "refresh_selection status st =
     st\<lparr>c_selectedItems := restored_items (ss_selected status) (ss_selectedItems status),
        c_availability := availabilityFromStatus status\<rparr>"

definition pollStatus_done :: "nat \<Rightarrow> setup_status outcome \<Rightarrow> world \<Rightarrow> world" where
  "pollStatus_done generation result w =
     (if \<not> poll_active generation w then w
      else case result of
        Inr status \<Rightarrow> upd (refresh_selection status) w
      | Inl error \<Rightarrow> upd (msg (publicMessage error)) w)"

section \<open>Setup handlers\<close>

definition findVideos :: "bool \<Rightarrow> world \<Rightarrow> world" where
  "findVideos useSavedToken w =
     (let st = w_state w in
      send (FindVideos useSavedToken (c_selectedItems st))
        (discoverMedia_request (if useSavedToken then [] else c_token st) (c_csrf st) (authorization st))
        (upd (\<lambda>st. st\<lparr>c_pending := True, c_message := js ''Reading your completed TorBox files'' @ ellipsis\<rparr>) w))"

definition findVideos_done ::
  "bool \<Rightarrow> setup_configuration list \<Rightarrow> (media_candidate list \<times> jsstring) outcome \<Rightarrow> world \<Rightarrow> world" where
  "findVideos_done useSavedToken selectedItems result w =
     upd (\<lambda>st. st\<lparr>c_pending := False\<rparr>)
       (case result of
          Inr (found, session) \<Rightarrow>
            let w1 = upd (\<lambda>st. st\<lparr>c_session := session, c_showToken := False, c_candidates := found,
                                  c_query := [],
                                  c_drafts := (if useSavedToken then drafts_from_selection found selectedItems else [])\<rparr>)
                       (store_session session w)
            in if length found = 0 then upd (msg (js ''No ready MP4 or MKV files found'')) w1
               else upd (\<lambda>st. st\<lparr>c_phase := Select,
                       c_message := nat_to_string (length found) @ js '' ready ''
                         @ (if length found = 1 then js ''video'' else js ''videos'') @ js '' found.''\<rparr>) w1
        | Inl error \<Rightarrow> upd (msg (publicMessage error)) w)"

definition toggle :: "number \<Rightarrow> media_candidate \<Rightarrow> world \<Rightarrow> world" where
  "toggle currentYear candidate = upd (\<lambda>st. st\<lparr>c_drafts := toggle_drafts currentYear candidate (c_drafts st)\<rparr>)"

definition updateDraft :: "jsstring \<Rightarrow> draft_update \<Rightarrow> world \<Rightarrow> world" where
  "updateDraft objectId update = upd (\<lambda>st. st\<lparr>c_drafts := update_drafts objectId update (c_drafts st)\<rparr>)"

definition replaceDraft :: "number \<Rightarrow> jsstring \<Rightarrow> media_type \<Rightarrow> world \<Rightarrow> world" where
  "replaceDraft currentYear objectId mediaType =
     upd (\<lambda>st. st\<lparr>c_drafts := replace_drafts currentYear (c_candidates st) objectId mediaType (c_drafts st)\<rparr>)"

definition apply_input_of :: "console_state \<Rightarrow> apply_input" where
  "apply_input_of st = \<lparr>in_token = (if c_token st = [] then None else Some (c_token st)),
     in_items = map toApplyItem (c_drafts st)\<rparr>"

definition applyDrafts :: "world \<Rightarrow> world" where
  "applyDrafts w =
     (let st = w_state w in
      if length (c_drafts st) = 0 then w
      else send ApplyDrafts (applyConfiguration_request (apply_input_of st) (c_csrf st) (authorization st))
             (upd (\<lambda>st. st\<lparr>c_pending := True, c_message := js ''Preparing the rolling stream for Plex'' @ ellipsis\<rparr>) w))"

definition applyDrafts_done :: "(apply_result \<times> jsstring) outcome \<Rightarrow> world \<Rightarrow> world" where
  "applyDrafts_done result w =
     upd (\<lambda>st. st\<lparr>c_pending := False\<rparr>)
       (case result of
          Inr (r, session) \<Rightarrow>
            upd (\<lambda>st. st\<lparr>c_session := session, c_token := [], c_tokenConfigured := True,
                         c_selectedItems := ar_selectedItems r,
                         c_availability := completeAvailability (ar_selectedItems r),
                         c_phase := Ready, c_message := js ''BlackPearl is ready for Plex.''\<rparr>)
              (store_session session w)
        | Inl error \<Rightarrow> upd (msg (publicMessage error)) w)"

section \<open>Watchlist handlers\<close>

definition refreshWatchlist :: "world \<Rightarrow> world" where
  "refreshWatchlist w =
     send RefreshWatchlist (getWatchlistStatus_request (c_csrf (w_state w)) (authorization (w_state w)))
       (upd (\<lambda>st. st\<lparr>c_watchlistLoading := True, c_watchlistError := []\<rparr>) w)"

definition refreshWatchlist_done :: "watchlist_status outcome \<Rightarrow> world \<Rightarrow> world" where
  "refreshWatchlist_done result w =
     upd (\<lambda>st. st\<lparr>c_watchlistLoading := False\<rparr>)
       (case result of
          Inr s \<Rightarrow> upd (\<lambda>st. st\<lparr>c_watchlistStatus := Some s\<rparr>) w
        | Inl error \<Rightarrow> upd (\<lambda>st. st\<lparr>c_watchlistError := publicMessage error\<rparr>) w)"

definition changeWatchlistPolicy :: "bool \<Rightarrow> show_policy \<Rightarrow> world \<Rightarrow> world" where
  "changeWatchlistPolicy acquisitionEnabled showPolicy w =
     send (ChangePolicy acquisitionEnabled showPolicy)
       (setWatchlistPolicy_request acquisitionEnabled showPolicy (c_csrf (w_state w)) (authorization (w_state w)))
       (upd (\<lambda>st. st\<lparr>c_watchlistLoading := True, c_watchlistError := []\<rparr>) w)"

definition changeWatchlistPolicy_done ::
  "bool \<Rightarrow> show_policy \<Rightarrow> (watchlist_status \<times> jsstring) outcome \<Rightarrow> world \<Rightarrow> world" where
  "changeWatchlistPolicy_done acquisitionEnabled showPolicy result w =
     upd (\<lambda>st. st\<lparr>c_watchlistLoading := False\<rparr>)
       (case result of
          Inr (s, session) \<Rightarrow>
            upd (\<lambda>st. st\<lparr>c_session := session, c_watchlistStatus := Some s,
                  c_message := (if acquisitionEnabled
                    then (if showPolicy = Pilot
                          then js ''Automatic Watchlist adding is on. New shows advance one episode at a time after playback.''
                          else js ''Automatic Watchlist adding is on for newly added movies.'')
                    else js ''Automatic Watchlist adding is off. Existing media and current preparation are unchanged.'')\<rparr>)
              (store_session session w)
        | Inl error \<Rightarrow> upd (\<lambda>st. st\<lparr>c_watchlistError := publicMessage error\<rparr>) w)"

section \<open>Acquisition handlers\<close>

definition openAcquisition :: "world \<Rightarrow> world" where
  "openAcquisition w =
     send (OpenStatus (c_csrf (w_state w)) (authorization (w_state w))) getAcquisitionStatus_request
       (upd (\<lambda>st. st\<lparr>c_acquisitionView := LoadingView, c_pending := True,
                    c_message := js ''Checking the search connection'' @ ellipsis\<rparr>) w)"

definition openStatus_done :: "jsstring \<Rightarrow> setup_authorization \<Rightarrow> bool outcome \<Rightarrow> world \<Rightarrow> world" where
  "openStatus_done csrf auth result w =
     (case result of
        Inr configured \<Rightarrow> send (OpenJobs configured) (listAcquisitionJobs_request csrf auth) w
      | Inl error \<Rightarrow> upd (\<lambda>st. st\<lparr>c_acquisitionView := Closed, c_message := publicMessage error,
                                   c_pending := False\<rparr>) w)"

definition chosen_job :: "acquisition_job list \<Rightarrow> acquisition_job option" where
  "chosen_job jobs =
     (case find (\<lambda>job. \<not> terminalAcquisitionJob job) jobs of
        Some job \<Rightarrow> Some job
      | None \<Rightarrow> (case jobs of [] \<Rightarrow> None | job # _ \<Rightarrow> Some job))"

definition openJobs_done :: "bool \<Rightarrow> acquisition_job list outcome \<Rightarrow> world \<Rightarrow> world" where
  "openJobs_done configured result w =
     upd (\<lambda>st. st\<lparr>c_acquisitionView := (if configured then Search else Settings),
                  c_message := (if configured then js ''Prowlarr is connected. Enter a movie or episode.''
                                else js ''Connect Prowlarr once to search your configured indexers.''),
                  c_pending := False\<rparr>)
       (case result of Inr jobs \<Rightarrow> set_active_job (chosen_job jobs) w | Inl error \<Rightarrow> w)"

definition connectProwlarr :: "world \<Rightarrow> world" where
  "connectProwlarr w =
     (let st = w_state w in
      send ConnectProwlarr
        (configureAcquisition_request (c_prowlarrURL st) (c_prowlarrKey st) (c_csrf st) (authorization st))
        (upd (\<lambda>st. st\<lparr>c_pending := True, c_message := js ''Checking the Prowlarr connection'' @ ellipsis\<rparr>) w))"

definition connectProwlarr_done :: "(bool \<times> jsstring) outcome \<Rightarrow> world \<Rightarrow> world" where
  "connectProwlarr_done result w =
     upd (\<lambda>st. st\<lparr>c_pending := False\<rparr>)
       (case result of
          Inr (configured, session) \<Rightarrow>
            upd (\<lambda>st. st\<lparr>c_session := session, c_prowlarrKey := [], c_showProwlarrKey := False,
                         c_acquisitionView := Search,
                         c_message := js ''Prowlarr is connected. Enter a movie or episode.''\<rparr>)
              (store_session session w)
        | Inl error \<Rightarrow> upd (msg (publicMessage error)) w)"

definition request_valid :: "console_state \<Rightarrow> bool" where
  "request_valid st = validAcquisitionRequest (c_acquisitionTitle st) (c_acquisitionYear st)
     (c_acquisitionType st) (c_acquisitionSeason st) (c_acquisitionEpisode st)"

definition request_intent :: "console_state \<Rightarrow> acquisition_intent" where
  "request_intent st = acquisitionIntent (c_acquisitionType st) (c_acquisitionTitle st)
     (c_acquisitionYear st) (c_acquisitionSeason st) (c_acquisitionEpisode st)"

definition addRequestedMedia :: "world \<Rightarrow> world" where
  "addRequestedMedia w =
     (let st = w_state w in
      if \<not> request_valid st then w
      else send (AddRequested (request_intent st))
             (acquireMedia_request (request_intent st) (c_csrf st) (authorization st))
             (upd (\<lambda>st. st\<lparr>c_pending := True,
                          c_message := js ''Looking for an instant ''
                            @ (if c_acquisitionType st = Movie then js ''movie'' else js ''episode'') @ ellipsis\<rparr>) w))"

definition addRequestedMedia_done ::
  "acquisition_intent \<Rightarrow> (apply_result \<times> jsstring) outcome \<Rightarrow> world \<Rightarrow> world" where
  "addRequestedMedia_done intent result w =
     upd (\<lambda>st. st\<lparr>c_pending := False\<rparr>)
       (case result of
          Inr (r, session) \<Rightarrow>
            upd (\<lambda>st. st\<lparr>c_session := session, c_selectedItems := ar_selectedItems r,
                         c_availability := completeAvailability (ar_selectedItems r),
                         c_preparationOffer := None, c_acquisitionTitle := [],
                         c_message := js ''Added '' @ sc_title (ar_selected r)
                           @ js '' to Plex. Scan the library if it does not appear automatically.''\<rparr>)
              (store_session session w)
        | Inl error \<Rightarrow>
            if (case error of SetupAPIError code m \<Rightarrow> code = js ''not_cached'' | HostError \<Rightarrow> False)
            then upd (\<lambda>st. st\<lparr>c_preparationOffer := Some intent,
                   c_message := js ''No instant copy is cached. You can ask TorBox to prepare this title in the background.''\<rparr>) w
            else upd (msg (publicMessage error)) w)"

definition prepareRequestedMedia :: "world \<Rightarrow> world" where
  "prepareRequestedMedia w =
     (let st = w_state w in
      case c_preparationOffer st of
        None \<Rightarrow> w
      | Some offer \<Rightarrow>
          send PrepareRequested (submitAcquisitionJob_request offer (c_csrf st) (authorization st))
            (upd (\<lambda>st. st\<lparr>c_pending := True,
                         c_message := js ''Creating a restart-safe background request'' @ ellipsis\<rparr>) w))"

definition prepareRequestedMedia_done ::
  "((acquisition_job \<times> bool) \<times> jsstring) outcome \<Rightarrow> world \<Rightarrow> world" where
  "prepareRequestedMedia_done result w =
     upd (\<lambda>st. st\<lparr>c_pending := False\<rparr>)
       (case result of
          Inr ((job, created), session) \<Rightarrow>
            upd (\<lambda>st. st\<lparr>c_session := session, c_preparationOffer := None, c_acquisitionTitle := [],
                         c_message := acquisitionJobMessage job\<rparr>)
              (set_active_job (Some job) (store_session session w))
        | Inl error \<Rightarrow> upd (msg (publicMessage error)) w)"

definition refreshAcquisitionJob :: "world \<Rightarrow> world" where
  "refreshAcquisitionJob w =
     (let st = w_state w in
      case c_activeJob st of
        None \<Rightarrow> w
      | Some job \<Rightarrow>
          (case getAcquisitionJob_request (aj_id job) (c_csrf st) (authorization st) of
             Some rq \<Rightarrow> send RefreshJob rq (upd (\<lambda>st. st\<lparr>c_pending := True\<rparr>) w)
           | None \<Rightarrow> upd (\<lambda>st. st\<lparr>c_pending := False, c_message := publicMessage HostError\<rparr>) w))"

definition refreshJob_done :: "acquisition_job outcome \<Rightarrow> world \<Rightarrow> world" where
  "refreshJob_done result w =
     (case result of
        Inr job \<Rightarrow>
          let w1 = upd (msg (acquisitionJobMessage job)) (set_active_job (Some job) w)
          in if aj_state job = Succeeded then send RefreshJobStatus getStatus_request w1
             else upd (\<lambda>st. st\<lparr>c_pending := False\<rparr>) w1
      | Inl error \<Rightarrow> upd (\<lambda>st. st\<lparr>c_message := publicMessage error, c_pending := False\<rparr>) w)"

definition refreshJobStatus_done :: "setup_status outcome \<Rightarrow> world \<Rightarrow> world" where
  "refreshJobStatus_done result w =
     upd (\<lambda>st. st\<lparr>c_pending := False\<rparr>)
       (case result of
          Inr status \<Rightarrow> upd (refresh_selection status) w
        | Inl error \<Rightarrow> upd (msg (publicMessage error)) w)"

section \<open>Resuming a task\<close>

text \<open>The continuation of a task, given what the network answered.\<close>

fun resume :: "(jsstring \<Rightarrow> bool) \<Rightarrow> task \<Rightarrow> http_response option \<Rightarrow> world \<Rightarrow> world" where
  "resume df (InitStatus stored) ans w = initStatus_done stored (deliver getStatus_response ans) w"
| "resume df InitWatchlist ans w = initWatchlist_done (deliver (getWatchlistStatus_response df) ans) w"
| "resume df (PollJob g) ans w = pollJob_done g (deliver (getAcquisitionJob_response df) ans) w"
| "resume df (PollStatus g) ans w = pollStatus_done g (deliver getStatus_response ans) w"
| "resume df (FindVideos useSaved items) ans w =
     findVideos_done useSaved items (deliver discoverMedia_response ans) w"
| "resume df RefreshWatchlist ans w = refreshWatchlist_done (deliver (getWatchlistStatus_response df) ans) w"
| "resume df (ChangePolicy acq show_pol) ans w =
     changeWatchlistPolicy_done acq show_pol (deliver (setWatchlistPolicy_response df) ans) w"
| "resume df ApplyDrafts ans w = applyDrafts_done (deliver applyConfiguration_response ans) w"
| "resume df (OpenStatus csrf auth) ans w =
     openStatus_done csrf auth (deliver getAcquisitionStatus_response ans) w"
| "resume df (OpenJobs configured) ans w =
     openJobs_done configured (deliver (listAcquisitionJobs_response df) ans) w"
| "resume df ConnectProwlarr ans w = connectProwlarr_done (deliver configureAcquisition_response ans) w"
| "resume df (AddRequested intent) ans w = addRequestedMedia_done intent (deliver acquireMedia_response ans) w"
| "resume df PrepareRequested ans w =
     prepareRequestedMedia_done (deliver (submitAcquisitionJob_response df) ans) w"
| "resume df RefreshJob ans w = refreshJob_done (deliver (getAcquisitionJob_response df) ans) w"
| "resume df RefreshJobStatus ans w = refreshJobStatus_done (deliver getStatus_response ans) w"

end
