(* ===== verification/Console_View.thy ===== *)
theory Console_View
  imports Console_World
begin

text \<open>
  The page that \<open>SetupConsole\<close> renders (\<open>web/src/components/setup-console.tsx\<close>, the returned markup): the
  texts and controls that a state shows, section by section. Class names and layout are left out. A
  control carries the event it raises, so the page determines what the user can do: an event is enabled when a control of the
  page that is not disabled raises it.
\<close>

section \<open>User events\<close>

datatype user_event =
    SetToken jsstring | ToggleShowToken | SubmitCredentials | UseSavedToken
  | SetQuery jsstring | ToggleCandidate number media_candidate
  | ChooseDraftType number jsstring jsstring | EditDraft jsstring draft_update | RemoveDraft jsstring
  | ApplyClick | BackClick
  | OpenAcquisition | ChangeVideo | ReenterToken | ReplaceToken
  | ToggleAutoAdd | ToggleShowPolicy | RefreshWatchlistClick | RefreshStatusClick
  | CloseAcquisition | SetProwlarrURL jsstring | SetProwlarrKey jsstring | ToggleShowProwlarrKey
  | ConnectClick | SetAcquisitionType jsstring | SetAcquisitionTitle jsstring
  | SetAcquisitionYear number | SetAcquisitionSeason number | SetAcquisitionEpisode number
  | FindAndAddClick | PrepareClick | ChangeProwlarrClick

definition unpaired :: "console_state \<Rightarrow> bool" where
  "unpaired st \<longleftrightarrow> c_session st = [] \<and> c_bootstrap st = []"

definition ready_card :: "console_state \<Rightarrow> bool" where
  "ready_card st \<longleftrightarrow> c_phase st = Ready \<and> 0 < length (c_selectedItems st)"

definition acquisition_panel :: "acquisition_view \<Rightarrow> console_state \<Rightarrow> bool" where
  "acquisition_panel v st \<longleftrightarrow> ready_card st \<and> c_acquisitionView st = v"

fun episode_only :: "draft_update \<Rightarrow> bool" where
  "episode_only (DraftShowTitle t) = True"
| "episode_only (DraftSeason n) = True"
| "episode_only (DraftEpisode n) = True"
| "episode_only u = False"

section \<open>Nodes\<close>

datatype node =
    Text jsstring
  | Alert jsstring
  | Rule
  | Link jsstring jsstring
  | Progress jsstring number
  | Button jsstring bool user_event
  | TextField jsstring bool jsstring bool "jsstring \<Rightarrow> user_event"
  | NumberField jsstring number bool "number \<Rightarrow> user_event"
  | Choice jsstring media_type bool "number \<Rightarrow> jsstring \<Rightarrow> user_event"
  | Checkbox jsstring bool "number \<Rightarrow> user_event"

text \<open>
  The events a node can raise: a button its own, a field one for every value typed or chosen. The
  first argument of a choice and of a checkbox is the current year, which the handler reads.
\<close>

fun offers :: "node \<Rightarrow> user_event \<Rightarrow> bool" where
  "offers (Button label disabled e) ev \<longleftrightarrow> \<not> disabled \<and> ev = e"
| "offers (TextField label masked v disabled f) ev \<longleftrightarrow> \<not> disabled \<and> (\<exists>t. ev = f t)"
| "offers (NumberField label v disabled f) ev \<longleftrightarrow> \<not> disabled \<and> (\<exists>n. ev = f n)"
| "offers (Choice label v disabled f) ev \<longleftrightarrow> \<not> disabled \<and> (\<exists>cy t. ev = f cy t)"
| "offers (Checkbox label checked f) ev \<longleftrightarrow> (\<exists>cy. ev = f cy)"
| "offers n ev \<longleftrightarrow> False"

definition shown_if :: "bool \<Rightarrow> node list \<Rightarrow> node list" where
  "shown_if b ns = (if b then ns else [])"

abbreviation count :: "nat \<Rightarrow> jsstring" where
  "count n \<equiv> number_to_string (of_count n)"

definition middle_dot :: jsstring where
  "middle_dot = js '' '' @ [0xB7] @ js '' ''"

definition arrow :: jsstring where
  "arrow = js '' '' @ [0x2192] @ js '' ''"

section \<open>Sections of the page\<close>

definition masthead :: "console_state \<Rightarrow> node list" where
  "masthead st = [Text (js ''BP''), Text (js ''LOCAL STREAM CONTROL''), Text (js ''BlackPearl''), Text (phaseLabel (c_phase st))]"

definition heading :: "console_state \<Rightarrow> node list" where
  "heading st = [Text (js ''TORBOX / PLEX MANIFEST''),
     Text (if c_phase st = Ready then js ''Stream assigned'' else js ''Choose what Plex sees''),
     Text (js ''RANGE'' @ arrow @ js ''CACHE'' @ arrow @ js ''NFS'' @ arrow @ js ''PLEX''),
     Text (c_message st)]
     @ shown_if (c_phase st = Loading) [Rule]"

definition credential_form :: "console_state \<Rightarrow> node list" where
  "credential_form st = shown_if (c_phase st = Credentials)
     ([Text (js ''TorBox API token''),
       Text (js ''Use the API key from TorBox Settings, not your password or Auth ID.''),
       Link (js ''Copy your TorBox API key'') (js ''https://torbox.app/settings''),
       Text (js ''It is stored only inside BlackPearl'' @ [39] @ js ''s private Docker volume and is never shown again.''),
       TextField (js ''TorBox API token'') (\<not> c_showToken st) (c_token st) (c_pending st) SetToken,
       Button (if c_showToken st then js ''Hide key'' else js ''Show key'') (c_pending st) ToggleShowToken,
       Text (count (length (c_token st)) @ js '' ''
         @ (if length (c_token st) = 1 then js ''character'' else js ''characters'')),
       Button (js ''Find my videos'') (c_pending st \<or> \<not> c_tokenConfigured st \<and> length (c_token st) = 0) SubmitCredentials]
      @ shown_if (canUseSavedToken st) [Button (js ''Use saved token'') (c_pending st) UseSavedToken])"

fun extension_label :: "media_extension \<Rightarrow> jsstring" where
  "extension_label Mp4 = js ''MP4''"
| "extension_label Mkv = js ''MKV''"

definition candidate_row :: "console_state \<Rightarrow> media_candidate \<Rightarrow> node list" where
  "candidate_row st candidate =
     [Checkbox (mc_name candidate)
        (\<exists>draft \<in> set (c_drafts st). sd_objectId draft = mc_objectId candidate)
        (\<lambda>cy. ToggleCandidate cy candidate),
      Text (mc_name candidate),
      Text (extension_label (mc_extension candidate) @ middle_dot @ formatBytes (mc_size candidate))]"

definition draft_row :: "nat \<Rightarrow> selection_draft \<Rightarrow> node list" where
  "draft_row index draft =
     (let objectId = sd_objectId draft; episode = (sd_mediaType draft = Episode) in
      [Text (padStart 2 (cu CHR ''0'') (count (index + 1))),
       Choice (js ''Media type'') (sd_mediaType draft) False (\<lambda>cy value. ChooseDraftType cy objectId value)]
      @ shown_if episode [TextField (js ''Show title'') False (sd_showTitle draft) False (\<lambda>t. EditDraft objectId (DraftShowTitle t))]
      @ [TextField (if episode then js ''Episode title'' else js ''Plex title'') False (sd_title draft) False
           (\<lambda>t. EditDraft objectId (DraftTitle t)),
         NumberField (js ''Year'') (sd_year draft) False (\<lambda>n. EditDraft objectId (DraftYear n))]
      @ shown_if episode [NumberField (js ''Season'') (sd_season draft) False (\<lambda>n. EditDraft objectId (DraftSeason n)),
          NumberField (js ''Episode'') (sd_episode draft) False (\<lambda>n. EditDraft objectId (DraftEpisode n))]
      @ [Button (js ''Remove'') False (RemoveDraft objectId)])"

definition draft_rows :: "selection_draft list \<Rightarrow> node list" where
  "draft_rows drafts = concat (map (\<lambda>(index, draft). draft_row index draft) (enumerate 0 drafts))"

definition selection :: "(jsstring \<Rightarrow> jsstring) \<Rightarrow> console_state \<Rightarrow> node list" where
  "selection lower st = shown_if (c_phase st = Select)
     ([Text (js ''Eligible account files''),
       Text (count (length (c_drafts st)) @ js '' of '' @ count maximumManifestItems @ js '' selected''),
       TextField (js ''Search videos'') False (c_query st) False SetQuery]
      @ concat (map (candidate_row st) (visibleCandidates lower st))
      @ shown_if (length (visibleCandidates lower st) < length (matchingCandidates lower st))
          [Text (js ''Showing the first '' @ count (length (visibleCandidates lower st))
             @ js '' matches. Search to narrow the list.'')]
      @ shown_if (0 < length (c_drafts st)) (Text (js ''Plex manifest'') # draft_rows (c_drafts st))
      @ [Button (js ''Use '' @ (if length (c_drafts st) = 0 then js ''selected'' else count (length (c_drafts st))) @ js '' with Plex'')
           (c_pending st \<or> length (c_drafts st) = 0 \<or> (\<exists>draft \<in> set (c_drafts st). \<not> validDraft draft)) ApplyClick,
         Button (js ''Back'') (c_pending st) BackClick])"

text \<open>The sum of the sizes, as \<open>reduce\<close> computes it.\<close>

definition logical_size :: "setup_configuration list \<Rightarrow> number" where
  "logical_size items = foldl (\<lambda>total item. js_add total (sc_size item)) (Fin 0) items"

definition ready_summary :: "console_state \<Rightarrow> node list" where
  "ready_summary st =
     [Text (js ''ASSIGNED MEDIA''),
      Text (if av_degraded (c_availability st) then js ''BlackPearl is partially ready'' else js ''BlackPearl is ready'')]
     @ shown_if (av_degraded (c_availability st)) [Alert (degradedAvailabilityMessage (c_availability st))]
     @ [Text (js ''Plex library''),
        Text (count (length (c_selectedItems st)) @ js '' '' @ (if length (c_selectedItems st) = 1 then js ''video'' else js ''videos'')),
        Text (js ''Manifest''), Text (join middle_dot (map manifestLabel (c_selectedItems st))),
        Text (js ''Logical size''), Text (formatBytes (logical_size (c_selectedItems st))),
        Text (js ''Storage''), Text (js ''Rolling range cache''),
        Link (js ''Open Plex'') (js ''http://localhost:32402/web''),
        Button (js ''Find something new'') (c_pending st) OpenAcquisition]
     @ (if canUseSavedToken st then [Button (js ''Change video'') (c_pending st) ChangeVideo]
        else [Button (js ''Change video'') False ReenterToken])
     @ [Button (js ''Replace token'') False ReplaceToken]"

text \<open>The Watchlist panel. \<open>formatWatchlistTime\<close> is the host's date formatting, an argument.\<close>

definition watchlist_badge :: "watchlist_status \<Rightarrow> jsstring" where
  "watchlist_badge s = (if ws_healthy s then (if ws_acquisitionEnabled s then js ''AUTO ADD ON'' else js ''OBSERVING'')
     else js ''NEEDS ATTENTION'')"

definition watchlist_details :: "(jsstring \<Rightarrow> jsstring) \<Rightarrow> console_state \<Rightarrow> watchlist_status \<Rightarrow> node list" where
  "watchlist_details formatWatchlistTime st s =
     [Text (watchlistSummary s),
      Text (number_to_string (waitingItemCount s) @ js '' items waiting''),
      Text (js ''Pending, acquiring, and retrying movies or episodes''),
      Text (number_to_string (wq_observedShows (ws_queue s)) @ js '' shows observed''),
      Text (if ws_showPolicy s = Pilot then js ''New shows stay exactly one episode ahead of playback''
            else js ''Observed without episode acquisition''),
      Text (number_to_string (wq_succeeded (ws_queue s)) @ js '' added automatically''),
      Text (js ''Published into the BlackPearl manifest''),
      Text (number_to_string (wq_manualReview (ws_queue s)) @ js '' need review''),
      Text (js ''Held instead of making an unsafe guess''),
      Text (js ''Automatic Watchlist adding''),
      Text (js ''Only media added to your Watchlist after this is turned on becomes eligible. Turning it off does not cancel media already preparing.''),
      Button (if ws_acquisitionEnabled s then js ''Turn automatic adding off'' else js ''Turn automatic adding on'')
        (c_watchlistLoading st \<or> unpaired st) ToggleAutoAdd,
      Text (js ''Show pilot intake''),
      Text (js ''When on, a newly added show starts with S01E01, then queues exactly one next episode only after real playback. Removing the show from Watchlist or turning this off stops future episodes. BlackPearl never requests a whole season or series.''),
      Button (if ws_showPolicy s = Pilot then js ''Stop starting new shows'' else js ''Start new shows with S01E01'')
        (c_watchlistLoading st \<or> \<not> ws_acquisitionEnabled s \<or> unpaired st) ToggleShowPolicy]
     @ (case ws_lastSyncAt s of None \<Rightarrow> []
        | Some t \<Rightarrow> shown_if (t \<noteq> []) [Text (js ''Last checked '' @ formatWatchlistTime t)])"

definition watchlist_panel :: "(jsstring \<Rightarrow> jsstring) \<Rightarrow> console_state \<Rightarrow> node list" where
  "watchlist_panel formatWatchlistTime st =
     [Text (js ''AUTOMATIC INTAKE''), Text (js ''Plex Watchlist'')]
     @ (case c_watchlistStatus st of None \<Rightarrow> [] | Some s \<Rightarrow> [Text (watchlist_badge s)])
     @ shown_if (c_watchlistLoading st) [Rule]
     @ (case c_watchlistStatus st of None \<Rightarrow> [] | Some s \<Rightarrow> watchlist_details formatWatchlistTime st s)
     @ shown_if (c_watchlistStatus st = None \<and> \<not> c_watchlistLoading st \<and> c_watchlistError st = [])
         [Text (js ''Pair this browser from the BlackPearl launcher to see Watchlist activity.'')]
     @ shown_if (c_watchlistError st \<noteq> [])
         [Text (js ''Watchlist status is temporarily unavailable. Your existing Plex library is unaffected.'')]
     @ [Button (js ''Refresh Watchlist'') (c_watchlistLoading st \<or> unpaired st) RefreshWatchlistClick]"

definition background_job :: "console_state \<Rightarrow> node list" where
  "background_job st = (case c_activeJob st of None \<Rightarrow> []
     | Some job \<Rightarrow>
         [Text (js ''BACKGROUND PREPARATION''), Text (aj_title job), Text (acquisitionJobStateLabel job),
          Text (acquisitionJobDetail job),
          Progress (aj_title job @ js '' preparation progress'') (acquisitionJobProgress job)]
         @ shown_if (aj_state job = Preparing) [Text (number_to_string (aj_progress job) @ js ''% prepared'')]
         @ [Text (js ''This continues if you close this page or restart BlackPearl. When it is ready, BlackPearl publishes it to Plex automatically.''),
            Button (js ''Refresh status'') (c_pending st) RefreshStatusClick])"

definition provider_form :: "console_state \<Rightarrow> node list" where
  "provider_form st = shown_if (c_acquisitionView st = Settings)
     [TextField (js ''Prowlarr URL'') False (c_prowlarrURL st) (c_pending st) SetProwlarrURL,
      Text (js ''Prowlarr API key''),
      Text (js ''Copy the API key from Prowlarr Settings. BlackPearl stores it privately and never displays it again.''),
      TextField (js ''Prowlarr API key'') (\<not> c_showProwlarrKey st) (c_prowlarrKey st) (c_pending st) SetProwlarrKey,
      Button (if c_showProwlarrKey st then js ''Hide key'' else js ''Show key'') (c_pending st) ToggleShowProwlarrKey,
      Button (js ''Connect Prowlarr'') (c_pending st \<or> length (c_prowlarrKey st) = 0) ConnectClick]"

definition acquisition_form :: "console_state \<Rightarrow> node list" where
  "acquisition_form st = shown_if (c_acquisitionView st = Search)
     ([Choice (js ''Media type'') (c_acquisitionType st) (c_pending st) (\<lambda>cy value. SetAcquisitionType value),
       TextField (js ''Title'') False (c_acquisitionTitle st) (c_pending st) SetAcquisitionTitle,
       NumberField (js ''Year'') (c_acquisitionYear st) (c_pending st) SetAcquisitionYear]
      @ shown_if (c_acquisitionType st = Episode)
          [NumberField (js ''Season'') (c_acquisitionSeason st) (c_pending st) SetAcquisitionSeason,
           NumberField (js ''Episode'') (c_acquisitionEpisode st) (c_pending st) SetAcquisitionEpisode]
      @ [Button (js ''Find and add to Plex'') (c_pending st \<or> \<not> request_valid st) FindAndAddClick]
      @ (case c_preparationOffer st of None \<Rightarrow> [] | Some offer \<Rightarrow> [Button (js ''Prepare through TorBox'') (c_pending st) PrepareClick])
      @ [Button (js ''Change Prowlarr'') (c_pending st) ChangeProwlarrClick])"

definition acquisition_section :: "console_state \<Rightarrow> node list" where
  "acquisition_section st = shown_if (c_acquisitionView st \<noteq> Closed)
     ([Text (js ''Add to Plex''), Button (js ''Close'') (c_pending st) CloseAcquisition]
      @ shown_if (c_acquisitionView st = LoadingView) [Rule] @ provider_form st @ acquisition_form st)"

definition ready_section :: "(jsstring \<Rightarrow> jsstring) \<Rightarrow> console_state \<Rightarrow> node list" where
  "ready_section formatWatchlistTime st = shown_if (c_phase st = Ready \<and> 0 < length (c_selectedItems st))
     (ready_summary st @ watchlist_panel formatWatchlistTime st @ background_job st @ acquisition_section st)"

definition footer :: "node list" where
  "footer = [Text (js ''LOCALHOST ONLY''), Text (js ''NO COMPLETE FILE REQUIRED''), Text (js ''DIRECT PLAY TARGET'')]"

definition page :: "(jsstring \<Rightarrow> jsstring) \<Rightarrow> (jsstring \<Rightarrow> jsstring) \<Rightarrow> console_state \<Rightarrow> node list" where
  "page lower formatWatchlistTime st =
     masthead st @ heading st @ credential_form st @ selection lower st @ ready_section formatWatchlistTime st @ footer"

section \<open>What the page offers\<close>

definition offered :: "node list \<Rightarrow> user_event \<Rightarrow> bool" where
  "offered ns ev \<longleftrightarrow> (\<exists>n \<in> set ns. offers n ev)"

named_theorems offered_simps \<open>what a part of the page offers\<close>

lemma offered_list [offered_simps]:
  "offered [] ev \<longleftrightarrow> False" "offered (n # ns) ev \<longleftrightarrow> offers n ev \<or> offered ns ev"
  "offered (ns @ ms) ev \<longleftrightarrow> offered ns ev \<or> offered ms ev"
  "offered (shown_if b ns) ev \<longleftrightarrow> b \<and> offered ns ev"
  by (auto simp: offered_def shown_if_def)

lemma offered_concat: "offered (concat (map f xs)) ev \<longleftrightarrow> (\<exists>x \<in> set xs. offered (f x) ev)"
  by (auto simp: offered_def)

lemma offered_masthead [offered_simps]: "offered (masthead st) ev \<longleftrightarrow> False" "offered (heading st) ev \<longleftrightarrow> False" "offered footer ev \<longleftrightarrow> False"
  by (auto simp: masthead_def heading_def footer_def offered_simps)

lemma offered_candidate_row:
  "offered (candidate_row st c) ev \<longleftrightarrow> (\<exists>cy. ev = ToggleCandidate cy c)"
  by (simp add: candidate_row_def offered_simps)

lemma offered_draft_row:
  "offered (draft_row i d) ev \<longleftrightarrow>
     (\<exists>cy v. ev = ChooseDraftType cy (sd_objectId d) v) \<or> ev = RemoveDraft (sd_objectId d)
     \<or> (\<exists>u. ev = EditDraft (sd_objectId d) u \<and> (episode_only u \<longrightarrow> sd_mediaType d = Episode))"
proof -
  have "(\<exists>u. ev = EditDraft j u \<and> (episode_only u \<longrightarrow> P)) \<longleftrightarrow>
      (\<exists>t. ev = EditDraft j (DraftTitle t)) \<or> (\<exists>n. ev = EditDraft j (DraftYear n))
      \<or> P \<and> ((\<exists>t. ev = EditDraft j (DraftShowTitle t)) \<or> (\<exists>n. ev = EditDraft j (DraftSeason n)) \<or> (\<exists>n. ev = EditDraft j (DraftEpisode n)))"
    for j P
  proof (cases ev)
    case (EditDraft j' u)
    then show ?thesis by (cases u) auto
  qed auto
  then show ?thesis
    unfolding draft_row_def Let_def by (simp add: offered_simps) blast
qed

lemma offered_draft_rows:
  "offered (draft_rows ds) ev \<longleftrightarrow> (\<exists>d \<in> set ds. \<exists>i. offered (draft_row i d) ev)"
proof -
  have "(\<exists>p \<in> set (enumerate 0 ds). offered (draft_row (fst p) (snd p)) ev) \<longleftrightarrow> (\<exists>d \<in> set ds. \<exists>i. offered (draft_row i d) ev)"
  proof
    assume "\<exists>p \<in> set (enumerate 0 ds). offered (draft_row (fst p) (snd p)) ev"
    then show "\<exists>d \<in> set ds. \<exists>i. offered (draft_row i d) ev"
      by (auto simp: in_set_enumerate_eq)
  next
    assume "\<exists>d \<in> set ds. \<exists>i. offered (draft_row i d) ev"
    then obtain j i where "j < length ds" "offered (draft_row i (ds ! j)) ev"
      by (auto simp: in_set_conv_nth)
    then have "(j, ds ! j) \<in> set (enumerate 0 ds)" "offered (draft_row j (ds ! j)) ev"
      by (auto simp: in_set_enumerate_eq offered_draft_row)
    then show "\<exists>p \<in> set (enumerate 0 ds). offered (draft_row (fst p) (snd p)) ev"
      by force
  qed
  then show ?thesis by (simp add: draft_rows_def offered_concat case_prod_unfold)
qed

lemma offered_credential_form [offered_simps]:
  "offered (credential_form st) ev \<longleftrightarrow> c_phase st = Credentials
     \<and> (\<not> c_pending st \<and> ((\<exists>t. ev = SetToken t) \<or> ev = ToggleShowToken \<or> canUseSavedToken st \<and> ev = UseSavedToken)
        \<or> \<not> (c_pending st \<or> \<not> c_tokenConfigured st \<and> length (c_token st) = 0) \<and> ev = SubmitCredentials)"
  unfolding credential_form_def offered_simps offers.simps by blast

lemma offered_selection [offered_simps]:
  "offered (selection lower st) ev \<longleftrightarrow> c_phase st = Select
     \<and> ((\<exists>q. ev = SetQuery q) \<or> (\<exists>c \<in> set (visibleCandidates lower st). \<exists>cy. ev = ToggleCandidate cy c)
        \<or> (\<exists>d \<in> set (c_drafts st). (\<exists>cy v. ev = ChooseDraftType cy (sd_objectId d) v) \<or> ev = RemoveDraft (sd_objectId d)
             \<or> (\<exists>u. ev = EditDraft (sd_objectId d) u \<and> (episode_only u \<longrightarrow> sd_mediaType d = Episode)))
        \<or> \<not> (c_pending st \<or> length (c_drafts st) = 0 \<or> (\<exists>d \<in> set (c_drafts st). \<not> validDraft d)) \<and> ev = ApplyClick
        \<or> \<not> c_pending st \<and> ev = BackClick)"
  unfolding selection_def offered_simps offers.simps offered_concat offered_candidate_row offered_draft_rows offered_draft_row
  by auto

lemma offered_ready_summary [offered_simps]:
  "offered (ready_summary st) ev \<longleftrightarrow> \<not> c_pending st \<and> ev = OpenAcquisition
     \<or> (if canUseSavedToken st then \<not> c_pending st \<and> ev = ChangeVideo else ev = ReenterToken) \<or> ev = ReplaceToken"
  unfolding ready_summary_def offered_simps offers.simps
  by (auto simp: offered_simps)

lemma offered_watchlist_panel [offered_simps]:
  "offered (watchlist_panel fmt st) ev \<longleftrightarrow> (\<exists>s. c_watchlistStatus st = Some s
       \<and> (\<not> (c_watchlistLoading st \<or> unpaired st) \<and> ev = ToggleAutoAdd
          \<or> \<not> (c_watchlistLoading st \<or> \<not> ws_acquisitionEnabled s \<or> unpaired st) \<and> ev = ToggleShowPolicy))
     \<or> \<not> (c_watchlistLoading st \<or> unpaired st) \<and> ev = RefreshWatchlistClick"
proof (cases "c_watchlistStatus st")
  case (Some s)
  then show ?thesis
    unfolding watchlist_panel_def watchlist_details_def offered_simps offers.simps
    by (cases "ws_lastSyncAt s") (auto simp: offered_simps simp del: js_simps_list)
qed (auto simp: watchlist_panel_def offered_simps simp del: js_simps_list)

lemma offered_background_job [offered_simps]:
  "offered (background_job st) ev \<longleftrightarrow> c_activeJob st \<noteq> None \<and> \<not> c_pending st \<and> ev = RefreshStatusClick"
  by (auto simp: background_job_def offered_simps simp del: js_simps_list split: option.splits)

lemma offered_provider_form [offered_simps]:
  "offered (provider_form st) ev \<longleftrightarrow> c_acquisitionView st = Settings
     \<and> (\<not> c_pending st \<and> ((\<exists>u. ev = SetProwlarrURL u) \<or> (\<exists>k. ev = SetProwlarrKey k) \<or> ev = ToggleShowProwlarrKey)
        \<or> \<not> (c_pending st \<or> length (c_prowlarrKey st) = 0) \<and> ev = ConnectClick)"
  unfolding provider_form_def offered_simps offers.simps by blast

lemma offered_acquisition_form [offered_simps]:
  "offered (acquisition_form st) ev \<longleftrightarrow> c_acquisitionView st = Search
     \<and> (\<not> c_pending st \<and> ((\<exists>v. ev = SetAcquisitionType v) \<or> (\<exists>t. ev = SetAcquisitionTitle t) \<or> (\<exists>n. ev = SetAcquisitionYear n)
          \<or> c_acquisitionType st = Episode \<and> ((\<exists>n. ev = SetAcquisitionSeason n) \<or> (\<exists>n. ev = SetAcquisitionEpisode n))
          \<or> c_preparationOffer st \<noteq> None \<and> ev = PrepareClick \<or> ev = ChangeProwlarrClick)
        \<or> \<not> (c_pending st \<or> \<not> request_valid st) \<and> ev = FindAndAddClick)"
  unfolding acquisition_form_def offered_simps offers.simps
  by (cases "c_preparationOffer st") (auto simp: offered_simps simp del: js_simps_list)

lemma offered_acquisition_section [offered_simps]:
  "offered (acquisition_section st) ev \<longleftrightarrow> c_acquisitionView st \<noteq> Closed
     \<and> (\<not> c_pending st \<and> ev = CloseAcquisition \<or> offered (provider_form st) ev \<or> offered (acquisition_form st) ev)"
  unfolding acquisition_section_def offered_list offers.simps by blast

lemma offered_ready_section:
  "offered (ready_section fmt st) ev \<longleftrightarrow> ready_card st
     \<and> (offered (ready_summary st) ev \<or> offered (watchlist_panel fmt st) ev \<or> offered (background_job st) ev
        \<or> offered (acquisition_section st) ev)"
  unfolding ready_section_def offered_list ready_card_def by blast

text \<open>The controls that are rendered in a state and not disabled.\<close>

definition enabled :: "(jsstring \<Rightarrow> jsstring) \<Rightarrow> console_state \<Rightarrow> user_event \<Rightarrow> bool" where
  "enabled lower st ev \<longleftrightarrow> offered (page lower (\<lambda>t. t) st) ev"

text \<open>Event by event: what the markup comes to. How times are formatted does not matter.\<close>

lemma offered_page:
  shows "offered (page lower formatWatchlistTime st) (SetToken t) \<longleftrightarrow> c_phase st = Credentials \<and> \<not> c_pending st"
    and "offered (page lower formatWatchlistTime st) ToggleShowToken \<longleftrightarrow> c_phase st = Credentials \<and> \<not> c_pending st"
    and "offered (page lower formatWatchlistTime st) SubmitCredentials \<longleftrightarrow> c_phase st = Credentials
     \<and> \<not> (c_pending st \<or> \<not> c_tokenConfigured st \<and> length (c_token st) = 0)"
    and "offered (page lower formatWatchlistTime st) UseSavedToken \<longleftrightarrow> c_phase st = Credentials \<and> canUseSavedToken st \<and> \<not> c_pending st"
    and "offered (page lower formatWatchlistTime st) (SetQuery q) \<longleftrightarrow> c_phase st = Select"
    and "offered (page lower formatWatchlistTime st) (ToggleCandidate cy candidate) \<longleftrightarrow> c_phase st = Select
     \<and> candidate \<in> set (visibleCandidates lower st)"
    and "offered (page lower formatWatchlistTime st) (ChooseDraftType cy objectId value) \<longleftrightarrow> c_phase st = Select
     \<and> objectId \<in> set (map sd_objectId (c_drafts st))"
    and "offered (page lower formatWatchlistTime st) (EditDraft objectId update) \<longleftrightarrow> c_phase st = Select
     \<and> (\<exists>draft \<in> set (c_drafts st). sd_objectId draft = objectId
          \<and> (episode_only update \<longrightarrow> sd_mediaType draft = Episode))"
    and "offered (page lower formatWatchlistTime st) (RemoveDraft objectId) \<longleftrightarrow> c_phase st = Select
     \<and> objectId \<in> set (map sd_objectId (c_drafts st))"
    and "offered (page lower formatWatchlistTime st) ApplyClick \<longleftrightarrow> c_phase st = Select
     \<and> \<not> (c_pending st \<or> length (c_drafts st) = 0 \<or> (\<exists>draft \<in> set (c_drafts st). \<not> validDraft draft))"
    and "offered (page lower formatWatchlistTime st) BackClick \<longleftrightarrow> c_phase st = Select \<and> \<not> c_pending st"
    and "offered (page lower formatWatchlistTime st) OpenAcquisition \<longleftrightarrow> ready_card st \<and> \<not> c_pending st"
    and "offered (page lower formatWatchlistTime st) ChangeVideo \<longleftrightarrow> ready_card st \<and> canUseSavedToken st \<and> \<not> c_pending st"
    and "offered (page lower formatWatchlistTime st) ReenterToken \<longleftrightarrow> ready_card st \<and> \<not> canUseSavedToken st"
    and "offered (page lower formatWatchlistTime st) ReplaceToken \<longleftrightarrow> ready_card st"
    and "offered (page lower formatWatchlistTime st) ToggleAutoAdd \<longleftrightarrow> ready_card st \<and> c_watchlistStatus st \<noteq> None
     \<and> \<not> (c_watchlistLoading st \<or> unpaired st)"
    and "offered (page lower formatWatchlistTime st) ToggleShowPolicy \<longleftrightarrow> ready_card st
     \<and> (case c_watchlistStatus st of None \<Rightarrow> False
        | Some s \<Rightarrow> \<not> (c_watchlistLoading st \<or> \<not> ws_acquisitionEnabled s \<or> unpaired st))"
    and "offered (page lower formatWatchlistTime st) RefreshWatchlistClick \<longleftrightarrow> ready_card st \<and> \<not> (c_watchlistLoading st \<or> unpaired st)"
    and "offered (page lower formatWatchlistTime st) RefreshStatusClick \<longleftrightarrow> ready_card st \<and> c_activeJob st \<noteq> None \<and> \<not> c_pending st"
    and "offered (page lower formatWatchlistTime st) CloseAcquisition \<longleftrightarrow> ready_card st \<and> c_acquisitionView st \<noteq> Closed \<and> \<not> c_pending st"
    and "offered (page lower formatWatchlistTime st) (SetProwlarrURL u) \<longleftrightarrow> acquisition_panel Settings st \<and> \<not> c_pending st"
    and "offered (page lower formatWatchlistTime st) (SetProwlarrKey k) \<longleftrightarrow> acquisition_panel Settings st \<and> \<not> c_pending st"
    and "offered (page lower formatWatchlistTime st) ToggleShowProwlarrKey \<longleftrightarrow> acquisition_panel Settings st \<and> \<not> c_pending st"
    and "offered (page lower formatWatchlistTime st) ConnectClick \<longleftrightarrow> acquisition_panel Settings st
     \<and> \<not> (c_pending st \<or> length (c_prowlarrKey st) = 0)"
    and "offered (page lower formatWatchlistTime st) (SetAcquisitionType v) \<longleftrightarrow> acquisition_panel Search st \<and> \<not> c_pending st"
    and "offered (page lower formatWatchlistTime st) (SetAcquisitionTitle t) \<longleftrightarrow> acquisition_panel Search st \<and> \<not> c_pending st"
    and "offered (page lower formatWatchlistTime st) (SetAcquisitionYear y) \<longleftrightarrow> acquisition_panel Search st \<and> \<not> c_pending st"
    and "offered (page lower formatWatchlistTime st) (SetAcquisitionSeason n) \<longleftrightarrow> acquisition_panel Search st
     \<and> c_acquisitionType st = Episode \<and> \<not> c_pending st"
    and "offered (page lower formatWatchlistTime st) (SetAcquisitionEpisode n) \<longleftrightarrow> acquisition_panel Search st
     \<and> c_acquisitionType st = Episode \<and> \<not> c_pending st"
    and "offered (page lower formatWatchlistTime st) FindAndAddClick \<longleftrightarrow> acquisition_panel Search st \<and> \<not> (c_pending st \<or> \<not> request_valid st)"
    and "offered (page lower formatWatchlistTime st) PrepareClick \<longleftrightarrow> acquisition_panel Search st \<and> c_preparationOffer st \<noteq> None
     \<and> \<not> c_pending st"
    and "offered (page lower formatWatchlistTime st) ChangeProwlarrClick \<longleftrightarrow> acquisition_panel Search st \<and> \<not> c_pending st"
  unfolding page_def offered_list offered_ready_section
  by (auto simp: offered_simps acquisition_panel_def split: option.splits)

lemmas enabled_simps [simp] = offered_page [where formatWatchlistTime = "\<lambda>t. t", folded enabled_def]

lemma enabled_any_format: "offered (page lower formatWatchlistTime st) ev \<longleftrightarrow> enabled lower st ev"
  unfolding enabled_def by (cases ev) (simp_all only: offered_page)

end
