(* ===== verification/Console_Steps.thy ===== *)
theory Console_Steps
  imports Console_View
begin

text \<open>
  The console as a transition system: what the user can do in a state (the controls the page shows
  and does not disable), the handlers behind them, and the steps of the system: a user
  event, a response to one of the requests in flight, the polling timer, and the polling effect
  running again after its dependencies changed. Invariants are proved for every reachable world.
\<close>

section \<open>Handlers\<close>

text \<open>The handlers of the controls.\<close>

fun handle :: "user_event \<Rightarrow> world \<Rightarrow> world" where
  "handle (SetToken t) w = upd (\<lambda>st. st\<lparr>c_token := t\<rparr>) w"
| "handle ToggleShowToken w = upd (\<lambda>st. st\<lparr>c_showToken := \<not> c_showToken st\<rparr>) w"
| "handle SubmitCredentials w = findVideos False w"
| "handle UseSavedToken w = findVideos True w"
| "handle (SetQuery q) w = upd (\<lambda>st. st\<lparr>c_query := q\<rparr>) w"
| "handle (ToggleCandidate cy candidate) w = toggle cy candidate w"
| "handle (ChooseDraftType cy objectId value) w = replaceDraft cy objectId (mediaTypeFromValue value) w"
| "handle (EditDraft objectId update) w = updateDraft objectId update w"
| "handle (RemoveDraft objectId) w = upd (\<lambda>st. st\<lparr>c_drafts := remove_draft objectId (c_drafts st)\<rparr>) w"
| "handle ApplyClick w = applyDrafts w"
| "handle BackClick w = upd (\<lambda>st. st\<lparr>c_phase := Credentials\<rparr>) w"
| "handle OpenAcquisition w = openAcquisition w"
| "handle ChangeVideo w = findVideos True w"
| "handle ReenterToken w = upd (\<lambda>st. st\<lparr>c_token := [], c_phase := Credentials,
     c_message := js ''Re-enter your saved TorBox token to authorize this browser.''\<rparr>) w"
| "handle ReplaceToken w = upd (\<lambda>st. st\<lparr>c_token := [], c_showToken := False, c_phase := Credentials,
     c_message := js ''Enter a replacement TorBox token.''\<rparr>) w"
| "handle ToggleAutoAdd w = (case c_watchlistStatus (w_state w) of None \<Rightarrow> w
     | Some s \<Rightarrow> changeWatchlistPolicy (\<not> ws_acquisitionEnabled s) (ws_showPolicy s) w)"
| "handle ToggleShowPolicy w = (case c_watchlistStatus (w_state w) of None \<Rightarrow> w
     | Some s \<Rightarrow> changeWatchlistPolicy (ws_acquisitionEnabled s)
                   (if ws_showPolicy s = Pilot then Off else Pilot) w)"
| "handle RefreshWatchlistClick w = refreshWatchlist w"
| "handle RefreshStatusClick w = refreshAcquisitionJob w"
| "handle CloseAcquisition w = upd (\<lambda>st. st\<lparr>c_acquisitionView := Closed\<rparr>) w"
| "handle (SetProwlarrURL u) w = upd (\<lambda>st. st\<lparr>c_prowlarrURL := u\<rparr>) w"
| "handle (SetProwlarrKey k) w = upd (\<lambda>st. st\<lparr>c_prowlarrKey := k\<rparr>) w"
| "handle ToggleShowProwlarrKey w = upd (\<lambda>st. st\<lparr>c_showProwlarrKey := \<not> c_showProwlarrKey st\<rparr>) w"
| "handle ConnectClick w = connectProwlarr w"
| "handle (SetAcquisitionType v) w = upd (\<lambda>st. st\<lparr>c_acquisitionType := mediaTypeFromValue v\<rparr>) w"
| "handle (SetAcquisitionTitle t) w = upd (\<lambda>st. st\<lparr>c_acquisitionTitle := t\<rparr>) w"
| "handle (SetAcquisitionYear y) w = upd (\<lambda>st. st\<lparr>c_acquisitionYear := y\<rparr>) w"
| "handle (SetAcquisitionSeason n) w = upd (\<lambda>st. st\<lparr>c_acquisitionSeason := n\<rparr>) w"
| "handle (SetAcquisitionEpisode n) w = upd (\<lambda>st. st\<lparr>c_acquisitionEpisode := n\<rparr>) w"
| "handle FindAndAddClick w = addRequestedMedia w"
| "handle PrepareClick w = prepareRequestedMedia w"
| "handle ChangeProwlarrClick w = upd (\<lambda>st. st\<lparr>c_acquisitionView := Settings\<rparr>) w"

section \<open>Steps\<close>

text \<open>
  What the server's manifests are assumed to satisfy (\<open>M\<close>; \<open>\<lambda>_. True\<close> for no assumption): it holds
  of every list of configurations that a response delivers.
\<close>

definition admissible :: "(setup_configuration list \<Rightarrow> bool) \<Rightarrow> http_response option \<Rightarrow> bool" where
  "admissible M ans \<longleftrightarrow> (case ans of None \<Rightarrow> True | Some r \<Rightarrow>
     (case getStatus_response r of Inl e \<Rightarrow> True
      | Inr s \<Rightarrow> M (restored_items (ss_selected s) (ss_selectedItems s)))
     \<and> (case applyConfiguration_response r of Inl e \<Rightarrow> True | Inr (a, s) \<Rightarrow> M (ar_selectedItems a))
     \<and> (case acquireMedia_response r of Inl e \<Rightarrow> True | Inr (a, s) \<Rightarrow> M (ar_selectedItems a)))"

inductive console_step ::
  "(jsstring \<Rightarrow> jsstring) \<Rightarrow> (jsstring \<Rightarrow> bool) \<Rightarrow> (setup_configuration list \<Rightarrow> bool) \<Rightarrow> world \<Rightarrow> world \<Rightarrow> bool"
  for lower df M where
  user: "enabled lower (w_state w) ev \<Longrightarrow> console_step lower df M w (handle ev w)"
| answer: "w_tasks w = xs @ (t, rq) # ys \<Longrightarrow> admissible M ans \<Longrightarrow>
     console_step lower df M w (resume df t ans (w\<lparr>w_tasks := xs @ ys\<rparr>))"
| timer: "w_timer w = Some captured \<Longrightarrow> console_step lower df M w (poll_fire captured w)"
| effect: "current_deps w \<noteq> w_deps w \<Longrightarrow> console_step lower df M w (run_poll_effect w)"

inductive reachable ::
  "(jsstring \<Rightarrow> jsstring) \<Rightarrow> (jsstring \<Rightarrow> bool) \<Rightarrow> (setup_configuration list \<Rightarrow> bool) \<Rightarrow> world \<Rightarrow> bool"
  for lower df M where
  mounted: "reachable lower df M (mount cy b)"
| stepped: "reachable lower df M w \<Longrightarrow> console_step lower df M w w' \<Longrightarrow> reachable lower df M w'"

end
