(* ===== verification/Console_Invariants.thy ===== *)
theory Console_Invariants
  imports Console_Steps
begin

text \<open>
  Invariants of the running console, for every order of user events and responses: one foreground
  and one Watchlist operation at a time, exactly while the page shows it as busy; secrets only in
  their validated form; jobs, intents and Watchlist status well formed; and drafts only of media that
  discovery returned.
\<close>

section \<open>Invariants of a transition system\<close>

locale state_invariant =
  fixes init :: "'s \<Rightarrow> bool"
    and step :: "'s \<Rightarrow> 's \<Rightarrow> bool"
    and inv :: "'s \<Rightarrow> bool"
  assumes initially: "init s \<Longrightarrow> inv s"
    and preserved: "inv s \<Longrightarrow> step s s' \<Longrightarrow> inv s'"
begin

lemma run_preserves: "step\<^sup>*\<^sup>* s s' \<Longrightarrow> inv s \<Longrightarrow> inv s'"
  by (induction rule: rtranclp_induct) (auto intro: preserved)

lemma holds_after_run: "init s \<Longrightarrow> step\<^sup>*\<^sup>* s s' \<Longrightarrow> inv s'"
  using initially run_preserves by blast

end

definition mounted_world :: "world \<Rightarrow> bool" where
  "mounted_world w \<longleftrightarrow> (\<exists>cy b. w = mount cy b)"

lemma reachable_run:
  assumes "reachable lower df M w"
  shows "\<exists>w0. mounted_world w0 \<and> (console_step lower df M)\<^sup>*\<^sup>* w0 w"
  using assms
proof (induction rule: reachable.induct)
  case (mounted cy b)
  then show ?case by (auto simp: mounted_world_def)
next
  case (stepped w w')
  then show ?case by (meson rtranclp.rtrancl_into_rtrancl)
qed

section \<open>Reading worlds\<close>

named_theorems world_simps \<open>fields of a world after the elementary updates\<close>

lemma upd_fields [world_simps]:
  "w_state (upd f w) = f (w_state w)" "w_browser (upd f w) = w_browser w"
  "w_tasks (upd f w) = w_tasks w" "w_timer (upd f w) = w_timer w"
  by (simp_all add: upd_def)

lemma send_fields [world_simps]:
  "w_state (send t rq w) = w_state w" "w_browser (send t rq w) = w_browser w"
  "w_tasks (send t rq w) = w_tasks w @ [(t, rq)]" "w_timer (send t rq w) = w_timer w"
  by (simp_all add: send_def)

lemma store_session_fields [world_simps]:
  "w_state (store_session s w) = w_state w" "w_browser (store_session s w) = storeSession s (w_browser w)"
  "w_tasks (store_session s w) = w_tasks w" "w_timer (store_session s w) = w_timer w"
  by (simp_all add: store_session_def)

lemma set_active_job_fields [world_simps]:
  "w_state (set_active_job j w) = (w_state w)\<lparr>c_activeJob := j\<rparr>" "w_browser (set_active_job j w) = w_browser w"
  "w_tasks (set_active_job j w) = w_tasks w" "w_timer (set_active_job j w) = w_timer w"
  by (simp_all add: set_active_job_def)

lemma run_poll_effect_fields [world_simps]:
  "w_state (run_poll_effect w) = w_state w" "w_browser (run_poll_effect w) = w_browser w"
  "w_tasks (run_poll_effect w) = w_tasks w"
  by (simp_all add: run_poll_effect_def)

lemmas handler_defs =
  findVideos_def toggle_def updateDraft_def replaceDraft_def applyDrafts_def refreshWatchlist_def
  changeWatchlistPolicy_def openAcquisition_def connectProwlarr_def addRequestedMedia_def
  prepareRequestedMedia_def refreshAcquisitionJob_def

lemmas done_defs =
  initStatus_done_def initWatchlist_done_def pollJob_done_def pollStatus_done_def findVideos_done_def
  applyDrafts_done_def refreshWatchlist_done_def changeWatchlistPolicy_done_def openStatus_done_def
  openJobs_done_def connectProwlarr_done_def addRequestedMedia_done_def prepareRequestedMedia_done_def
  refreshJob_done_def refreshJobStatus_done_def

section \<open>One operation at a time\<close>

fun foreground :: "task \<Rightarrow> bool" where
  "foreground (FindVideos b items) = True"
| "foreground ApplyDrafts = True"
| "foreground (OpenStatus csrf auth) = True"
| "foreground (OpenJobs b) = True"
| "foreground ConnectProwlarr = True"
| "foreground (AddRequested i) = True"
| "foreground PrepareRequested = True"
| "foreground RefreshJob = True"
| "foreground RefreshJobStatus = True"
| "foreground t = False"

fun watchlist_task :: "task \<Rightarrow> bool" where
  "watchlist_task InitWatchlist = True"
| "watchlist_task RefreshWatchlist = True"
| "watchlist_task (ChangePolicy a p) = True"
| "watchlist_task t = False"

fun initial_task :: "task \<Rightarrow> bool" where
  "initial_task (InitStatus a) = True"
| "initial_task t = False"

definition tasks_of :: "(task \<Rightarrow> bool) \<Rightarrow> world \<Rightarrow> nat" where
  "tasks_of p w = length (filter (\<lambda>(t, rq). p t) (w_tasks w))"

text \<open>While the first status request is in flight nothing else is.\<close>

definition starting_ok :: "world \<Rightarrow> bool" where
  "starting_ok w \<longleftrightarrow>
     (c_phase (w_state w) = Loading \<longrightarrow> length (w_tasks w) = 1 \<and> tasks_of initial_task w = 1
        \<and> w_timer w = None \<and> \<not> c_pending (w_state w) \<and> \<not> c_watchlistLoading (w_state w)
        \<and> c_activeJob (w_state w) = None)
     \<and> (c_phase (w_state w) \<noteq> Loading \<longrightarrow> tasks_of initial_task w = 0)"

definition one_at_a_time :: "world \<Rightarrow> bool" where
  "one_at_a_time w \<longleftrightarrow>
     tasks_of foreground w = (if c_pending (w_state w) then 1 else 0)
     \<and> tasks_of watchlist_task w = (if c_watchlistLoading (w_state w) then 1 else 0)"

lemma tasks_of_fields [world_simps]:
  "tasks_of p (upd f w) = tasks_of p w"
  "tasks_of p (send t rq w) = tasks_of p w + (if p t then 1 else 0)"
  "tasks_of p (store_session s w) = tasks_of p w"
  "tasks_of p (set_active_job j w) = tasks_of p w"
  "tasks_of p (run_poll_effect w) = tasks_of p w"
  by (simp_all add: tasks_of_def world_simps)

lemma tasks_of_removed:
  "w_tasks w = xs @ (t, rq) # ys \<Longrightarrow>
   tasks_of p w = tasks_of p (w\<lparr>w_tasks := xs @ ys\<rparr>) + (if p t then 1 else 0)"
  by (simp add: tasks_of_def)

lemma state_of_removed [simp]: "w_state (w\<lparr>w_tasks := ts\<rparr>) = w_state w" "w_timer (w\<lparr>w_tasks := ts\<rparr>) = w_timer w"
  by simp_all

lemma enabled_not_loading: "enabled lower st ev \<Longrightarrow> c_phase st \<noteq> Loading"
  by (cases ev) (auto simp: ready_card_def acquisition_panel_def)

lemma handle_one_at_a_time:
  assumes "enabled lower (w_state w) ev" "one_at_a_time w"
  shows "one_at_a_time (handle ev w)"
  using assms
  by (cases ev)
    (auto simp: one_at_a_time_def handler_defs world_simps Let_def split: option.splits)

lemma handle_starting:
  assumes "enabled lower (w_state w) ev" "starting_ok w"
  shows "starting_ok (handle ev w)"
  using enabled_not_loading [OF assms(1)] assms(2)
  by (cases ev)
    (auto simp: starting_ok_def handler_defs world_simps Let_def split: option.splits)

text \<open>A task that has been taken off the list, resumed.\<close>

lemma resume_one_at_a_time:
  assumes "tasks_of foreground w + (if foreground t then 1 else 0) = (if c_pending (w_state w) then 1 else 0)"
    and "tasks_of watchlist_task w + (if watchlist_task t then 1 else 0) = (if c_watchlistLoading (w_state w) then 1 else 0)"
    and "initial_task t \<Longrightarrow> \<not> c_watchlistLoading (w_state w)"
  shows "one_at_a_time (resume df t ans w)"
  using assms
  by (cases t)
    (auto simp: one_at_a_time_def done_defs refresh_selection_def world_simps Let_def
      split: sum.splits if_splits prod.splits)

lemma resume_starting:
  assumes "c_phase (w_state w) = Loading \<Longrightarrow> initial_task t" and "tasks_of initial_task w = 0"
  shows "starting_ok (resume df t ans w)"
  using assms
  by (cases t)
    (auto simp: starting_ok_def done_defs refresh_selection_def world_simps Let_def
      split: sum.splits if_splits prod.splits)

lemma poll_fire_fields [world_simps]:
  "tasks_of foreground (poll_fire c w) = tasks_of foreground w"
  "tasks_of watchlist_task (poll_fire c w) = tasks_of watchlist_task w"
  "tasks_of initial_task (poll_fire c w) = tasks_of initial_task w"
  "c_pending (w_state (poll_fire c w)) = c_pending (w_state w)"
  "c_watchlistLoading (w_state (poll_fire c w)) = c_watchlistLoading (w_state w)"
  "c_phase (w_state (poll_fire c w)) = c_phase (w_state w)"
  by (auto simp: poll_fire_def tasks_of_def upd_def send_def Let_def split: prod.splits option.splits)

lemma starting_tasks:
  assumes "starting_ok w" "w_tasks w = xs @ (t, rq) # ys"
  shows "c_phase (w_state w) = Loading \<Longrightarrow> initial_task t" "initial_task t \<Longrightarrow> c_phase (w_state w) = Loading"
    "tasks_of initial_task (w\<lparr>w_tasks := xs @ ys\<rparr>) = 0"
  using assms tasks_of_removed [OF assms(2), of initial_task]
  by (auto simp: starting_ok_def tasks_of_def split: if_splits)

lemma step_one_at_a_time:
  assumes "console_step lower df M w w'" "starting_ok w" "one_at_a_time w"
  shows "starting_ok w' \<and> one_at_a_time w'"
  using assms
proof (induction rule: console_step.induct)
  case (user w ev)
  then show ?case by (simp add: handle_one_at_a_time handle_starting)
next
  case (answer w xs t rq ys ans)
  note st = starting_tasks [OF answer.prems(1) answer.hyps(1)]
  have "\<not> c_watchlistLoading (w_state w)" if "initial_task t"
    using st(2) [OF that] answer.prems(1) by (simp add: starting_ok_def)
  then have "one_at_a_time (resume df t ans (w\<lparr>w_tasks := xs @ ys\<rparr>))"
    using answer.prems(2) tasks_of_removed [OF answer.hyps(1), of foreground]
      tasks_of_removed [OF answer.hyps(1), of watchlist_task]
    by (intro resume_one_at_a_time) (simp_all add: one_at_a_time_def)
  moreover have "starting_ok (resume df t ans (w\<lparr>w_tasks := xs @ ys\<rparr>))"
    using st by (intro resume_starting) simp_all
  ultimately show ?case by simp
next
  case (timer w captured)
  then show ?case by (auto simp: starting_ok_def one_at_a_time_def world_simps)
next
  case (effect w)
  then show ?case
    by (auto simp: starting_ok_def one_at_a_time_def world_simps run_poll_effect_def tasks_of_def)
qed

lemma mount_fields:
  "w_state (mount cy b) = initial_state cy" "w_browser (mount cy b) = snd (loadBrowserAuthorization b)"
  "w_tasks (mount cy b) = [(InitStatus (fst (loadBrowserAuthorization b)), getStatus_request)]"
  "w_timer (mount cy b) = None" "w_deps (mount cy b) = (None, [], [], [])"
  by (simp_all add: mount_def case_prod_unfold Let_def)

lemma mount_one_at_a_time: "mounted_world w \<Longrightarrow> starting_ok w \<and> one_at_a_time w"
  by (auto simp: mounted_world_def starting_ok_def one_at_a_time_def tasks_of_def mount_fields initial_state_def)

interpretation operations: state_invariant mounted_world "console_step lower df M"
  "\<lambda>w. starting_ok w \<and> one_at_a_time w" for lower df M
  by unfold_locales (use mount_one_at_a_time step_one_at_a_time in blast)+

text \<open>
  C1. Operations do not overlap: in every reachable world the number of foreground requests in flight is
  one exactly while the page shows an operation as pending and none otherwise, and the same holds
  of Watchlist requests and the Watchlist's loading mark. So a button that is disabled while
  something is pending never starts a second operation, and no busy mark outlives its request.
\<close>

theorem reachable_one_operation:
  assumes "reachable lower df M w"
  shows "length (filter (foreground \<circ> fst) (w_tasks w)) = (if c_pending (w_state w) then 1 else 0)
    \<and> length (filter (watchlist_task \<circ> fst) (w_tasks w)) = (if c_watchlistLoading (w_state w) then 1 else 0)"
proof -
  have "one_at_a_time w"
    using reachable_run [OF assms] operations.holds_after_run by blast
  then show ?thesis by (simp add: one_at_a_time_def tasks_of_def case_prod_unfold comp_def)
qed

section \<open>A run\<close>

text \<open>A short session: the status cannot be read, the user types a token and looks for videos.\<close>

definition empty_browser :: browser where
  "empty_browser = \<lparr>b_storage = (\<lambda>_. None), b_hash = []\<rparr>"

definition no_authorization :: setup_authorization where
  "no_authorization = \<lparr>auth_session = None, auth_bootstrap = None\<rparr>"

definition started :: world where
  "started = mount (Fin 2026) empty_browser"

definition unreachable_server :: world where
  "unreachable_server = resume (\<lambda>_. True) (InitStatus no_authorization) None (started\<lparr>w_tasks := []\<rparr>)"

definition token_typed :: world where
  "token_typed = handle (SetToken (js ''k'')) unreachable_server"

definition searching :: world where
  "searching = handle SubmitCredentials token_typed"

lemma started_authorization: "loadBrowserAuthorization empty_browser = (no_authorization, empty_browser)"
  by (simp add: loadBrowserAuthorization_def empty_browser_def no_authorization_def validSetupSecret_def
      without_number_sign_def search_params_get_def search_params_def)

lemma started_fields: "w_tasks started = [(InitStatus no_authorization, getStatus_request)]"
  by (simp add: started_def mount_fields started_authorization)

lemma token_typed_state:
  "c_phase (w_state token_typed) = Credentials" "\<not> c_pending (w_state token_typed)" "c_token (w_state token_typed) = js ''k''"
  by (simp_all add: token_typed_def unreachable_server_def initStatus_done_def deliver_def world_simps started_def
      mount_fields initial_state_def)

lemma reachable_searching: "reachable lower (\<lambda>_. True) M searching"
proof -
  have "reachable lower (\<lambda>_. True) M started"
    unfolding started_def by (rule reachable.mounted)
  moreover have "console_step lower (\<lambda>_. True) M started unreachable_server"
    unfolding unreachable_server_def
    using console_step.answer [of started "[]" "InitStatus no_authorization" getStatus_request "[]" M None lower "\<lambda>_. True"]
    by (simp add: started_fields admissible_def)
  moreover have "console_step lower (\<lambda>_. True) M unreachable_server token_typed"
    unfolding token_typed_def
    by (rule console_step.user)
      (simp add: unreachable_server_def initStatus_done_def deliver_def world_simps started_def mount_fields initial_state_def)
  moreover have "console_step lower (\<lambda>_. True) M token_typed searching"
    unfolding searching_def by (rule console_step.user) (simp add: token_typed_state js_def)
  ultimately show ?thesis by (meson reachable.stepped)
qed

lemma searching_fields:
  "c_pending (w_state searching)"
  "w_tasks searching = [(FindVideos False [], discoverMedia_request (js ''k'') [] \<lparr>auth_session = Some [], auth_bootstrap = Some []\<rparr>)]"
  by (simp_all add: searching_def findVideos_def token_typed_def unreachable_server_def initStatus_done_def deliver_def
      world_simps started_def mount_fields initial_state_def authorization_def Let_def or_empty_def started_authorization
      no_authorization_def)

theorem reachable_one_operation_witness:
  "length (filter (foreground \<circ> fst) (w_tasks searching)) = 1"
  using reachable_one_operation [OF reachable_searching [of id "\<lambda>_. True"]] by (simp add: searching_fields)

end
