(* ===== verification/Console_Drafts.thy ===== *)
theory Console_Drafts
  imports Console_Invariants
begin

text \<open>
  The manifest editor: the drafts as a finite map from object identifiers, which the four editing
  operations refine; the contract they share; and what it gives for every reachable world and for
  the configuration the console submits.
\<close>

section \<open>The abstract manifest\<close>

text \<open>A manifest under construction maps an object identifier to its draft.\<close>

type_synonym manifest = "jsstring \<rightharpoonup> selection_draft"

definition manifest_of :: "selection_draft list \<Rightarrow> manifest" where
  "manifest_of ds = map_of (map (\<lambda>d. (sd_objectId d, d)) ds)"

definition draft_ids :: "selection_draft list \<Rightarrow> jsstring list" where
  "draft_ids ds = map sd_objectId ds"

definition toggled :: "number \<Rightarrow> media_candidate \<Rightarrow> manifest \<Rightarrow> manifest" where
  "toggled currentYear candidate m =
     (if mc_objectId candidate \<in> dom m then m(mc_objectId candidate := None)
      else if maximumManifestItems \<le> card (dom m) then m
      else m(mc_objectId candidate \<mapsto> suggestDraft currentYear candidate None))"

definition edited :: "jsstring \<Rightarrow> (selection_draft \<Rightarrow> selection_draft) \<Rightarrow> manifest \<Rightarrow> manifest" where
  "edited objectId f m = m(objectId := map_option f (m objectId))"

lemma manifest_of_simps [simp]:
  "manifest_of [] = Map.empty" "manifest_of (d # ds) = (manifest_of ds)(sd_objectId d \<mapsto> d)"
  by (simp_all add: manifest_of_def)

lemma draft_ids_simps [simp]:
  "draft_ids [] = []" "draft_ids (d # ds) = sd_objectId d # draft_ids ds"
  "draft_ids (ds @ es) = draft_ids ds @ draft_ids es" "length (draft_ids ds) = length ds"
  by (simp_all add: draft_ids_def)

lemma dom_manifest_of [simp]: "dom (manifest_of ds) = set (draft_ids ds)"
  by (simp add: manifest_of_def draft_ids_def dom_map_of_conv_image_fst image_comp comp_def)

lemma manifest_of_None_iff: "manifest_of ds i = None \<longleftrightarrow> i \<notin> set (draft_ids ds)"
  using dom_manifest_of [of ds] by blast

lemma card_dom_manifest_of: "distinct (draft_ids ds) \<Longrightarrow> card (set (draft_ids ds)) = length ds"
  by (simp add: distinct_card)

lemma manifest_of_append:
  "manifest_of (ds @ [d]) = (if sd_objectId d \<in> set (draft_ids ds) then manifest_of ds else (manifest_of ds)(sd_objectId d \<mapsto> d))"
  by (induction ds) (auto simp: fun_upd_twist)

lemma manifest_of_filter:
  "manifest_of (filter (\<lambda>d. sd_objectId d \<noteq> i) ds) = (manifest_of ds)(i := None)"
  by (induction ds) (auto simp: fun_upd_twist)

lemma manifest_of_map:
  assumes "\<And>d. sd_objectId (f d) = sd_objectId d" "distinct (draft_ids ds)"
  shows "manifest_of (map (\<lambda>d. if sd_objectId d = i then f d else d) ds) = edited i f (manifest_of ds)"
  using assms(2)
proof (induction ds)
  case Nil
  then show ?case by (simp add: edited_def fun_eq_iff)
next
  case (Cons d ds)
  then show ?case
    by (auto simp: edited_def fun_eq_iff assms(1) manifest_of_None_iff)
qed

lemma apply_draft_update_objectId [simp]: "sd_objectId (apply_draft_update u d) = sd_objectId d"
  by (cases u) simp_all

lemma draft_ids_filter: "draft_ids (filter (\<lambda>d. sd_objectId d \<noteq> i) ds) = filter (\<lambda>j. j \<noteq> i) (draft_ids ds)"
  by (simp add: draft_ids_def filter_map comp_def)

section \<open>The contract of an editing operation\<close>

text \<open>
  An operation on the drafts with the operation on manifests it refines. It may add identifiers of
  the discovered candidates only, keeps identifiers distinct and never exceeds the bound.
\<close>

locale draft_editor =
  fixes edit :: "selection_draft list \<Rightarrow> selection_draft list"
    and spec :: "manifest \<Rightarrow> manifest"
    and addable :: "jsstring set"
  assumes refines: "distinct (draft_ids ds) \<Longrightarrow> manifest_of (edit ds) = spec (manifest_of ds)"
    and keeps_distinct: "distinct (draft_ids ds) \<Longrightarrow> distinct (draft_ids (edit ds))"
    and keeps_bound: "length ds \<le> maximumManifestItems \<Longrightarrow> length (edit ds) \<le> maximumManifestItems"
    and adds_only: "set (draft_ids (edit ds)) \<subseteq> set (draft_ids ds) \<union> addable"
begin

text \<open>The laws give that the number of drafts is the size of the manifest, before and after.\<close>

lemma length_edit: "distinct (draft_ids ds) \<Longrightarrow> length (edit ds) = card (dom (spec (manifest_of ds)))"
  using refines keeps_distinct card_dom_manifest_of by (metis dom_manifest_of)

lemma ids_edit: "distinct (draft_ids ds) \<Longrightarrow> set (draft_ids (edit ds)) = dom (spec (manifest_of ds))"
  using refines by (metis dom_manifest_of)

end

lemma toggle_drafts_eq:
  "toggle_drafts currentYear candidate ds =
     (if mc_objectId candidate \<in> set (draft_ids ds) then filter (\<lambda>d. sd_objectId d \<noteq> mc_objectId candidate) ds
      else if maximumManifestItems \<le> length ds then ds
      else ds @ [suggestDraft currentYear candidate None])"
proof -
  have "(\<exists>d \<in> set ds. sd_objectId d = mc_objectId candidate) \<longleftrightarrow> mc_objectId candidate \<in> set (draft_ids ds)"
    by (metis draft_ids_def in_set_conv_nth length_map nth_map)
  then show ?thesis by (simp add: toggle_drafts_def)
qed

interpretation toggle: draft_editor "toggle_drafts currentYear candidate" "toggled currentYear candidate"
  "{mc_objectId candidate}" for currentYear candidate
proof unfold_locales
  fix ds assume "distinct (draft_ids ds)"
  then show "manifest_of (toggle_drafts currentYear candidate ds) = toggled currentYear candidate (manifest_of ds)"
    by (simp add: toggle_drafts_eq toggled_def manifest_of_filter manifest_of_append card_dom_manifest_of)
next
  fix ds assume "distinct (draft_ids ds)"
  then show "distinct (draft_ids (toggle_drafts currentYear candidate ds))"
    by (simp add: toggle_drafts_eq draft_ids_filter)
next
  fix ds :: "selection_draft list" assume "length ds \<le> maximumManifestItems"
  then show "length (toggle_drafts currentYear candidate ds) \<le> maximumManifestItems"
    by (auto simp: toggle_drafts_eq intro: le_trans [OF length_filter_le])
next
  fix ds show "set (draft_ids (toggle_drafts currentYear candidate ds)) \<subseteq> set (draft_ids ds) \<union> {mc_objectId candidate}"
    by (auto simp: toggle_drafts_eq draft_ids_filter)
qed

lemma draft_ids_map:
  "(\<And>d. sd_objectId d = i \<Longrightarrow> sd_objectId (f d) = i) \<Longrightarrow>
   draft_ids (map (\<lambda>d. if sd_objectId d = i then f d else d) ds) = draft_ids ds"
  by (induction ds) auto

interpretation update: draft_editor "update_drafts objectId update" "edited objectId (apply_draft_update update)" "{}"
  for objectId update
  by unfold_locales (simp_all add: update_drafts_def manifest_of_map draft_ids_map)

interpretation remove: draft_editor "remove_draft objectId" "\<lambda>m. m(objectId := None)" "{}" for objectId
  by unfold_locales
    (auto simp: remove_draft_def manifest_of_filter draft_ids_filter intro: le_trans [OF length_filter_le])

definition retyped ::
  "number \<Rightarrow> media_candidate list \<Rightarrow> jsstring \<Rightarrow> media_type \<Rightarrow> manifest \<Rightarrow> manifest" where
  "retyped currentYear candidates objectId mediaType m =
     (case find (\<lambda>c. mc_objectId c = objectId) candidates of
        None \<Rightarrow> m
      | Some c \<Rightarrow> edited objectId (\<lambda>_. suggestDraft currentYear c (Some mediaType)) m)"

lemma find_objectId: "find (\<lambda>c. mc_objectId c = i) cs = Some c \<Longrightarrow> mc_objectId c = i \<and> c \<in> set cs"
  by (auto simp: find_Some_iff)

lemma manifest_of_retype:
  assumes "mc_objectId c = i" "distinct (draft_ids ds)"
  shows "manifest_of (map (\<lambda>d. if sd_objectId d = i then suggestDraft cy c t else d) ds)
    = edited i (\<lambda>_. suggestDraft cy c t) (manifest_of ds)"
  using assms(2)
proof (induction ds)
  case Nil
  then show ?case by (simp add: edited_def fun_eq_iff)
next
  case (Cons d ds)
  then show ?case using assms(1) by (auto simp: edited_def fun_eq_iff manifest_of_None_iff)
qed

interpretation replace: draft_editor "replace_drafts currentYear candidates objectId mediaType"
  "retyped currentYear candidates objectId mediaType" "{}" for currentYear candidates objectId mediaType
  by unfold_locales
    (auto simp: replace_drafts_def retyped_def manifest_of_retype draft_ids_map
      dest: find_objectId split: option.splits)

text \<open>
  C27. The editor implements the abstract manifest: on drafts with distinct identifiers every
  editing operation (selecting or deselecting a candidate, changing a field, changing the media type,
  removing) computes the corresponding operation on the finite map from identifiers to drafts.
\<close>

theorem draft_editing_refines:
  assumes "distinct (draft_ids ds)"
  shows "manifest_of (toggle_drafts currentYear candidate ds) = toggled currentYear candidate (manifest_of ds)
    \<and> manifest_of (update_drafts objectId update ds) = edited objectId (apply_draft_update update) (manifest_of ds)
    \<and> manifest_of (replace_drafts currentYear candidates objectId mediaType ds)
        = retyped currentYear candidates objectId mediaType (manifest_of ds)
    \<and> manifest_of (remove_draft objectId ds) = (manifest_of ds)(objectId := None)"
  by (intro conjI toggle.refines update.refines replace.refines remove.refines assms)

theorem draft_editing_refines_witness:
  "manifest_of (toggle_drafts (Fin 2026) \<lparr>mc_provider = None, mc_objectId = js ''1'', mc_name = js ''a.mkv'',
      mc_extension = Mkv, mc_size = Fin 1\<rparr> [])
   = toggled (Fin 2026) \<lparr>mc_provider = None, mc_objectId = js ''1'', mc_name = js ''a.mkv'',
      mc_extension = Mkv, mc_size = Fin 1\<rparr> Map.empty"
  using draft_editing_refines [of "[]"] by simp

text \<open>
  Selecting is undone by selecting again: where a candidate is not in the manifest, checking its
  box twice leaves the drafts exactly as they were, order included, even when the manifest is full.
\<close>

lemma toggle_twice:
  assumes "mc_objectId candidate \<notin> set (draft_ids ds)"
  shows "toggle_drafts currentYear candidate (toggle_drafts currentYear candidate ds) = ds"
proof -
  have "filter (\<lambda>d. sd_objectId d \<noteq> mc_objectId candidate) ds = ds"
    using assms by (metis (mono_tags, lifting) draft_ids_def filter_True image_eqI set_map)
  then show ?thesis using assms by (simp add: toggle_drafts_eq)
qed

section \<open>Drafts in every reachable world\<close>

text \<open>
  What the editor assumes of the manifests in the answers of the server: at most 100 items, with distinct object identifiers. The
  server itself guarantees the bound and that the pairs of provider and object identifier are distinct
  (\<open>domain/setup.go:184\<close>), so this holds of every manifest whose items come from one provider, as all that TorBox
  discovery returns do, and it is an assumption for manifests that mix providers.
\<close>

definition manifest_ok :: "setup_configuration list \<Rightarrow> bool" where
  "manifest_ok items \<longleftrightarrow> length items \<le> maximumManifestItems \<and> distinct (map sc_objectId items)"

definition drafts_ok :: "media_candidate list \<Rightarrow> selection_draft list \<Rightarrow> bool" where
  "drafts_ok cs ds \<longleftrightarrow> length ds \<le> maximumManifestItems \<and> distinct (draft_ids ds)
     \<and> set (draft_ids ds) \<subseteq> set (map mc_objectId cs)"

fun captured_ok :: "task \<Rightarrow> bool" where
  "captured_ok (FindVideos b items) = manifest_ok items"
| "captured_ok t = True"

definition editor_state_ok :: "console_state \<Rightarrow> bool" where
  "editor_state_ok st \<longleftrightarrow> drafts_ok (c_candidates st) (c_drafts st) \<and> manifest_ok (c_selectedItems st)"

definition editor_ok :: "world \<Rightarrow> bool" where
  "editor_ok w \<longleftrightarrow> editor_state_ok (w_state w) \<and> list_all (captured_ok \<circ> fst) (w_tasks w)"

context draft_editor
begin

lemma drafts_ok_edit: "drafts_ok cs ds \<Longrightarrow> addable \<subseteq> set (map mc_objectId cs) \<Longrightarrow> drafts_ok cs (edit ds)"
  unfolding drafts_ok_def using keeps_distinct keeps_bound adds_only by blast

end

lemma drafts_from_selection_ok:
  assumes "manifest_ok items"
  shows "drafts_ok found (drafts_from_selection found items)"
proof -
  let ?kept = "filter (\<lambda>item. sc_objectId item \<in> set (map mc_objectId found)) items"
  have ids: "draft_ids (drafts_from_selection found items) = map sc_objectId ?kept"
    by (simp add: draft_ids_def drafts_from_selection_def)
  have "distinct (map sc_objectId ?kept)"
    using assms by (simp add: manifest_ok_def distinct_map_filter)
  moreover have "length ?kept \<le> maximumManifestItems"
    using assms by (auto simp: manifest_ok_def intro: le_trans [OF length_filter_le])
  ultimately show ?thesis
    unfolding drafts_ok_def ids by (auto simp: drafts_from_selection_def)
qed

lemma editor_ok_updates:
  "editor_ok w \<Longrightarrow> editor_state_ok (f (w_state w)) \<Longrightarrow> editor_ok (upd f w)"
  "editor_ok w \<Longrightarrow> captured_ok t \<Longrightarrow> editor_ok (send t rq w)"
  "editor_ok w \<Longrightarrow> editor_ok (store_session s w)"
  "editor_ok w \<Longrightarrow> editor_ok (set_active_job j w)"
  by (auto simp: editor_ok_def world_simps editor_state_ok_def)

lemma editor_ok_state: "editor_ok w \<Longrightarrow> editor_state_ok (w_state w)"
  by (simp add: editor_ok_def)

lemma visible_ids: "c \<in> set (visibleCandidates lower st) \<Longrightarrow> mc_objectId c \<in> set (map mc_objectId (c_candidates st))"
  by (auto simp: visibleCandidates_def matchingCandidates_def Let_def dest!: in_set_takeD)

lemma handle_editor_ok:
  assumes "enabled lower (w_state w) ev" "editor_ok w"
  shows "editor_ok (handle ev w)"
proof -
  have st: "drafts_ok (c_candidates (w_state w)) (c_drafts (w_state w))" "manifest_ok (c_selectedItems (w_state w))"
    using editor_ok_state [OF assms(2)] by (simp_all add: editor_state_ok_def)
  note edits = toggle.drafts_ok_edit update.drafts_ok_edit replace.drafts_ok_edit remove.drafts_ok_edit
  show ?thesis
    using assms st
    by (cases ev)
      (auto simp: handler_defs Let_def editor_state_ok_def edits world_simps dest: visible_ids
        split: option.splits intro!: editor_ok_updates)
qed

lemma admissible_manifests:
  assumes "admissible manifest_ok ans"
  shows "deliver getStatus_response ans = Inr s \<Longrightarrow> manifest_ok (restored_items (ss_selected s) (ss_selectedItems s))"
    "deliver applyConfiguration_response ans = Inr (a, t) \<Longrightarrow> manifest_ok (ar_selectedItems a)"
    "deliver acquireMedia_response ans = Inr (a, t) \<Longrightarrow> manifest_ok (ar_selectedItems a)"
  using assms by (auto simp: admissible_def deliver_Inr_iff split: option.splits sum.splits)

lemma editor_state_frame [simp]:
  "editor_state_ok (st\<lparr>c_phase := a\<rparr>) = editor_state_ok st" "editor_state_ok (st\<lparr>c_csrf := b\<rparr>) = editor_state_ok st"
  "editor_state_ok (st\<lparr>c_tokenConfigured := c\<rparr>) = editor_state_ok st" "editor_state_ok (st\<lparr>c_token := d\<rparr>) = editor_state_ok st"
  "editor_state_ok (st\<lparr>c_showToken := e\<rparr>) = editor_state_ok st" "editor_state_ok (st\<lparr>c_query := g\<rparr>) = editor_state_ok st"
  "editor_state_ok (st\<lparr>c_session := s\<rparr>) = editor_state_ok st" "editor_state_ok (st\<lparr>c_bootstrap := v\<rparr>) = editor_state_ok st"
  "editor_state_ok (st\<lparr>c_availability := k\<rparr>) = editor_state_ok st" "editor_state_ok (st\<lparr>c_acquisitionView := l\<rparr>) = editor_state_ok st"
  "editor_state_ok (st\<lparr>c_prowlarrKey := n\<rparr>) = editor_state_ok st" "editor_state_ok (st\<lparr>c_showProwlarrKey := p\<rparr>) = editor_state_ok st"
  "editor_state_ok (st\<lparr>c_acquisitionTitle := q\<rparr>) = editor_state_ok st" "editor_state_ok (st\<lparr>c_watchlistLoading := r\<rparr>) = editor_state_ok st"
  "editor_state_ok (st\<lparr>c_watchlistError := x\<rparr>) = editor_state_ok st" "editor_state_ok (st\<lparr>c_pending := t\<rparr>) = editor_state_ok st"
  "editor_state_ok (st\<lparr>c_message := u\<rparr>) = editor_state_ok st" "editor_state_ok (st\<lparr>c_activeJob := j\<rparr>) = editor_state_ok st"
  "editor_state_ok (st\<lparr>c_watchlistStatus := w\<rparr>) = editor_state_ok st" "editor_state_ok (st\<lparr>c_preparationOffer := y\<rparr>) = editor_state_ok st"
  by (simp_all add: editor_state_ok_def)

lemma editor_state_set [simp]:
  "editor_state_ok st \<Longrightarrow> editor_state_ok (st\<lparr>c_selectedItems := items\<rparr>) = manifest_ok items"
  "editor_state_ok st \<Longrightarrow> editor_state_ok (st\<lparr>c_candidates := cs, c_drafts := ds\<rparr>) = drafts_ok cs ds"
  "editor_state_ok st \<Longrightarrow> editor_state_ok (refresh_selection s st) = manifest_ok (restored_items (ss_selected s) (ss_selectedItems s))"
  by (simp_all add: editor_state_ok_def refresh_selection_def)

lemma drafts_ok_Nil [simp]: "drafts_ok cs []"
  by (simp add: drafts_ok_def)

lemma findVideos_done_editor_ok:
  assumes "editor_ok w" "manifest_ok items"
  shows "editor_ok (findVideos_done useSaved items result w)"
  using assms drafts_from_selection_ok [OF assms(2)]
  by (cases result) (auto simp: findVideos_done_def Let_def editor_ok_def editor_state_ok_def world_simps)

lemma resume_editor_ok:
  assumes "editor_ok w" "captured_ok t" "admissible manifest_ok ans"
  shows "editor_ok (resume df t ans w)"
proof (cases t)
  case (FindVideos useSaved items)
  then show ?thesis using assms(1,2) by (simp add: findVideos_done_editor_ok)
qed (use assms(1) admissible_manifests [OF assms(3)] in
    \<open>auto simp: done_defs Let_def world_simps editor_ok_state split: sum.splits prod.splits intro!: editor_ok_updates\<close>)

lemma step_editor_ok:
  assumes "editor_ok w" "console_step lower df manifest_ok w w'"
  shows "editor_ok w'"
  using assms(2,1)
proof (induction rule: console_step.induct)
  case (answer w xs t rq ys ans)
  then have "editor_ok (w\<lparr>w_tasks := xs @ ys\<rparr>)" "captured_ok t"
    by (auto simp: editor_ok_def)
  then show ?case using answer.hyps(2) by (rule resume_editor_ok)
next
  case (timer w captured)
  then show ?case
    by (auto simp: poll_fire_def editor_ok_def Let_def send_def upd_def split: prod.splits option.splits)
next
  case (effect w)
  then show ?case by (simp add: editor_ok_def world_simps)
qed (simp add: handle_editor_ok)

lemma mount_editor_ok: "mounted_world w \<Longrightarrow> editor_ok w"
  by (auto simp: mounted_world_def editor_ok_def mount_fields editor_state_ok_def initial_state_def drafts_ok_def
      manifest_ok_def)

interpretation editor: state_invariant mounted_world "console_step lower df manifest_ok" editor_ok for lower df
  by unfold_locales (use mount_editor_ok step_editor_ok in blast)+

lemma reachable_editor_ok: "reachable lower df manifest_ok w \<Longrightarrow> editor_ok w"
  using reachable_run editor.holds_after_run by blast

text \<open>
  C30. Provided the manifests in the server's answers have at most 100 items with distinct object identifiers (which the server
  guarantees for the items of one provider), the drafts in the editor always have at most 100 entries, with distinct identifiers, each of a video that the
  last discovery returned.
\<close>

theorem reachable_drafts_valid:
  assumes "reachable lower df manifest_ok w"
  shows "length (c_drafts (w_state w)) \<le> 100 \<and> distinct (map sd_objectId (c_drafts (w_state w)))
    \<and> sd_objectId ` set (c_drafts (w_state w)) \<subseteq> mc_objectId ` set (c_candidates (w_state w))"
  using editor_ok_state [OF reachable_editor_ok [OF assms]]
  by (simp add: editor_state_ok_def drafts_ok_def draft_ids_def maximumManifestItems_def)

text \<open>
  C18. Whenever the button that publishes the manifest is enabled, pressing it sends exactly one request,
  a \<open>PUT\<close> of a configuration with 1 to 100 items, distinct and all discovered, each with a title, a
  year from 1888 to 2100 and, for an episode, a show title, a season and an episode in range. As for the drafts above,
  the manifests in the server's answers are assumed to have at most 100 items with distinct object identifiers.
\<close>

theorem apply_submits_valid_manifest:
  assumes "reachable lower df manifest_ok w" "enabled lower (w_state w) ApplyClick"
  shows "\<exists>input. w_tasks (handle ApplyClick w) = w_tasks w @
      [(ApplyDrafts, applyConfiguration_request input (c_csrf (w_state w)) (authorization (w_state w)))]
    \<and> 1 \<le> length (in_items input) \<and> length (in_items input) \<le> 100
    \<and> distinct (map ai_objectId (in_items input))
    \<and> ai_objectId ` set (in_items input) \<subseteq> mc_objectId ` set (c_candidates (w_state w))
    \<and> list_all wf_apply_item (in_items input)"
proof -
  let ?st = "w_state w"
  have ok: "drafts_ok (c_candidates ?st) (c_drafts ?st)"
    using editor_ok_state [OF reachable_editor_ok [OF assms(1)]] by (simp add: editor_state_ok_def)
  have valid: "c_drafts ?st \<noteq> []" "\<forall>d \<in> set (c_drafts ?st). validDraft d"
    using assms(2) by auto
  have ids: "map ai_objectId (in_items (apply_input_of ?st)) = draft_ids (c_drafts ?st)"
    by (simp add: apply_input_of_def draft_ids_def)
  have "w_tasks (handle ApplyClick w) = w_tasks w @
      [(ApplyDrafts, applyConfiguration_request (apply_input_of ?st) (c_csrf ?st) (authorization ?st))]"
    using valid by (simp add: applyDrafts_def Let_def world_simps)
  moreover have "list_all wf_apply_item (in_items (apply_input_of ?st))"
    using valid by (simp add: apply_input_of_def list_all_iff validDraft_apply_item)
  moreover have "1 \<le> length (in_items (apply_input_of ?st))"
    using valid(1) by (cases "c_drafts ?st") (simp_all add: apply_input_of_def)
  moreover have "length (in_items (apply_input_of ?st)) \<le> 100"
    using ok by (simp add: apply_input_of_def drafts_ok_def maximumManifestItems_def)
  moreover have "ai_objectId ` set (in_items (apply_input_of ?st)) \<subseteq> mc_objectId ` set (c_candidates ?st)"
    using ok by (simp add: drafts_ok_def flip: ids)
  ultimately show ?thesis
    using ok unfolding drafts_ok_def ids [symmetric] by blast
qed

section \<open>The run, continued\<close>

text \<open>Discovery finds one video; the user selects it as a movie and fills in title and year.\<close>

definition sample_candidate :: media_candidate where
  "sample_candidate = \<lparr>mc_provider = None, mc_objectId = js ''1'', mc_name = js ''Up.mkv'', mc_extension = Mkv,
     mc_size = Fin 1\<rparr>"

definition sample_session :: jsstring where
  "sample_session = replicate 64 (cu CHR ''a'')"

definition answer_paired :: "json \<Rightarrow> http_response" where
  "answer_paired v = \<lparr>rs_ok = True,
     rs_header = (\<lambda>h. if h = ''X-BlackPearl-Session'' then Some sample_session else None), rs_body = Some v\<rparr>"

definition discovery :: http_response where
  "discovery = answer_paired (obj [(''candidates'', Some (JArray [encode_candidate sample_candidate]))])"

definition found_videos :: world where
  "found_videos = resume (\<lambda>_. True) (FindVideos False []) (Some discovery) (searching\<lparr>w_tasks := []\<rparr>)"

definition selected_video :: world where
  "selected_video = handle (ToggleCandidate (Fin 2026) sample_candidate) found_videos"

definition chosen_movie :: world where
  "chosen_movie = handle (ChooseDraftType (Fin 2026) (js ''1'') (js ''movie'')) selected_video"

definition titled_movie :: world where
  "titled_movie = handle (EditDraft (js ''1'') (DraftTitle (js ''Up''))) chosen_movie"

definition dated_movie :: world where
  "dated_movie = handle (EditDraft (js ''1'') (DraftYear (Fin 2009))) titled_movie"

lemma hex_session: "hex_string 64 sample_session"
proof -
  have "is_hex_cu (cu CHR ''a'')" by code_simp
  then show ?thesis by (simp add: hex_string_def sample_session_def)
qed

lemma readSession_paired [simp]: "readSession (answer_paired v) = Inr sample_session"
  by (simp add: readSession_Inr_iff answer_paired_def hex_session)

lemma discovery_result: "discoverMedia_response discovery = Inr ([sample_candidate], sample_session)"
  unfolding discoverMedia_response_def with_session_Inr_iff readJSON_Inr_iff
  by (simp add: discovery_def answer_paired_def isCandidateEnvelope_def as_candidates_def property_obj
      candidate.accepts candidate.view_encode)
     (simp add: readSession_Inr_iff hex_session)

lemma discovery_admissible: "admissible M (Some discovery)"
proof -
  let ?v = "obj [(''candidates'', Some (JArray [encode_candidate sample_candidate]))]"
  have "\<not> isSetupStatus ?v" "\<not> isSelectionEnvelope ?v"
    by (simp_all add: isSetupStatus_def isSelectionEnvelope_def property_obj)
  then have "getStatus_response discovery \<noteq> Inr s" "applyConfiguration_response discovery \<noteq> Inr p"
    "acquireMedia_response discovery \<noteq> Inr p" for s p
    unfolding getStatus_response_def applyConfiguration_response_def acquireMedia_response_def
    by (cases p; simp add: discovery_def answer_paired_def with_session_Inr_iff readJSON_def result_simps with_session_def)+
  then show ?thesis
    by (auto simp: admissible_def split: sum.splits)
qed

lemma found_videos_state:
  "c_phase (w_state found_videos) = Select" "c_drafts (w_state found_videos) = []"
  "c_candidates (w_state found_videos) = [sample_candidate]" "c_query (w_state found_videos) = []"
  "\<not> c_pending (w_state found_videos)"
  by (simp_all add: found_videos_def findVideos_done_def deliver_def discovery_result world_simps Let_def)

lemma dated_movie_state:
  "c_phase (w_state dated_movie) = Select" "\<not> c_pending (w_state dated_movie)"
  "c_drafts (w_state dated_movie) = [(suggestDraft (Fin 2026) sample_candidate (Some Movie))\<lparr>sd_title := js ''Up'', sd_year := Fin 2009\<rparr>]"
  by (simp_all add: dated_movie_def titled_movie_def chosen_movie_def selected_video_def updateDraft_def replaceDraft_def
      toggle_def world_simps found_videos_state toggle_drafts_def replace_drafts_def update_drafts_def
      maximumManifestItems_def sample_candidate_def mediaTypeFromValue_def)

lemma reachable_dated_movie: "reachable id (\<lambda>_. True) manifest_ok dated_movie"
proof -
  let ?step = "console_step id (\<lambda>_. True) manifest_ok"
  have a: "admissible manifest_ok (Some discovery)" by (rule discovery_admissible)
  have 1: "?step searching found_videos"
    unfolding found_videos_def
    using console_step.answer [OF _ a, of searching "[]" "FindVideos False []" _ "[]" id "\<lambda>_. True"]
    by (simp add: searching_fields)
  have 2: "?step found_videos selected_video"
    unfolding selected_video_def
    by (rule console_step.user)
      (simp add: found_videos_state visibleCandidates_def matchingCandidates_def maximumVisibleCandidates_def trim_def)
  have 3: "?step selected_video chosen_movie"
    unfolding chosen_movie_def
    by (rule console_step.user)
      (simp add: selected_video_def toggle_def world_simps found_videos_state toggle_drafts_def maximumManifestItems_def
        sample_candidate_def)
  have 4: "?step chosen_movie titled_movie"
    unfolding titled_movie_def
    by (rule console_step.user)
      (simp add: chosen_movie_def replaceDraft_def selected_video_def toggle_def world_simps found_videos_state toggle_drafts_def
        maximumManifestItems_def replace_drafts_def sample_candidate_def)
  have 5: "?step titled_movie dated_movie"
    unfolding dated_movie_def
    by (rule console_step.user)
      (simp add: titled_movie_def updateDraft_def update_drafts_def chosen_movie_def replaceDraft_def selected_video_def
        toggle_def world_simps found_videos_state toggle_drafts_def maximumManifestItems_def replace_drafts_def
        sample_candidate_def)
  show ?thesis
    using reachable_searching [of id manifest_ok] 1 2 3 4 5 by (meson reachable.stepped)
qed

theorem reachable_drafts_valid_witness:
  "c_drafts (w_state dated_movie) \<noteq> [] \<and> length (c_drafts (w_state dated_movie)) \<le> 100
   \<and> sd_objectId ` set (c_drafts (w_state dated_movie)) \<subseteq> mc_objectId ` set (c_candidates (w_state dated_movie))"
  using reachable_drafts_valid [OF reachable_dated_movie] dated_movie_state(3) by simp

theorem apply_submits_valid_manifest_witness:
  "\<exists>input. w_tasks (handle ApplyClick dated_movie) = w_tasks dated_movie @
      [(ApplyDrafts, applyConfiguration_request input (c_csrf (w_state dated_movie)) (authorization (w_state dated_movie)))]
    \<and> list_all wf_apply_item (in_items input) \<and> 1 \<le> length (in_items input)"
proof -
  have "sd_mediaType (suggestDraft (Fin 2026) sample_candidate (Some Movie)) = Movie"
    by (simp add: suggestDraft_type)
  moreover have "\<not> is_space_cu (cu CHR ''U'')"
    by (simp add: is_space_cu_def is_line_terminator_cu_def unat_cu)
  then have "trim (js ''Up'') \<noteq> []" by (simp add: trim_empty_iff)
  ultimately have "validDraft ((suggestDraft (Fin 2026) sample_candidate (Some Movie))\<lparr>sd_title := js ''Up'', sd_year := Fin 2009\<rparr>)"
    by (simp add: validDraft_iff in_range_def isInteger_def trim_empty_iff)
  then have "enabled id (w_state dated_movie) ApplyClick"
    by (simp add: dated_movie_state)
  from apply_submits_valid_manifest [OF reachable_dated_movie this] show ?thesis by blast
qed

end
