(* ===== verification/Console_Data.thy ===== *)
theory Console_Data
  imports Console_Invariants
begin

text \<open>
  What the console holds and sends: in every reachable world the secrets in the state are empty or
  valid, the background job, the Watchlist status and the preparation offer are well formed, and every
  request in flight goes to the endpoint of its task with valid secrets only.
\<close>

section \<open>Well-formed data\<close>

definition secret_ok :: "jsstring \<Rightarrow> bool" where
  "secret_ok s \<longleftrightarrow> s = [] \<or> hex_string 64 s"

definition auth_ok :: "setup_authorization \<Rightarrow> bool" where
  "auth_ok a \<longleftrightarrow> (case auth_session a of None \<Rightarrow> True | Some s \<Rightarrow> secret_ok s)
     \<and> (case auth_bootstrap a of None \<Rightarrow> True | Some s \<Rightarrow> secret_ok s)"

definition state_ok :: "(jsstring \<Rightarrow> bool) \<Rightarrow> console_state \<Rightarrow> bool" where
  "state_ok df st \<longleftrightarrow> secret_ok (c_session st) \<and> secret_ok (c_bootstrap st)
     \<and> (case c_activeJob st of None \<Rightarrow> True | Some j \<Rightarrow> wf_job df j)
     \<and> (case c_watchlistStatus st of None \<Rightarrow> True | Some s \<Rightarrow> wf_watchlist df s)
     \<and> (case c_preparationOffer st of None \<Rightarrow> True | Some i \<Rightarrow> wf_intent i)"

text \<open>Every secret header of a request is valid, a request without a body is a \<open>GET\<close> and one with a
  body is not, and nothing is cached.\<close>

definition request_ok :: "http_request \<Rightarrow> bool" where
  "request_ok rq \<longleftrightarrow> rq_cache rq = ''no-store''
     \<and> (rq_method rq = ''GET'' \<longleftrightarrow> rq_body rq = None)
     \<and> (\<forall>(h, v) \<in> set (rq_headers rq).
          h \<in> {''X-BlackPearl-Session'', ''X-BlackPearl-Bootstrap''} \<longrightarrow> hex_string 64 v)"

fun task_ok :: "task \<Rightarrow> bool" where
  "task_ok (InitStatus a) = auth_ok a"
| "task_ok (OpenStatus csrf a) = auth_ok a"
| "task_ok (AddRequested i) = wf_intent i"
| "task_ok t = True"

definition job_url :: "jsstring \<Rightarrow> jsstring" where
  "job_url j = js ''/api/acquisition/jobs/'' @ j"

text \<open>The endpoint of a task.\<close>

fun endpoint :: "task \<Rightarrow> string \<times> jsstring \<Rightarrow> bool" where
  "endpoint (InitStatus a) e = (e = (''GET'', js ''/api/setup/status''))"
| "endpoint (PollStatus g) e = (e = (''GET'', js ''/api/setup/status''))"
| "endpoint RefreshJobStatus e = (e = (''GET'', js ''/api/setup/status''))"
| "endpoint InitWatchlist e = (e = (''GET'', js ''/api/watchlist/status''))"
| "endpoint RefreshWatchlist e = (e = (''GET'', js ''/api/watchlist/status''))"
| "endpoint (ChangePolicy a p) e = (e = (''PUT'', js ''/api/watchlist/settings''))"
| "endpoint (FindVideos b items) e = (e = (''POST'', js ''/api/setup/discover''))"
| "endpoint ApplyDrafts e = (e = (''PUT'', js ''/api/setup/configuration''))"
| "endpoint (OpenStatus csrf a) e = (e = (''GET'', js ''/api/acquisition/status''))"
| "endpoint (OpenJobs b) e = (e = (''GET'', js ''/api/acquisition/jobs''))"
| "endpoint ConnectProwlarr e = (e = (''PUT'', js ''/api/acquisition/settings''))"
| "endpoint (AddRequested i) e = (e = (''POST'', js ''/api/acquisition/acquire''))"
| "endpoint PrepareRequested e = (e = (''POST'', js ''/api/acquisition/jobs''))"
| "endpoint (PollJob g) e = (\<exists>j. hex_string 32 j \<and> e = (''GET'', job_url j))"
| "endpoint RefreshJob e = (\<exists>j. hex_string 32 j \<and> e = (''GET'', job_url j))"

definition sent_ok :: "task \<times> http_request \<Rightarrow> bool" where
  "sent_ok p = (case p of (t, rq) \<Rightarrow> task_ok t \<and> request_ok rq \<and> endpoint t (rq_method rq, rq_url rq))"

definition timer_ok :: "(jsstring \<times> jsstring \<times> setup_authorization) option \<Rightarrow> bool" where
  "timer_ok tm = (case tm of None \<Rightarrow> True | Some (j, csrf, a) \<Rightarrow> hex_string 32 j \<and> auth_ok a)"

definition data_ok :: "(jsstring \<Rightarrow> bool) \<Rightarrow> world \<Rightarrow> bool" where
  "data_ok df w \<longleftrightarrow> state_ok df (w_state w) \<and> list_all sent_ok (w_tasks w) \<and> timer_ok (w_timer w)"

section \<open>Requests\<close>

lemma request_ok_paired:
  "auth_ok a \<Longrightarrow> (m = ''GET'' \<longleftrightarrow> b = None) \<Longrightarrow> request_ok (paired_request m u c a b)"
  by (auto simp: request_ok_def paired_request_def mutationHeaders_def header_if_def auth_ok_def secret_ok_def
      split: option.splits if_splits)

lemma request_ok_get: "request_ok (get_request u)"
  by (simp add: request_ok_def get_request_def)

lemmas request_defs =
  getStatus_request_def getWatchlistStatus_request_def setWatchlistPolicy_request_def
  discoverMedia_request_def applyConfiguration_request_def getAcquisitionStatus_request_def
  configureAcquisition_request_def acquireMedia_request_def submitAcquisitionJob_request_def
  listAcquisitionJobs_request_def

lemma paired_request_target [simp]:
  "rq_method (paired_request m u c a b) = m" "rq_url (paired_request m u c a b) = u"
  "rq_method (get_request g) = ''GET''" "rq_url (get_request g) = js g"
  by (simp_all add: paired_request_def get_request_def)

lemma sent_ok_requests [simp]:
  "auth_ok a \<Longrightarrow> sent_ok (InitStatus a, getStatus_request)"
  "sent_ok (PollStatus g, getStatus_request)" "sent_ok (RefreshJobStatus, getStatus_request)"
  "auth_ok a \<Longrightarrow> sent_ok (InitWatchlist, getWatchlistStatus_request c a)"
  "auth_ok a \<Longrightarrow> sent_ok (RefreshWatchlist, getWatchlistStatus_request c a)"
  "auth_ok a \<Longrightarrow> sent_ok (ChangePolicy e p, setWatchlistPolicy_request e p c a)"
  "auth_ok a \<Longrightarrow> sent_ok (FindVideos u items, discoverMedia_request t c a)"
  "auth_ok a \<Longrightarrow> sent_ok (ApplyDrafts, applyConfiguration_request i c a)"
  "auth_ok a \<Longrightarrow> sent_ok (OpenStatus c a, getAcquisitionStatus_request)"
  "auth_ok a \<Longrightarrow> sent_ok (OpenJobs cfg, listAcquisitionJobs_request c a)"
  "auth_ok a \<Longrightarrow> sent_ok (ConnectProwlarr, configureAcquisition_request url key c a)"
  "auth_ok a \<Longrightarrow> wf_intent i' \<Longrightarrow> sent_ok (AddRequested i', acquireMedia_request i' c a)"
  "auth_ok a \<Longrightarrow> sent_ok (PrepareRequested, submitAcquisitionJob_request i' c a)"
  by (simp_all add: sent_ok_def request_defs request_ok_paired request_ok_get)

lemma job_request:
  assumes "hex_string 32 j"
  shows "getAcquisitionJob_request j c a = Some (paired_request ''GET'' (job_url j) c a None)"
  using encodeURIComponent_hex [OF assms] by (simp add: getAcquisitionJob_request_def job_url_def)

lemma sent_ok_job [simp]:
  "auth_ok a \<Longrightarrow> hex_string 32 j \<Longrightarrow>
     sent_ok (PollJob g, paired_request ''GET'' (job_url j) c a None)"
  "auth_ok a \<Longrightarrow> hex_string 32 j \<Longrightarrow>
     sent_ok (RefreshJob, paired_request ''GET'' (job_url j) c a None)"
  by (auto simp: sent_ok_def request_ok_paired)

lemma auth_ok_authorization [simp]: "state_ok df st \<Longrightarrow> auth_ok (authorization st)"
  by (simp add: auth_ok_def authorization_def state_ok_def)

section \<open>Preservation\<close>

lemma wf_job_id: "wf_job df j \<Longrightarrow> hex_string 32 (aj_id j)"
  by (simp add: wf_job_def)

lemma request_intent_wf: "request_valid st \<Longrightarrow> wf_intent (request_intent st)"
  unfolding request_valid_def request_intent_def by (rule validAcquisitionRequest_intent)

lemma handle_data_ok:
  assumes "data_ok df w"
  shows "data_ok df (handle ev w)"
proof -
  have st: "state_ok df (w_state w)" and ts: "list_all sent_ok (w_tasks w)" and tm: "timer_ok (w_timer w)"
    using assms by (simp_all add: data_ok_def)
  note auth = auth_ok_authorization [OF st]
  show ?thesis
    using st ts tm auth
    by (cases ev)
      (auto simp: data_ok_def state_ok_def handler_defs world_simps Let_def job_request wf_job_id request_intent_wf
        split: option.splits)
qed

lemma or_empty_ok [simp]:
  "auth_ok a \<Longrightarrow> secret_ok (or_empty (auth_session a))" "auth_ok a \<Longrightarrow> secret_ok (or_empty (auth_bootstrap a))"
  by (auto simp: auth_ok_def or_empty_def secret_ok_def split: option.splits)

lemma chosen_job_in: "chosen_job jobs = Some j \<Longrightarrow> j \<in> set jobs"
  by (auto simp: chosen_job_def find_Some_iff split: option.splits list.splits)

lemma chosen_job_ok: "\<forall>j \<in> set jobs. wf_job df j \<Longrightarrow> case chosen_job jobs of None \<Rightarrow> True | Some j \<Rightarrow> wf_job df j"
  by (auto split: option.splits dest: chosen_job_in)

text \<open>The elementary updates, and the fields that no invariant reads.\<close>

lemma data_ok_updates:
  "data_ok df w \<Longrightarrow> state_ok df (f (w_state w)) \<Longrightarrow> data_ok df (upd f w)"
  "data_ok df w \<Longrightarrow> sent_ok (t, rq) \<Longrightarrow> data_ok df (send t rq w)"
  "data_ok df w \<Longrightarrow> data_ok df (store_session s w)"
  "data_ok df w \<Longrightarrow> case j of None \<Rightarrow> True | Some j \<Rightarrow> wf_job df j \<Longrightarrow> data_ok df (set_active_job j w)"
  by (auto simp: data_ok_def world_simps state_ok_def)

lemma state_ok_frame [simp]:
  "state_ok df (st\<lparr>c_phase := a\<rparr>) = state_ok df st" "state_ok df (st\<lparr>c_csrf := b\<rparr>) = state_ok df st"
  "state_ok df (st\<lparr>c_tokenConfigured := c\<rparr>) = state_ok df st" "state_ok df (st\<lparr>c_token := d\<rparr>) = state_ok df st"
  "state_ok df (st\<lparr>c_showToken := e\<rparr>) = state_ok df st" "state_ok df (st\<lparr>c_candidates := f\<rparr>) = state_ok df st"
  "state_ok df (st\<lparr>c_query := g\<rparr>) = state_ok df st" "state_ok df (st\<lparr>c_drafts := h\<rparr>) = state_ok df st"
  "state_ok df (st\<lparr>c_selectedItems := i\<rparr>) = state_ok df st" "state_ok df (st\<lparr>c_availability := k\<rparr>) = state_ok df st"
  "state_ok df (st\<lparr>c_acquisitionView := l\<rparr>) = state_ok df st" "state_ok df (st\<lparr>c_prowlarrKey := n\<rparr>) = state_ok df st"
  "state_ok df (st\<lparr>c_showProwlarrKey := p\<rparr>) = state_ok df st" "state_ok df (st\<lparr>c_acquisitionTitle := q\<rparr>) = state_ok df st"
  "state_ok df (st\<lparr>c_watchlistLoading := r\<rparr>) = state_ok df st" "state_ok df (st\<lparr>c_watchlistError := s\<rparr>) = state_ok df st"
  "state_ok df (st\<lparr>c_pending := t\<rparr>) = state_ok df st" "state_ok df (st\<lparr>c_message := u\<rparr>) = state_ok df st"
  by (simp_all add: state_ok_def)

lemma state_ok_set [simp]:
  "state_ok df st \<Longrightarrow> state_ok df (st\<lparr>c_session := s\<rparr>) = secret_ok s"
  "state_ok df st \<Longrightarrow> state_ok df (st\<lparr>c_bootstrap := b\<rparr>) = secret_ok b"
  "state_ok df st \<Longrightarrow> state_ok df (st\<lparr>c_activeJob := j\<rparr>) = (case j of None \<Rightarrow> True | Some j \<Rightarrow> wf_job df j)"
  "state_ok df st \<Longrightarrow> state_ok df (st\<lparr>c_watchlistStatus := Some ws\<rparr>) = wf_watchlist df ws"
  "state_ok df st \<Longrightarrow> state_ok df (st\<lparr>c_preparationOffer := None\<rparr>)"
  "state_ok df st \<Longrightarrow> state_ok df (st\<lparr>c_preparationOffer := Some i\<rparr>) = wf_intent i"
  by (simp_all add: state_ok_def)

lemma state_ok_refresh [simp]: "state_ok df (refresh_selection s st) = state_ok df st"
  by (simp add: refresh_selection_def)

lemma data_ok_state [simp]: "data_ok df w \<Longrightarrow> state_ok df (w_state w)"
  by (simp add: data_ok_def)

lemma delivered_ok:
  "deliver discoverMedia_response ans = Inr (cs, s) \<Longrightarrow> secret_ok s"
  "deliver applyConfiguration_response ans = Inr (a, s) \<Longrightarrow> secret_ok s"
  "deliver acquireMedia_response ans = Inr (a, s) \<Longrightarrow> secret_ok s"
  "deliver configureAcquisition_response ans = Inr (b, s) \<Longrightarrow> secret_ok s"
  "deliver (setWatchlistPolicy_response df) ans = Inr (ws, s) \<Longrightarrow> secret_ok s \<and> wf_watchlist df ws"
  "deliver (getWatchlistStatus_response df) ans = Inr ws \<Longrightarrow> wf_watchlist df ws"
  "deliver (submitAcquisitionJob_response df) ans = Inr ((j, c), s) \<Longrightarrow> secret_ok s \<and> wf_job df j"
  "deliver (listAcquisitionJobs_response df) ans = Inr jobs \<Longrightarrow> \<forall>j \<in> set jobs. wf_job df j"
  "deliver (getAcquisitionJob_response df) ans = Inr j \<Longrightarrow> wf_job df j"
  by (auto simp: deliver_Inr_iff secret_ok_def dest: api_results)

lemma resume_data_ok:
  assumes "data_ok df w" "task_ok t"
  shows "data_ok df (resume df t ans w)"
  using assms
  by (cases t)
    (auto simp: done_defs Let_def world_simps chosen_job_ok dest!: delivered_ok split: sum.splits prod.splits
      intro!: data_ok_updates)

lemma poll_fire_data_ok:
  assumes "data_ok df w" "w_timer w = Some captured"
  shows "data_ok df (poll_fire captured w)"
proof -
  obtain j c a where c: "captured = (j, c, a)" by (cases captured)
  with assms have "hex_string 32 j" "auth_ok a" by (auto simp: data_ok_def timer_ok_def)
  with assms(1) show ?thesis
    by (simp add: c poll_fire_def job_request Let_def data_ok_def world_simps) (simp add: timer_ok_def)
qed

lemma run_poll_effect_data_ok: "data_ok df w \<Longrightarrow> data_ok df (run_poll_effect w)"
  by (auto simp: data_ok_def run_poll_effect_def timer_ok_def wf_job_id state_ok_def auth_ok_def authorization_def
      split: option.splits)

lemma validSetupSecret_ok: "validSetupSecret v = Some s \<Longrightarrow> hex_string 64 s"
  by (auto simp: validSetupSecret_def split: option.splits if_splits)

lemma loadBrowserAuthorization_ok: "auth_ok (fst (loadBrowserAuthorization b))"
  by (auto simp: loadBrowserAuthorization_def auth_ok_def Let_def secret_ok_def
      split: option.splits prod.splits dest: validSetupSecret_ok)

lemma mount_data_ok: "mounted_world w \<Longrightarrow> data_ok df w"
  by (auto simp: mounted_world_def data_ok_def mount_fields state_ok_def initial_state_def timer_ok_def
      secret_ok_def loadBrowserAuthorization_ok)

lemma step_data_ok:
  assumes "data_ok df w" "console_step lower df M w w'"
  shows "data_ok df w'"
  using assms(2,1)
proof (induction rule: console_step.induct)
  case (answer w xs t rq ys ans)
  then have "data_ok df (w\<lparr>w_tasks := xs @ ys\<rparr>)" "task_ok t"
    by (auto simp: data_ok_def sent_ok_def)
  then show ?case by (rule resume_data_ok)
qed (simp_all add: handle_data_ok poll_fire_data_ok run_poll_effect_data_ok)

interpretation data: state_invariant mounted_world "console_step lower df M" "data_ok df" for lower df M
  by unfold_locales (use mount_data_ok step_data_ok in blast)+

lemma reachable_data_ok: "reachable lower df M w \<Longrightarrow> data_ok df w"
  using reachable_run data.holds_after_run by blast

text \<open>
  C25. Whatever the server answers and the user does, the console holds only validated data: the session
  and the bootstrap secret are empty or 64 hexadecimal digits, the background job satisfies every
  constraint of the job guard, the Watchlist status has readable counts, and the preparation offer is a
  request the form would accept.
\<close>

theorem reachable_state_valid:
  assumes "reachable lower df M w"
  shows "(c_session (w_state w) = [] \<or> hex_string 64 (c_session (w_state w)))
    \<and> (c_bootstrap (w_state w) = [] \<or> hex_string 64 (c_bootstrap (w_state w)))
    \<and> (case c_activeJob (w_state w) of None \<Rightarrow> True | Some j \<Rightarrow> wf_job df j)
    \<and> (case c_watchlistStatus (w_state w) of None \<Rightarrow> True | Some s \<Rightarrow> wf_watchlist df s)
    \<and> (case c_preparationOffer (w_state w) of None \<Rightarrow> True | Some i \<Rightarrow> wf_intent i)"
  using reachable_data_ok [OF assms] unfolding data_ok_def state_ok_def secret_ok_def by blast

theorem reachable_state_valid_witness:
  "c_session (w_state searching) = [] \<or> hex_string 64 (c_session (w_state searching))"
  using reachable_state_valid [OF reachable_searching [of id "\<lambda>_. True"]] by blast

text \<open>
  C26. Every request in flight is the request of its task: it goes to the task's endpoint, bypasses
  caches, has a body exactly when it is a mutation, and carries no session or bootstrap header
  that is not a valid secret.
\<close>

theorem reachable_requests_valid:
  assumes "reachable lower df M w" "(t, rq) \<in> set (w_tasks w)"
  shows "endpoint t (rq_method rq, rq_url rq) \<and> rq_cache rq = ''no-store''
    \<and> (rq_method rq = ''GET'' \<longleftrightarrow> rq_body rq = None)
    \<and> (\<forall>(h, v) \<in> set (rq_headers rq).
         h \<in> {''X-BlackPearl-Session'', ''X-BlackPearl-Bootstrap''} \<longrightarrow> hex_string 64 v)"
proof -
  have "sent_ok (t, rq)"
    using reachable_data_ok [OF assms(1)] assms(2) by (auto simp: data_ok_def list_all_iff)
  then have "endpoint t (rq_method rq, rq_url rq)" "request_ok rq" by (simp_all add: sent_ok_def)
  then show ?thesis unfolding request_ok_def by (elim conjE) (intro conjI)
qed

theorem reachable_requests_valid_witness:
  "\<exists>rq. (FindVideos False [], rq) \<in> set (w_tasks searching) \<and> rq_url rq = js ''/api/setup/discover''
     \<and> rq_cache rq = ''no-store''"
proof -
  let ?rq = "discoverMedia_request (js ''k'') [] \<lparr>auth_session = Some [], auth_bootstrap = Some []\<rparr>"
  have "(FindVideos False [], ?rq) \<in> set (w_tasks searching)"
    by (simp only: searching_fields list.set insert_iff simp_thms)
  moreover from reachable_requests_valid [OF reachable_searching [of id "\<lambda>_. True"] this]
  have "rq_url ?rq = js ''/api/setup/discover''" "rq_cache ?rq = ''no-store''"
    by (simp_all only: endpoint.simps prod.inject)
  ultimately show ?thesis by blast
qed

section \<open>Failures\<close>

text \<open>An answer that reports no success: the network failed, the server refused, or the body is not JSON.\<close>

definition failed_answer :: "http_response option \<Rightarrow> bool" where
  "failed_answer ans \<longleftrightarrow> (case ans of None \<Rightarrow> True | Some r \<Rightarrow> \<not> rs_ok r \<or> rs_body r = None)"

lemma failed_deliveries:
  assumes "failed_answer ans"
  shows "deliver getStatus_response ans \<noteq> Inr x1" "deliver discoverMedia_response ans \<noteq> Inr x2"
    "deliver applyConfiguration_response ans \<noteq> Inr x3" "deliver getAcquisitionStatus_response ans \<noteq> Inr x4"
    "deliver (getWatchlistStatus_response df) ans \<noteq> Inr x5" "deliver (setWatchlistPolicy_response df) ans \<noteq> Inr x6"
    "deliver configureAcquisition_response ans \<noteq> Inr x7" "deliver acquireMedia_response ans \<noteq> Inr x8"
    "deliver (submitAcquisitionJob_response df) ans \<noteq> Inr x9" "deliver (listAcquisitionJobs_response df) ans \<noteq> Inr x10"
    "deliver (getAcquisitionJob_response df) ans \<noteq> Inr x11"
  using assms unfolding deliver_Inr_iff
  by (auto simp: failed_answer_def getStatus_response_def discoverMedia_response_def applyConfiguration_response_def
      getAcquisitionStatus_response_def getWatchlistStatus_response_def setWatchlistPolicy_response_def
      configureAcquisition_response_def acquireMedia_response_def submitAcquisitionJob_response_def
      listAcquisitionJobs_response_def getAcquisitionJob_response_def with_session_def result_simps readJSON_Inr_iff)

text \<open>
  C34. Nothing is lost when a request fails: whichever operation it belongs to, an answer that reports no
  success leaves the published items, the drafts, the candidates, the typed token and the typed
  Prowlarr key, the background job and the Watchlist status as they were; past the initial load it
  also keeps the page's phase and the secrets.
\<close>

theorem failure_keeps_data:
  assumes "failed_answer ans"
  shows "c_selectedItems (w_state (resume df t ans w)) = c_selectedItems (w_state w)
    \<and> c_drafts (w_state (resume df t ans w)) = c_drafts (w_state w)
    \<and> c_candidates (w_state (resume df t ans w)) = c_candidates (w_state w)
    \<and> c_token (w_state (resume df t ans w)) = c_token (w_state w)
    \<and> c_prowlarrKey (w_state (resume df t ans w)) = c_prowlarrKey (w_state w)
    \<and> c_activeJob (w_state (resume df t ans w)) = c_activeJob (w_state w)
    \<and> c_watchlistStatus (w_state (resume df t ans w)) = c_watchlistStatus (w_state w)
    \<and> (initial_task t \<or> c_phase (w_state (resume df t ans w)) = c_phase (w_state w)
          \<and> c_session (w_state (resume df t ans w)) = c_session (w_state w)
          \<and> c_bootstrap (w_state (resume df t ans w)) = c_bootstrap (w_state w))"
  using failed_deliveries [OF assms]
  by (cases t) (auto simp: done_defs world_simps split: sum.splits prod.splits)

theorem failure_keeps_data_witness:
  "c_token (w_state (resume (\<lambda>_. True) (FindVideos False []) None (searching\<lparr>w_tasks := []\<rparr>))) = c_token (w_state searching)"
proof -
  have "failed_answer None" by (simp add: failed_answer_def)
  from failure_keeps_data [OF this, of "\<lambda>_. True" "FindVideos False []" "searching\<lparr>w_tasks := []\<rparr>"] show ?thesis
    by (simp only: state_of_removed)
qed

section \<open>Secrets in the browser\<close>

text \<open>
  Pairing through the address leaves no trace in it: after loading, the fragment is gone whatever it
  held, only valid secrets are used, a valid secret in the fragment takes precedence over the stored one
  and is stored in its place, and nothing else in the session storage changes.
\<close>

lemma loadBrowserAuthorization_spec:
  assumes "loadBrowserAuthorization b = (auth, b')"
  defines "fragment \<equiv> validSetupSecret (search_params_get (without_number_sign (b_hash b)) (js ''bootstrap''))"
  shows "b_hash b' = []
    \<and> auth_session auth = validSetupSecret (b_storage b setupSessionStorageKey)
    \<and> auth_bootstrap auth = (case fragment of Some s \<Rightarrow> Some s | None \<Rightarrow> validSetupSecret (b_storage b setupBootstrapStorageKey))
    \<and> b_storage b' = (case fragment of Some s \<Rightarrow> (b_storage b)(setupBootstrapStorageKey \<mapsto> s) | None \<Rightarrow> b_storage b)
    \<and> auth_ok auth"
proof -
  have "auth_ok auth" using loadBrowserAuthorization_ok [of b] assms(1) by simp
  with assms(1) show ?thesis
    unfolding fragment_def loadBrowserAuthorization_def
    by (auto simp: Let_def split: option.splits prod.splits if_splits)
qed

lemma bootstrap_param:
  assumes "hex_string 64 s"
  shows "search_params_get (js ''bootstrap'' @ cu CHR ''='' # s) (js ''bootstrap'') = Some s"
proof (rule search_params_get_encoded)
  have "\<forall>c \<in> set (js ''bootstrap''). is_unreserved_cu c"
    by (simp add: is_unreserved_cu_def is_lower_cu_def word_le_nat_alt unat_cu)
  then show "encodeURIComponent (js ''bootstrap'') = Some (js ''bootstrap'')"
    by (rule encodeURIComponent_unreserved)
qed (simp_all add: encodeURIComponent_hex [OF assms])

lemma pairing_hash:
  "without_number_sign (js ''#bootstrap='' @ s) = js ''bootstrap'' @ cu CHR ''='' # s"
  by (simp add: without_number_sign_def)

text \<open>
  A pairing link works: opened with the fragment that the launcher writes, the page is authorized
  with exactly the link's secret, keeps it for the session and removes it from the address.
\<close>

lemma pairing_link_authorizes:
  assumes "hex_string 64 secret" "b_hash b = js ''#bootstrap='' @ secret"
  shows "loadBrowserAuthorization b =
    (\<lparr>auth_session = validSetupSecret (b_storage b setupSessionStorageKey), auth_bootstrap = Some secret\<rparr>,
     b\<lparr>b_storage := (b_storage b)(setupBootstrapStorageKey \<mapsto> secret), b_hash := []\<rparr>)"
proof -
  have "validSetupSecret (search_params_get (without_number_sign (b_hash b)) (js ''bootstrap'')) = Some secret"
    unfolding assms(2) pairing_hash bootstrap_param [OF assms(1)] by (simp add: validSetupSecret_def assms(1))
  moreover have "b_hash b \<noteq> []" using assms(2) by simp
  ultimately show ?thesis by (simp add: loadBrowserAuthorization_def Let_def)
qed

section \<open>From an instant request to a background job\<close>

text \<open>
  When the server answers a request for instant media with the code \<open>not_cached\<close>, the console
  offers to prepare exactly the intent it had asked for, is no longer busy, and taking the offer
  submits that intent as a background job, whatever the form fields hold by then.
\<close>

lemma not_cached_offers_preparation:
  fixes w :: world and intent :: acquisition_intent and df :: "jsstring \<Rightarrow> bool"
  assumes "\<not> rs_ok r" "rs_body r = Some v" "isErrorEnvelope v" "property v ''code'' = Some (JString (js ''not_cached''))"
  defines "w' \<equiv> resume df (AddRequested intent) (Some r) w"
  shows "c_preparationOffer (w_state w') = Some intent \<and> \<not> c_pending (w_state w')
    \<and> w_tasks (handle PrepareClick w') = w_tasks w @
        [(PrepareRequested, submitAcquisitionJob_request intent (c_csrf (w_state w)) (authorization (w_state w)))]"
proof -
  have "deliver acquireMedia_response (Some r) =
      Inl (SetupAPIError (js ''not_cached'') (as_string (property v ''message'')))"
    using assms(1-4)
    by (simp add: deliver_def acquireMedia_response_def with_session_def readJSON_def del: js_simps_list)
  then show ?thesis
    by (simp add: w'_def addRequestedMedia_done_def prepareRequestedMedia_def world_simps Let_def authorization_def)
qed

end
