(* ===== verification/Console_Polling.thy ===== *)
theory Console_Polling
  imports Console_Data Setup_Contract
begin

text \<open>
  Polling a background job. As long as no poll fails, a job that is not finished is always about to
  be polled again: its effect is due, or its timer is set, or the request is in flight. The theory
  also states what the code does when a poll fails and when a polled job succeeds.
\<close>

inductive_cases console_stepE: "console_step lower df M w w'"

section \<open>What a step does to polling\<close>

definition poll_kept :: "world \<Rightarrow> world \<Rightarrow> bool" where
  "poll_kept w w' \<longleftrightarrow> c_activeJob (w_state w') = c_activeJob (w_state w) \<and> w_jobRef w' = w_jobRef w
     \<and> w_deps w' = w_deps w \<and> w_effect w' = w_effect w \<and> w_timer w' = w_timer w
     \<and> set (w_tasks w) \<subseteq> set (w_tasks w')"

definition poll_renewed :: "world \<Rightarrow> world \<Rightarrow> bool" where
  "poll_renewed w w' \<longleftrightarrow> w_jobRef w' = Suc (w_jobRef w) \<and> w_deps w' = w_deps w"

text \<open>The part of the dependencies that identifies the job: stale after every \<open>setActiveJob\<close>.\<close>

definition poll_alive :: "world \<Rightarrow> bool" where
  "poll_alive w \<longleftrightarrow> (case c_activeJob (w_state w) of None \<Rightarrow> True
     | Some job \<Rightarrow> terminalAcquisitionJob job \<or> fst (w_deps w) \<noteq> Some (w_jobRef w) \<or> w_timer w \<noteq> None
         \<or> (\<exists>rq. (PollJob (w_effect w), rq) \<in> set (w_tasks w)))"

definition refs_ok :: "world \<Rightarrow> bool" where
  "refs_ok w \<longleftrightarrow> (case fst (w_deps w) of None \<Rightarrow> True | Some n \<Rightarrow> n \<le> w_jobRef w)"

definition polling_ok :: "world \<Rightarrow> bool" where
  "polling_ok w \<longleftrightarrow> poll_alive w \<and> refs_ok w"

lemma poll_kept_refl: "poll_kept w w"
  by (simp add: poll_kept_def)

lemma poll_kept_trans: "poll_kept u v \<Longrightarrow> poll_kept v w \<Longrightarrow> poll_kept u w"
  by (auto simp: poll_kept_def)

lemma polling_ok_kept: "poll_kept w w' \<Longrightarrow> polling_ok w \<Longrightarrow> polling_ok w'"
  by (auto simp: polling_ok_def poll_alive_def refs_ok_def poll_kept_def split: option.splits)

lemma polling_ok_renewed: "poll_renewed w w' \<Longrightarrow> refs_ok w \<Longrightarrow> polling_ok w'"
  by (auto simp: polling_ok_def poll_alive_def refs_ok_def poll_renewed_def split: option.splits)

lemma refs_ok_removed [simp]: "refs_ok (w\<lparr>w_tasks := ts\<rparr>) = refs_ok w"
  by (simp add: refs_ok_def split: option.splits)

lemma poll_kept_updates:
  "(\<And>st. c_activeJob (f st) = c_activeJob st) \<Longrightarrow> poll_kept w (upd f w)"
  "poll_kept w (send t rq w)" "poll_kept w (store_session s w)"
  by (auto simp: poll_kept_def upd_def send_def store_session_def)

lemma poll_renewed_kept: "poll_renewed u v \<Longrightarrow> poll_kept v w \<Longrightarrow> poll_renewed u w"
  "poll_kept u v \<Longrightarrow> poll_renewed v w \<Longrightarrow> poll_renewed u w"
  by (auto simp: poll_kept_def poll_renewed_def)

lemma poll_renewed_job: "poll_renewed w (set_active_job j w)"
  by (simp add: poll_renewed_def set_active_job_def)

lemmas poll_frame = upd_def send_def store_session_def set_active_job_def

lemma handle_poll_kept: "poll_kept w (handle ev w)"
  by (cases ev) (auto simp: poll_kept_def handler_defs poll_frame Let_def split: option.splits)

lemma resume_poll:
  "poll_kept w (resume df t ans w) \<or> poll_renewed w (resume df t ans w)"
  by (cases t)
    (auto simp: poll_kept_def poll_renewed_def done_defs poll_frame refresh_selection_def Let_def
      split: sum.splits prod.splits)

section \<open>Runs in which no poll fails\<close>

definition poll_failure :: "(jsstring \<Rightarrow> bool) \<Rightarrow> world \<Rightarrow> world \<Rightarrow> bool" where
  "poll_failure df w w' \<longleftrightarrow> (\<exists>xs rq ys ans e. w_tasks w = xs @ (PollJob (w_effect w), rq) # ys
     \<and> deliver (getAcquisitionJob_response df) ans = Inl e
     \<and> w' = resume df (PollJob (w_effect w)) ans (w\<lparr>w_tasks := xs @ ys\<rparr>))"

definition healthy_step ::
  "(jsstring \<Rightarrow> jsstring) \<Rightarrow> (jsstring \<Rightarrow> bool) \<Rightarrow> (setup_configuration list \<Rightarrow> bool) \<Rightarrow> world \<Rightarrow> world \<Rightarrow> bool" where
  "healthy_step lower df M w w' \<longleftrightarrow> console_step lower df M w w' \<and> \<not> poll_failure df w w'"

lemma polled_job_renews:
  "deliver (getAcquisitionJob_response df) ans = Inr job \<Longrightarrow>
   poll_renewed w (resume df (PollJob (w_effect w)) ans w)"
  by (simp add: pollJob_done_def poll_active_def poll_renewed_def poll_frame Let_def)

lemma answer_polling_ok:
  assumes "polling_ok w" "w_tasks w = xs @ (t, rq) # ys"
    and "\<not> poll_failure df w (resume df t ans (w\<lparr>w_tasks := xs @ ys\<rparr>))"
  shows "polling_ok (resume df t ans (w\<lparr>w_tasks := xs @ ys\<rparr>))"
proof (cases "t = PollJob (w_effect w)")
  case True
  then obtain job where "deliver (getAcquisitionJob_response df) ans = Inr job"
    using assms(2,3) unfolding poll_failure_def by (metis sumE)
  from polled_job_renews [OF this, of "w\<lparr>w_tasks := xs @ ys\<rparr>"] show ?thesis
    using True assms(1) polling_ok_renewed [of "w\<lparr>w_tasks := xs @ ys\<rparr>"] by (simp add: polling_ok_def)
next
  case False
  with assms(1,2) have "polling_ok (w\<lparr>w_tasks := xs @ ys\<rparr>)"
    by (auto simp: polling_ok_def poll_alive_def split: option.splits)
  then show ?thesis
    using resume_poll [of "w\<lparr>w_tasks := xs @ ys\<rparr>" df t ans] polling_ok_kept polling_ok_renewed
    unfolding polling_ok_def by blast
qed

lemma poll_fire_polling_ok:
  assumes "data_ok df w" "w_timer w = Some captured" "polling_ok w"
  shows "polling_ok (poll_fire captured w)"
proof -
  obtain j c a where c: "captured = (j, c, a)" by (cases captured)
  with assms(1,2) have "hex_string 32 j" by (simp add: data_ok_def timer_ok_def)
  with assms(3) show ?thesis
    by (auto simp: c poll_fire_def job_request Let_def polling_ok_def poll_alive_def refs_ok_def send_def
        split: option.splits)
qed

lemma run_poll_effect_polling_ok: "polling_ok (run_poll_effect w)"
  by (auto simp: polling_ok_def poll_alive_def refs_ok_def run_poll_effect_def current_deps_def split: option.splits)

lemma step_polling_ok:
  assumes "data_ok df w \<and> polling_ok w" "healthy_step lower df M w w'"
  shows "data_ok df w' \<and> polling_ok w'"
proof
  have step: "console_step lower df M w w'" and nf: "\<not> poll_failure df w w'"
    using assms(2) by (simp_all add: healthy_step_def)
  show "data_ok df w'" using step_data_ok [OF _ step] assms(1) by blast
  show "polling_ok w'"
    using step nf assms(1)
  proof (induction rule: console_step.induct)
    case (user w ev)
    then show ?case using polling_ok_kept [OF handle_poll_kept] by blast
  next
    case (answer w xs t rq ys ans)
    then show ?case using answer_polling_ok by blast
  next
    case (timer w captured)
    then show ?case using poll_fire_polling_ok by blast
  qed (rule run_poll_effect_polling_ok)
qed

lemma mount_polling_ok: "mounted_world w \<Longrightarrow> polling_ok w"
  by (auto simp: mounted_world_def polling_ok_def poll_alive_def refs_ok_def mount_fields initial_state_def)

interpretation polling: state_invariant mounted_world "healthy_step lower df M" "\<lambda>w. data_ok df w \<and> polling_ok w"
  for lower df M
  by unfold_locales (use mount_data_ok mount_polling_ok step_polling_ok in blast)+

text \<open>
  C19. Polling goes on while no poll fails: after any such run, a job that is not finished is about to
  be polled again, because the polling effect is due to run, or its timer is set, or its request
  is in flight. In the first case the effect is an enabled step and sets the timer.
\<close>

theorem polling_continues:
  assumes "mounted_world w0" "(healthy_step lower df M)\<^sup>*\<^sup>* w0 w"
    and "c_activeJob (w_state w) = Some job" "\<not> terminalAcquisitionJob job"
  shows "w_timer w \<noteq> None \<or> (\<exists>rq. (PollJob (w_effect w), rq) \<in> set (w_tasks w))
    \<or> (console_step lower df M w (run_poll_effect w) \<and> w_timer (run_poll_effect w) \<noteq> None)"
proof -
  have "poll_alive w"
    using polling.holds_after_run [OF assms(1,2)] by (simp add: polling_ok_def)
  moreover have "current_deps w \<noteq> w_deps w" if "fst (w_deps w) \<noteq> Some (w_jobRef w)"
    using that assms(3) by (cases "w_deps w") (auto simp: current_deps_def)
  moreover have "w_timer (run_poll_effect w) \<noteq> None"
    using assms(3,4) by (simp add: run_poll_effect_def)
  ultimately show ?thesis
    using assms(3,4) console_step.effect by (auto simp: poll_alive_def)
qed

section \<open>When a poll fails, and when the job succeeds\<close>

text \<open>
  C38. One failed poll ends polling: where the poll was the only request in flight, its failure leaves
  the job unfinished with no timer, no request and no effect due, and from then on only an action of
  the user changes anything.
\<close>

theorem polling_stops_after_failure:
  assumes "w_tasks w = [(PollJob (w_effect w), rq)]" "w_timer w = None" "current_deps w = w_deps w"
    and "deliver (getAcquisitionJob_response df) ans = Inl e"
  defines "w' \<equiv> resume df (PollJob (w_effect w)) ans (w\<lparr>w_tasks := []\<rparr>)"
  shows "c_activeJob (w_state w') = c_activeJob (w_state w) \<and> w_tasks w' = [] \<and> w_timer w' = None
    \<and> (\<forall>w''. console_step lower df M w' w'' \<longrightarrow> (\<exists>ev. enabled lower (w_state w') ev \<and> w'' = handle ev w'))"
proof -
  have w': "w' = upd (msg (publicMessage e)) (w\<lparr>w_tasks := []\<rparr>)"
    using assms(4) by (simp add: w'_def pollJob_done_def poll_active_def)
  have "current_deps w' = w_deps w'" "w_tasks w' = []" "w_timer w' = None"
    using assms(2,3) by (simp_all add: w' upd_def current_deps_def)
  then have "\<exists>ev. enabled lower (w_state w') ev \<and> w'' = handle ev w'" if "console_step lower df M w' w''" for w''
    using that by (auto elim: console_stepE)
  with \<open>w_tasks w' = []\<close> \<open>w_timer w' = None\<close> show ?thesis by (simp add: w' upd_def)
qed

text \<open>
  C39. The refresh after a polled job succeeds is lost once the polling effect has run again: the new job
  object makes the effect due, and when it runs it makes the pending continuation inactive. Whatever
  status the server then returns, neither the published items nor the availability is updated.
\<close>

theorem success_refresh_lost:
  assumes "deliver (getAcquisitionJob_response df) ans = Inr job" "aj_state job = Succeeded" "refs_ok w"
  defines "w1 \<equiv> resume df (PollJob (w_effect w)) ans w"
  shows "console_step lower df M w1 (run_poll_effect w1)
    \<and> (PollStatus (w_effect w), getStatus_request) \<in> set (w_tasks (run_poll_effect w1))
    \<and> w_state (resume df (PollStatus (w_effect w)) ans' (run_poll_effect w1)) = w_state w1"
proof -
  have w1: "w1 = send (PollStatus (w_effect w)) getStatus_request
      (upd (msg (acquisitionJobMessage job)) (set_active_job (Some job) w))"
    using assms(1,2) by (simp add: w1_def pollJob_done_def poll_active_def Let_def)
  have "fst (current_deps w1) = Some (Suc (w_jobRef w))" "w_deps w1 = w_deps w"
    by (simp_all add: w1 current_deps_def poll_frame)
  with assms(3) have "current_deps w1 \<noteq> w_deps w1"
    by (auto simp: refs_ok_def)
  then have "console_step lower df M w1 (run_poll_effect w1)" by (rule console_step.effect)
  moreover have "(PollStatus (w_effect w), getStatus_request) \<in> set (w_tasks (run_poll_effect w1))"
    by (simp add: w1 world_simps)
  moreover have "w_effect w1 = w_effect w" by (simp add: w1 poll_frame)
  then have "\<not> poll_active (w_effect w) (run_poll_effect w1)"
    by (simp add: poll_active_def run_poll_effect_def)
  ultimately show ?thesis by (simp add: pollStatus_done_def world_simps)
qed

section \<open>A run that watches a job\<close>

text \<open>The library is published; the user opens the search panel; one job is being prepared.\<close>

definition ready_console :: world where
  "ready_console = resume (\<lambda>_. True) (InitStatus no_authorization) (Some (answer_with sample_status))
     (started\<lparr>w_tasks := []\<rparr>)"

definition panel_opening :: world where
  "panel_opening = handle OpenAcquisition ready_console"

definition jobs_listing :: world where
  "jobs_listing = resume (\<lambda>_. True) (OpenStatus (js ''c5'') \<lparr>auth_session = Some [], auth_bootstrap = Some []\<rparr>)
     (Some (answer_with (obj [(''configured'', Some (JBool True))]))) (panel_opening\<lparr>w_tasks := []\<rparr>)"

definition watching :: world where
  "watching = resume (\<lambda>_. True) (OpenJobs True)
     (Some (answer_with (obj [(''jobs'', Some (JArray [encode_acquisition_job sample_job]))])))
     (jobs_listing\<lparr>w_tasks := []\<rparr>)"

definition waiting :: world where
  "waiting = run_poll_effect watching"

definition polling_job :: world where
  "polling_job = poll_fire (aj_id sample_job, js ''c5'', \<lparr>auth_session = Some [], auth_bootstrap = Some []\<rparr>) waiting"

lemma sample_status_delivered:
  "deliver getStatus_response (Some (answer_with sample_status)) = Inr (status_of_payload (as_status_payload sample_status))"
  using sample_status_accepted
  by (simp add: deliver_def getStatus_response_def readJSON_def answer_with_def result_simps)

lemma sample_status_fields:
  "\<not> ss_setupRequired (status_of_payload (as_status_payload sample_status))"
  "ss_csrfToken (status_of_payload (as_status_payload sample_status)) = js ''c5''"
  "restored_items (sp_selected (as_status_payload sample_status)) (sp_selectedItems (as_status_payload sample_status))
     = [sample_configuration]"
  "av_degraded (status_of_payload (as_status_payload sample_status))"
  by (simp_all add: status_of_payload_def as_status_payload_def property_sample_status restored_items_def
      configuration.view_encode)

lemma ready_console_fields:
  "c_phase (w_state ready_console) = Ready" "c_selectedItems (w_state ready_console) = [sample_configuration]"
  "\<not> c_pending (w_state ready_console)" "c_csrf (w_state ready_console) = js ''c5''"
  "c_session (w_state ready_console) = []" "c_bootstrap (w_state ready_console) = []" "w_tasks ready_console = []"
  "w_deps ready_console = (None, [], [], [])" "w_timer ready_console = None"
  by (simp_all add: ready_console_def initStatus_done_def sample_status_delivered sample_status_fields Let_def upd_def
      started_def mount_fields initial_state_def or_empty_def no_authorization_def truthy_def)

lemma panel_opening_fields:
  "w_tasks panel_opening = [(OpenStatus (js ''c5'') \<lparr>auth_session = Some [], auth_bootstrap = Some []\<rparr>, getAcquisitionStatus_request)]"
  "w_deps panel_opening = (None, [], [], [])" "c_csrf (w_state panel_opening) = js ''c5''"
  "c_session (w_state panel_opening) = []" "c_bootstrap (w_state panel_opening) = []"
  by (simp_all add: panel_opening_def openAcquisition_def poll_frame ready_console_fields authorization_def)

lemma configured_delivered:
  "deliver getAcquisitionStatus_response (Some (answer_with (obj [(''configured'', Some (JBool True))]))) = Inr True"
  by (simp add: deliver_def getAcquisitionStatus_response_def readJSON_def answer_with_def isAcquisitionStatus_def
      as_configured_def property_obj)

lemma jobs_delivered:
  "deliver (listAcquisitionJobs_response (\<lambda>_. True))
     (Some (answer_with (obj [(''jobs'', Some (JArray [encode_acquisition_job sample_job]))]))) = Inr [sample_job]"
  by (simp add: deliver_def listAcquisitionJobs_response_def readJSON_def answer_with_def isAcquisitionJobList_def
      as_job_list_def property_obj job.accepts [OF wf_sample_job] job.view_encode)

lemma jobs_listing_fields:
  "\<exists>rq. w_tasks jobs_listing = [(OpenJobs True, rq)]"
  "w_deps jobs_listing = (None, [], [], [])" "c_csrf (w_state jobs_listing) = js ''c5''"
  "c_session (w_state jobs_listing) = []" "c_bootstrap (w_state jobs_listing) = []"
  by (simp_all add: jobs_listing_def openStatus_done_def configured_delivered poll_frame panel_opening_fields)

lemma sample_job_unfinished: "\<not> terminalAcquisitionJob sample_job"
  by (simp add: terminalAcquisitionJob_def sample_job_def)

lemma watching_fields:
  "c_activeJob (w_state watching) = Some sample_job" "w_tasks watching = []" "w_deps watching = (None, [], [], [])"
  "c_csrf (w_state watching) = js ''c5''" "c_session (w_state watching) = []" "c_bootstrap (w_state watching) = []"
  by (simp_all add: watching_def openJobs_done_def jobs_delivered chosen_job_def sample_job_unfinished poll_frame
      jobs_listing_fields)

lemma no_poll_failure: "(\<And>g rq. (PollJob g, rq) \<notin> set (w_tasks w)) \<Longrightarrow> \<not> poll_failure df w w'"
  unfolding poll_failure_def by fastforce

lemma answer_step:
  assumes "w_tasks w = [(t, rq)]" "\<And>g. t \<noteq> PollJob g"
  shows "healthy_step lower df (\<lambda>_. True) w (resume df t ans (w\<lparr>w_tasks := []\<rparr>))"
proof -
  have "admissible (\<lambda>_. True) ans"
    by (auto simp: admissible_def split: option.splits sum.splits)
  from console_step.answer [OF _ this, of w "[]" t rq "[]"]
  have "console_step lower df (\<lambda>_. True) w (resume df t ans (w\<lparr>w_tasks := []\<rparr>))"
    using assms(1) by simp
  moreover have "\<not> poll_failure df w w'" for w'
    using assms by (intro no_poll_failure) auto
  ultimately show ?thesis by (simp add: healthy_step_def)
qed

lemma watching_run: "(healthy_step lower (\<lambda>_. True) (\<lambda>_. True))\<^sup>*\<^sup>* started watching"
proof -
  let ?step = "healthy_step lower (\<lambda>_. True) (\<lambda>_. True)"
  have "?step started ready_console"
    unfolding ready_console_def by (rule answer_step) (simp_all add: started_fields)
  moreover have "?step ready_console panel_opening"
    unfolding panel_opening_def healthy_step_def
    by (intro conjI console_step.user no_poll_failure) (simp_all add: ready_card_def ready_console_fields)
  moreover have "?step panel_opening jobs_listing"
    unfolding jobs_listing_def by (rule answer_step) (simp_all add: panel_opening_fields)
  moreover obtain rq where "w_tasks jobs_listing = [(OpenJobs True, rq)]"
    using jobs_listing_fields(1) by blast
  then have "?step jobs_listing watching"
    unfolding watching_def by (rule answer_step) simp
  ultimately show ?thesis by (meson converse_rtranclp_into_rtranclp rtranclp.rtrancl_refl)
qed

lemma watching_timer: "w_timer watching = None"
  by (simp add: watching_def openJobs_done_def jobs_delivered jobs_listing_def openStatus_done_def configured_delivered
      panel_opening_def openAcquisition_def poll_frame ready_console_fields)

theorem polling_continues_witness:
  "console_step id (\<lambda>_. True) (\<lambda>_. True) watching (run_poll_effect watching) \<and> w_timer (run_poll_effect watching) \<noteq> None"
proof -
  have "mounted_world started" by (auto simp: mounted_world_def started_def)
  from polling_continues [OF this watching_run watching_fields(1) sample_job_unfinished] show ?thesis
    using watching_timer watching_fields(2) by simp
qed

lemma polling_job_fields:
  "\<exists>rq. w_tasks polling_job = [(PollJob (w_effect polling_job), rq)]" "w_timer polling_job = None"
  "current_deps polling_job = w_deps polling_job" "c_activeJob (w_state polling_job) = Some sample_job"
proof -
  have "hex_string 32 (aj_id sample_job)" using wf_sample_job by (rule wf_job_id)
  then have pj: "polling_job = send (PollJob (w_effect waiting))
      (paired_request ''GET'' (job_url (aj_id sample_job)) (js ''c5'') \<lparr>auth_session = Some [], auth_bootstrap = Some []\<rparr> None)
      (waiting\<lparr>w_timer := None\<rparr>)"
    by (simp add: polling_job_def poll_fire_def job_request Let_def)
  show "\<exists>rq. w_tasks polling_job = [(PollJob (w_effect polling_job), rq)]"
    by (simp add: pj send_def waiting_def run_poll_effect_def watching_fields)
  show "w_timer polling_job = None" by (simp add: pj send_def)
  show "current_deps polling_job = w_deps polling_job"
    by (simp add: pj send_def waiting_def run_poll_effect_def current_deps_def)
  show "c_activeJob (w_state polling_job) = Some sample_job"
    by (simp add: pj send_def waiting_def run_poll_effect_def watching_fields)
qed

theorem polling_stops_after_failure_witness:
  "c_activeJob (w_state (resume (\<lambda>_. True) (PollJob (w_effect polling_job)) None (polling_job\<lparr>w_tasks := []\<rparr>))) = Some sample_job
   \<and> w_timer (resume (\<lambda>_. True) (PollJob (w_effect polling_job)) None (polling_job\<lparr>w_tasks := []\<rparr>)) = None"
proof -
  obtain rq where t: "w_tasks polling_job = [(PollJob (w_effect polling_job), rq)]"
    using polling_job_fields(1) by blast
  have "deliver (getAcquisitionJob_response (\<lambda>_. True)) None = Inl HostError" by (simp add: deliver_def)
  from polling_stops_after_failure [OF t polling_job_fields(2,3) this] show ?thesis
    by (simp only: polling_job_fields(4) simp_thms)
qed

theorem success_refresh_lost_witness:
  "w_state (resume (\<lambda>_. True) (PollStatus (w_effect polling_job)) (Some (answer_with sample_status))
      (run_poll_effect (resume (\<lambda>_. True) (PollJob (w_effect polling_job))
        (Some (answer_with (encode_acquisition_job (sample_job\<lparr>aj_state := Succeeded\<rparr>)))) polling_job)))
   = w_state (resume (\<lambda>_. True) (PollJob (w_effect polling_job))
        (Some (answer_with (encode_acquisition_job (sample_job\<lparr>aj_state := Succeeded\<rparr>)))) polling_job)"
proof -
  let ?job = "sample_job\<lparr>aj_state := Succeeded\<rparr>"
  have "wf_job (\<lambda>_. True) ?job" using wf_sample_job by (simp add: wf_job_def split: media_type.splits option.splits)
  then have "deliver (getAcquisitionJob_response (\<lambda>_. True)) (Some (answer_with (encode_acquisition_job ?job))) = Inr ?job"
    by (simp add: deliver_def getAcquisitionJob_response_def job.readJSON_encoded answer_with_def)
  moreover have "refs_ok polling_job"
    using polling_job_fields(3,4) unfolding refs_ok_def by (simp add: current_deps_def split: option.splits) (metis fst_conv option.inject order_refl)
  moreover have "aj_state ?job = Succeeded" by (simp add: sample_job_def)
  ultimately show ?thesis
    by (intro conjunct2 [OF conjunct2 [OF success_refresh_lost]])
qed

section \<open>The job that is watched\<close>

lemma find_first_iff:
  "find P xs = Some x \<longleftrightarrow> (\<exists>before after. xs = before @ x # after \<and> P x \<and> list_all (\<lambda>y. \<not> P y) before)"
proof (induction xs)
  case (Cons y ys)
  show ?case
  proof (cases "P y")
    case True
    then show ?thesis by (auto simp: Cons_eq_append_conv intro: exI [of _ "[]"])
  next
    case False
    then have "(\<exists>before after. y # ys = before @ x # after \<and> P x \<and> list_all (\<lambda>y. \<not> P y) before)
      \<longleftrightarrow> (\<exists>before after. ys = before @ x # after \<and> P x \<and> list_all (\<lambda>y. \<not> P y) before)"
      by (auto simp: Cons_eq_append_conv) (metis list.pred_inject(2))
    with False Cons.IH show ?thesis by simp
  qed
qed simp

text \<open>
  Opening the panel watches the right job: none only when there are none; an unfinished job whenever
  there is one, and the first such; otherwise the first job of the list.
\<close>

lemma chosen_job_spec:
  "(chosen_job jobs = None \<longleftrightarrow> jobs = [])
   \<and> (chosen_job jobs = Some job \<longleftrightarrow>
        (\<exists>before after. jobs = before @ job # after \<and> \<not> terminalAcquisitionJob job \<and> list_all terminalAcquisitionJob before)
        \<or> (\<exists>rest. jobs = job # rest \<and> list_all terminalAcquisitionJob jobs))"
proof (cases "find (\<lambda>job. \<not> terminalAcquisitionJob job) jobs")
  case None
  then have t: "list_all terminalAcquisitionJob jobs" by (auto simp: find_None_iff list_all_iff)
  then have "\<not> (\<exists>before after. jobs = before @ job # after \<and> \<not> terminalAcquisitionJob job \<and> list_all terminalAcquisitionJob before)"
    by auto
  with None t show ?thesis by (auto simp: chosen_job_def split: list.splits)
next
  case (Some j)
  then have "\<not> list_all terminalAcquisitionJob jobs" by (auto simp: find_Some_iff list_all_iff)
  moreover have "j = job \<longleftrightarrow>
      (\<exists>before after. jobs = before @ job # after \<and> \<not> terminalAcquisitionJob job \<and> list_all terminalAcquisitionJob before)"
    using Some find_first_iff [of "\<lambda>job. \<not> terminalAcquisitionJob job" jobs job] by simp
  moreover have "jobs \<noteq> []" using Some by auto
  ultimately show ?thesis using Some by (simp add: chosen_job_def)
qed

end
