(* ===== verification/Console_Progress.thy ===== *)
theory Console_Progress
  imports Console_Polling
begin

text \<open>
  What the user is left with: there is always an action or an answer to wait for, secrets are erased
  once they have been used, and each Watchlist switch changes one setting.
\<close>

section \<open>No deadlock\<close>

lemma reachable_starting_ok: "reachable lower df M w \<Longrightarrow> starting_ok w \<and> one_at_a_time w"
  using reachable_run operations.holds_after_run by blast

lemma tasks_of_pos: "0 < tasks_of p w \<Longrightarrow> w_tasks w \<noteq> []"
  by (auto simp: tasks_of_def)

text \<open>
  C28. The console never deadlocks: in every reachable world that does not show the ready phase without
  any published item, the page offers the user an event or a request is in flight whose answer,
  whatever it is, is a step.
\<close>

theorem no_deadlock:
  assumes "reachable lower df M w" "c_phase (w_state w) = Ready \<Longrightarrow> c_selectedItems (w_state w) \<noteq> []"
  shows "(\<exists>ev. offered (page lower formatWatchlistTime (w_state w)) ev) \<or> (\<exists>t rq. (t, rq) \<in> set (w_tasks w))"
proof -
  have st: "starting_ok w" "one_at_a_time w" using reachable_starting_ok [OF assms(1)] by blast+
  have "w_tasks w \<noteq> []" if "c_phase (w_state w) = Loading"
    using st(1) that by (auto simp: starting_ok_def)
  moreover have "w_tasks w \<noteq> []" if "c_pending (w_state w)"
    using st(2) that by (intro tasks_of_pos [of foreground]) (simp add: one_at_a_time_def)
  moreover have "\<exists>ev. enabled lower (w_state w) ev"
    if "c_phase (w_state w) \<noteq> Loading" "\<not> c_pending (w_state w)"
  proof (cases "c_phase (w_state w)")
    case Credentials
    with that show ?thesis by (intro exI [of _ "SetToken []"]) simp
  next
    case Select
    then show ?thesis by (intro exI [of _ "SetQuery []"]) simp
  next
    case Ready
    with assms(2) show ?thesis by (intro exI [of _ ReplaceToken]) (simp add: ready_card_def)
  qed (use that in simp)
  ultimately show ?thesis
    unfolding enabled_any_format by (metis list.set_intros(1) neq_Nil_conv surj_pair)
qed

theorem no_deadlock_witness:
  "(\<exists>ev. offered (page id id (w_state searching)) ev) \<or> (\<exists>t rq. (t, rq) \<in> set (w_tasks searching))"
proof (rule no_deadlock)
  show "reachable id (\<lambda>_. True) (\<lambda>_. True) searching" by (rule reachable_searching)
  show "c_selectedItems (w_state searching) \<noteq> []" if "c_phase (w_state searching) = Ready"
    using that token_typed_state(1) by (simp add: searching_def findVideos_def world_simps Let_def)
qed

text \<open>
  C40. Refreshing can empty the page: when the status read after a finished job lists no active item, the
  console stays in its ready phase without any item, and then no control is offered at all and
  no request is in flight, so only reloading the page helps.
\<close>

theorem refresh_can_empty_page:
  fixes df :: "jsstring \<Rightarrow> bool"
  assumes "c_phase (w_state w) = Ready" "w_tasks w = [(RefreshJobStatus, rq)]"
    and "deliver getStatus_response ans = Inr status" "restored_items (ss_selected status) (ss_selectedItems status) = []"
  defines "w' \<equiv> resume df RefreshJobStatus ans (w\<lparr>w_tasks := []\<rparr>)"
  shows "\<not> offered (page lower formatWatchlistTime (w_state w')) ev \<and> w_tasks w' = []"
proof -
  have "c_phase (w_state w') = Ready" "c_selectedItems (w_state w') = []" "w_tasks w' = []"
    using assms(1-4) by (simp_all add: w'_def refreshJobStatus_done_def refresh_selection_def world_simps)
  moreover from this have "\<not> enabled lower (w_state w') ev"
    by (cases ev) (simp_all add: ready_card_def acquisition_panel_def)
  ultimately show ?thesis by (simp add: enabled_any_format)
qed

definition unavailable_status :: json where
  "unavailable_status = obj [(''setupRequired'', Some (JBool False)), (''tokenConfigured'', Some (JBool True)),
     (''csrfToken'', Some (JString (js ''c5''))), (''savedItemCount'', Some (JNumber (Fin 1))),
     (''activeItemCount'', Some (JNumber (Fin 0))), (''unavailableItemCount'', Some (JNumber (Fin 1))),
     (''degraded'', Some (JBool False))]"

lemma property_unavailable_status:
  "property unavailable_status k = Option.bind (map_of
     [(''setupRequired'', Some (JBool False)), (''tokenConfigured'', Some (JBool True)),
      (''csrfToken'', Some (JString (js ''c5''))), (''savedItemCount'', Some (JNumber (Fin 1))),
      (''activeItemCount'', Some (JNumber (Fin 0))), (''unavailableItemCount'', Some (JNumber (Fin 1))),
      (''degraded'', Some (JBool False))] k) id"
  unfolding unavailable_status_def by (rule property_obj) simp

lemma unavailable_status_accepted: "isSetupStatus unavailable_status"
  using js_sub_safe [of 1 0]
  by (simp add: isSetupStatus_def property_unavailable_status isNonNegativeInteger_def isInteger_def safe_integer_def
      isRecord_def)
     (simp add: unavailable_status_def obj_def)

theorem refresh_can_empty_page_witness:
  "\<not> offered (page id id (w_state (resume (\<lambda>_. True) RefreshJobStatus (Some (answer_with unavailable_status))
      (ready_console\<lparr>w_tasks := []\<rparr>)))) ReplaceToken"
proof -
  let ?w = "ready_console\<lparr>w_tasks := [(RefreshJobStatus, getStatus_request)]\<rparr>"
  let ?s = "status_of_payload (as_status_payload unavailable_status)"
  have a: "c_phase (w_state ?w) = Ready" "w_tasks ?w = [(RefreshJobStatus, getStatus_request)]"
    by (simp_all add: ready_console_fields)
  have "deliver getStatus_response (Some (answer_with unavailable_status)) = Inr ?s"
    using unavailable_status_accepted
    by (simp add: deliver_def getStatus_response_def readJSON_def answer_with_def result_simps)
  moreover have "restored_items (ss_selected ?s) (ss_selectedItems ?s) = []"
    by (simp add: status_of_payload_def as_status_payload_def property_unavailable_status restored_items_def)
  ultimately show ?thesis
    using refresh_can_empty_page [OF a, where df = "\<lambda>_. True" and lower = id and formatWatchlistTime = id and ev = ReplaceToken] by simp
qed

section \<open>Secrets are erased\<close>

text \<open>
  Typed credentials do not stay in the page: once the manifest has been published the token field
  is empty, and once Prowlarr is connected its key field is empty and masked again; the session is the
  one the response carried, in the state and in the browser's storage.
\<close>

lemma credentials_erased:
  "(deliver applyConfiguration_response ans = Inr (a, s) \<longrightarrow>
      c_token (w_state (resume df ApplyDrafts ans w)) = [] \<and> c_session (w_state (resume df ApplyDrafts ans w)) = s
      \<and> b_storage (w_browser (resume df ApplyDrafts ans w)) setupSessionStorageKey = Some s)
   \<and> (deliver configureAcquisition_response ans = Inr (b, s) \<longrightarrow>
      c_prowlarrKey (w_state (resume df ConnectProwlarr ans w)) = []
      \<and> \<not> c_showProwlarrKey (w_state (resume df ConnectProwlarr ans w))
      \<and> c_session (w_state (resume df ConnectProwlarr ans w)) = s
      \<and> b_storage (w_browser (resume df ConnectProwlarr ans w)) setupSessionStorageKey = Some s)"
  by (auto simp: applyDrafts_done_def connectProwlarr_done_def world_simps storeSession_def)

section \<open>Watchlist switches\<close>

definition policy_body :: "bool \<Rightarrow> show_policy \<Rightarrow> json" where
  "policy_body acq p = obj [(''acquisitionEnabled'', Some (JBool acq)), (''showPolicy'', Some (json_str (show_policy_string p)))]"

text \<open>
  Each switch of the Watchlist panel changes one setting: the first sends the negation of automatic
  adding with the show policy as it is, the second flips the show policy with automatic adding as it
  is, and the second is available only while automatic adding is on. Either sends exactly one request.
\<close>

lemma watchlist_switches:
  assumes "c_watchlistStatus (w_state w) = Some s"
  shows "(\<exists>t rq. w_tasks (handle ToggleAutoAdd w) = w_tasks w @ [(t, rq)]
      \<and> rq_body rq = Some (policy_body (\<not> ws_acquisitionEnabled s) (ws_showPolicy s)))
    \<and> (\<exists>t rq. w_tasks (handle ToggleShowPolicy w) = w_tasks w @ [(t, rq)]
      \<and> rq_body rq = Some (policy_body (ws_acquisitionEnabled s) (case ws_showPolicy s of Pilot \<Rightarrow> Off | Off \<Rightarrow> Pilot)))
    \<and> (enabled lower (w_state w) ToggleShowPolicy \<longrightarrow> ws_acquisitionEnabled s)"
  using assms
  by (cases "ws_showPolicy s")
    (simp_all add: changeWatchlistPolicy_def world_simps setWatchlistPolicy_request_def paired_request_def policy_body_def
      del: js_simps_list)

definition sample_watchlist :: watchlist_status where
  "sample_watchlist = \<lparr>ws_enabled = True, ws_healthy = True, ws_acquisitionEnabled = False, ws_showPolicy = Off,
     ws_lastSyncAt = None, ws_queue = \<lparr>wq_pendingMovies = Fin 0, wq_acquiring = Fin 0, wq_succeeded = Fin 0,
       wq_notCached = Fin 0, wq_retryable = Fin 0, wq_manualReview = Fin 0, wq_observedShows = Fin 0\<rparr>\<rparr>"

section \<open>Reloading the page\<close>

text \<open>What loading the authorization from a browser gives.\<close>

definition stored_secrets :: "browser \<Rightarrow> jsstring \<times> jsstring" where
  "stored_secrets b = (or_empty (validSetupSecret (b_storage b setupSessionStorageKey)),
     or_empty (validSetupSecret (b_storage b setupBootstrapStorageKey)))"

fun initial_auth :: "task \<Rightarrow> setup_authorization option" where
  "initial_auth (InitStatus a) = Some a"
| "initial_auth t = None"

lemma initial_auth_None: "initial_auth t = None \<longleftrightarrow> \<not> initial_task t"
  by (cases t) simp_all

definition secrets_stored :: "world \<Rightarrow> bool" where
  "secrets_stored w \<longleftrightarrow> b_hash (w_browser w) = []
     \<and> (\<forall>(t, rq) \<in> set (w_tasks w). case initial_auth t of None \<Rightarrow> True
          | Some a \<Rightarrow> stored_secrets (w_browser w) = (or_empty (auth_session a), or_empty (auth_bootstrap a)))
     \<and> (c_phase (w_state w) \<noteq> Loading \<longrightarrow> stored_secrets (w_browser w) = (c_session (w_state w), c_bootstrap (w_state w)))"

lemma stored_after_session [simp]:
  "hex_string 64 s \<Longrightarrow> stored_secrets (storeSession s b) = (s, snd (stored_secrets b))"
  by (simp add: stored_secrets_def storeSession_def validSetupSecret_def or_empty_def setupSessionStorageKey_def
      setupBootstrapStorageKey_def js_inject del: js_simps_list)

lemma storeSession_hash [simp]: "b_hash (storeSession s b) = b_hash b"
  by (simp add: storeSession_def)

lemma delivered_hex:
  "deliver discoverMedia_response ans = Inr (cs, s) \<Longrightarrow> hex_string 64 s"
  "deliver applyConfiguration_response ans = Inr (a, s) \<Longrightarrow> hex_string 64 s"
  "deliver acquireMedia_response ans = Inr (a, s) \<Longrightarrow> hex_string 64 s"
  "deliver configureAcquisition_response ans = Inr (b, s) \<Longrightarrow> hex_string 64 s"
  "deliver (setWatchlistPolicy_response df) ans = Inr (ws, s) \<Longrightarrow> hex_string 64 s"
  "deliver (submitAcquisitionJob_response df) ans = Inr ((j, c), s) \<Longrightarrow> hex_string 64 s"
  by (auto simp: deliver_Inr_iff dest: api_results)

lemma handle_secrets_stored:
  assumes "enabled lower (w_state w) ev" "secrets_stored w"
  shows "secrets_stored (handle ev w)"
  using enabled_not_loading [OF assms(1)] assms(2)
  by (cases ev)
    (auto simp: secrets_stored_def handler_defs world_simps Let_def split: option.splits)

lemma resume_secrets_stored:
  assumes "secrets_stored w" "c_phase (w_state w) = Loading \<longleftrightarrow> initial_task t" "tasks_of initial_task w = 0"
    and "\<And>a. t = InitStatus a \<Longrightarrow> stored_secrets (w_browser w) = (or_empty (auth_session a), or_empty (auth_bootstrap a))"
  shows "secrets_stored (resume df t ans w)"
proof -
  have none: "\<And>t rq. (t, rq) \<in> set (w_tasks w) \<Longrightarrow> initial_auth t = None"
    using assms(3) by (auto simp: tasks_of_def filter_empty_conv initial_auth_None)
  have frame: "secrets_stored w' \<longleftrightarrow> b_hash (w_browser w') = [] \<and> (c_phase (w_state w') \<noteq> Loading \<longrightarrow>
      stored_secrets (w_browser w') = (c_session (w_state w'), c_bootstrap (w_state w')))"
    if "\<And>t rq. (t, rq) \<in> set (w_tasks w') \<Longrightarrow> initial_auth t = None" for w'
    using that unfolding secrets_stored_def by (auto split: option.splits)
  have kept: "(t', rq') \<in> set (w_tasks (resume df t ans w)) \<Longrightarrow> initial_auth t' = None" for t' rq'
    using none by (cases t) (auto simp: done_defs world_simps Let_def split: sum.splits prod.splits if_splits)
  show ?thesis
    unfolding frame [OF kept]
    using assms(1,2,4) none
    by (cases t)
      (auto simp: secrets_stored_def done_defs refresh_selection_def world_simps Let_def dest!: delivered_hex
        split: sum.splits prod.splits if_splits option.splits)
qed

lemma secrets_stored_frame:
  assumes "secrets_stored w" "w_browser w' = w_browser w" "c_phase (w_state w') = c_phase (w_state w)"
    "c_session (w_state w') = c_session (w_state w)" "c_bootstrap (w_state w') = c_bootstrap (w_state w)"
    "\<And>t rq. (t, rq) \<in> set (w_tasks w') \<Longrightarrow> (t, rq) \<in> set (w_tasks w) \<or> initial_auth t = None"
  shows "secrets_stored w'"
  using assms(1,6) unfolding secrets_stored_def assms(2-5) by (fastforce split: option.splits)

lemma step_secrets_stored:
  assumes "(starting_ok w \<and> one_at_a_time w) \<and> secrets_stored w" "console_step lower df M w w'"
  shows "(starting_ok w' \<and> one_at_a_time w') \<and> secrets_stored w'"
proof
  show "starting_ok w' \<and> one_at_a_time w'" using step_one_at_a_time [OF assms(2)] assms(1) by blast
  show "secrets_stored w'"
    using assms(2,1)
  proof (induction rule: console_step.induct)
    case (answer w xs t rq ys ans)
    then have ok: "starting_ok w" "secrets_stored w" by blast+
    note st = starting_tasks [OF ok(1) answer.hyps(1)]
    show ?case
    proof (rule resume_secrets_stored)
      show "secrets_stored (w\<lparr>w_tasks := xs @ ys\<rparr>)"
        using ok(2) by (rule secrets_stored_frame) (auto simp: answer.hyps(1))
      show "c_phase (w_state (w\<lparr>w_tasks := xs @ ys\<rparr>)) = Loading \<longleftrightarrow> initial_task t"
        using st(1,2) by auto
      show "tasks_of initial_task (w\<lparr>w_tasks := xs @ ys\<rparr>) = 0" by (rule st(3))
      show "stored_secrets (w_browser (w\<lparr>w_tasks := xs @ ys\<rparr>)) = (or_empty (auth_session a), or_empty (auth_bootstrap a))"
        if "t = InitStatus a" for a
        using ok(2) answer.hyps(1) that by (auto simp: secrets_stored_def)
    qed
  next
    case (timer w captured)
    then have "secrets_stored w" by blast
    then show ?case
      by (rule secrets_stored_frame)
        (auto simp: poll_fire_def Let_def send_def upd_def split: prod.splits option.splits)
  next
    case (effect w)
    then have "secrets_stored w" by blast
    then show ?case by (rule secrets_stored_frame) (auto simp: world_simps)
  qed (simp add: handle_secrets_stored)
qed

lemma load_stores_secrets:
  "b_hash (snd (loadBrowserAuthorization b)) = []"
  "stored_secrets (snd (loadBrowserAuthorization b)) =
     (or_empty (auth_session (fst (loadBrowserAuthorization b))), or_empty (auth_bootstrap (fst (loadBrowserAuthorization b))))"
proof -
  have keys: "setupSessionStorageKey \<noteq> setupBootstrapStorageKey"
    by (simp add: setupSessionStorageKey_def setupBootstrapStorageKey_def js_inject del: js_simps_list)
  have valid: "validSetupSecret v = Some s \<Longrightarrow> validSetupSecret (Some s) = Some s" for v s
    by (simp add: validSetupSecret_def validSetupSecret_ok [of v])
  show "b_hash (snd (loadBrowserAuthorization b)) = []"
    by (auto simp: loadBrowserAuthorization_def Let_def split: option.splits prod.splits)
  show "stored_secrets (snd (loadBrowserAuthorization b)) =
     (or_empty (auth_session (fst (loadBrowserAuthorization b))), or_empty (auth_bootstrap (fst (loadBrowserAuthorization b))))"
    using keys valid
    by (auto simp: loadBrowserAuthorization_def stored_secrets_def Let_def simp del: js_simps_list
        split: option.splits prod.splits)
qed

lemma mount_secrets_stored: "mounted_world w \<Longrightarrow> secrets_stored w"
  by (auto simp: mounted_world_def secrets_stored_def mount_fields load_stores_secrets initial_state_def)

interpretation reloading: state_invariant mounted_world "console_step lower df M"
  "\<lambda>w. (starting_ok w \<and> one_at_a_time w) \<and> secrets_stored w" for lower df M
  by unfold_locales (use mount_one_at_a_time mount_secrets_stored step_secrets_stored in blast)+

text \<open>
  C29. Reloading keeps the authorization: once the console has loaded, in every reachable world, loading the
  authorization again from the browser gives exactly the session and the bootstrap secret that the
  console is using, and the address holds no secret.
\<close>

theorem reload_restores_authorization:
  assumes "reachable lower df M w" "c_phase (w_state w) \<noteq> Loading"
  shows "b_hash (w_browser w) = []
    \<and> or_empty (auth_session (fst (loadBrowserAuthorization (w_browser w)))) = c_session (w_state w)
    \<and> or_empty (auth_bootstrap (fst (loadBrowserAuthorization (w_browser w)))) = c_bootstrap (w_state w)"
proof -
  have "secrets_stored w"
    using reachable_run [OF assms(1)] reloading.holds_after_run by blast
  with assms(2) have hash: "b_hash (w_browser w) = []"
    and "stored_secrets (w_browser w) = (c_session (w_state w), c_bootstrap (w_state w))"
    by (auto simp: secrets_stored_def)
  moreover have "search_params_get (without_number_sign []) n = None" for n
    by (simp add: without_number_sign_def search_params_get_def search_params_def)
  ultimately show ?thesis
    by (simp add: loadBrowserAuthorization_def stored_secrets_def validSetupSecret_def [of None] Let_def del: js_simps_list)
qed

theorem reload_restores_authorization_witness:
  "or_empty (auth_session (fst (loadBrowserAuthorization (w_browser searching)))) = c_session (w_state searching)"
proof -
  have "c_phase (w_state searching) \<noteq> Loading"
    using token_typed_state(1) by (simp add: searching_def findVideos_def world_simps Let_def)
  from reload_restores_authorization [OF reachable_searching [of id "\<lambda>_. True"] this] show ?thesis by blast
qed

end
