(* ===== verification/Server_Wire.thy ===== *)
theory Server_Wire
  imports Setup_Contract
begin

text \<open>
  What the server's theories share: Go strings, the encoding of Go values by \<open>encoding/json\<close> with
  \<open>omitempty\<close>, and checks that refuse with an error. A Go string is a sequence of Unicode code points: every string here comes
  from JSON, whose decoder yields valid UTF-8. A JSON number reaches the console as the nearest
  double.
\<close>

section \<open>Go strings\<close>

type_synonym rune = nat
type_synonym gostring = "rune list"

text \<open>\<open>len(s)\<close> counts bytes.\<close>

definition go_len :: "gostring \<Rightarrow> nat" where
  "go_len s = sum_list (map (length \<circ> utf8_bytes) s)"

text \<open>The string as the console sees it.\<close>

definition utf16 :: "gostring \<Rightarrow> jsstring" where
  "utf16 s = concat (map utf16_units s)"

text \<open>\<open>unicode.IsSpace\<close> and \<open>unicode.IsControl\<close>.\<close>

definition is_space_rune :: "rune \<Rightarrow> bool" where
  "is_space_rune r \<longleftrightarrow>
     r \<in> set [9, 10, 11, 12, 13, 32, 0x85, 0xA0, 0x1680, 0x2028, 0x2029, 0x202F, 0x205F, 0x3000]
     \<or> (0x2000 \<le> r \<and> r \<le> 0x200A)"

definition is_control_rune :: "rune \<Rightarrow> bool" where
  "is_control_rune r \<longleftrightarrow> r < 0x20 \<or> (0x7F \<le> r \<and> r < 0xA0)"

definition TrimSpace :: "gostring \<Rightarrow> gostring" where
  "TrimSpace s = rev (dropWhile is_space_rune (rev (dropWhile is_space_rune s)))"

lemma utf16_Nil [simp]: "utf16 [] = []"
  by (simp add: utf16_def)

lemma utf16_eq_Nil [simp]: "utf16 s = [] \<longleftrightarrow> s = []"
  by (cases s) (auto simp: utf16_def utf16_units_def)

lemma TrimSpace_ends:
  "TrimSpace s \<noteq> [] \<Longrightarrow> \<not> is_space_rune (hd (TrimSpace s)) \<and> \<not> is_space_rune (last (TrimSpace s))"
  unfolding TrimSpace_def
  by (metis dropWhile.simps(1) dropWhile_rev_hd hd_dropWhile last_rev rev.simps(1) rev_is_Nil_conv)

lemma TrimSpace_fixed: "\<not> is_space_rune (hd s) \<Longrightarrow> \<not> is_space_rune (last s) \<Longrightarrow> TrimSpace s = s"
  by (cases "s = []") (simp_all add: TrimSpace_def dropWhile_hd_False hd_rev)

lemma TrimSpace_idem [simp]: "TrimSpace (TrimSpace s) = TrimSpace s"
  using TrimSpace_ends [of s] by (cases "TrimSpace s = []") (auto simp: TrimSpace_fixed, simp add: TrimSpace_def)

lemma TrimSpace_subset: "set (TrimSpace s) \<subseteq> set s"
  by (auto simp: TrimSpace_def dest!: set_dropWhileD)

text \<open>A string never has more code units than bytes.\<close>

lemma length_utf16_le: "length (utf16 s) \<le> go_len s"
proof (induction s)
  case (Cons r s)
  have "length (utf16_units r) \<le> length (utf8_bytes r)"
    by (simp add: utf16_units_def utf8_bytes_def)
  with Cons show ?case by (simp add: utf16_def go_len_def)
qed (simp add: go_len_def)

text \<open>A string literal of the source.\<close>

definition lit :: "string \<Rightarrow> gostring" where
  "lit s = map of_char s"

lemma utf16_lit [simp]: "utf16 (lit s) = js s"
proof (induction s)
  case (Cons c s)
  have "(of_char c :: nat) < 256" by simp
  then have "(of_char c :: nat) < 0x10000" by (rule less_trans) simp
  then have "utf16_units (of_char c) = [cu c]" by (simp add: utf16_units_def cu_def)
  with Cons show ?case by (simp add: utf16_def lit_def)
qed (simp add: lit_def)

lemma lit_inject [simp]: "lit s = lit t \<longleftrightarrow> s = t"
  by (simp add: lit_def inj_map_eq_map inj_def)

lemma lit_eq_Nil [simp]: "lit s = [] \<longleftrightarrow> s = []" "[] = lit s \<longleftrightarrow> s = []"
  by (auto simp: lit_def)

text \<open>Lower-case hexadecimal digits.\<close>

definition is_hex_rune :: "rune \<Rightarrow> bool" where
  "is_hex_rune r \<longleftrightarrow> (48 \<le> r \<and> r \<le> 57) \<or> (97 \<le> r \<and> r \<le> 102)"

lemma hex_rune_unit: "is_hex_rune r \<Longrightarrow> utf16_units r = [of_nat r] \<and> is_hex_cu (of_nat r)"
  by (auto simp: is_hex_rune_def utf16_units_def is_hex_cu_def is_digit_cu_def word_le_nat_alt unat_cu
      unat_of_nat)

lemma hex_runes_string: "list_all is_hex_rune s \<Longrightarrow> hex_string (length s) (utf16 s)"
  by (induction s) (auto simp: hex_string_def utf16_def dest: hex_rune_unit)

section \<open>Encoding of members\<close>

definition json_text :: "gostring \<Rightarrow> json" where
  "json_text s = JString (utf16 s)"

definition json_int :: "int \<Rightarrow> json" where
  "json_int i = JNumber (to_double (of_int i))"

definition omit_empty :: "gostring \<Rightarrow> json option" where
  "omit_empty s = (if s = [] then None else Some (json_text s))"

definition omit_zero :: "int \<Rightarrow> json option" where
  "omit_zero i = (if i = 0 then None else Some (json_int i))"

lemma json_int_safe: "safe_integer i \<Longrightarrow> json_int i = JNumber (Fin (of_int i))"
  by (simp add: json_int_def to_double_safe_integer)

lemma json_int_count: "int n < 2 ^ 53 \<Longrightarrow> json_int (int n) = JNumber (of_count n)"
  using json_int_safe [of "int n"] by (simp add: safe_integer_def of_count_def)

lemma safe_integer_range: "lo \<le> i \<Longrightarrow> i \<le> hi \<Longrightarrow> - (2 ^ 53) < lo \<Longrightarrow> hi < 2 ^ 53 \<Longrightarrow> safe_integer i"
  by (simp add: safe_integer_def abs_less_iff)

lemmas wire_defs = json_text_def json_int_def omit_empty_def omit_zero_def

section \<open>Checks\<close>

definition refuse_unless :: "bool \<Rightarrow> 'e \<Rightarrow> 'e + unit" where
  "refuse_unless b e = (if b then Inr () else Inl e)"

lemma refuse_unless_Inr [result_simps]: "refuse_unless b e = Inr u \<longleftrightarrow> b"
  by (simp add: refuse_unless_def)

lemma refuse_unless_True [simp]: "refuse_unless True e = Inr ()"
  by (simp add: refuse_unless_def)

section \<open>The contract of a validating constructor\<close>

text \<open>
  The server's constructors check a value and return a normalised copy. What they promise: every
  result is valid, and a valid value is returned as it is, so that a value read back from
  storage passes the same check unchanged.
\<close>

locale validator =
  fixes validate :: "'a \<Rightarrow> 'e + 'a"
    and valid :: "'a \<Rightarrow> bool"
  assumes result_valid: "validate x = Inr y \<Longrightarrow> valid y"
    and valid_fixed: "valid x \<Longrightarrow> validate x = Inr x"
begin

lemma revalidates: "validate x = Inr y \<Longrightarrow> validate y = Inr y"
  by (rule valid_fixed) (rule result_valid)

lemma valid_iff_fixed: "valid x \<longleftrightarrow> validate x = Inr x"
  using result_valid valid_fixed by blast

lemma results: "{y. \<exists>x. validate x = Inr y} = {y. valid y}"
  using result_valid valid_fixed by blast

lemma refused_invalid: "validate x = Inl e \<Longrightarrow> \<not> valid x"
  using valid_fixed by fastforce

end

end
