(* ===== verification/Server_Path.thy ===== *)
theory Server_Path
  imports Server_Wire
begin

text \<open>
  The functions of Go's packages \<open>path\<close>, \<open>strings\<close> and \<open>fmt\<close> that the server's domain model
  calls: paths separated by slashes, their shortest form, extensions, and decimal formatting. A
  path of plain segments is shown to be its own shortest form.
\<close>

section \<open>Segments\<close>

abbreviation slash :: rune where "slash \<equiv> 47"
abbreviation dot :: rune where "dot \<equiv> 46"

text \<open>\<open>strings.Split(s, "/")\<close> and its inverse.\<close>

fun segments :: "gostring \<Rightarrow> gostring list" where
  "segments [] = [[]]"
| "segments (r # s) =
     (if r = slash then [] # segments s
      else (case segments s of [] \<Rightarrow> [[r]] | w # ws \<Rightarrow> (r # w) # ws))"

fun join_segments :: "gostring list \<Rightarrow> gostring" where
  "join_segments [] = []"
| "join_segments [w] = w"
| "join_segments (w # v # ws) = w @ slash # join_segments (v # ws)"

lemma segments_nonempty [simp]: "segments s \<noteq> []"
  by (induction s) (auto split: list.splits)

lemma segments_no_slash: "slash \<notin> set w \<Longrightarrow> segments w = [w]"
  by (induction w) auto

lemma segments_append: "slash \<notin> set w \<Longrightarrow> segments (w @ slash # s) = w # segments s"
  by (induction w) auto

lemma segments_join: "ws \<noteq> [] \<Longrightarrow> \<forall>w \<in> set ws. slash \<notin> set w \<Longrightarrow> segments (join_segments ws) = ws"
  by (induction ws rule: join_segments.induct) (simp_all add: segments_no_slash segments_append)

lemma join_segments_segments: "join_segments (segments s) = s"
proof (induction s)
  case (Cons r s)
  then show ?case
    by (cases "segments s" rule: join_segments.cases) auto
qed simp

lemma segments_slash: "w \<in> set (segments s) \<Longrightarrow> slash \<notin> set w"
  by (induction s arbitrary: w) (auto split: list.splits if_splits)

section \<open>The shortest form of a path\<close>

definition dot_segment :: gostring where "dot_segment = [dot]"
definition parent_segment :: gostring where "parent_segment = [dot, dot]"

text \<open>\<open>path.Clean\<close> by its rules: empty and \<open>.\<close> segments are dropped, \<open>..\<close> removes the segment before it, and at the
  root it is dropped. The stack holds the output in reverse.\<close>

definition clean_step :: "bool \<Rightarrow> gostring \<Rightarrow> gostring list \<Rightarrow> gostring list" where
  "clean_step rooted w out =
     (if w = [] \<or> w = dot_segment then out
      else if w = parent_segment then
        (case out of [] \<Rightarrow> (if rooted then [] else [w])
         | v # vs \<Rightarrow> if v = parent_segment then w # out else vs)
      else w # out)"

definition IsAbs :: "gostring \<Rightarrow> bool" where
  "IsAbs s \<longleftrightarrow> s \<noteq> [] \<and> hd s = slash"

definition Clean :: "gostring \<Rightarrow> gostring" where
  "Clean s =
     (if s = [] then dot_segment
      else let out = rev (fold (clean_step (IsAbs s)) (segments s) []) in
        if IsAbs s then slash # join_segments out
        else if out = [] then dot_segment else join_segments out)"

text \<open>\<open>path.Join\<close>.\<close>

definition Join :: "gostring list \<Rightarrow> gostring" where
  "Join elems =
     (case filter (\<lambda>w. w \<noteq> []) elems of [] \<Rightarrow> [] | w # ws \<Rightarrow> Clean (join_segments (w # ws)))"

text \<open>\<open>path.Ext\<close>: from the last dot of the last segment.\<close>

definition Ext :: "gostring \<Rightarrow> gostring" where
  "Ext s = (let base = last (segments s) in
     if dot \<in> set base then dot # rev (takeWhile (\<lambda>r. r \<noteq> dot) (rev base)) else [])"

definition plain_segment :: "gostring \<Rightarrow> bool" where
  "plain_segment w \<longleftrightarrow> w \<noteq> [] \<and> w \<noteq> dot_segment \<and> w \<noteq> parent_segment \<and> slash \<notin> set w"

text \<open>A relative path of plain segments names a place below its root and is its own shortest form.\<close>

definition safe_path :: "gostring \<Rightarrow> bool" where
  "safe_path s \<longleftrightarrow> list_all plain_segment (segments s)"

lemma fold_clean_plain:
  "list_all plain_segment ws \<Longrightarrow> fold (clean_step rooted) ws out = rev ws @ out"
  by (induction ws arbitrary: out) (simp_all add: clean_step_def plain_segment_def)

lemma safe_path_join:
  assumes "ws \<noteq> []" "list_all plain_segment ws"
  shows "segments (join_segments ws) = ws" "safe_path (join_segments ws)" "\<not> IsAbs (join_segments ws)"
    "join_segments ws \<noteq> []"
proof -
  show s: "segments (join_segments ws) = ws"
    using assms by (intro segments_join) (auto simp: list_all_iff plain_segment_def)
  show "safe_path (join_segments ws)" using assms(2) s by (simp add: safe_path_def)
  obtain w vs where ws: "ws = w # vs" using assms(1) by (cases ws) auto
  then have w: "plain_segment w" using assms(2) by simp
  then show "join_segments ws \<noteq> []" by (cases vs) (auto simp: ws plain_segment_def)
  show "\<not> IsAbs (join_segments ws)"
    using w by (cases vs; cases w) (auto simp: ws plain_segment_def IsAbs_def)
qed

lemma Clean_join: "ws \<noteq> [] \<Longrightarrow> list_all plain_segment ws \<Longrightarrow> Clean (join_segments ws) = join_segments ws"
  by (simp add: Clean_def safe_path_join fold_clean_plain Let_def)

lemma Join_plain:
  assumes "ws \<noteq> []" "list_all plain_segment ws"
  shows "Join ws = join_segments ws"
proof -
  have "filter (\<lambda>w. w \<noteq> []) ws = ws"
    using assms(2) by (auto simp: filter_id_conv list_all_iff plain_segment_def)
  with assms show ?thesis by (auto simp: Join_def Clean_join simp del: join_segments.simps split: list.splits)
qed

lemma Clean_safe: "safe_path s \<Longrightarrow> Clean s = s"
  using Clean_join [of "segments s"] by (simp add: safe_path_def join_segments_segments)

section \<open>Case and decimals\<close>

text \<open>
  \<open>unicode.ToLower\<close> where its result is ASCII: the capital letters, the Kelvin sign and the dotted capital I. Every
  other rune is mapped to a rune that is not ASCII, which no comparison of the domain model tells apart.
\<close>

definition lower_rune :: "rune \<Rightarrow> rune" where
  "lower_rune r = (if 65 \<le> r \<and> r \<le> 90 then r + 32 else if r = 0x212A then 107 else if r = 0x130 then 105 else r)"

definition ToLower :: "gostring \<Rightarrow> gostring" where
  "ToLower s = map lower_rune s"

lemma ToLower_idem [simp]: "ToLower (ToLower s) = ToLower s"
  by (simp add: ToLower_def lower_rune_def)

text \<open>The verbs \<open>%d\<close> and \<open>%02d\<close>.\<close>

definition decimal :: "int \<Rightarrow> gostring" where
  "decimal i = (if i < 0 then [45] else []) @ map (\<lambda>d. 48 + d) (decimal_digits (nat \<bar>i\<bar>))"

definition decimal02 :: "int \<Rightarrow> gostring" where
  "decimal02 i = (let ds = map (\<lambda>d. 48 + d) (decimal_digits (nat \<bar>i\<bar>)) in
     if i < 0 then 45 # replicate (1 - length ds) 48 @ ds else replicate (2 - length ds) 48 @ ds)"

lemma decimal_no_slash [simp]: "slash \<notin> set (decimal i)" "slash \<notin> set (decimal02 i)"
  by (auto simp: decimal_def decimal02_def Let_def)

end
