(* ===== verification/Server_Domain.thy ===== *)
theory Server_Domain
  imports Server_Path
begin

text \<open>
  The domain model of the server: \<open>internal/domain/media.go\<close> (backing references, movies, episodes
  and their paths below the Plex library) and \<open>internal/domain/setup.go\<close> (candidates,
  configurations and the manifest), with the value the console reads from a configuration.
\<close>

section \<open>Media\<close>

datatype domain_error =
    InvalidProvider | InvalidObjectID | MissingID | InvalidTitle | YearOutOfRange | SeasonOutOfRange
  | EpisodeOutOfRange | InvalidExtension | NegativeSize | FilenameTooLong | UnsafeName | UnsupportedExtension
  | SizeNotPositive | ExtensionMismatch | UnsupportedType | EmptyManifest | TooManyItems | DuplicateObject
  | DuplicatePath

record backing_ref =
  br_provider :: gostring
  br_objectId :: gostring

definition provider_rune :: "bool \<Rightarrow> rune \<Rightarrow> bool" where
  "provider_rune first r \<longleftrightarrow>
     (97 \<le> r \<and> r \<le> 122) \<or> (48 \<le> r \<and> r \<le> 57) \<or> (\<not> first \<and> (r = dot \<or> r = 95 \<or> r = 45))"

fun validateProvider :: "gostring \<Rightarrow> bool" where
  "validateProvider [] \<longleftrightarrow> False"
| "validateProvider (r # s) \<longleftrightarrow> provider_rune True r \<and> list_all (provider_rune False) s"

definition NewBackingRef :: "gostring \<Rightarrow> gostring \<Rightarrow> domain_error + backing_ref" where
  "NewBackingRef provider objectID =
     bind_result (refuse_unless (validateProvider provider) InvalidProvider) (\<lambda>_.
     bind_result (refuse_unless (\<not> (TrimSpace objectID = [] \<or> 0 \<in> set objectID)) InvalidObjectID) (\<lambda>_.
     Inr \<lparr>br_provider = provider, br_objectId = objectID\<rparr>))"

text \<open>\<open>strings.Contains(s, "..")\<close>.\<close>

fun contains_parent :: "gostring \<Rightarrow> bool" where
  "contains_parent (r # q # s) \<longleftrightarrow> (r = dot \<and> q = dot) \<or> contains_parent (q # s)"
| "contains_parent _ \<longleftrightarrow> False"

definition validatePathSegment :: "gostring \<Rightarrow> bool" where
  "validatePathSegment value \<longleftrightarrow>
     (let trimmed = TrimSpace value in
      \<not> (trimmed = [] \<or> trimmed = dot_segment \<or> trimmed = parent_segment)
      \<and> \<not> (slash \<in> set value \<or> 92 \<in> set value \<or> 0 \<in> set value \<or> contains_parent value))"

definition maximumPlexTitleBytes :: nat where
  "maximumPlexTitleBytes = 200"

definition validateTitle :: "gostring \<Rightarrow> bool" where
  "validateTitle title \<longleftrightarrow> validatePathSegment title \<and> \<not> maximumPlexTitleBytes < go_len title"

record media =
  md_id :: gostring
  md_type :: gostring
  md_title :: gostring
  md_year :: int
  md_extension :: gostring
  md_virtualPath :: gostring
  md_size :: int
  md_backing :: backing_ref

text \<open>The checks that movies and episodes share after their titles and coordinates.\<close>

definition check_file :: "gostring \<Rightarrow> int \<Rightarrow> backing_ref \<Rightarrow> domain_error + backing_ref" where
  "check_file extension bytes backing =
     bind_result (refuse_unless (\<not> (go_len extension < 2 \<or> hd extension \<noteq> dot)) InvalidExtension) (\<lambda>_.
     bind_result (refuse_unless (validatePathSegment (tl extension)) InvalidExtension) (\<lambda>_.
     bind_result (refuse_unless (\<not> bytes < 0) NegativeSize) (\<lambda>_.
     NewBackingRef (br_provider backing) (br_objectId backing))))"

definition display_name :: "gostring \<Rightarrow> int \<Rightarrow> gostring" where
  "display_name title year = title @ lit '' ('' @ decimal year @ lit '')''"

definition NewMovie ::
  "gostring \<Rightarrow> gostring \<Rightarrow> int \<Rightarrow> gostring \<Rightarrow> int \<Rightarrow> backing_ref \<Rightarrow> domain_error + media" where
  "NewMovie mediaID title year extension bytes backing =
     bind_result (refuse_unless (mediaID \<noteq> []) MissingID) (\<lambda>_.
     bind_result (refuse_unless (validateTitle title) InvalidTitle) (\<lambda>_.
     bind_result (refuse_unless (\<not> (year < 1 \<or> 9999 < year)) YearOutOfRange) (\<lambda>_.
     bind_result (check_file extension bytes backing) (\<lambda>_.
     let displayName = display_name title year in
     Inr \<lparr>md_id = mediaID, md_type = lit ''movie'', md_title = title, md_year = year, md_extension = extension,
          md_virtualPath = Join [lit ''Movies'', displayName, displayName @ extension],
          md_size = bytes, md_backing = backing\<rparr>))))"

definition episode_filename :: "gostring \<Rightarrow> int \<Rightarrow> int \<Rightarrow> int \<Rightarrow> gostring \<Rightarrow> gostring \<Rightarrow> gostring" where
  "episode_filename showTitle year season episode episodeTitle extension =
     display_name showTitle year @ lit '' - S'' @ decimal02 season @ lit ''E'' @ decimal02 episode
       @ lit '' - '' @ episodeTitle @ extension"

definition NewEpisode ::
  "gostring \<Rightarrow> gostring \<Rightarrow> int \<Rightarrow> int \<Rightarrow> int \<Rightarrow> gostring \<Rightarrow> gostring \<Rightarrow> int \<Rightarrow> backing_ref
   \<Rightarrow> domain_error + media" where
  "NewEpisode mediaID showTitle year season episode episodeTitle extension bytes backing =
     bind_result (refuse_unless (mediaID \<noteq> []) MissingID) (\<lambda>_.
     bind_result (refuse_unless (validateTitle showTitle) InvalidTitle) (\<lambda>_.
     bind_result (refuse_unless (validateTitle episodeTitle) InvalidTitle) (\<lambda>_.
     bind_result (refuse_unless (\<not> (year < 1 \<or> 9999 < year)) YearOutOfRange) (\<lambda>_.
     bind_result (refuse_unless (\<not> (season < 0 \<or> 99 < season)) SeasonOutOfRange) (\<lambda>_.
     bind_result (refuse_unless (\<not> (episode < 1 \<or> 999 < episode)) EpisodeOutOfRange) (\<lambda>_.
     bind_result (check_file extension bytes backing) (\<lambda>_.
     let showDisplayName = display_name showTitle year;
         seasonName = lit ''Season '' @ decimal02 season;
         filename = episode_filename showTitle year season episode episodeTitle extension
     in bind_result (refuse_unless (\<not> 255 < go_len filename) FilenameTooLong) (\<lambda>_.
     Inr \<lparr>md_id = mediaID, md_type = lit ''episode'', md_title = episodeTitle, md_year = year, md_extension = extension,
          md_virtualPath = Join [lit ''TV Shows'', showDisplayName, seasonName, filename],
          md_size = bytes, md_backing = backing\<rparr>))))))))"

section \<open>Candidates\<close>

record go_candidate =
  cd_provider :: gostring
  cd_objectId :: gostring
  cd_name :: gostring
  cd_extension :: gostring
  cd_size :: int

definition defaultSetupProvider :: gostring where
  "defaultSetupProvider = lit ''torbox-torrent''"

definition candidate_backing :: "go_candidate \<Rightarrow> backing_ref" where
  "candidate_backing c =
     \<lparr>br_provider = (if cd_provider c = [] then defaultSetupProvider else cd_provider c),
      br_objectId = cd_objectId c\<rparr>"

text \<open>\<open>strings.TrimSpace(strings.ReplaceAll(name, "\", "/"))\<close>.\<close>

definition clean_name :: "gostring \<Rightarrow> gostring" where
  "clean_name name = TrimSpace (map (\<lambda>r. if r = 92 then slash else r) name)"

definition NewProviderMediaCandidate ::
  "backing_ref \<Rightarrow> gostring \<Rightarrow> int \<Rightarrow> domain_error + go_candidate" where
  "NewProviderMediaCandidate backing name bytes =
     bind_result (NewBackingRef (br_provider backing) (br_objectId backing)) (\<lambda>validatedBacking.
     let cleanName = clean_name name in
     bind_result (refuse_unless (\<not> (cleanName = [] \<or> 0 \<in> set cleanName \<or> IsAbs cleanName \<or> Clean cleanName \<noteq> cleanName))
       UnsafeName) (\<lambda>_.
     bind_result (refuse_unless (list_all (\<lambda>w. \<not> (w = [] \<or> w = dot_segment \<or> w = parent_segment)) (segments cleanName))
       UnsafeName) (\<lambda>_.
     let extension = ToLower (Ext cleanName) in
     bind_result (refuse_unless (\<not> (extension \<noteq> lit ''.mp4'' \<and> extension \<noteq> lit ''.mkv'')) UnsupportedExtension) (\<lambda>_.
     bind_result (refuse_unless (\<not> bytes \<le> 0) SizeNotPositive) (\<lambda>_.
     Inr \<lparr>cd_provider = br_provider validatedBacking, cd_objectId = br_objectId validatedBacking,
          cd_name = cleanName, cd_extension = extension, cd_size = bytes\<rparr>)))))"

text \<open>\<open>setupObjectIDPattern\<close>, two positive numerals without leading zeros around a colon.\<close>

definition positive_numeral :: "gostring \<Rightarrow> bool" where
  "positive_numeral w =
     (case w of [] \<Rightarrow> False | r # s \<Rightarrow> 49 \<le> r \<and> r \<le> 57 \<and> list_all (\<lambda>d. 48 \<le> d \<and> d \<le> 57) s)"

definition setupObjectIDPattern :: "gostring \<Rightarrow> bool" where
  "setupObjectIDPattern s =
     (case dropWhile (\<lambda>r. r \<noteq> 58) s of
        [] \<Rightarrow> False
      | _ # object \<Rightarrow> positive_numeral (takeWhile (\<lambda>r. r \<noteq> 58) s) \<and> positive_numeral object)"

definition NewMediaCandidate :: "gostring \<Rightarrow> gostring \<Rightarrow> int \<Rightarrow> domain_error + go_candidate" where
  "NewMediaCandidate objectID name bytes =
     bind_result (refuse_unless (setupObjectIDPattern objectID) InvalidObjectID) (\<lambda>_.
     bind_result (NewBackingRef defaultSetupProvider objectID) (\<lambda>backing.
     NewProviderMediaCandidate backing name bytes))"

definition validateMediaCandidate :: "go_candidate \<Rightarrow> domain_error + go_candidate" where
  "validateMediaCandidate c =
     bind_result (NewProviderMediaCandidate (candidate_backing c) (cd_name c) (cd_size c)) (\<lambda>validated.
     bind_result (refuse_unless (\<not> (cd_extension c \<noteq> [] \<and> ToLower (cd_extension c) \<noteq> cd_extension validated))
       ExtensionMismatch) (\<lambda>_.
     Inr validated))"

section \<open>Configurations\<close>

record go_configuration =
  gc_provider :: gostring
  gc_objectId :: gostring
  gc_name :: gostring
  gc_extension :: gostring
  gc_size :: int
  gc_mediaType :: gostring
  gc_title :: gostring
  gc_year :: int
  gc_showTitle :: gostring
  gc_season :: int
  gc_episode :: int

text \<open>Both constructors check the extension a second time, after \<open>validateMediaCandidate\<close>.\<close>

definition NewSetupConfiguration :: "go_candidate \<Rightarrow> gostring \<Rightarrow> int \<Rightarrow> domain_error + go_configuration" where
  "NewSetupConfiguration candidate title year =
     bind_result (validateMediaCandidate candidate) (\<lambda>validated.
     bind_result (refuse_unless (\<not> (cd_extension candidate \<noteq> []
         \<and> ToLower (cd_extension candidate) \<noteq> cd_extension validated)) ExtensionMismatch) (\<lambda>_.
     let cleanTitle = TrimSpace title in
     bind_result (refuse_unless (validateTitle cleanTitle) InvalidTitle) (\<lambda>_.
     bind_result (refuse_unless (\<not> (year < 1888 \<or> 2100 < year)) YearOutOfRange) (\<lambda>_.
     Inr \<lparr>gc_provider = cd_provider validated, gc_objectId = cd_objectId validated, gc_name = cd_name validated,
          gc_extension = cd_extension validated, gc_size = cd_size validated, gc_mediaType = lit ''movie'',
          gc_title = cleanTitle, gc_year = year, gc_showTitle = [], gc_season = 0, gc_episode = 0\<rparr>))))"

definition NewSetupEpisodeConfiguration ::
  "go_candidate \<Rightarrow> gostring \<Rightarrow> int \<Rightarrow> int \<Rightarrow> int \<Rightarrow> gostring \<Rightarrow> domain_error + go_configuration" where
  "NewSetupEpisodeConfiguration candidate showTitle year season episode episodeTitle =
     bind_result (validateMediaCandidate candidate) (\<lambda>validated.
     bind_result (refuse_unless (\<not> (cd_extension candidate \<noteq> []
         \<and> ToLower (cd_extension candidate) \<noteq> cd_extension validated)) ExtensionMismatch) (\<lambda>_.
     let cleanShowTitle = TrimSpace showTitle; cleanEpisodeTitle = TrimSpace episodeTitle in
     bind_result (refuse_unless (\<not> (year < 1888 \<or> 2100 < year)) YearOutOfRange) (\<lambda>_.
     bind_result (NewEpisode (lit ''setup-validation'') cleanShowTitle year season episode cleanEpisodeTitle
         (cd_extension validated) (cd_size validated)
         \<lparr>br_provider = lit ''setup'', br_objectId = cd_objectId validated\<rparr>) (\<lambda>_.
     Inr \<lparr>gc_provider = cd_provider validated, gc_objectId = cd_objectId validated, gc_name = cd_name validated,
          gc_extension = cd_extension validated, gc_size = cd_size validated, gc_mediaType = lit ''episode'',
          gc_title = cleanEpisodeTitle, gc_year = year, gc_showTitle = cleanShowTitle,
          gc_season = season, gc_episode = episode\<rparr>))))"

definition providerOrDefault :: "go_configuration \<Rightarrow> gostring" where
  "providerOrDefault c = (if gc_provider c = [] then defaultSetupProvider else gc_provider c)"

definition Candidate :: "go_configuration \<Rightarrow> go_candidate" where
  "Candidate c = \<lparr>cd_provider = providerOrDefault c, cd_objectId = gc_objectId c, cd_name = gc_name c,
     cd_extension = gc_extension c, cd_size = gc_size c\<rparr>"

definition Backing :: "go_configuration \<Rightarrow> backing_ref" where
  "Backing c = \<lparr>br_provider = providerOrDefault c, br_objectId = gc_objectId c\<rparr>"

definition validateSetupConfiguration :: "go_configuration \<Rightarrow> domain_error + go_configuration" where
  "validateSetupConfiguration c =
     (if gc_mediaType c = [] \<or> gc_mediaType c = lit ''movie''
      then NewSetupConfiguration (Candidate c) (gc_title c) (gc_year c)
      else if gc_mediaType c = lit ''episode''
      then NewSetupEpisodeConfiguration (Candidate c) (gc_showTitle c) (gc_year c) (gc_season c) (gc_episode c) (gc_title c)
      else Inl UnsupportedType)"

definition setupVirtualPath :: "go_configuration \<Rightarrow> domain_error + gostring" where
  "setupVirtualPath c =
     bind_result
       (if gc_mediaType c = lit ''episode''
        then NewEpisode (lit ''setup-path'') (gc_showTitle c) (gc_year c) (gc_season c) (gc_episode c) (gc_title c)
               (gc_extension c) (gc_size c) (Backing c)
        else NewMovie (lit ''setup-path'') (gc_title c) (gc_year c) (gc_extension c) (gc_size c) (Backing c))
       (\<lambda>media. Inr (md_virtualPath media))"

section \<open>Manifests\<close>

definition VirtualPath :: "go_configuration \<Rightarrow> domain_error + gostring" where
  "VirtualPath c = bind_result (validateSetupConfiguration c) (\<lambda>validated. setupVirtualPath validated)"

type_synonym manifest = "go_configuration list"

definition maximumSetupManifestItems :: nat where
  "maximumSetupManifestItems = 100"

definition objectKey :: "go_configuration \<Rightarrow> gostring" where
  "objectKey c = gc_provider c @ 0 # gc_objectId c"

text \<open>The loop of \<open>NewSetupManifest\<close>, with the keys and the paths seen so far.\<close>

fun manifest_items :: "gostring list \<Rightarrow> gostring list \<Rightarrow> manifest \<Rightarrow> domain_error + manifest" where
  "manifest_items objects virtualPaths [] = Inr []"
| "manifest_items objects virtualPaths (c # cs) =
     bind_result (validateSetupConfiguration c) (\<lambda>item.
     bind_result (refuse_unless (objectKey item \<notin> set objects) DuplicateObject) (\<lambda>_.
     bind_result (setupVirtualPath item) (\<lambda>virtualPath.
     bind_result (refuse_unless (virtualPath \<notin> set virtualPaths) DuplicatePath) (\<lambda>_.
     bind_result (manifest_items (objectKey item # objects) (virtualPath # virtualPaths) cs) (\<lambda>validated.
     Inr (item # validated))))))"

definition NewSetupManifest :: "manifest \<Rightarrow> domain_error + manifest" where
  "NewSetupManifest items =
     bind_result (refuse_unless (length items \<noteq> 0) EmptyManifest) (\<lambda>_.
     bind_result (refuse_unless (\<not> maximumSetupManifestItems < length items) TooManyItems) (\<lambda>_.
     manifest_items [] [] items))"

section \<open>Valid candidates and configurations\<close>

definition media_extension_text :: "gostring \<Rightarrow> bool" where
  "media_extension_text ext \<longleftrightarrow> ext = lit ''.mp4'' \<or> ext = lit ''.mkv''"

definition valid_candidate :: "go_candidate \<Rightarrow> bool" where
  "valid_candidate c \<longleftrightarrow> validateProvider (cd_provider c) \<and> TrimSpace (cd_objectId c) \<noteq> [] \<and> 0 \<notin> set (cd_objectId c)
     \<and> clean_name (cd_name c) = cd_name c \<and> safe_path (cd_name c) \<and> 0 \<notin> set (cd_name c)
     \<and> cd_extension c = ToLower (Ext (cd_name c)) \<and> media_extension_text (cd_extension c) \<and> 0 < cd_size c"

lemma clean_name_idem [simp]: "clean_name (clean_name s) = clean_name s"
proof -
  have "92 \<notin> set (clean_name s)"
    using TrimSpace_subset by (force simp: clean_name_def)
  then have "map (\<lambda>r. if r = 92 then slash else r) (clean_name s) = clean_name s"
    by (auto intro: map_idI)
  then show ?thesis by (simp add: clean_name_def)
qed

lemma safe_path_iff:
  "s \<noteq> [] \<and> \<not> IsAbs s \<and> Clean s = s
    \<and> list_all (\<lambda>w. \<not> (w = [] \<or> w = dot_segment \<or> w = parent_segment)) (segments s) \<longleftrightarrow> safe_path s"
proof
  assume s: "safe_path s"
  note p = safe_path_join [of "segments s", unfolded join_segments_segments]
  from s p(3,4) Clean_safe [OF s] show "s \<noteq> [] \<and> \<not> IsAbs s \<and> Clean s = s
    \<and> list_all (\<lambda>w. \<not> (w = [] \<or> w = dot_segment \<or> w = parent_segment)) (segments s)"
    by (auto simp: safe_path_def list_all_iff plain_segment_def)
qed (auto simp: safe_path_def list_all_iff plain_segment_def segments_slash)

lemma NewBackingRef_Inr [result_simps]:
  "NewBackingRef p i = Inr b \<longleftrightarrow>
     validateProvider p \<and> TrimSpace i \<noteq> [] \<and> 0 \<notin> set i \<and> b = \<lparr>br_provider = p, br_objectId = i\<rparr>"
  by (auto simp: NewBackingRef_def result_simps)

lemma NewProviderMediaCandidate_Inr:
  "NewProviderMediaCandidate b name bytes = Inr c \<longleftrightarrow>
     valid_candidate c \<and> cd_provider c = br_provider b \<and> cd_objectId c = br_objectId b
     \<and> cd_name c = clean_name name \<and> cd_size c = bytes"
  using safe_path_iff [of "clean_name name"]
  by (cases c) (auto simp: NewProviderMediaCandidate_def result_simps Let_def valid_candidate_def
      media_extension_text_def)

text \<open>A candidate of the default provider is valid and keeps its canonical identifier.\<close>

lemma NewMediaCandidate_valid:
  "NewMediaCandidate objectID name bytes = Inr c \<Longrightarrow>
     valid_candidate c \<and> cd_provider c = defaultSetupProvider \<and> cd_objectId c = objectID \<and> setupObjectIDPattern objectID"
  by (auto simp: NewMediaCandidate_def result_simps NewProviderMediaCandidate_Inr)

interpretation candidate_check: validator validateMediaCandidate valid_candidate
proof
  fix c v assume "validateMediaCandidate c = Inr v"
  then show "valid_candidate v"
    by (auto simp: validateMediaCandidate_def result_simps NewProviderMediaCandidate_Inr)
next
  fix c assume c: "valid_candidate c"
  then have "cd_provider c \<noteq> []" by (cases "cd_provider c") (auto simp: valid_candidate_def)
  with c have "NewProviderMediaCandidate (candidate_backing c) (cd_name c) (cd_size c) = Inr c"
    by (auto simp: NewProviderMediaCandidate_Inr candidate_backing_def valid_candidate_def)
  moreover have "ToLower (cd_extension c) = cd_extension c" using c by (simp add: valid_candidate_def)
  ultimately show "validateMediaCandidate c = Inr c" by (simp add: validateMediaCandidate_def)
qed

text \<open>What the checks of a title allow, and what remains to be checked of a file with a known extension.\<close>

lemma validateTitle_plain:
  assumes "validateTitle t"
  shows "slash \<notin> set t" "t \<noteq> []"
  using assms by (auto simp: validateTitle_def validatePathSegment_def Let_def TrimSpace_def)

lemma check_file_media:
  assumes "media_extension_text ext" "0 < bytes" "validateProvider (br_provider b)"
    "TrimSpace (br_objectId b) \<noteq> []" "0 \<notin> set (br_objectId b)"
  shows "check_file ext bytes b = Inr b"
proof -
  have "validatePathSegment (tl ext)" "hd ext = dot" "2 \<le> go_len ext"
    using assms(1)
    by (auto simp: media_extension_text_def lit_def validatePathSegment_def TrimSpace_def is_space_rune_def
        dot_segment_def parent_segment_def go_len_def utf8_bytes_def)
  with assms(2-5) show ?thesis
    by (simp add: check_file_def refuse_unless_def NewBackingRef_def)
qed

definition valid_titles :: "go_configuration \<Rightarrow> bool" where
  "valid_titles c \<longleftrightarrow> validateTitle (gc_title c) \<and> TrimSpace (gc_title c) = gc_title c \<and>
     (gc_mediaType c = lit ''movie'' \<and> gc_showTitle c = [] \<and> gc_season c = 0 \<and> gc_episode c = 0
      \<or> gc_mediaType c = lit ''episode'' \<and> validateTitle (gc_showTitle c) \<and> TrimSpace (gc_showTitle c) = gc_showTitle c
        \<and> 0 \<le> gc_season c \<and> gc_season c \<le> 99 \<and> 1 \<le> gc_episode c \<and> gc_episode c \<le> 999
        \<and> go_len (episode_filename (gc_showTitle c) (gc_year c) (gc_season c) (gc_episode c) (gc_title c)
            (gc_extension c)) \<le> 255)"

definition valid_configuration :: "go_configuration \<Rightarrow> bool" where
  "valid_configuration c \<longleftrightarrow>
     gc_provider c \<noteq> [] \<and> valid_candidate (Candidate c) \<and> 1888 \<le> gc_year c \<and> gc_year c \<le> 2100 \<and> valid_titles c"

lemma Candidate_simps [simp]:
  "cd_objectId (Candidate c) = gc_objectId c" "cd_name (Candidate c) = gc_name c"
  "cd_extension (Candidate c) = gc_extension c" "cd_size (Candidate c) = gc_size c"
  "gc_provider c \<noteq> [] \<Longrightarrow> cd_provider (Candidate c) = gc_provider c"
  by (simp_all add: Candidate_def providerOrDefault_def)

lemma valid_candidate_provider: "valid_candidate c \<Longrightarrow> cd_provider c \<noteq> []"
  by (auto simp: valid_candidate_def)

lemma NewSetupConfiguration_valid:
  assumes "NewSetupConfiguration c title year = Inr v"
  shows "valid_configuration v" "gc_mediaType v = lit ''movie''" "gc_title v = TrimSpace title" "gc_year v = year"
    "gc_objectId v = cd_objectId c" "gc_provider v = br_provider (candidate_backing c)"
proof -
  obtain k where k: "validateMediaCandidate c = Inr k" "valid_candidate k" and t: "validateTitle (TrimSpace title)"
    and y: "1888 \<le> year" "year \<le> 2100"
    and v: "v = \<lparr>gc_provider = cd_provider k, gc_objectId = cd_objectId k, gc_name = cd_name k,
      gc_extension = cd_extension k, gc_size = cd_size k, gc_mediaType = lit ''movie'',
      gc_title = TrimSpace title, gc_year = year, gc_showTitle = [], gc_season = 0, gc_episode = 0\<rparr>"
    using assms candidate_check.result_valid by (auto simp: NewSetupConfiguration_def result_simps Let_def)
  have "Candidate v = k" using valid_candidate_provider [OF k(2)] by (simp add: v Candidate_def providerOrDefault_def)
  with k(2) have vc: "valid_candidate (Candidate v)" by simp
  have fields: "gc_provider v = cd_provider k" "gc_objectId v = cd_objectId k" "gc_mediaType v = lit ''movie''"
    "gc_title v = TrimSpace title" "gc_year v = year" "gc_showTitle v = []" "gc_season v = 0" "gc_episode v = 0"
    by (simp_all add: v)
  have origin: "cd_objectId k = cd_objectId c" "cd_provider k = br_provider (candidate_backing c)"
    using k(1)
    by (auto simp: validateMediaCandidate_def result_simps NewProviderMediaCandidate_Inr candidate_backing_def)
  show "valid_configuration v" "gc_mediaType v = lit ''movie''" "gc_title v = TrimSpace title" "gc_year v = year"
    "gc_objectId v = cd_objectId c" "gc_provider v = br_provider (candidate_backing c)"
    using valid_candidate_provider [OF k(2)] t y vc fields origin by (simp_all add: valid_configuration_def valid_titles_def)
qed

lemma NewEpisode_Inr:
  assumes "media_extension_text ext" "0 < bytes" "validateProvider (br_provider b)"
    "TrimSpace (br_objectId b) \<noteq> []" "0 \<notin> set (br_objectId b)" "mediaID \<noteq> []" "1888 \<le> year" "year \<le> 2100"
  shows "NewEpisode mediaID showTitle year season episode title ext bytes b = Inr m \<longleftrightarrow>
    validateTitle showTitle \<and> validateTitle title \<and> 0 \<le> season \<and> season \<le> 99 \<and> 1 \<le> episode \<and> episode \<le> 999
    \<and> go_len (episode_filename showTitle year season episode title ext) \<le> 255
    \<and> m = \<lparr>md_id = mediaID, md_type = lit ''episode'', md_title = title, md_year = year, md_extension = ext,
          md_virtualPath = Join [lit ''TV Shows'', display_name showTitle year, lit ''Season '' @ decimal02 season,
            episode_filename showTitle year season episode title ext],
          md_size = bytes, md_backing = b\<rparr>"
  using assms(6-8)
  by (auto simp: NewEpisode_def result_simps check_file_media [OF assms(1-5)] Let_def)

lemma NewSetupEpisodeConfiguration_valid:
  assumes "NewSetupEpisodeConfiguration c showTitle year season episode title = Inr v"
  shows "valid_configuration v" "gc_mediaType v = lit ''episode''" "gc_title v = TrimSpace title" "gc_year v = year"
    "gc_objectId v = cd_objectId c" "gc_provider v = br_provider (candidate_backing c)"
    "gc_showTitle v = TrimSpace showTitle" "gc_season v = season" "gc_episode v = episode"
proof -
  obtain k m where k: "validateMediaCandidate c = Inr k" "valid_candidate k"
    and y: "1888 \<le> year" "year \<le> 2100"
    and m: "NewEpisode (lit ''setup-validation'') (TrimSpace showTitle) year season episode (TrimSpace title)
         (cd_extension k) (cd_size k) \<lparr>br_provider = lit ''setup'', br_objectId = cd_objectId k\<rparr> = Inr m"
    and v: "v = \<lparr>gc_provider = cd_provider k, gc_objectId = cd_objectId k, gc_name = cd_name k,
      gc_extension = cd_extension k, gc_size = cd_size k, gc_mediaType = lit ''episode'',
      gc_title = TrimSpace title, gc_year = year, gc_showTitle = TrimSpace showTitle,
      gc_season = season, gc_episode = episode\<rparr>"
    using assms candidate_check.result_valid by (auto simp: NewSetupEpisodeConfiguration_def result_simps Let_def)
  have "validateProvider (lit ''setup'')" by (simp add: lit_def provider_rune_def)
  then have e: "validateTitle (TrimSpace showTitle) \<and> validateTitle (TrimSpace title) \<and> 0 \<le> season \<and> season \<le> 99
      \<and> 1 \<le> episode \<and> episode \<le> 999
      \<and> go_len (episode_filename (TrimSpace showTitle) year season episode (TrimSpace title) (cd_extension k)) \<le> 255"
    using m y k(2) by (subst (asm) NewEpisode_Inr) (auto simp: valid_candidate_def)
  have "Candidate v = k" using valid_candidate_provider [OF k(2)] by (simp add: v Candidate_def providerOrDefault_def)
  with k(2) have vc: "valid_candidate (Candidate v)" by simp
  have fields: "gc_provider v = cd_provider k" "gc_objectId v = cd_objectId k" "gc_extension v = cd_extension k"
    "gc_mediaType v = lit ''episode''" "gc_title v = TrimSpace title" "gc_year v = year"
    "gc_showTitle v = TrimSpace showTitle" "gc_season v = season" "gc_episode v = episode"
    by (simp_all add: v)
  have origin: "cd_objectId k = cd_objectId c" "cd_provider k = br_provider (candidate_backing c)"
    using k(1)
    by (auto simp: validateMediaCandidate_def result_simps NewProviderMediaCandidate_Inr candidate_backing_def)
  show "valid_configuration v" "gc_mediaType v = lit ''episode''" "gc_title v = TrimSpace title" "gc_year v = year"
    "gc_objectId v = cd_objectId c" "gc_provider v = br_provider (candidate_backing c)"
    "gc_showTitle v = TrimSpace showTitle" "gc_season v = season" "gc_episode v = episode"
    using valid_candidate_provider [OF k(2)] y vc e fields origin by (simp_all add: valid_configuration_def valid_titles_def)
qed

interpretation configuration_check: validator validateSetupConfiguration valid_configuration
proof
  fix c v assume "validateSetupConfiguration c = Inr v"
  then show "valid_configuration v"
    by (auto simp: validateSetupConfiguration_def NewSetupConfiguration_valid NewSetupEpisodeConfiguration_valid
        split: if_splits)
next
  fix c assume c: "valid_configuration c"
  then have k: "validateMediaCandidate (Candidate c) = Inr (Candidate c)" "valid_candidate (Candidate c)"
    and p: "gc_provider c \<noteq> []" and y: "1888 \<le> gc_year c" "gc_year c \<le> 2100"
    by (auto simp: valid_configuration_def candidate_check.valid_fixed)
  have low: "ToLower (gc_extension c) = gc_extension c"
    using k(2) by (auto simp: valid_candidate_def)
  consider (movie) "gc_mediaType c = lit ''movie''" | (episode) "gc_mediaType c = lit ''episode''"
    using c by (auto simp: valid_configuration_def valid_titles_def)
  then show "validateSetupConfiguration c = Inr c"
  proof cases
    case movie
    with c k p y low show ?thesis
      by (simp add: validateSetupConfiguration_def NewSetupConfiguration_def valid_configuration_def valid_titles_def
          Let_def)
  next
    case episode
    have "\<exists>m. NewEpisode (lit ''setup-validation'') (gc_showTitle c) (gc_year c) (gc_season c) (gc_episode c) (gc_title c)
         (gc_extension c) (gc_size c) \<lparr>br_provider = lit ''setup'', br_objectId = gc_objectId c\<rparr> = Inr m"
      using c episode k(2) y
      by (subst NewEpisode_Inr) (auto simp: valid_configuration_def valid_titles_def valid_candidate_def lit_def provider_rune_def)
    with episode c k p y low show ?thesis
      by (auto simp: validateSetupConfiguration_def NewSetupEpisodeConfiguration_def valid_configuration_def valid_titles_def
          Let_def)
  qed
qed

section \<open>Paths of valid configurations\<close>

definition virtual_segments :: "go_configuration \<Rightarrow> gostring list" where
  "virtual_segments c =
     (if gc_mediaType c = lit ''episode''
      then [lit ''TV Shows'', display_name (gc_showTitle c) (gc_year c), lit ''Season '' @ decimal02 (gc_season c),
            episode_filename (gc_showTitle c) (gc_year c) (gc_season c) (gc_episode c) (gc_title c) (gc_extension c)]
      else [lit ''Movies'', display_name (gc_title c) (gc_year c), display_name (gc_title c) (gc_year c) @ gc_extension c])"

definition virtual_path :: "go_configuration \<Rightarrow> gostring" where
  "virtual_path c = join_segments (virtual_segments c)"

lemma valid_configuration_extension: "valid_configuration c \<Longrightarrow> media_extension_text (gc_extension c)"
  by (auto simp: valid_configuration_def valid_candidate_def)

lemma media_extension_no_slash: "media_extension_text ext \<Longrightarrow> slash \<notin> set ext"
  by (auto simp: media_extension_text_def lit_def)

lemma plain_segment_long: "2 < length w \<Longrightarrow> slash \<notin> set w \<Longrightarrow> plain_segment w"
  by (auto simp: plain_segment_def dot_segment_def parent_segment_def)

lemma length_lit [simp]: "length (lit s) = length s"
  by (simp add: lit_def)

lemma virtual_segments_plain:
  assumes "valid_configuration c"
  shows "list_all plain_segment (virtual_segments c)"
proof -
  have d: "2 < length (display_name t y)" for t y by (simp add: display_name_def)
  have ext: "slash \<notin> set (gc_extension c)"
    using assms by (intro media_extension_no_slash valid_configuration_extension)
  have t: "slash \<notin> set (gc_title c)" using assms by (auto simp: valid_configuration_def valid_titles_def validateTitle_plain)
  have slit: "slash \<notin> set (lit ''Movies'')" "slash \<notin> set (lit ''TV Shows'')" "slash \<notin> set (lit ''Season '')"
    "slash \<notin> set (lit '' ('')" "slash \<notin> set (lit '')'')" "slash \<notin> set (lit '' - S'')" "slash \<notin> set (lit ''E'')"
    "slash \<notin> set (lit '' - '')"
    by (simp_all add: lit_def)
  have dn: "slash \<notin> set (display_name u y)" if "slash \<notin> set u" for u y
    using that slit by (simp add: display_name_def)
  show ?thesis
  proof (cases "gc_mediaType c = lit ''episode''")
    case True
    then have st: "slash \<notin> set (gc_showTitle c)"
      using assms by (auto simp: valid_configuration_def valid_titles_def validateTitle_plain)
    show ?thesis
      using d [of "gc_showTitle c" "gc_year c"] dn [OF st] t ext slit True
      by (auto simp: virtual_segments_def episode_filename_def intro!: plain_segment_long)
  next
    case False
    then show ?thesis
      using d [of "gc_title c" "gc_year c"] dn [OF t] ext slit
      by (auto simp: virtual_segments_def intro!: plain_segment_long)
  qed
qed

lemma setupVirtualPath_valid:
  assumes "valid_configuration c"
  shows "setupVirtualPath c = Inr (virtual_path c)"
proof -
  have k: "media_extension_text (gc_extension c)" "0 < gc_size c" "validateProvider (br_provider (Backing c))"
    "TrimSpace (br_objectId (Backing c)) \<noteq> []" "0 \<notin> set (br_objectId (Backing c))"
    using assms by (auto simp: valid_configuration_def valid_candidate_def Backing_def providerOrDefault_def)
  have path: "Join (virtual_segments c) = virtual_path c"
    using virtual_segments_plain [OF assms] by (simp add: Join_plain virtual_path_def virtual_segments_def)
  show ?thesis
  proof (cases "gc_mediaType c = lit ''episode''")
    case True
    with assms obtain m where m: "NewEpisode (lit ''setup-path'') (gc_showTitle c) (gc_year c) (gc_season c) (gc_episode c)
        (gc_title c) (gc_extension c) (gc_size c) (Backing c) = Inr m"
      and "md_virtualPath m = Join (virtual_segments c)"
      by (auto simp: NewEpisode_Inr [OF k] valid_configuration_def valid_titles_def virtual_segments_def)
    with True path show ?thesis by (simp add: setupVirtualPath_def)
  next
    case False
    with assms path show ?thesis
      by (auto simp: setupVirtualPath_def NewMovie_def check_file_media [OF k] valid_configuration_def valid_titles_def
          virtual_segments_def Let_def refuse_unless_def)
  qed
qed

lemma VirtualPath_valid: "valid_configuration c \<Longrightarrow> VirtualPath c = Inr (virtual_path c)"
  by (simp add: VirtualPath_def configuration_check.valid_fixed setupVirtualPath_valid)

section \<open>Valid manifests\<close>

definition valid_manifest :: "manifest \<Rightarrow> bool" where
  "valid_manifest m \<longleftrightarrow> m \<noteq> [] \<and> length m \<le> maximumSetupManifestItems \<and> list_all valid_configuration m
     \<and> distinct (map objectKey m) \<and> distinct (map virtual_path m)"

lemma manifest_items_valid:
  assumes "manifest_items objects paths cs = Inr m"
  shows "length m = length cs \<and> list_all valid_configuration m \<and> list_all2 (\<lambda>c v. validateSetupConfiguration c = Inr v) cs m
    \<and> distinct (map objectKey m) \<and> set (map objectKey m) \<inter> set objects = {}
    \<and> distinct (map virtual_path m) \<and> set (map virtual_path m) \<inter> set paths = {}"
  using assms
proof (induction cs arbitrary: objects paths m)
  case (Cons c cs)
  then obtain v vs where v: "validateSetupConfiguration c = Inr v" and new: "objectKey v \<notin> set objects" "virtual_path v \<notin> set paths"
    and vs: "manifest_items (objectKey v # objects) (virtual_path v # paths) cs = Inr vs" and m: "m = v # vs"
    by (auto simp: result_simps setupVirtualPath_valid configuration_check.result_valid)
  from Cons.IH [OF vs] v new configuration_check.result_valid [OF v] show ?case by (auto simp: m)
qed simp

lemma manifest_items_fixed:
  assumes "list_all valid_configuration m" "distinct (map objectKey m)" "set (map objectKey m) \<inter> set objects = {}"
    "distinct (map virtual_path m)" "set (map virtual_path m) \<inter> set paths = {}"
  shows "manifest_items objects paths m = Inr m"
  using assms
  by (induction m arbitrary: objects paths)
    (auto simp: configuration_check.valid_fixed setupVirtualPath_valid refuse_unless_def)

interpretation manifest_check: validator NewSetupManifest valid_manifest
proof
  fix items m assume "NewSetupManifest items = Inr m"
  then have "items \<noteq> []" "length items \<le> maximumSetupManifestItems" "manifest_items [] [] items = Inr m"
    by (auto simp: NewSetupManifest_def result_simps)
  with manifest_items_valid [OF this(3)] show "valid_manifest m"
    by (auto simp: valid_manifest_def)
next
  fix m assume "valid_manifest m"
  then show "NewSetupManifest m = Inr m"
    by (auto simp: valid_manifest_def NewSetupManifest_def manifest_items_fixed refuse_unless_def)
qed

text \<open>The key of an object determines its provider and its identifier.\<close>

lemma objectKey_inject:
  assumes "valid_configuration c" "valid_configuration d" "objectKey c = objectKey d"
  shows "gc_provider c = gc_provider d \<and> gc_objectId c = gc_objectId d"
proof -
  have nul: "0 \<notin> set (gc_provider e)" if "valid_configuration e" for e
    using that
    by (cases "gc_provider e") (auto simp: valid_configuration_def valid_candidate_def provider_rune_def list_all_iff)
  have key: "takeWhile (\<lambda>r. r \<noteq> 0) (objectKey e) = gc_provider e" if "valid_configuration e" for e
    using nul [OF that] by (subst objectKey_def, subst takeWhile_append2) (auto intro!: gr0I)
  have "gc_provider c = gc_provider d" using key assms by metis
  then show ?thesis using assms(3) by (simp add: objectKey_def)
qed

lemma Backing_valid: "valid_configuration c \<Longrightarrow> Backing c = \<lparr>br_provider = gc_provider c, br_objectId = gc_objectId c\<rparr>"
  by (simp add: valid_configuration_def Backing_def providerOrDefault_def)

lemma distinct_backing:
  assumes "valid_manifest m"
  shows "distinct (map Backing m)"
proof -
  have valid: "\<And>c. c \<in> set m \<Longrightarrow> valid_configuration c" and "distinct m" "inj_on objectKey (set m)"
    using assms by (auto simp: valid_manifest_def list_all_iff distinct_map)
  then have "inj_on Backing (set m)"
    by (auto simp: inj_on_def Backing_valid objectKey_def)
  with \<open>distinct m\<close> show ?thesis by (simp add: distinct_map)
qed

lemma manifest_paths:
  assumes "valid_manifest m"
  shows "map setupVirtualPath m = map Inr (map virtual_path m)" "distinct (map virtual_path m)"
    "list_all safe_path (map virtual_path m)"
    "list_all (\<lambda>p. hd (segments p) = lit ''Movies'' \<or> hd (segments p) = lit ''TV Shows'') (map virtual_path m)"
proof -
  have valid: "\<And>c. c \<in> set m \<Longrightarrow> valid_configuration c"
    using assms by (simp add: valid_manifest_def list_all_iff)
  have ne: "virtual_segments c \<noteq> []" for c by (simp add: virtual_segments_def)
  note seg = safe_path_join [OF ne virtual_segments_plain [OF valid], folded virtual_path_def]
  show "map setupVirtualPath m = map Inr (map virtual_path m)" using valid by (simp add: setupVirtualPath_valid)
  show "distinct (map virtual_path m)" using assms by (simp add: valid_manifest_def)
  show "list_all safe_path (map virtual_path m)" using seg(2) by (simp add: list_all_iff)
  show "list_all (\<lambda>p. hd (segments p) = lit ''Movies'' \<or> hd (segments p) = lit ''TV Shows'') (map virtual_path m)"
    using seg(1) by (auto simp: list_all_iff virtual_segments_def)
qed

text \<open>
  C21. A manifest the server accepts can be published: it has as many items as were given, from 1 to 100, no
  two of them with the same backing object, and their paths below the Plex library are distinct and
  safe, every segment a plain name and the first one Movies or TV Shows. Checking the result again, as
  loading it from storage does, returns it unchanged.
\<close>

theorem new_manifest_publishable:
  assumes "NewSetupManifest items = Inr m"
  shows "length m = length items \<and> 1 \<le> length m \<and> length m \<le> 100 \<and> NewSetupManifest m = Inr m
    \<and> distinct (map Backing m)
    \<and> (\<exists>paths. map setupVirtualPath m = map Inr paths \<and> distinct paths \<and> list_all safe_path paths
         \<and> list_all (\<lambda>p. hd (segments p) = lit ''Movies'' \<or> hd (segments p) = lit ''TV Shows'') paths)"
proof -
  have m: "valid_manifest m" using assms by (rule manifest_check.result_valid)
  moreover have "length m = length items" "items \<noteq> []"
    using assms manifest_items_valid by (auto simp: NewSetupManifest_def result_simps)
  ultimately show ?thesis
    using manifest_check.valid_fixed [OF m] distinct_backing [OF m] manifest_paths [OF m]
    by (intro conjI exI [of _ "map virtual_path m"])
      (simp_all add: valid_manifest_def maximumSetupManifestItems_def Suc_le_eq)
qed

definition sample_item :: go_configuration where
  "sample_item = \<lparr>gc_provider = lit ''torbox-torrent'', gc_objectId = lit ''7:1'', gc_name = lit ''Who.S02E01.mkv'',
     gc_extension = lit ''.mkv'', gc_size = 4096, gc_mediaType = lit ''episode'', gc_title = lit ''Pilot'', gc_year = 2005,
     gc_showTitle = lit ''Who'', gc_season = 2, gc_episode = 1\<rparr>"

lemmas item_check_defs =
  valid_configuration_def valid_candidate_def valid_titles_def Candidate_def providerOrDefault_def lit_def
  provider_rune_def TrimSpace_def is_space_rune_def clean_name_def safe_path_def plain_segment_def dot_segment_def
  parent_segment_def ToLower_def lower_rune_def Ext_def media_extension_text_def validateTitle_def
  validatePathSegment_def maximumPlexTitleBytes_def go_len_def utf8_bytes_def episode_filename_def display_name_def
  decimal_def decimal02_def decimal_digits.simps

lemma valid_sample_item: "valid_configuration sample_item"
  by (simp add: sample_item_def item_check_defs)

lemma sample_item_accepted: "NewSetupManifest [sample_item] = Inr [sample_item]"
  by (rule manifest_check.valid_fixed) (simp add: valid_manifest_def valid_sample_item maximumSetupManifestItems_def)

theorem new_manifest_publishable_witness:
  "NewSetupManifest [sample_item] = Inr [sample_item] \<and> distinct (map Backing [sample_item])
   \<and> (\<exists>p. setupVirtualPath sample_item = Inr p \<and> safe_path p)"
  using new_manifest_publishable [OF sample_item_accepted] sample_item_accepted by auto

section \<open>Configurations as JSON\<close>

definition marshal_configuration :: "go_configuration \<Rightarrow> json" where
  "marshal_configuration c = obj [
     (''provider'', omit_empty (gc_provider c)),
     (''objectId'', Some (json_text (gc_objectId c))),
     (''name'', Some (json_text (gc_name c))),
     (''extension'', Some (json_text (gc_extension c))),
     (''size'', Some (json_int (gc_size c))),
     (''mediaType'', Some (json_text (gc_mediaType c))),
     (''title'', Some (json_text (gc_title c))),
     (''year'', Some (json_int (gc_year c))),
     (''showTitle'', omit_empty (gc_showTitle c)),
     (''season'', omit_zero (gc_season c)),
     (''episode'', omit_zero (gc_episode c))]"

text \<open>What the console holds after it has read a configuration.\<close>

definition received :: "go_configuration \<Rightarrow> setup_configuration" where
  "received c = \<lparr>
     sc_objectId = utf16 (gc_objectId c), sc_name = utf16 (gc_name c),
     sc_extension = (if gc_extension c = lit ''.mp4'' then Mp4 else Mkv),
     sc_size = to_double (of_int (gc_size c)),
     sc_mediaType = (if gc_mediaType c = lit ''movie'' then Movie else Episode),
     sc_title = utf16 (gc_title c), sc_year = to_double (of_int (gc_year c)),
     sc_showTitle = (if gc_showTitle c = [] then None else Some (utf16 (gc_showTitle c))),
     sc_season = (if gc_season c = 0 then None else Some (to_double (of_int (gc_season c)))),
     sc_episode = (if gc_episode c = 0 then None else Some (to_double (of_int (gc_episode c))))\<rparr>"

lemma property_marshal_configuration:
  "property (marshal_configuration c) k = Option.bind (map_of [
     (''provider'', omit_empty (gc_provider c)),
     (''objectId'', Some (json_text (gc_objectId c))),
     (''name'', Some (json_text (gc_name c))),
     (''extension'', Some (json_text (gc_extension c))),
     (''size'', Some (json_int (gc_size c))),
     (''mediaType'', Some (json_text (gc_mediaType c))),
     (''title'', Some (json_text (gc_title c))),
     (''year'', Some (json_int (gc_year c))),
     (''showTitle'', omit_empty (gc_showTitle c)),
     (''season'', omit_zero (gc_season c)),
     (''episode'', omit_zero (gc_episode c))] k) id"
  unfolding marshal_configuration_def by (rule property_obj) simp

lemma json_text_lit: "json_text (lit s) = json_str s"
  by (simp add: json_text_def json_str_def)

lemma valid_configuration_enums:
  assumes "valid_configuration c"
  shows "gc_extension c = lit ''.mp4'' \<or> gc_extension c = lit ''.mkv''"
    "gc_mediaType c = lit ''movie'' \<or> gc_mediaType c = lit ''episode''"
  using assms valid_configuration_extension [OF assms]
  by (auto simp: media_extension_text_def valid_configuration_def valid_titles_def)

lemma valid_configuration_received:
  assumes "valid_configuration c"
  shows "isConfiguration (marshal_configuration c)" "as_configuration (marshal_configuration c) = received c"
proof -
  have r: "isRecord (marshal_configuration c)" by (simp add: marshal_configuration_def)
  have e: "json_text (gc_extension c) = json_str ''.mp4'' \<or> json_text (gc_extension c) = json_str ''.mkv''"
    "json_text (gc_mediaType c) = json_str ''movie'' \<or> json_text (gc_mediaType c) = json_str ''episode''"
    using valid_configuration_enums [OF assms] by (auto simp: json_text_lit simp del: json_str_inject)
  with r show "isConfiguration (marshal_configuration c)"
    by (simp add: isConfiguration_def property_marshal_configuration json_int_def omit_empty_def omit_zero_def
        json_text_def)
  have "as_extension (Some (json_text (gc_extension c))) = (if gc_extension c = lit ''.mp4'' then Mp4 else Mkv)"
    "as_media_type (Some (json_text (gc_mediaType c))) = (if gc_mediaType c = lit ''movie'' then Movie else Episode)"
    using valid_configuration_enums [OF assms]
    by (auto simp: json_text_lit as_enum_defs as_member_def)
  then show "as_configuration (marshal_configuration c) = received c"
    by (simp add: as_configuration_def property_marshal_configuration received_def json_int_def omit_empty_def
        omit_zero_def) (simp add: json_text_def)
qed

end
