(* ===== verification/Server_Intent.thy ===== *)
theory Server_Intent
  imports Server_Wire
begin

text \<open>
  The validated search intent of \<open>internal/acquisition/search.go\<close>: the request for a movie or an episode that
  background jobs and publication share.
\<close>

datatype intent_error =
    TextRequired | TextTooLong | TextControl | YearRange | SeasonRange | EpisodeRange
  | MovieWithCoordinates | UnsupportedMediaType

record search_request =
  sr_mediaType :: gostring
  sr_title :: gostring
  sr_year :: int
  sr_season :: int
  sr_episode :: int

definition maximumSearchTitleBytes :: nat where
  "maximumSearchTitleBytes = 200"

definition validateSearchText :: "gostring \<Rightarrow> nat \<Rightarrow> intent_error + gostring" where
  "validateSearchText value maximumBytes =
     (let clean = TrimSpace value in
      if clean = [] then Inl TextRequired
      else if maximumBytes < go_len clean then Inl TextTooLong
      else if list_ex is_control_rune clean then Inl TextControl
      else Inr clean)"

definition validateSearchYear :: "int \<Rightarrow> intent_error + unit" where
  "validateSearchYear year = (if year < 1888 \<or> 2100 < year then Inl YearRange else Inr ())"

definition NewMovieSearch :: "gostring \<Rightarrow> int \<Rightarrow> intent_error + search_request" where
  "NewMovieSearch title year =
     bind_result (validateSearchText title maximumSearchTitleBytes) (\<lambda>cleanTitle.
     bind_result (validateSearchYear year) (\<lambda>_.
     Inr \<lparr>sr_mediaType = lit ''movie'', sr_title = cleanTitle, sr_year = year, sr_season = 0, sr_episode = 0\<rparr>))"

definition NewEpisodeSearch :: "gostring \<Rightarrow> int \<Rightarrow> int \<Rightarrow> int \<Rightarrow> intent_error + search_request" where
  "NewEpisodeSearch showTitle year season episode =
     bind_result (validateSearchText showTitle maximumSearchTitleBytes) (\<lambda>cleanTitle.
     bind_result (validateSearchYear year) (\<lambda>_.
     if season < 0 \<or> 99 < season then Inl SeasonRange
     else if episode < 1 \<or> 999 < episode then Inl EpisodeRange
     else Inr \<lparr>sr_mediaType = lit ''episode'', sr_title = cleanTitle, sr_year = year,
               sr_season = season, sr_episode = episode\<rparr>))"

definition acquisitionRequest ::
  "gostring \<Rightarrow> gostring \<Rightarrow> int \<Rightarrow> int \<Rightarrow> int \<Rightarrow> intent_error + search_request" where
  "acquisitionRequest mediaType title year season episode =
     (if mediaType = lit ''movie'' then
        (if season \<noteq> 0 \<or> episode \<noteq> 0 then Inl MovieWithCoordinates else NewMovieSearch title year)
      else if mediaType = lit ''episode'' then NewEpisodeSearch title year season episode
      else Inl UnsupportedMediaType)"

definition validateSearchRequest :: "search_request \<Rightarrow> intent_error + search_request" where
  "validateSearchRequest r =
     (if sr_mediaType r = lit ''movie'' then NewMovieSearch (sr_title r) (sr_year r)
      else if sr_mediaType r = lit ''episode''
      then NewEpisodeSearch (sr_title r) (sr_year r) (sr_season r) (sr_episode r)
      else Inl UnsupportedMediaType)"

section \<open>Valid intents\<close>

definition wf_request :: "search_request \<Rightarrow> bool" where
  "wf_request r \<longleftrightarrow> sr_title r \<noteq> [] \<and> TrimSpace (sr_title r) = sr_title r \<and> go_len (sr_title r) \<le> 200
     \<and> \<not> list_ex is_control_rune (sr_title r) \<and> 1888 \<le> sr_year r \<and> sr_year r \<le> 2100
     \<and> (sr_mediaType r = lit ''movie'' \<and> sr_season r = 0 \<and> sr_episode r = 0
        \<or> sr_mediaType r = lit ''episode'' \<and> 0 \<le> sr_season r \<and> sr_season r \<le> 99
          \<and> 1 \<le> sr_episode r \<and> sr_episode r \<le> 999)"

lemmas search_defs =
  NewMovieSearch_def NewEpisodeSearch_def validateSearchText_def validateSearchYear_def maximumSearchTitleBytes_def

interpretation request_check: validator validateSearchRequest wf_request
proof
  fix r r' assume "validateSearchRequest r = Inr r'"
  then show "wf_request r'"
    by (auto simp: validateSearchRequest_def search_defs wf_request_def result_simps Let_def split: if_splits)
next
  fix r assume "wf_request r"
  then show "validateSearchRequest r = Inr r"
    by (auto simp: validateSearchRequest_def search_defs wf_request_def)
qed

end
