(* ===== verification/Server_Setup.thy ===== *)
theory Server_Setup
  imports Server_Domain Server_Intent
begin

text \<open>
  The setup service of \<open>internal/service/setup/service.go\<close>: its in-memory state and the
  repository it saves to, authorization, the two ways to publish (\<open>Apply\<close> and \<open>PublishAcquired\<close>) with the
  transaction \<open>commitManifest\<close> they share, \<open>Restore\<close>, \<open>FindPublished\<close>, and \<open>Status\<close> as the handler
  sends it to the console. The outcomes of the boundaries (repository, provider, runtime, publisher)
  are inputs, so every combination of faults is a run.
\<close>

section \<open>State\<close>

text \<open>The sentinels that \<open>errors.Is\<close> can find in a returned error; the empty list is \<open>nil\<close>.\<close>

datatype service_error =
  ErrSetupUnauthorized | ErrUnauthorized | ErrUnavailable | ErrDegraded | ErrInvalidSelection | ErrNotFound | ErrOther

text \<open>The fields of \<open>Service\<close> that are not boundaries, and what the repository holds on disk.\<close>

record service =
  sv_bootstrapToken :: gostring
  sv_tokenConfigured :: bool
  sv_manifest :: "manifest option"
  sv_savedItemCount :: int
  sv_stored :: "(gostring \<times> manifest) option"

text \<open>
  How \<open>SaveManifest\<close> can end: before the pointer to the new generation is written nothing is stored;
  after it, syncing the directory or removing old generations may still report an error.
\<close>

datatype save_outcome = Saved | CleanupDeferred | StoredWithError | NotStored

fun save_stored :: "save_outcome \<Rightarrow> bool" where
  "save_stored NotStored = False"
| "save_stored _ = True"

definition saveManifest :: "save_outcome \<Rightarrow> gostring \<Rightarrow> manifest \<Rightarrow> service \<Rightarrow> service" where
  "saveManifest out token m s = (if save_stored out then s\<lparr>sv_stored := Some (token, m)\<rparr> else s)"

text \<open>How \<open>Clear\<close> can end.\<close>

datatype clear_outcome = Cleared | ClearedWithError | NotCleared

definition clearManifest :: "clear_outcome \<Rightarrow> service \<Rightarrow> service" where
  "clearManifest out s = (if out = NotCleared then s else s\<lparr>sv_stored := None\<rparr>)"

section \<open>Operations\<close>

definition setStatus :: "manifest \<Rightarrow> int \<Rightarrow> service \<Rightarrow> service" where
  "setStatus m savedItemCount s =
     s\<lparr>sv_manifest := Some m, sv_tokenConfigured := True, sv_savedItemCount := savedItemCount\<rparr>"

definition markTokenConfigured :: "service \<Rightarrow> service" where
  "markTokenConfigured s = s\<lparr>sv_tokenConfigured := True\<rparr>"

definition markSavedManifest :: "int \<Rightarrow> service \<Rightarrow> service" where
  "markSavedManifest itemCount s = s\<lparr>sv_tokenConfigured := True, sv_savedItemCount := itemCount\<rparr>"

text \<open>
  \<open>resolveToken\<close>: a supplied token is checked and used; without one the saved token is loaded, and
  \<open>loads\<close> says whether that succeeds.
\<close>

definition resolveToken :: "bool \<Rightarrow> gostring \<Rightarrow> service \<Rightarrow> (service_error + gostring) \<times> service" where
  "resolveToken loads supplied s =
     (if supplied \<noteq> [] then
        (if 4096 < go_len supplied \<or> TrimSpace supplied \<noteq> supplied \<or> 0 \<in> set supplied
         then (Inl ErrUnauthorized, s) else (Inr supplied, s))
      else if \<not> loads then (Inl ErrUnavailable, s)
      else case sv_stored s of None \<Rightarrow> (Inl ErrUnauthorized, s)
           | Some (token, _) \<Rightarrow> (Inr token, markTokenConfigured s))"

text \<open>The outcomes one transaction meets, in the order of the calls.\<close>

record commit_faults =
  cf_prepared :: bool
  cf_ready :: bool
  cf_loads :: bool
  cf_save :: save_outcome
  cf_reloads :: bool
  cf_published :: bool
  cf_rollback_save :: save_outcome
  cf_rollback_clear :: clear_outcome

definition rollbackPersistence :: "commit_faults \<Rightarrow> (gostring \<times> manifest) option \<Rightarrow> service \<Rightarrow> service" where
  "rollbackPersistence f previous s =
     (case previous of Some (token, m) \<Rightarrow> saveManifest (cf_rollback_save f) token m s
      | None \<Rightarrow> clearManifest (cf_rollback_clear f) s)"

definition commitManifest ::
  "commit_faults \<Rightarrow> gostring \<Rightarrow> manifest \<Rightarrow> service \<Rightarrow> (service_error + manifest) \<times> service" where
  "commitManifest f token m s =
     (if \<not> cf_prepared f then (Inl ErrUnavailable, s)
      else if \<not> cf_ready f then (Inl ErrUnavailable, s)
      else if \<not> cf_loads f then (Inl ErrUnavailable, s)
      else
        let previous = sv_stored s;
            saved = saveManifest (cf_save f) token m s;
            committed = cf_reloads f \<and> sv_stored saved = Some (token, m);
            publish = (if cf_published f then (Inr m, setStatus m (int (length m)) saved)
                       else (Inl ErrUnavailable, rollbackPersistence f previous saved))
        in if cf_save f = Saved then publish
           else if cf_save f = CleanupDeferred \<and> committed then publish
           else if committed then (Inl ErrUnavailable, rollbackPersistence f previous saved)
           else (Inl ErrUnavailable, saved))"

section \<open>Authorization\<close>

text \<open>\<open>validBootstrap\<close> and the other comparisons run in constant time; their result is equality.\<close>

definition validBootstrap :: "service \<Rightarrow> gostring \<Rightarrow> bool" where
  "validBootstrap s provided \<longleftrightarrow>
     length provided = length (sv_bootstrapToken s) \<and> length provided \<noteq> 0 \<and> provided = sv_bootstrapToken s"

text \<open>\<open>sessionForToken\<close>, an HMAC of the token, is the argument \<open>sessionFor\<close>. The error list is empty on success.\<close>

definition AuthorizeSetup ::
  "(gostring \<Rightarrow> gostring) \<Rightarrow> bool \<Rightarrow> gostring \<Rightarrow> gostring \<Rightarrow> gostring \<Rightarrow> service \<Rightarrow> service_error list \<times> service" where
  "AuthorizeSetup sessionFor loads suppliedToken session bootstrapToken s0 =
     (if \<not> loads then ([ErrUnavailable], s0)
      else case sv_stored s0 of
        None \<Rightarrow> (if suppliedToken = [] \<or> \<not> validBootstrap s0 bootstrapToken then ([ErrSetupUnauthorized], s0) else ([], s0))
      | Some (savedToken, _) \<Rightarrow>
          let s = markTokenConfigured s0; expected = sessionFor savedToken in
          if validBootstrap s bootstrapToken then ([], s)
          else if length session = length expected \<and> session = expected then ([], s)
          else if suppliedToken \<noteq> [] \<and> length suppliedToken = length savedToken \<and> suppliedToken = savedToken then ([], s)
          else ([ErrSetupUnauthorized], s))"

definition IssueSession ::
  "(gostring \<Rightarrow> gostring) \<Rightarrow> bool \<Rightarrow> gostring \<Rightarrow> service \<Rightarrow> (service_error + gostring) \<times> service" where
  "IssueSession sessionFor loads token s =
     (case resolveToken loads token s of
        (Inl e, s') \<Rightarrow> (Inl e, s')
      | (Inr resolved, s') \<Rightarrow> (Inr (sessionFor resolved), s'))"

section \<open>Publishing a selection\<close>

record item_request =
  iq_objectId :: gostring
  iq_mediaType :: gostring
  iq_title :: gostring
  iq_year :: int
  iq_showTitle :: gostring
  iq_season :: int
  iq_episode :: int

record apply_request =
  aq_token :: gostring
  aq_items :: "item_request list"
  aq_objectId :: gostring
  aq_title :: gostring
  aq_year :: int

definition itemRequests :: "apply_request \<Rightarrow> item_request list option" where
  "itemRequests r =
     (if 0 < length (aq_items r) then
        (if maximumSetupManifestItems < length (aq_items r) then None
         else if aq_objectId r \<noteq> [] \<or> aq_title r \<noteq> [] \<or> aq_year r \<noteq> 0 then None
         else Some (aq_items r))
      else if aq_objectId r = [] then None
      else Some [\<lparr>iq_objectId = aq_objectId r, iq_mediaType = [], iq_title = aq_title r, iq_year = aq_year r,
                  iq_showTitle = [], iq_season = 0, iq_episode = 0\<rparr>])"

text \<open>How discovery with the provider can end.\<close>

datatype discovery = GatewayRefused | DiscoverUnauthorized | DiscoverFailed | Discovered "go_candidate list"

definition discoverWithToken :: "discovery \<Rightarrow> service_error + go_candidate list" where
  "discoverWithToken d =
     (case d of GatewayRefused \<Rightarrow> Inl ErrUnavailable | DiscoverUnauthorized \<Rightarrow> Inl ErrUnauthorized
      | DiscoverFailed \<Rightarrow> Inl ErrUnavailable | Discovered items \<Rightarrow> Inr items)"

text \<open>\<open>Discover\<close>, the operation behind \<open>POST /api/setup/discover\<close>.\<close>

definition Discover :: "bool \<Rightarrow> discovery \<Rightarrow> gostring \<Rightarrow> service \<Rightarrow> (service_error + go_candidate list) \<times> service" where
  "Discover loads d token s =
     (case resolveToken loads token s of
        (Inl e, s') \<Rightarrow> (Inl e, s')
      | (Inr resolved, s') \<Rightarrow> (discoverWithToken d, s'))"

definition configurationFromRequest :: "go_candidate \<Rightarrow> item_request \<Rightarrow> domain_error + go_configuration" where
  "configurationFromRequest candidate r =
     (if iq_mediaType r = [] \<or> iq_mediaType r = lit ''movie''
      then NewSetupConfiguration candidate (iq_title r) (iq_year r)
      else if iq_mediaType r = lit ''episode''
      then NewSetupEpisodeConfiguration candidate (iq_showTitle r) (iq_year r) (iq_season r) (iq_episode r) (iq_title r)
      else Inl UnsupportedType)"

text \<open>The map from object identifiers to candidates: a later candidate replaces an earlier one.\<close>

definition candidate_index :: "go_candidate list \<Rightarrow> gostring \<rightharpoonup> go_candidate" where
  "candidate_index items = map_of (rev (map (\<lambda>c. (cd_objectId c, c)) items))"

fun selected_configurations ::
  "(gostring \<rightharpoonup> go_candidate) \<Rightarrow> item_request list \<Rightarrow> service_error + manifest" where
  "selected_configurations candidates [] = Inr []"
| "selected_configurations candidates (r # rs) =
     (case candidates (iq_objectId r) of
        None \<Rightarrow> Inl ErrInvalidSelection
      | Some selected \<Rightarrow>
          (case configurationFromRequest selected r of
             Inl _ \<Rightarrow> Inl ErrInvalidSelection
           | Inr configuration \<Rightarrow>
               bind_result (selected_configurations candidates rs) (\<lambda>configurations.
               Inr (configuration # configurations))))"

definition Apply ::
  "bool \<Rightarrow> discovery \<Rightarrow> commit_faults \<Rightarrow> apply_request \<Rightarrow> service \<Rightarrow> (service_error + manifest) \<times> service" where
  "Apply loads d f request s0 =
     (case resolveToken loads (aq_token request) s0 of
        (Inl e, s) \<Rightarrow> (Inl e, s)
      | (Inr token, s) \<Rightarrow>
          (case itemRequests request of
             None \<Rightarrow> (Inl ErrInvalidSelection, s)
           | Some requests \<Rightarrow>
               (case discoverWithToken d of
                  Inl e \<Rightarrow> (Inl e, s)
                | Inr items \<Rightarrow>
                    (case selected_configurations (candidate_index items) requests of
                       Inl e \<Rightarrow> (Inl e, s)
                     | Inr configurations \<Rightarrow>
                         (case NewSetupManifest configurations of
                            Inl _ \<Rightarrow> (Inl ErrInvalidSelection, s)
                          | Inr m \<Rightarrow> commitManifest f token m s)))))"

section \<open>Publishing acquired media\<close>

record acquired_media =
  am_request :: search_request
  am_candidate :: go_candidate

definition configurationFromAcquired :: "acquired_media \<Rightarrow> domain_error + go_configuration" where
  "configurationFromAcquired media =
     (let request = am_request media in
      if sr_mediaType request = lit ''movie''
      then NewSetupConfiguration (am_candidate media) (sr_title request) (sr_year request)
      else if sr_mediaType request = lit ''episode''
      then NewSetupEpisodeConfiguration (am_candidate media) (sr_title request) (sr_year request) (sr_season request)
             (sr_episode request) (lit ''Episode '' @ decimal (sr_episode request))
      else Inl UnsupportedType)"

definition sameLogicalMedia :: "go_configuration \<Rightarrow> go_configuration \<Rightarrow> bool" where
  "sameLogicalMedia left right =
     (if gc_mediaType left \<noteq> gc_mediaType right \<or> gc_year left \<noteq> gc_year right then False
      else if gc_mediaType left = lit ''movie'' then gc_title left = gc_title right
      else if gc_mediaType left = lit ''episode''
      then gc_showTitle left = gc_showTitle right \<and> gc_season left = gc_season right \<and> gc_episode left = gc_episode right
      else False)"

text \<open>The loop that replaces the first item it finds; \<open>None\<close> when there is none.\<close>

fun replace_item :: "go_configuration \<Rightarrow> manifest \<Rightarrow> manifest option" where
  "replace_item configuration [] = None"
| "replace_item configuration (c # cs) =
     (if Backing c = Backing configuration \<or> sameLogicalMedia c configuration then Some (configuration # cs)
      else map_option (\<lambda>cs'. c # cs') (replace_item configuration cs))"

definition PublishAcquired :: "bool \<Rightarrow> commit_faults \<Rightarrow> acquired_media \<Rightarrow> service \<Rightarrow> (service_error + manifest) \<times> service" where
  "PublishAcquired loads f media s =
     (if \<not> loads then (Inl ErrUnavailable, s)
      else case sv_stored s of
        None \<Rightarrow> (Inl ErrUnauthorized, s)
      | Some (token, current) \<Rightarrow>
          (case configurationFromAcquired media of
             Inl _ \<Rightarrow> (Inl ErrInvalidSelection, s)
           | Inr configuration \<Rightarrow>
               let items = (case replace_item configuration current of
                              Some replaced \<Rightarrow> Some replaced
                            | None \<Rightarrow> if length current = maximumSetupManifestItems then None
                                      else Some (current @ [configuration]))
               in (case items of
                     None \<Rightarrow> (Inl ErrInvalidSelection, s)
                   | Some items \<Rightarrow>
                       (case NewSetupManifest items of
                          Inl _ \<Rightarrow> (Inl ErrInvalidSelection, s)
                        | Inr m \<Rightarrow> commitManifest f token m s))))"

definition publishedMediaMatches :: "go_configuration \<Rightarrow> search_request \<Rightarrow> bool" where
  "publishedMediaMatches item request =
     (if gc_mediaType item \<noteq> sr_mediaType request \<or> gc_year item \<noteq> sr_year request then False
      else if sr_mediaType request = lit ''movie'' then gc_title item = sr_title request
      else if sr_mediaType request = lit ''episode''
      then gc_showTitle item = sr_title request \<and> gc_season item = sr_season request \<and> gc_episode item = sr_episode request
      else False)"

definition FindPublished :: "bool \<Rightarrow> search_request \<Rightarrow> service \<Rightarrow> service_error + gostring option" where
  "FindPublished loads request s =
     (if \<not> loads then Inl ErrUnavailable
      else case sv_stored s of
        None \<Rightarrow> Inr None
      | Some (_, m) \<Rightarrow> Inr (map_option gc_objectId (find (\<lambda>item. publishedMediaMatches item request) m)))"

text \<open>\<open>FindPublishedMovie\<close>; an intent that is not valid is refused before the repository is read.\<close>

definition FindPublishedMovie :: "bool \<Rightarrow> gostring \<Rightarrow> int \<Rightarrow> service \<Rightarrow> service_error + gostring option" where
  "FindPublishedMovie loads title year s =
     (case NewMovieSearch title year of
        Inl _ \<Rightarrow> Inl ErrOther
      | Inr request \<Rightarrow> FindPublished loads request s)"

text \<open>The loop of \<open>FindPublishedEpisode\<close> over the active items.\<close>

fun find_episode :: "gostring \<Rightarrow> manifest \<Rightarrow> service_error + go_configuration option" where
  "find_episode virtualPath [] = Inr None"
| "find_episode virtualPath (item # items) =
     (if gc_mediaType item \<noteq> lit ''episode'' then find_episode virtualPath items
      else case VirtualPath item of
        Inl _ \<Rightarrow> Inl ErrUnavailable
      | Inr itemPath \<Rightarrow> if itemPath = virtualPath then Inr (Some item) else find_episode virtualPath items)"

text \<open>\<open>cancelled\<close> says whether the context of the call has ended.\<close>

definition FindPublishedEpisode :: "bool \<Rightarrow> gostring \<Rightarrow> service \<Rightarrow> service_error + go_configuration option" where
  "FindPublishedEpisode cancelled virtualPath s =
     (if cancelled then Inl ErrOther
      else if IsAbs virtualPath \<or> Clean virtualPath \<noteq> virtualPath \<or> 92 \<in> set virtualPath \<or> 0 \<in> set virtualPath
      then Inl ErrOther
      else if take (length (lit ''TV Shows/'')) virtualPath \<noteq> lit ''TV Shows/'' then Inr None
      else case sv_manifest s of None \<Rightarrow> Inr None | Some m \<Rightarrow> find_episode virtualPath m)"

section \<open>Restoring\<close>

text \<open>
  \<open>validateRestorePreparation\<close>: the active items must be an ordered part of the saved ones. The two
  indices of the loop are the remaining lists.
\<close>

fun restore_scan :: "manifest \<Rightarrow> manifest \<Rightarrow> bool" where
  "restore_scan saved [] = True"
| "restore_scan [] (active # actives) = False"
| "restore_scan (item # saved) (active # actives) =
     (if item \<noteq> active then restore_scan saved (active # actives) else restore_scan saved actives)"

definition validateRestorePreparation :: "manifest \<Rightarrow> bool \<Rightarrow> manifest \<Rightarrow> bool" where
  "validateRestorePreparation saved runtime active \<longleftrightarrow>
     runtime \<and> length active \<noteq> 0 \<and> length active \<le> length saved \<and> restore_scan saved active"

text \<open>What the restore factory answers: an error, transient or not, or a preparation.\<close>

datatype preparation = PrepareFailed bool | Prepared bool manifest

record restore_faults =
  rf_loads :: bool
  rf_preparation :: preparation
  rf_ready :: bool
  rf_published :: bool

definition Restore :: "restore_faults \<Rightarrow> service \<Rightarrow> service_error list \<times> service" where
  "Restore f s0 =
     (if \<not> rf_loads f then ([ErrOther], s0)
      else case sv_stored s0 of None \<Rightarrow> ([ErrNotFound], s0)
      | Some (token, saved) \<Rightarrow>
          let s = markSavedManifest (int (length saved)) s0 in
          (case rf_preparation f of
             PrepareFailed transient \<Rightarrow> (if transient then [ErrUnavailable] else [ErrOther], s)
           | Prepared runtime active \<Rightarrow>
               if \<not> validateRestorePreparation saved runtime active then ([ErrOther], s)
               else let degraded = length active < length saved in
                 if degraded \<and> sv_manifest s \<noteq> None then ([ErrDegraded, ErrUnavailable], s)
                 else if \<not> rf_ready f then ([ErrUnavailable], s)
                 else if \<not> rf_published f then ([ErrUnavailable], s)
                 else let s' = setStatus active (int (length saved)) s in
                   (if degraded then [ErrDegraded, ErrUnavailable] else [], s')))"

section \<open>The status answer\<close>

record go_status =
  gs_setupRequired :: bool
  gs_tokenConfigured :: bool
  gs_selected :: "go_configuration option"
  gs_selectedItems :: manifest
  gs_savedItemCount :: int
  gs_activeItemCount :: int
  gs_unavailableItemCount :: int
  gs_degraded :: bool

definition Status :: "service \<Rightarrow> go_status" where
  "Status s =
     (let items = (case sv_manifest s of None \<Rightarrow> [] | Some m \<Rightarrow> m);
          active = (case sv_manifest s of None \<Rightarrow> 0 | Some m \<Rightarrow> int (length m));
          unavailable = max 0 (sv_savedItemCount s - active)
      in \<lparr>gs_setupRequired = sv_manifest s = None, gs_tokenConfigured = sv_tokenConfigured s,
          gs_selected = (case items of [] \<Rightarrow> None | c # _ \<Rightarrow> Some c), gs_selectedItems = items,
          gs_savedItemCount = sv_savedItemCount s, gs_activeItemCount = active,
          gs_unavailableItemCount = unavailable, gs_degraded = (0 < active \<and> 0 < unavailable)\<rparr>)"

definition marshal_status :: "jsstring \<Rightarrow> go_status \<Rightarrow> json" where
  "marshal_status csrf g = obj [
     (''setupRequired'', Some (JBool (gs_setupRequired g))),
     (''tokenConfigured'', Some (JBool (gs_tokenConfigured g))),
     (''selected'', map_option marshal_configuration (gs_selected g)),
     (''selectedItems'', if gs_selectedItems g = [] then None
                         else Some (JArray (map marshal_configuration (gs_selectedItems g)))),
     (''savedItemCount'', Some (json_int (gs_savedItemCount g))),
     (''activeItemCount'', Some (json_int (gs_activeItemCount g))),
     (''unavailableItemCount'', Some (json_int (gs_unavailableItemCount g))),
     (''degraded'', Some (JBool (gs_degraded g))),
     (''csrfToken'', Some (JString csrf))]"

end
