(* ===== verification/Server_Contract.thy ===== *)
theory Server_Contract
  imports Server_Setup "HOL-Library.Sublist"
begin

text \<open>
  What the setup service promises: transactions are atomic, the saved manifest covers the active
  one, every status is one the console accepts and reads faithfully, what is published can be
  found, and a session that was issued authorizes.
\<close>

section \<open>Runs\<close>

text \<open>
  A transaction is atomic when a failure to read the repository back never hides a stored
  manifest and the rollback restores what was there. Only a second fault in one transaction breaks it.
\<close>

definition atomic_commit :: "commit_faults \<Rightarrow> bool" where
  "atomic_commit f \<longleftrightarrow>
     (cf_reloads f \<or> cf_save f = Saved \<or> cf_save f = NotStored)
     \<and> save_stored (cf_rollback_save f) \<and> cf_rollback_clear f \<noteq> NotCleared"

definition service_start :: "gostring \<Rightarrow> (gostring \<times> manifest) option \<Rightarrow> service" where
  "service_start bootstrapToken stored =
     \<lparr>sv_bootstrapToken = bootstrapToken, sv_tokenConfigured = False, sv_manifest = None, sv_savedItemCount = 0,
      sv_stored = stored\<rparr>"

text \<open>\<open>LoadManifest\<close> checks what it reads, so a stored manifest is a valid one.\<close>

inductive service_reachable :: "service \<Rightarrow> bool" where
  start: "(\<And>token m. stored = Some (token, m) \<Longrightarrow> NewSetupManifest m = Inr m)
    \<Longrightarrow> service_reachable (service_start bootstrapToken stored)"
| restore: "service_reachable s \<Longrightarrow> service_reachable (snd (Restore r s))"
| authorize: "service_reachable s
    \<Longrightarrow> service_reachable (snd (AuthorizeSetup sessionFor loads suppliedToken session bootstrapToken s))"
| issue: "service_reachable s \<Longrightarrow> service_reachable (snd (IssueSession sessionFor loads token s))"
| discover: "service_reachable s \<Longrightarrow> service_reachable (snd (Discover loads d token s))"
| publish: "service_reachable s \<Longrightarrow> atomic_commit f \<Longrightarrow> service_reachable (snd (Apply loads d f request s))"
| acquired: "service_reachable s \<Longrightarrow> atomic_commit f \<Longrightarrow> service_reachable (snd (PublishAcquired loads f media s))"

section \<open>Restoring\<close>

lemma restore_scan_subseq: "restore_scan saved active \<longleftrightarrow> subseq active saved"
  by (induction saved active rule: restore_scan.induct) (auto simp: subseq_Cons2_neq)

lemma validateRestorePreparation_iff:
  "validateRestorePreparation saved runtime active \<longleftrightarrow> runtime \<and> active \<noteq> [] \<and> subseq active saved"
  using list_emb_length [of "(=)" active saved]
  by (auto simp: validateRestorePreparation_def restore_scan_subseq)

section \<open>Transactions\<close>

lemmas service_op_defs =
  setStatus_def markTokenConfigured_def markSavedManifest_def saveManifest_def clearManifest_def

lemma rollback_restores:
  "save_stored (cf_rollback_save f) \<Longrightarrow> cf_rollback_clear f \<noteq> NotCleared
    \<Longrightarrow> rollbackPersistence f (sv_stored s) (saveManifest out token m s) = s"
  by (cases "sv_stored s") (auto simp: rollbackPersistence_def service_op_defs)

text \<open>An atomic transaction either publishes what it stored or changes nothing.\<close>

lemma commitManifest_atomic:
  assumes "atomic_commit f"
  shows "commitManifest f token m s = (Inl ErrUnavailable, s)
    \<or> commitManifest f token m s = (Inr m, (setStatus m (int (length m)) s)\<lparr>sv_stored := Some (token, m)\<rparr>)"
proof -
  have rollback: "rollbackPersistence f (sv_stored s) (saveManifest out token m s) = s" for out
    using assms by (intro rollback_restores) (simp_all add: atomic_commit_def)
  show ?thesis
    using assms unfolding commitManifest_def Let_def rollback
    by (cases "cf_save f") (auto simp: atomic_commit_def service_op_defs)
qed

text \<open>
  Without that assumption, a transaction that fails leaves the active manifest and its count alone; what it stored can stay, but only
  after a second fault.
\<close>

lemma rollback_any:
  "rollbackPersistence f (sv_stored s) (saveManifest out token m s) = s
   \<or> \<not> (save_stored (cf_rollback_save f) \<and> cf_rollback_clear f \<noteq> NotCleared)
     \<and> rollbackPersistence f (sv_stored s) (saveManifest out token m s) = s\<lparr>sv_stored := Some (token, m)\<rparr>"
  using rollback_restores [of f s out token m]
  by (cases "sv_stored s") (auto simp: rollbackPersistence_def saveManifest_def clearManifest_def)

lemma commitManifest_any:
  assumes "commitManifest f token m s = (result, s')"
  shows "result = Inr m \<and> s' = (setStatus m (int (length m)) s)\<lparr>sv_stored := Some (token, m)\<rparr>
    \<or> result = Inl ErrUnavailable \<and> (s' = s \<or> \<not> atomic_commit f \<and> s' = s\<lparr>sv_stored := Some (token, m)\<rparr>)"
proof (cases "atomic_commit f")
  case True
  with commitManifest_atomic [OF True, of token m s] assms show ?thesis by auto
next
  case False
  with assms rollback_any [of f s "cf_save f" token m] show ?thesis
    unfolding commitManifest_def Let_def
    by (cases "cf_save f") (auto simp: saveManifest_def setStatus_def split: if_splits)
qed

text \<open>A resolved token changes at most the flag that says that a token is configured.\<close>

lemma resolveToken_cases:
  assumes "resolveToken loads supplied s = (result, s')"
  shows "s' = s \<or> s' = markTokenConfigured s \<and> sv_stored s \<noteq> None"
  using assms by (auto simp: resolveToken_def split: if_splits option.splits)

text \<open>Every operation that publishes ends in a transaction over a checked manifest or leaves the state alone.\<close>

lemma Apply_cases:
  assumes "Apply loads d f request s0 = (result, s')"
  obtains (refused) e where "result = Inl e" "s' = s0 \<or> s' = markTokenConfigured s0"
  | (committed) token m s items configurations requests where "s = s0 \<or> s = markTokenConfigured s0"
      "resolveToken loads (aq_token request) s0 = (Inr token, s)" "itemRequests request = Some requests"
      "d = Discovered items" "selected_configurations (candidate_index items) requests = Inr configurations"
      "NewSetupManifest configurations = Inr m" "commitManifest f token m s = (result, s')"
proof -
  obtain r s where r: "resolveToken loads (aq_token request) s0 = (r, s)" by force
  have s: "s = s0 \<or> s = markTokenConfigured s0" using resolveToken_cases [OF r] by auto
  note step = assms [unfolded Apply_def r]
  show thesis
  proof (cases "\<exists>e. result = Inl e \<and> s' = s")
    case True
    with s refused show ?thesis by blast
  next
    case no: False
    obtain token where token: "r = Inr token" using step no by (cases r) auto
    obtain requests where requests: "itemRequests request = Some requests"
      using step no token by (cases "itemRequests request") auto
    obtain items where items: "d = Discovered items"
      using step no token requests by (cases d) (auto simp: discoverWithToken_def)
    have "selected_configurations (candidate_index items) requests \<noteq> Inl e" for e
    proof
      assume "selected_configurations (candidate_index items) requests = Inl e"
      with step token requests items have "(result, s') = (Inl e, s)" by (simp add: discoverWithToken_def)
      with no show False by auto
    qed
    then obtain cs where cs: "selected_configurations (candidate_index items) requests = Inr cs"
      by (cases "selected_configurations (candidate_index items) requests") auto
    obtain m where m: "NewSetupManifest cs = Inr m"
      using step no token requests items cs by (cases "NewSetupManifest cs") (auto simp: discoverWithToken_def)
    from committed [OF s] r step token requests items cs m show ?thesis by (simp add: discoverWithToken_def)
  qed
qed

lemma PublishAcquired_cases:
  assumes "PublishAcquired loads f media s = (result, s')"
  obtains (refused) e where "result = Inl e" "s' = s"
  | (committed) token current configuration items m where "sv_stored s = Some (token, current)"
      "configurationFromAcquired media = Inr configuration"
      "replace_item configuration current = Some items
        \<or> replace_item configuration current = None \<and> items = current @ [configuration]"
      "NewSetupManifest items = Inr m" "commitManifest f token m s = (result, s')"
  using assms that
  by (auto simp: PublishAcquired_def Let_def split: if_splits sum.splits option.splits)

section \<open>The saved manifest covers the active one\<close>

definition service_ok :: "service \<Rightarrow> bool" where
  "service_ok s \<longleftrightarrow>
     (case sv_stored s of None \<Rightarrow> sv_manifest s = None | Some (_, m) \<Rightarrow> valid_manifest m)
     \<and> 0 \<le> sv_savedItemCount s \<and> sv_savedItemCount s \<le> 100
     \<and> (case sv_manifest s of None \<Rightarrow> True
        | Some m \<Rightarrow> m \<noteq> [] \<and> list_all valid_configuration m \<and> distinct (map virtual_path m)
            \<and> int (length m) \<le> sv_savedItemCount s
            \<and> (case sv_stored s of None \<Rightarrow> False | Some (_, saved) \<Rightarrow> length m \<le> length saved))"

lemma valid_manifest_size:
  "valid_manifest m \<Longrightarrow> m \<noteq> [] \<and> length m \<le> 100 \<and> list_all valid_configuration m \<and> distinct (map virtual_path m)"
  by (simp add: valid_manifest_def maximumSetupManifestItems_def)

lemma service_ok_mark [simp]: "service_ok (markTokenConfigured s) = service_ok s"
  by (auto simp: service_ok_def markTokenConfigured_def split: option.splits)

lemma subseq_valid: "subseq active saved \<Longrightarrow> list_all P saved \<Longrightarrow> list_all P active"
  using list_emb_set by (fastforce simp: list_all_iff)

lemma subseq_distinct: "subseq active saved \<Longrightarrow> distinct (map f saved) \<Longrightarrow> distinct (map f active)"
  by (auto simp: subseq_conv_nths nths_map [symmetric] dest: distinct_nthsI [of "map f saved"])

lemma service_ok_Restore:
  assumes "service_ok s"
  shows "service_ok (snd (Restore r s))"
proof (cases "sv_stored s")
  case (Some p)
  then obtain token saved where p: "sv_stored s = Some (token, saved)" by (cases p) simp
  with assms have v: "valid_manifest saved" by (simp add: service_ok_def)
  have part: "active \<noteq> [] \<and> list_all valid_configuration active \<and> distinct (map virtual_path active)
      \<and> length active \<le> length saved"
    if "validateRestorePreparation saved runtime active" for runtime active
    using that v subseq_valid [of active saved] subseq_distinct [of active saved] list_emb_length [of "(=)" active saved]
    by (auto simp: validateRestorePreparation_iff valid_manifest_def)
  from assms p valid_manifest_size [OF v] show ?thesis
    by (auto simp: service_ok_def Restore_def service_op_defs Let_def v dest!: part
        split: option.splits preparation.splits if_splits)
qed (use assms in \<open>simp add: Restore_def\<close>)

lemma service_ok_commitManifest:
  assumes "service_ok s" "valid_manifest m" "atomic_commit f"
  shows "service_ok (snd (commitManifest f token m s))"
  using commitManifest_atomic [OF assms(3), of token m s]
proof (elim disjE)
  assume "commitManifest f token m s =
    (Inr m, (setStatus m (int (length m)) s)\<lparr>sv_stored := Some (token, m)\<rparr>)"
  with assms(2) valid_manifest_size [OF assms(2)] show ?thesis
    by (simp add: service_ok_def setStatus_def)
qed (use assms(1) in simp)

lemma service_ok_resolveToken: "service_ok s \<Longrightarrow> service_ok (snd (resolveToken loads supplied s))"
  using resolveToken_cases [of loads supplied s] by (metis prod.collapse service_ok_mark)

lemma service_ok_AuthorizeSetup:
  "service_ok s \<Longrightarrow> service_ok (snd (AuthorizeSetup sessionFor loads suppliedToken session bootstrapToken s))"
  by (auto simp: AuthorizeSetup_def Let_def split: option.splits)

lemma service_ok_Apply:
  assumes "service_ok s" "atomic_commit f"
  shows "service_ok (snd (Apply loads d f request s))"
proof -
  obtain result s' where a: "Apply loads d f request s = (result, s')" by force
  from a have "service_ok s'"
  proof (cases rule: Apply_cases)
    case (committed token m s1 items configurations requests)
    then have "service_ok (snd (commitManifest f token m s1))"
      using assms by (intro service_ok_commitManifest) (auto intro: manifest_check.result_valid)
    with committed show ?thesis by simp
  qed (use assms in auto)
  with a show ?thesis by simp
qed

lemma service_ok_PublishAcquired:
  assumes "service_ok s" "atomic_commit f"
  shows "service_ok (snd (PublishAcquired loads f media s))"
proof -
  obtain result s' where a: "PublishAcquired loads f media s = (result, s')" by force
  from a have "service_ok s'"
  proof (cases rule: PublishAcquired_cases)
    case (committed token current configuration items m)
    then have "service_ok (snd (commitManifest f token m s))"
      using assms by (intro service_ok_commitManifest) (auto intro: manifest_check.result_valid)
    with committed show ?thesis by simp
  qed (use assms in auto)
  with a show ?thesis by simp
qed

lemma service_reachable_ok: "service_reachable s \<Longrightarrow> service_ok s"
proof (induction rule: service_reachable.induct)
  case (start stored)
  then show ?case
    by (auto simp: service_ok_def service_start_def split: option.splits intro: manifest_check.result_valid)
next
  case (issue s sessionFor loads token)
  then show ?case
    using service_ok_resolveToken [of s loads token] by (auto simp: IssueSession_def split: prod.splits sum.splits)
next
  case (discover s loads d token)
  then show ?case
    using service_ok_resolveToken [of s loads token] by (auto simp: Discover_def split: prod.splits sum.splits)
qed (simp_all add: service_ok_Restore service_ok_AuthorizeSetup service_ok_Apply service_ok_PublishAcquired)

section \<open>The console reads the status\<close>

lemma property_marshal_status:
  "property (marshal_status csrf g) k = Option.bind (map_of [
     (''setupRequired'', Some (JBool (gs_setupRequired g))),
     (''tokenConfigured'', Some (JBool (gs_tokenConfigured g))),
     (''selected'', map_option marshal_configuration (gs_selected g)),
     (''selectedItems'', if gs_selectedItems g = [] then None
                         else Some (JArray (map marshal_configuration (gs_selectedItems g)))),
     (''savedItemCount'', Some (json_int (gs_savedItemCount g))),
     (''activeItemCount'', Some (json_int (gs_activeItemCount g))),
     (''unavailableItemCount'', Some (json_int (gs_unavailableItemCount g))),
     (''degraded'', Some (JBool (gs_degraded g))),
     (''csrfToken'', Some (JString csrf))] k) id"
  unfolding marshal_status_def by (rule property_obj) simp

abbreviation active_items :: "service \<Rightarrow> manifest" where
  "active_items s \<equiv> (case sv_manifest s of None \<Rightarrow> [] | Some m \<Rightarrow> m)"

text \<open>The members of a status, with the three counts as numbers.\<close>

lemma property_Status:
  assumes "sv_savedItemCount s = int saved" "saved < 2 ^ 53" "length (active_items s) < 2 ^ 53"
  defines "active \<equiv> length (active_items s)"
  shows "property (marshal_status csrf (Status s)) k = Option.bind (map_of [
     (''setupRequired'', Some (JBool (sv_manifest s = None))),
     (''tokenConfigured'', Some (JBool (sv_tokenConfigured s))),
     (''selected'', case active_items s of [] \<Rightarrow> None | c # _ \<Rightarrow> Some (marshal_configuration c)),
     (''selectedItems'', if active_items s = [] then None
                         else Some (JArray (map marshal_configuration (active_items s)))),
     (''savedItemCount'', Some (JNumber (of_count saved))),
     (''activeItemCount'', Some (JNumber (of_count active))),
     (''unavailableItemCount'', Some (JNumber (of_count (saved - active)))),
     (''degraded'', Some (JBool (0 < active \<and> active < saved))),
     (''csrfToken'', Some (JString csrf))] k) id"
proof -
  have count: "json_int (int n) = JNumber (of_count n)" if "n < 2 ^ 53" for n
    using that by (intro json_int_count) simp
  have "max 0 (int saved - int active) = int (saved - active)" by simp
  moreover have "(case sv_manifest s of None \<Rightarrow> 0 | Some m \<Rightarrow> int (length m)) = int active"
    by (simp add: active_def split: option.splits)
  ultimately show ?thesis
    using assms(2,3) unfolding property_marshal_status Status_def Let_def assms(1)
    by (simp add: count active_def split: list.splits)
qed

text \<open>The console accepts a status exactly when the saved count covers the active items.\<close>

lemma status_accepted_iff:
  assumes "list_all valid_configuration (active_items s)" "sv_savedItemCount s = int saved" "saved < 2 ^ 53" "length (active_items s) < 2 ^ 53"
  shows "isSetupStatus (marshal_status csrf (Status s)) \<longleftrightarrow> length (active_items s) \<le> saved"
proof -
  define active where "active = length (active_items s)"
  have r: "isRecord (marshal_status csrf (Status s))" by (simp add: marshal_status_def)
  have "js_sub (of_count saved) (of_count active) = of_count (saved - active)" if "active \<le> saved"
    using js_sub_safe [of "int saved" "int active"] that assms(3)
    by (simp add: of_count_def safe_integer_def of_nat_diff)
  moreover have "isNonNegativeInteger (Some (JNumber (of_count n)))" for n
    using isInteger_of_count [of n] by (simp add: isNonNegativeInteger_def of_count_def)
  moreover have "js_num_eq (of_count a) (of_count b) \<longleftrightarrow> a = b" "js_ge (of_count a) (of_count b) \<longleftrightarrow> b \<le> a"
    "js_less (Fin 0) (of_count a) \<longleftrightarrow> 0 < a" "js_num_eq (of_count a) (Fin 0) \<longleftrightarrow> a = 0" for a b
    by (auto simp: of_count_def)
  ultimately show ?thesis
    using assms r
    by (cases "active_items s")
      (auto simp: isSetupStatus_def property_Status list_all_iff active_def Let_def valid_configuration_received
        simp del: of_nat_Suc)
qed

text \<open>
  C20. Every status the setup service can send is one the console accepts, and the console then holds the
  server's state: in every state reached by restoring, authorizing, discovering, publishing a selection or
  publishing acquired media with atomic transactions, \<open>getStatus\<close> returns a status with the active
  manifest item by item, the number of saved items, the number that is unavailable and the
  server's token for later requests.
\<close>

theorem server_status_received:
  assumes "service_reachable s"
  shows "\<exists>st. getStatus (\<lambda>_. Some (answer_with (marshal_status csrf (Status s)))) = Inr st
    \<and> status_items st = map received (active_items s)
    \<and> av_savedItemCount st = of_count (nat (sv_savedItemCount s))
    \<and> av_unavailableItemCount st = of_count (nat (sv_savedItemCount s) - length (active_items s))
    \<and> (ss_setupRequired st \<longleftrightarrow> sv_manifest s = None)
    \<and> (ss_tokenConfigured st \<longleftrightarrow> sv_tokenConfigured s)
    \<and> ss_csrfToken st = csrf"
proof -
  have "service_ok s" using assms by (rule service_reachable_ok)
  then obtain saved where saved: "sv_savedItemCount s = int saved" "saved \<le> 100" "length (active_items s) \<le> saved"
    and valid: "list_all valid_configuration (active_items s)"
    by (auto simp: service_ok_def intro: that [of "nat (sv_savedItemCount s)"] split: option.splits)
  then have bounds: "saved < 2 ^ 53" "length (active_items s) < 2 ^ 53" by simp_all
  let ?v = "marshal_status csrf (Status s)"
  have "isSetupStatus ?v" using status_accepted_iff [OF valid saved(1) bounds] saved(3) by blast
  then have "getStatus (\<lambda>_. Some (answer_with ?v)) = Inr (status_of_payload (as_status_payload ?v))"
    by (simp add: getStatus_def perform_def deliver_def getStatus_response_def readJSON_def answer_with_def
        result_simps)
  then show ?thesis
    using saved(1) valid
    by (cases "active_items s")
      (simp_all add: list_all_iff valid_configuration_received as_status_payload_def property_Status [OF saved(1) bounds] status_of_payload_def
        restored_items_def as_optional_def)
qed

definition no_faults :: commit_faults where
  "no_faults = \<lparr>cf_prepared = True, cf_ready = True, cf_loads = True, cf_save = Saved, cf_reloads = True,
     cf_published = True, cf_rollback_save = Saved, cf_rollback_clear = Cleared\<rparr>"

lemma no_faults_atomic [simp]: "atomic_commit no_faults"
  by (simp add: atomic_commit_def no_faults_def)

lemma no_faults_commit:
  "commitManifest no_faults token m s = (Inr m, (setStatus m (int (length m)) s)\<lparr>sv_stored := Some (token, m)\<rparr>)"
  by (simp add: commitManifest_def no_faults_def service_op_defs)

definition everything_ready :: restore_faults where
  "everything_ready = \<lparr>rf_loads = True, rf_preparation = Prepared True [sample_item], rf_ready = True, rf_published = True\<rparr>"

theorem server_status_received_witness:
  "\<exists>st. getStatus (\<lambda>_. Some (answer_with (marshal_status (js ''c5'')
        (Status (snd (Restore everything_ready (service_start [] (Some (lit ''key'', [sample_item]))))))))) = Inr st
    \<and> status_items st = [received sample_item] \<and> av_savedItemCount st = of_count 1
    \<and> av_unavailableItemCount st = of_count 0 \<and> \<not> ss_setupRequired st"
proof -
  let ?s = "snd (Restore everything_ready (service_start [] (Some (lit ''key'', [sample_item]))))"
  have "service_reachable ?s"
    by (intro service_reachable.restore service_reachable.start) (simp add: sample_item_accepted)
  moreover have "sv_manifest ?s = Some [sample_item]" "sv_savedItemCount ?s = 1"
    by (simp_all add: Restore_def everything_ready_def service_start_def service_op_defs validateRestorePreparation_iff)
  ultimately show ?thesis
    using server_status_received [of ?s "js ''c5''"] by (auto simp del: js_simps_list)
qed

end
