(* ===== verification/Server_Publication.thy ===== *)
theory Server_Publication
  imports Server_Contract
begin

text \<open>
  What publication does: a selection is published item by item or not at all, acquired media replaces
  or extends the saved manifest and is then found, and the browser that published is
  authorized afterwards by the session it is given.
\<close>

section \<open>Checked items are published as they are\<close>

lemma NewSetupManifest_of_valid:
  assumes "NewSetupManifest items = Inr m" "list_all valid_configuration items"
  shows "m = items"
proof -
  have "list_all2 (\<lambda>c v. validateSetupConfiguration c = Inr v) items m"
    using assms(1) manifest_items_valid by (auto simp: NewSetupManifest_def result_simps)
  then show ?thesis
    using assms(2)
    by (induction rule: list_all2_induct) (auto simp: configuration_check.valid_fixed)
qed

section \<open>Publishing a selection\<close>

text \<open>The configuration that a request asks for.\<close>

definition publishes :: "item_request \<Rightarrow> go_configuration \<Rightarrow> bool" where
  "publishes r c \<longleftrightarrow> gc_objectId c = iq_objectId r \<and> gc_title c = TrimSpace (iq_title r) \<and> gc_year c = iq_year r
     \<and> (if iq_mediaType r = lit ''episode''
        then gc_mediaType c = lit ''episode'' \<and> gc_showTitle c = TrimSpace (iq_showTitle r)
             \<and> gc_season c = iq_season r \<and> gc_episode c = iq_episode r
        else gc_mediaType c = lit ''movie'')"

lemma candidate_index_objectId: "candidate_index items i = Some c \<Longrightarrow> cd_objectId c = i \<and> c \<in> set items"
  by (auto simp: candidate_index_def dest!: map_of_SomeD)

lemma configurationFromRequest_publishes:
  assumes "configurationFromRequest candidate r = Inr c" "cd_objectId candidate = iq_objectId r"
  shows "valid_configuration c" "publishes r c"
  using assms
  by (auto simp: configurationFromRequest_def publishes_def NewSetupConfiguration_valid NewSetupEpisodeConfiguration_valid
      split: if_splits)

lemma selected_configurations_publish:
  assumes "selected_configurations (candidate_index items) rs = Inr cs"
  shows "list_all valid_configuration cs \<and> list_all2 publishes rs cs"
  using assms
proof (induction rs arbitrary: cs)
  case (Cons r rs)
  then obtain k c cs' where k: "candidate_index items (iq_objectId r) = Some k"
    and c: "configurationFromRequest k r = Inr c"
    and cs: "selected_configurations (candidate_index items) rs = Inr cs'" "cs = c # cs'"
    by (auto simp: result_simps split: option.splits sum.splits)
  from Cons.IH [OF cs(1)] configurationFromRequest_publishes [OF c] candidate_index_objectId [OF k] cs(2)
  show ?case by simp
qed simp

lemma apply_effect:
  assumes "Apply loads d f request s = (result, s')" "atomic_commit f"
  shows "case result of
      Inl e \<Rightarrow> sv_manifest s' = sv_manifest s \<and> sv_stored s' = sv_stored s \<and> sv_savedItemCount s' = sv_savedItemCount s
    | Inr m \<Rightarrow> (\<exists>requests token. itemRequests request = Some requests \<and> list_all2 publishes requests m
        \<and> sv_manifest s' = Some m \<and> sv_stored s' = Some (token, m) \<and> sv_savedItemCount s' = int (length m))"
  using assms(1)
proof (cases rule: Apply_cases)
  case (refused e)
  then show ?thesis by (auto simp: markTokenConfigured_def)
next
  case (committed token m s1 items configurations requests)
  note cs = selected_configurations_publish [OF committed(5)]
  have m: "m = configurations" using NewSetupManifest_of_valid [OF committed(6)] cs by simp
  have "(result, s') = (Inl ErrUnavailable, s1)
    \<or> (result, s') = (Inr m, (setStatus m (int (length m)) s1)\<lparr>sv_stored := Some (token, m)\<rparr>)"
    using commitManifest_atomic [OF assms(2), of token m s1] committed(7) by simp
  then show ?thesis
    using committed(1,3) cs m by (auto simp: markTokenConfigured_def setStatus_def)
qed

lemma Apply_valid_manifest:
  assumes "Apply loads d f request s = (Inr m, s')" "atomic_commit f"
  shows "valid_manifest m"
  using assms(1)
proof (cases rule: Apply_cases)
  case (committed token k s1 items configurations requests)
  then show ?thesis
    using commitManifest_atomic [OF assms(2), of token k s1] manifest_check.result_valid [OF committed(6)] by auto
qed simp

lemma apply_outcome:
  assumes "Apply loads d f request s = (result, s')"
  shows "case result of
      Inl e \<Rightarrow> sv_manifest s' = sv_manifest s \<and> sv_savedItemCount s' = sv_savedItemCount s
        \<and> (sv_stored s' = sv_stored s
           \<or> \<not> atomic_commit f \<and> (\<exists>requests token m. itemRequests request = Some requests \<and> list_all2 publishes requests m
               \<and> sv_stored s' = Some (token, m)))
    | Inr m \<Rightarrow> (\<exists>requests token. itemRequests request = Some requests \<and> list_all2 publishes requests m
        \<and> sv_manifest s' = Some m \<and> sv_stored s' = Some (token, m) \<and> sv_savedItemCount s' = int (length m))"
  using assms
proof (cases rule: Apply_cases)
  case (refused e)
  then show ?thesis by (auto simp: markTokenConfigured_def)
next
  case (committed token m s1 items configurations requests)
  note cs = selected_configurations_publish [OF committed(5)]
  have m: "m = configurations" using NewSetupManifest_of_valid [OF committed(6)] cs by simp
  have "commitManifest f token m s1 = (result, s')" using committed(7) by simp
  from commitManifest_any [OF this] show ?thesis
    using committed(1,3) cs m by (auto simp: markTokenConfigured_def setStatus_def)
qed

text \<open>
  C22. Publishing a selection is all or nothing, whatever fails on the way: when \<open>Apply\<close> succeeds the service and its repository hold
  one manifest with one item for each requested item, in order, with the requested object, the trimmed titles, the year and the
  coordinates; when it fails, with any error, the active manifest and the count of saved items are what they were, and so is the saved
  manifest, unless a second fault in the same transaction (the repository cannot be read back, or the rollback fails) leaves
  the requested one stored.
\<close>

theorem apply_publishes_selection:
  assumes "Apply loads d f request s = (result, s')"
  shows "case result of
      Inl e \<Rightarrow> sv_manifest s' = sv_manifest s \<and> sv_savedItemCount s' = sv_savedItemCount s
        \<and> (sv_stored s' = sv_stored s
           \<or> \<not> atomic_commit f \<and> (\<exists>requests token m. itemRequests request = Some requests \<and> list_all2 publishes requests m
               \<and> sv_stored s' = Some (token, m)))
    | Inr m \<Rightarrow> (\<exists>requests token. itemRequests request = Some requests \<and> list_all2 publishes requests m
        \<and> sv_manifest s' = Some m \<and> sv_stored s' = Some (token, m) \<and> sv_savedItemCount s' = int (length m))"
  using apply_outcome [OF assms] .

definition listed_candidate :: go_candidate where
  "listed_candidate = Candidate sample_item"

definition sample_request :: apply_request where
  "sample_request = \<lparr>aq_token = lit ''key'', aq_items = [\<lparr>iq_objectId = lit ''7:1'', iq_mediaType = lit ''episode'',
     iq_title = lit ''Pilot'', iq_year = 2005, iq_showTitle = lit ''Who'', iq_season = 2, iq_episode = 1\<rparr>],
     aq_objectId = [], aq_title = [], aq_year = 0\<rparr>"

lemma sample_selected:
  "NewSetupEpisodeConfiguration listed_candidate (lit ''Who'') 2005 2 1 (lit ''Pilot'') = Inr sample_item"
proof -
  have "validateSetupConfiguration sample_item = Inr sample_item"
    using valid_sample_item by (rule configuration_check.valid_fixed)
  then show ?thesis by (simp add: validateSetupConfiguration_def listed_candidate_def) (simp add: sample_item_def)
qed

lemma sample_token: "resolveToken loads (lit ''key'') s = (Inr (lit ''key''), s)"
  by (simp add: resolveToken_def lit_def go_len_def utf8_bytes_def TrimSpace_def is_space_rune_def)

lemma sample_item_requests:
  "itemRequests sample_request = Some (aq_items sample_request)" "aq_token sample_request = lit ''key''"
  by (simp_all add: itemRequests_def sample_request_def maximumSetupManifestItems_def)

lemma sample_apply:
  "Apply loads (Discovered [listed_candidate]) no_faults sample_request s =
     (Inr [sample_item], (setStatus [sample_item] 1 s)\<lparr>sv_stored := Some (lit ''key'', [sample_item])\<rparr>)"
proof -
  have "cd_objectId listed_candidate = lit ''7:1''" by (simp add: listed_candidate_def sample_item_def)
  then have "selected_configurations (candidate_index [listed_candidate]) (aq_items sample_request) = Inr [sample_item]"
    by (simp add: sample_request_def candidate_index_def configurationFromRequest_def sample_selected)
  then show ?thesis
    by (simp add: Apply_def sample_token discoverWithToken_def sample_item_accepted no_faults_commit sample_item_requests)
qed

theorem apply_publishes_selection_witness:
  "\<exists>s'. Apply True (Discovered [listed_candidate]) no_faults sample_request (service_start [] None) = (Inr [sample_item], s')
     \<and> list_all2 publishes (aq_items sample_request) [sample_item] \<and> sv_manifest s' = Some [sample_item]"
  using apply_publishes_selection [OF sample_apply [of True "service_start [] None"]]
  by (auto simp: sample_apply sample_item_requests)

section \<open>Publishing acquired media\<close>

text \<open>The replaced item and its place.\<close>

lemma replace_item_split:
  "replace_item configuration current = Some items \<Longrightarrow>
    \<exists>pre old post. current = pre @ old # post \<and> items = pre @ configuration # post
      \<and> list_all (\<lambda>c. Backing c \<noteq> Backing configuration \<and> \<not> sameLogicalMedia c configuration) pre
      \<and> (Backing old = Backing configuration \<or> sameLogicalMedia old configuration)"
proof (induction current arbitrary: items)
  case (Cons c cs)
  show ?case
  proof (cases "Backing c = Backing configuration \<or> sameLogicalMedia c configuration")
    case True
    with Cons.prems show ?thesis by (intro exI [of _ "[]"]) auto
  next
    case False
    with Cons.prems obtain items' where "replace_item configuration cs = Some items'" "items = c # items'" by auto
    with Cons.IH obtain pre old post where "cs = pre @ old # post" "items' = pre @ configuration # post"
      "list_all (\<lambda>c. Backing c \<noteq> Backing configuration \<and> \<not> sameLogicalMedia c configuration) pre"
      "Backing old = Backing configuration \<or> sameLogicalMedia old configuration"
      by blast
    with False \<open>items = c # items'\<close> show ?thesis by (intro exI [of _ "c # pre"]) auto
  qed
qed simp

lemma replace_item_None:
  "replace_item configuration current = None \<Longrightarrow>
    list_all (\<lambda>c. Backing c \<noteq> Backing configuration \<and> \<not> sameLogicalMedia c configuration) current"
  by (induction current) (auto split: if_splits)

text \<open>The configuration of acquired media matches its request, and the two comparisons agree on it.\<close>

lemma configurationFromAcquired_matches:
  assumes "configurationFromAcquired media = Inr c" "wf_request (am_request media)"
  shows "valid_configuration c" "gc_objectId c = cd_objectId (am_candidate media)"
    "publishedMediaMatches c (am_request media)"
    "publishedMediaMatches item (am_request media) = sameLogicalMedia item c"
proof -
  let ?r = "am_request media"
  have t: "TrimSpace (sr_title ?r) = sr_title ?r" using assms(2) by (simp add: wf_request_def)
  consider (movie) "sr_mediaType ?r = lit ''movie''" | (episode) "sr_mediaType ?r = lit ''episode''"
    using assms(2) by (auto simp: wf_request_def)
  then have "valid_configuration c \<and> gc_objectId c = cd_objectId (am_candidate media)
    \<and> publishedMediaMatches c ?r \<and> publishedMediaMatches item ?r = sameLogicalMedia item c"
  proof cases
    case movie
    then have "NewSetupConfiguration (am_candidate media) (sr_title ?r) (sr_year ?r) = Inr c"
      using assms(1) by (simp add: configurationFromAcquired_def Let_def)
    from NewSetupConfiguration_valid [OF this] movie t show ?thesis
      by (auto simp: publishedMediaMatches_def sameLogicalMedia_def)
  next
    case episode
    then have "NewSetupEpisodeConfiguration (am_candidate media) (sr_title ?r) (sr_year ?r) (sr_season ?r) (sr_episode ?r)
        (lit ''Episode '' @ decimal (sr_episode ?r)) = Inr c"
      using assms(1) by (simp add: configurationFromAcquired_def Let_def)
    from NewSetupEpisodeConfiguration_valid [OF this] episode t show ?thesis
      by (auto simp: publishedMediaMatches_def sameLogicalMedia_def)
  qed
  then show "valid_configuration c" "gc_objectId c = cd_objectId (am_candidate media)"
    "publishedMediaMatches c ?r" "publishedMediaMatches item ?r = sameLogicalMedia item c"
    by simp_all
qed

lemma find_split: "list_all (\<lambda>x. \<not> P x) pre \<Longrightarrow> P x \<Longrightarrow> find P (pre @ x # post) = Some x"
  by (induction pre) auto

text \<open>What a successful publication of acquired media leaves behind.\<close>

lemma published_acquired:
  assumes "service_reachable s" "wf_request (am_request media)" "PublishAcquired loads f media s = (Inr m, s')"
  shows "\<exists>token current configuration pre old post. sv_stored s = Some (token, current)
      \<and> configurationFromAcquired media = Inr configuration
      \<and> current = pre @ old @ post \<and> m = pre @ [configuration] @ post
      \<and> list_all (\<lambda>c. Backing c \<noteq> Backing configuration \<and> \<not> sameLogicalMedia c configuration) pre
      \<and> (old = [] \<and> post = []
         \<or> (\<exists>c. old = [c] \<and> (Backing c = Backing configuration \<or> sameLogicalMedia c configuration)))
      \<and> sv_stored s' = Some (token, m) \<and> sv_manifest s' = Some m
      \<and> FindPublished True (am_request media) s' = Inr (Some (cd_objectId (am_candidate media)))"
  using assms(3)
proof (cases rule: PublishAcquired_cases)
  case (committed token current c items k)
  note c = configurationFromAcquired_matches [OF committed(2) assms(2)]
  have current: "list_all valid_configuration current"
    using service_reachable_ok [OF assms(1)] committed(1) by (simp add: service_ok_def valid_manifest_def)
  obtain pre old post where split: "current = pre @ old @ post" "items = pre @ [c] @ post"
    "list_all (\<lambda>d. Backing d \<noteq> Backing c \<and> \<not> sameLogicalMedia d c) pre"
    "old = [] \<and> post = [] \<or> (\<exists>d. old = [d] \<and> (Backing d = Backing c \<or> sameLogicalMedia d c))"
  proof (cases "replace_item c current")
    case None
    then show thesis
      using committed(3) replace_item_None [OF None] by (intro that [of current "[]" "[]"]) auto
  next
    case (Some a)
    from replace_item_split [OF this] obtain pre old post where "current = pre @ old # post" "a = pre @ c # post"
      "list_all (\<lambda>d. Backing d \<noteq> Backing c \<and> \<not> sameLogicalMedia d c) pre"
      "Backing old = Backing c \<or> sameLogicalMedia old c" by blast
    with Some committed(3) show thesis by (intro that [of pre "[old]" post]) auto
  qed
  have k: "k = items"
    using NewSetupManifest_of_valid [OF committed(4)] current c(1) split(1,2) by simp
  have fin: "m = k" "s' = (setStatus k (int (length k)) s)\<lparr>sv_stored := Some (token, k)\<rparr>"
    using commitManifest_any [of f token k s] committed(5) by auto
  have "find (\<lambda>item. publishedMediaMatches item (am_request media)) items = Some c"
    unfolding split(2) append.simps using split(3) c(3) by (intro find_split) (auto simp: c(4) list_all_iff)
  then have "FindPublished True (am_request media) s' = Inr (Some (cd_objectId (am_candidate media)))"
    using c(2) by (simp add: FindPublished_def fin k)
  with committed(1,2) split k fin show ?thesis
    by (intro exI [of _ token] exI [of _ current] exI [of _ c] exI [of _ pre] exI [of _ old] exI [of _ post])
      (simp add: setStatus_def)
qed simp

text \<open>
  C23. Acquired media is published once and found again: when \<open>PublishAcquired\<close> succeeds in a reachable state (one that was
  reached without a second fault in one transaction), the saved manifest is the old one with the first item for the same object or
  the same movie or episode replaced, or, when there is no such item, with one item added at its end, and looking the request up
  afterwards returns the acquired object.
\<close>

theorem acquired_media_found:
  assumes "service_reachable s" "wf_request (am_request media)" "PublishAcquired loads f media s = (Inr m, s')"
  shows "\<exists>token current configuration pre old post. sv_stored s = Some (token, current)
      \<and> configurationFromAcquired media = Inr configuration
      \<and> current = pre @ old @ post \<and> m = pre @ [configuration] @ post
      \<and> list_all (\<lambda>c. Backing c \<noteq> Backing configuration \<and> \<not> sameLogicalMedia c configuration) pre
      \<and> (old = [] \<and> post = []
         \<or> (\<exists>c. old = [c] \<and> (Backing c = Backing configuration \<or> sameLogicalMedia c configuration)))
      \<and> sv_stored s' = Some (token, m) \<and> sv_manifest s' = Some m
      \<and> FindPublished True (am_request media) s' = Inr (Some (cd_objectId (am_candidate media)))"
  by (rule published_acquired [OF assms])

definition sample_media :: acquired_media where
  "sample_media = \<lparr>am_request = \<lparr>sr_mediaType = lit ''episode'', sr_title = lit ''Who'', sr_year = 2005, sr_season = 2,
     sr_episode = 1\<rparr>, am_candidate = listed_candidate\<rparr>"

definition acquired_item :: go_configuration where
  "acquired_item = sample_item\<lparr>gc_title := lit ''Episode 1''\<rparr>"

lemma valid_acquired_item: "valid_configuration acquired_item"
  by (simp add: acquired_item_def sample_item_def item_check_defs)

lemma sample_acquired: "configurationFromAcquired sample_media = Inr acquired_item"
proof -
  have "lit ''Episode '' @ decimal 1 = lit ''Episode 1''" "Candidate acquired_item = listed_candidate"
    by (simp_all add: lit_def decimal_def decimal_digits.simps listed_candidate_def acquired_item_def Candidate_def
        providerOrDefault_def)
  with configuration_check.valid_fixed [OF valid_acquired_item] show ?thesis
    by (simp add: validateSetupConfiguration_def configurationFromAcquired_def sample_media_def acquired_item_def
        sample_item_def)
qed

theorem acquired_media_found_witness:
  "\<exists>s'. PublishAcquired True no_faults sample_media (service_start [] (Some (lit ''key'', [sample_item]))) = (Inr [acquired_item], s')
     \<and> FindPublished True (am_request sample_media) s' = Inr (Some (lit ''7:1''))"
proof -
  let ?s = "service_start [] (Some (lit ''key'', [sample_item]))"
  have "service_reachable ?s" by (rule service_reachable.start) (simp add: sample_item_accepted)
  moreover have "wf_request (am_request sample_media)"
    by (simp add: sample_media_def wf_request_def lit_def TrimSpace_def is_space_rune_def go_len_def utf8_bytes_def
        is_control_rune_def)
  moreover have "replace_item acquired_item [sample_item] = Some [acquired_item]"
    by (simp add: acquired_item_def Backing_def providerOrDefault_def)
  then have "PublishAcquired True no_faults sample_media ?s =
      (Inr [acquired_item], snd (commitManifest no_faults (lit ''key'') [acquired_item] ?s))"
    using manifest_check.valid_fixed [of "[acquired_item]"]
    by (simp add: PublishAcquired_def service_start_def sample_acquired no_faults_commit valid_manifest_def
        valid_acquired_item maximumSetupManifestItems_def)
  moreover have "cd_objectId (am_candidate sample_media) = lit ''7:1''"
    by (simp add: sample_media_def listed_candidate_def sample_item_def)
  ultimately show ?thesis
    using acquired_media_found [where s = ?s and f = no_faults and media = sample_media] by fastforce
qed

section \<open>Finding what is published\<close>

text \<open>The lookup by title and year is the lookup of the movie's intent.\<close>

lemma FindPublishedMovie_intent:
  assumes "wf_request request" "sr_mediaType request = lit ''movie''"
  shows "FindPublishedMovie loads (sr_title request) (sr_year request) s = FindPublished loads request s"
  using request_check.valid_fixed [OF assms(1)] assms(2)
  by (simp add: FindPublishedMovie_def validateSearchRequest_def)

lemma slash_prefix: "take (length p) (p @ s) = p"
  by simp

text \<open>The path of a valid episode passes the checks that \<open>FindPublishedEpisode\<close> makes of a path.\<close>

lemma episode_path_checks:
  assumes "valid_configuration c" "gc_mediaType c = lit ''episode''"
  shows "\<not> IsAbs (virtual_path c)" "Clean (virtual_path c) = virtual_path c"
    "92 \<notin> set (virtual_path c)" "0 \<notin> set (virtual_path c)"
    "take (length (lit ''TV Shows/'')) (virtual_path c) = lit ''TV Shows/''"
proof -
  note plain = virtual_segments_plain [OF assms(1)]
  have ne: "virtual_segments c \<noteq> []" by (simp add: virtual_segments_def)
  show "\<not> IsAbs (virtual_path c)" "Clean (virtual_path c) = virtual_path c"
    using safe_path_join(3) [OF ne plain] Clean_join [OF ne plain] by (simp_all add: virtual_path_def)
  have path: "virtual_path c = lit ''TV Shows/'' @ join_segments (tl (virtual_segments c))"
    using assms(2) by (simp add: virtual_path_def virtual_segments_def lit_def)
  show "take (length (lit ''TV Shows/'')) (virtual_path c) = lit ''TV Shows/''" unfolding path by (rule slash_prefix)
  have "r \<notin> set (gc_title c) \<and> r \<notin> set (gc_showTitle c)" if "r = 92 \<or> r = 0" for r
    using that assms
    by (auto simp: valid_configuration_def valid_titles_def validateTitle_def validatePathSegment_def Let_def)
  moreover have "r \<notin> set (gc_extension c)" if "r = 92 \<or> r = 0" for r
    using that valid_configuration_extension [OF assms(1)] by (auto simp: media_extension_text_def lit_def)
  moreover have "r \<notin> set (decimal i) \<and> r \<notin> set (decimal02 i)" if "r = 92 \<or> r = 0" for r i
    using that by (auto simp: decimal_def decimal02_def Let_def dest!: bspec [OF decimal_digits_less])
  ultimately show "92 \<notin> set (virtual_path c)" "0 \<notin> set (virtual_path c)"
    using assms(2)
    by (auto simp: virtual_path_def virtual_segments_def episode_filename_def display_name_def lit_def)
qed

lemma find_episode_Some_iff:
  assumes "list_all valid_configuration m" "distinct (map virtual_path m)"
  shows "find_episode p m = Inr (Some item) \<longleftrightarrow>
    item \<in> set m \<and> gc_mediaType item = lit ''episode'' \<and> VirtualPath item = Inr p"
  using assms
  by (induction m) (auto simp: VirtualPath_valid list_all_iff image_iff)

text \<open>
  C24. Playback finds the episode behind a path: in every reachable state an episode is returned for a path exactly
  when it is one of the active items and the path is its path below the Plex library, and every active
  episode has such a path, so it can be found.
\<close>

theorem published_episode_found:
  assumes "service_reachable s"
  shows "(FindPublishedEpisode False p s = Inr (Some item)
      \<longleftrightarrow> item \<in> set (active_items s) \<and> gc_mediaType item = lit ''episode'' \<and> VirtualPath item = Inr p)
    \<and> (item \<in> set (active_items s) \<longrightarrow> (\<exists>q. VirtualPath item = Inr q))"
proof -
  have ok: "list_all valid_configuration (active_items s)" "distinct (map virtual_path (active_items s))"
    using service_reachable_ok [OF assms] by (auto simp: service_ok_def split: option.splits)
  have valid: "VirtualPath item = Inr (virtual_path item)" "valid_configuration item" if "item \<in> set (active_items s)"
    using that ok(1) by (auto simp: list_all_iff VirtualPath_valid)
  have "FindPublishedEpisode False p s = Inr (Some item) \<longleftrightarrow> find_episode p (active_items s) = Inr (Some item)"
  proof
    show "FindPublishedEpisode False p s = Inr (Some item) \<Longrightarrow> find_episode p (active_items s) = Inr (Some item)"
      by (auto simp: FindPublishedEpisode_def split: if_splits option.splits)
  next
    assume f: "find_episode p (active_items s) = Inr (Some item)"
    then have i: "item \<in> set (active_items s)" "gc_mediaType item = lit ''episode''" "VirtualPath item = Inr p"
      using find_episode_Some_iff [OF ok] by simp_all
    with valid have "p = virtual_path item" by simp
    with f i valid(2) episode_path_checks [of item] show "FindPublishedEpisode False p s = Inr (Some item)"
      by (simp add: FindPublishedEpisode_def split: option.splits)
  qed
  then have "FindPublishedEpisode False p s = Inr (Some item)
      \<longleftrightarrow> item \<in> set (active_items s) \<and> gc_mediaType item = lit ''episode'' \<and> VirtualPath item = Inr p"
    by (simp only: find_episode_Some_iff [OF ok])
  with valid(1) show ?thesis by (intro conjI impI exI) simp_all
qed

theorem published_episode_found_witness:
  "\<exists>p. FindPublishedEpisode False p
      (snd (Restore everything_ready (service_start [] (Some (lit ''key'', [sample_item]))))) = Inr (Some sample_item)"
proof -
  let ?s = "snd (Restore everything_ready (service_start [] (Some (lit ''key'', [sample_item]))))"
  have "service_reachable ?s"
    by (intro service_reachable.restore service_reachable.start) (simp add: sample_item_accepted)
  moreover have "sv_manifest ?s = Some [sample_item]"
    by (simp add: Restore_def everything_ready_def service_start_def service_op_defs validateRestorePreparation_iff)
  moreover have "gc_mediaType sample_item = lit ''episode''" by (simp add: sample_item_def)
  ultimately show ?thesis
    using published_episode_found [of ?s _ sample_item] by auto
qed

section \<open>Sessions\<close>

text \<open>
  The browser that published stays authorized: after a successful \<open>Apply\<close> the session that the handler
  issues is accepted as authorization on its own, and nothing else is accepted but the pairing secret of
  the host and the saved token itself.
\<close>

lemma publisher_stays_authorized:
  assumes "Apply loads d f request s = (Inr m, s')" "atomic_commit f"
  shows "\<exists>token session s''. sv_stored s' = Some (token, m) \<and> IssueSession sessionFor True [] s' = (Inr session, s'')
    \<and> (\<forall>supplied given bootstrap. fst (AuthorizeSetup sessionFor True supplied given bootstrap s'') = []
         \<longleftrightarrow> given = session \<or> validBootstrap s' bootstrap \<or> supplied \<noteq> [] \<and> supplied = token)"
  using assms(1)
proof (cases rule: Apply_cases)
  case (committed token k s1 items configurations requests)
  then have s': "m = k" "sv_stored s' = Some (token, m)"
    using commitManifest_atomic [OF assms(2), of token k s1] by auto
  then have "IssueSession sessionFor True [] s' = (Inr (sessionFor token), markTokenConfigured s')"
    by (simp add: IssueSession_def resolveToken_def)
  moreover have "validBootstrap (markTokenConfigured t) b = validBootstrap t b" "markTokenConfigured (markTokenConfigured t) = markTokenConfigured t" for t b
    by (simp_all add: validBootstrap_def markTokenConfigured_def)
  moreover have "sv_stored (markTokenConfigured s') = Some (token, m)" using s'(2) by (simp add: markTokenConfigured_def)
  ultimately show ?thesis using s'(2)
    by (auto simp: AuthorizeSetup_def Let_def)
qed simp

end
