(* ===== verification/Server_Handler.thy ===== *)
theory Server_Handler
  imports Server_Publication
begin

text \<open>
  The HTTP handlers of \<open>internal/handler/setup/handler.go\<close> for setup: the gate for requests of the local
  page, the decoding of a body into Go structures by \<open>encoding/json\<close> without unknown fields, the three
  setup routes, and the error answers.
\<close>

section \<open>Decoding JSON\<close>

text \<open>A JSON string as a Go string; an unpaired surrogate becomes the replacement character.\<close>

fun decode_text :: "jsstring \<Rightarrow> gostring" where
  "decode_text [] = []"
| "decode_text (c # s) =
     (if is_low_surrogate c then 0xFFFD # decode_text s
      else if is_high_surrogate c then
        (case s of d # s' \<Rightarrow>
             if is_low_surrogate d then surrogate_value c d # decode_text s' else 0xFFFD # decode_text s
         | [] \<Rightarrow> [0xFFFD])
      else unat c # decode_text s)"

fun well_formed_text :: "jsstring \<Rightarrow> bool" where
  "well_formed_text [] \<longleftrightarrow> True"
| "well_formed_text (c # s) \<longleftrightarrow>
     (if is_low_surrogate c then False
      else if is_high_surrogate c then
        (case s of d # s' \<Rightarrow> is_low_surrogate d \<and> well_formed_text s' | [] \<Rightarrow> False)
      else well_formed_text s)"

lemma utf16_Cons: "utf16 (r # s) = utf16_units r @ utf16 s"
  by (simp add: utf16_def)

lemma utf16_decode_text: "well_formed_text s \<Longrightarrow> utf16 (decode_text s) = s"
proof (induction s rule: well_formed_text.induct)
  case (2 c s)
  show ?case
  proof (cases "is_high_surrogate c")
    case True
    with 2 obtain d s' where "\<not> is_low_surrogate c" "s = d # s'" "is_low_surrogate d" "well_formed_text s'"
      by (auto split: if_splits list.splits)
    with True 2 show ?thesis by (simp add: utf16_Cons utf16_surrogates)
  next
    case False
    with 2 have "\<not> is_low_surrogate c" "well_formed_text s" by (auto split: if_splits)
    with False 2 show ?thesis by (simp add: utf16_Cons utf16_unit)
  qed
qed simp

lemma decode_text_eq_Nil [simp]: "decode_text s = [] \<longleftrightarrow> s = []"
  by (cases s) (auto split: list.splits)

lemma decode_text_js [simp]: "decode_text (js s) = lit s"
proof (induction s)
  case (Cons c s)
  have "(of_char c :: nat) < 256" by simp
  then have "\<not> is_low_surrogate (cu c)" "\<not> is_high_surrogate (cu c)"
    unfolding is_low_surrogate_def is_high_surrogate_def unat_cu by linarith+
  with Cons show ?case by (simp add: lit_def unat_cu)
qed (simp add: lit_def)

text \<open>A number for an \<open>int\<close>: an integer literal that fits 64 bits.\<close>

definition decode_int :: "number \<Rightarrow> int option" where
  "decode_int n = (case n of
     Fin q \<Rightarrow> if of_int \<lfloor>q\<rfloor> = q \<and> - (2 ^ 63) \<le> \<lfloor>q\<rfloor> \<and> \<lfloor>q\<rfloor> < 2 ^ 63 then Some \<lfloor>q\<rfloor> else None
   | _ \<Rightarrow> None)"

definition text_field :: "json \<Rightarrow> gostring \<Rightarrow> gostring option" where
  "text_field v previous = (case v of JString s \<Rightarrow> Some (decode_text s) | JNull \<Rightarrow> Some previous | _ \<Rightarrow> None)"

definition int_field :: "json \<Rightarrow> int \<Rightarrow> int option" where
  "int_field v previous = (case v of JNumber n \<Rightarrow> decode_int n | JNull \<Rightarrow> Some previous | _ \<Rightarrow> None)"

text \<open>A member belongs to a field when the names are equal up to case folding.\<close>

definition fold_unit :: "code_unit \<Rightarrow> code_unit" where
  "fold_unit c = (let n = unat c in
     if 65 \<le> n \<and> n \<le> 90 then of_nat (n + 32) else if n = 0x212A then 107 else if n = 0x17F then 115 else c)"

definition is_key :: "jsstring \<Rightarrow> string \<Rightarrow> bool" where
  "is_key k name \<longleftrightarrow> map fold_unit k = map fold_unit (js name)"

text \<open>The names of the members that are used here, folded.\<close>

definition fold_name :: "string \<Rightarrow> string" where
  "fold_name s = map (\<lambda>c. if 65 \<le> (of_char c :: nat) \<and> (of_char c :: nat) \<le> 90 then char_of (of_char c + 32 :: nat) else c) s"

lemma is_key_js: "is_key (js a) b \<longleftrightarrow> fold_name a = fold_name b"
proof -
  have "fold_unit (cu c) = cu (if 65 \<le> (of_char c :: nat) \<and> (of_char c :: nat) \<le> 90 then char_of (of_char c + 32 :: nat) else c)" for c
  proof -
    have "(of_char c :: nat) < 256" by simp
    then have "(of_char c :: nat) \<noteq> 0x212A" "(of_char c :: nat) \<noteq> 0x17F" by linarith+
    moreover have "cu (char_of (of_char c + 32 :: nat)) = of_nat (of_char c + 32)" if "(of_char c :: nat) \<le> 90"
      using that by (simp add: cu_def)
    ultimately show ?thesis unfolding fold_unit_def Let_def unat_cu by simp
  qed
  then have "map fold_unit (js s) = js (fold_name s)" for s by (simp add: js_def fold_name_def)
  then show ?thesis by (simp add: is_key_def js_inject)
qed

lemma fold_names:
  "fold_name ''objectId'' = ''objectid''" "fold_name ''mediaType'' = ''mediatype''" "fold_name ''title'' = ''title''"
  "fold_name ''year'' = ''year''" "fold_name ''showTitle'' = ''showtitle''" "fold_name ''season'' = ''season''"
  "fold_name ''episode'' = ''episode''" "fold_name ''token'' = ''token''" "fold_name ''items'' = ''items''"
  "fold_name ''acquisitionEnabled'' = ''acquisitionenabled''" "fold_name ''showPolicy'' = ''showpolicy''"
  by (simp_all add: fold_name_def) code_simp+

lemmas key_simps = is_key_js fold_names

text \<open>Decoding an object into a structure, member by member; an unknown member is an error.\<close>

fun set_fields :: "(jsstring \<Rightarrow> json \<Rightarrow> 'r \<Rightarrow> 'r option) \<Rightarrow> (jsstring \<times> json) list \<Rightarrow> 'r \<Rightarrow> 'r option" where
  "set_fields set_field [] r = Some r"
| "set_fields set_field ((k, v) # ps) r = Option.bind (set_field k v r) (set_fields set_field ps)"

definition decode_struct :: "(jsstring \<Rightarrow> json \<Rightarrow> 'r \<Rightarrow> 'r option) \<Rightarrow> 'r \<Rightarrow> json \<Rightarrow> 'r option" where
  "decode_struct set_field zero v =
     (case v of JObject ps \<Rightarrow> set_fields set_field ps zero | JNull \<Rightarrow> Some zero | _ \<Rightarrow> None)"

definition zero_item :: item_request where
  "zero_item = \<lparr>iq_objectId = [], iq_mediaType = [], iq_title = [], iq_year = 0, iq_showTitle = [], iq_season = 0, iq_episode = 0\<rparr>"

definition set_item_field :: "jsstring \<Rightarrow> json \<Rightarrow> item_request \<Rightarrow> item_request option" where
  "set_item_field k v r =
     (if is_key k ''objectId'' then map_option (\<lambda>t. r\<lparr>iq_objectId := t\<rparr>) (text_field v (iq_objectId r))
      else if is_key k ''mediaType'' then map_option (\<lambda>t. r\<lparr>iq_mediaType := t\<rparr>) (text_field v (iq_mediaType r))
      else if is_key k ''title'' then map_option (\<lambda>t. r\<lparr>iq_title := t\<rparr>) (text_field v (iq_title r))
      else if is_key k ''year'' then map_option (\<lambda>i. r\<lparr>iq_year := i\<rparr>) (int_field v (iq_year r))
      else if is_key k ''showTitle'' then map_option (\<lambda>t. r\<lparr>iq_showTitle := t\<rparr>) (text_field v (iq_showTitle r))
      else if is_key k ''season'' then map_option (\<lambda>i. r\<lparr>iq_season := i\<rparr>) (int_field v (iq_season r))
      else if is_key k ''episode'' then map_option (\<lambda>i. r\<lparr>iq_episode := i\<rparr>) (int_field v (iq_episode r))
      else None)"

definition decode_items :: "json \<Rightarrow> item_request list option" where
  "decode_items v = (case v of
     JArray vs \<Rightarrow> those (map (decode_struct set_item_field zero_item) vs) | JNull \<Rightarrow> Some [] | _ \<Rightarrow> None)"

definition zero_request :: apply_request where
  "zero_request = \<lparr>aq_token = [], aq_items = [], aq_objectId = [], aq_title = [], aq_year = 0\<rparr>"

definition set_request_field :: "jsstring \<Rightarrow> json \<Rightarrow> apply_request \<Rightarrow> apply_request option" where
  "set_request_field k v r =
     (if is_key k ''token'' then map_option (\<lambda>t. r\<lparr>aq_token := t\<rparr>) (text_field v (aq_token r))
      else if is_key k ''items'' then map_option (\<lambda>l. r\<lparr>aq_items := l\<rparr>) (decode_items v)
      else if is_key k ''objectId'' then map_option (\<lambda>t. r\<lparr>aq_objectId := t\<rparr>) (text_field v (aq_objectId r))
      else if is_key k ''title'' then map_option (\<lambda>t. r\<lparr>aq_title := t\<rparr>) (text_field v (aq_title r))
      else if is_key k ''year'' then map_option (\<lambda>i. r\<lparr>aq_year := i\<rparr>) (int_field v (aq_year r))
      else None)"

definition set_token_field :: "jsstring \<Rightarrow> json \<Rightarrow> gostring \<Rightarrow> gostring option" where
  "set_token_field k v token = (if is_key k ''token'' then text_field v token else None)"

section \<open>Requests and answers\<close>

text \<open>
  What a handler reads of a request. Whether the host and the origin are loopback addresses is decided
  by \<open>net\<close> and \<open>net/url\<close> and is given; a body that is not one JSON value is \<open>None\<close>.
\<close>

record wire_request =
  wr_method :: string
  wr_loopbackHost :: bool
  wr_hasOrigin :: bool
  wr_validLoopbackOrigin :: bool
  wr_csrf :: gostring
  wr_session :: gostring
  wr_bootstrap :: gostring
  wr_bytes :: nat
  wr_body :: "json option"

record wire_response =
  ws_code :: nat
  ws_session :: "gostring option"
  ws_json :: json

definition maximumRequestBytes :: nat where
  "maximumRequestBytes = 128 * 1024"

definition decodeJSON :: "(json \<Rightarrow> 'r option) \<Rightarrow> wire_request \<Rightarrow> 'r option" where
  "decodeJSON decode rq = (if maximumRequestBytes < wr_bytes rq then None else Option.bind (wr_body rq) decode)"

definition authorizeBrowserRead :: "gostring \<Rightarrow> wire_request \<Rightarrow> bool" where
  "authorizeBrowserRead csrf rq =
     (if \<not> wr_loopbackHost rq then False
      else if length (wr_csrf rq) \<noteq> length csrf \<or> wr_csrf rq \<noteq> csrf then False
      else \<not> wr_hasOrigin rq \<or> wr_validLoopbackOrigin rq)"

definition authorizeBrowser :: "gostring \<Rightarrow> wire_request \<Rightarrow> bool" where
  "authorizeBrowser csrf rq =
     (if \<not> wr_hasOrigin rq \<or> \<not> authorizeBrowserRead csrf rq then False else wr_validLoopbackOrigin rq)"

definition writeError :: "nat \<Rightarrow> string \<Rightarrow> string \<Rightarrow> wire_response" where
  "writeError status code message =
     \<lparr>ws_code = status, ws_session = None,
      ws_json = obj [(''code'', Some (json_str code)), (''message'', Some (json_str message))]\<rparr>"

definition writeServiceError :: "service_error list \<Rightarrow> wire_response" where
  "writeServiceError err =
     (if ErrSetupUnauthorized \<in> set err then writeError 401 ''setup_not_paired''
        ''This browser is not paired with BlackPearl. Reopen the setup page from the BlackPearl launcher and try again.''
      else if ErrUnauthorized \<in> set err then writeError 401 ''unauthorized''
        ''That TorBox API key is invalid or expired. Open TorBox Settings, select Copy API Key, and try again.''
      else if ErrInvalidSelection \<in> set err then writeError 422 ''invalid_selection''
        ''That video is no longer available for setup.''
      else writeError 503 ''provider_unavailable'' ''TorBox is temporarily unavailable. Try again shortly.'')"

definition methodNotAllowed :: wire_response where
  "methodNotAllowed = writeError 405 ''method_not_allowed'' ''That operation is not supported.''"

definition forbidden :: wire_response where
  "forbidden = writeError 403 ''forbidden'' ''Setup requests are accepted only from this local page.''"

definition invalid_request :: wire_response where
  "invalid_request = writeError 400 ''invalid_request'' ''Enter a valid setup request.''"

section \<open>The setup routes\<close>

definition serveStatus :: "jsstring \<Rightarrow> wire_request \<Rightarrow> service \<Rightarrow> wire_response" where
  "serveStatus csrf rq s =
     (if wr_method rq \<noteq> ''GET'' then methodNotAllowed
      else \<lparr>ws_code = 200, ws_session = None, ws_json = marshal_status csrf (Status s)\<rparr>)"

text \<open>The outcomes a request meets: whether each load of the repository succeeds, discovery, the transaction.\<close>

record request_outcomes =
  ro_authorize_loads :: bool
  ro_loads :: bool
  ro_discovery :: discovery
  ro_commit :: commit_faults
  ro_issue_loads :: bool

definition marshal_candidate :: "go_candidate \<Rightarrow> json" where
  "marshal_candidate c = obj [
     (''provider'', omit_empty (cd_provider c)),
     (''objectId'', Some (json_text (cd_objectId c))),
     (''name'', Some (json_text (cd_name c))),
     (''extension'', Some (json_text (cd_extension c))),
     (''size'', Some (json_int (cd_size c)))]"

text \<open>
  The candidates are written as an array. Go would write a nil slice as \<open>null\<close>, but the service passes on what its gateway
  returns, and the only gateway, \<open>Discover\<close> of \<open>internal/gateway/torbox/discovery.go\<close>, returns with every success a slice made
  with \<open>make\<close> (line 49), so that an empty discovery is an empty array.
\<close>

definition serveDiscover ::
  "(gostring \<Rightarrow> gostring) \<Rightarrow> gostring \<Rightarrow> request_outcomes \<Rightarrow> wire_request \<Rightarrow> service \<Rightarrow> wire_response \<times> service" where
  "serveDiscover sessionFor csrf o1 rq s0 =
     (if wr_method rq \<noteq> ''POST'' then (methodNotAllowed, s0)
      else if \<not> authorizeBrowser csrf rq then (forbidden, s0)
      else case decodeJSON (decode_struct set_token_field []) rq of
        None \<Rightarrow> (invalid_request, s0)
      | Some token \<Rightarrow>
          (case AuthorizeSetup sessionFor (ro_authorize_loads o1) token (wr_session rq) (wr_bootstrap rq) s0 of
             (err, s1) \<Rightarrow>
               if err \<noteq> [] then (writeServiceError err, s1)
               else (case Discover (ro_loads o1) (ro_discovery o1) token s1 of
                 (Inl e, s2) \<Rightarrow> (writeServiceError [e], s2)
               | (Inr items, s2) \<Rightarrow>
                   (case IssueSession sessionFor (ro_issue_loads o1)
                           (if gs_tokenConfigured (Status s2) then [] else token) s2 of
                      (Inl e, s3) \<Rightarrow> (writeServiceError [e], s3)
                    | (Inr session, s3) \<Rightarrow>
                        (\<lparr>ws_code = 200, ws_session = Some session,
                          ws_json = obj [(''candidates'', Some (JArray (map marshal_candidate items)))]\<rparr>, s3)))))"

definition serveConfiguration ::
  "(gostring \<Rightarrow> gostring) \<Rightarrow> gostring \<Rightarrow> request_outcomes \<Rightarrow> wire_request \<Rightarrow> service \<Rightarrow> wire_response \<times> service" where
  "serveConfiguration sessionFor csrf o1 rq s0 =
     (if wr_method rq \<noteq> ''PUT'' then (methodNotAllowed, s0)
      else if \<not> authorizeBrowser csrf rq then (forbidden, s0)
      else case decodeJSON (decode_struct set_request_field zero_request) rq of
        None \<Rightarrow> (invalid_request, s0)
      | Some input \<Rightarrow>
          (case AuthorizeSetup sessionFor (ro_authorize_loads o1) (aq_token input) (wr_session rq) (wr_bootstrap rq) s0 of
             (err, s1) \<Rightarrow>
               if err \<noteq> [] then (writeServiceError err, s1)
               else (case Apply (ro_loads o1) (ro_discovery o1) (ro_commit o1) input s1 of
                 (Inl e, s2) \<Rightarrow> (writeServiceError [e], s2)
               | (Inr m, s2) \<Rightarrow>
                   (case IssueSession sessionFor (ro_issue_loads o1) [] s2 of
                      (Inl e, s3) \<Rightarrow> (writeServiceError [e], s3)
                    | (Inr session, s3) \<Rightarrow>
                        (\<lparr>ws_code = 200, ws_session = Some session,
                          ws_json = obj [(''selected'', Some (marshal_configuration (hd m))),
                                         (''selectedItems'', Some (JArray (map marshal_configuration m)))]\<rparr>, s3)))))"

section \<open>Refusals\<close>

definition error_answer :: "wire_response \<Rightarrow> bool" where
  "error_answer r \<longleftrightarrow> (\<exists>status code message. r = writeError status code message \<and> 400 \<le> status)"

lemma error_answer_writeError [simp]: "400 \<le> status \<Longrightarrow> error_answer (writeError status code message)"
  by (auto simp: error_answer_def)

lemma error_answers [simp]:
  "error_answer methodNotAllowed" "error_answer forbidden" "error_answer invalid_request" "error_answer (writeServiceError err)"
  by (simp_all add: methodNotAllowed_def forbidden_def invalid_request_def writeServiceError_def)

text \<open>What is published and saved, without the flag that a token is configured.\<close>

definition same_publication :: "service \<Rightarrow> service \<Rightarrow> bool" where
  "same_publication s t \<longleftrightarrow>
     sv_manifest s = sv_manifest t \<and> sv_stored s = sv_stored t \<and> sv_savedItemCount s = sv_savedItemCount t"

lemma same_publication_simps [simp]:
  "same_publication s s" "same_publication (markTokenConfigured s) t = same_publication s t"
  "same_publication s (markTokenConfigured t) = same_publication s t"
  by (simp_all add: same_publication_def markTokenConfigured_def)

lemma AuthorizeSetup_same: "same_publication (snd (AuthorizeSetup sessionFor loads supplied session bootstrap s)) s"
  by (auto simp: AuthorizeSetup_def Let_def split: option.splits)

end
