(* ===== verification/Console_Server.thy ===== *)
theory Console_Server
  imports Server_Handler Console_Format
begin

text \<open>
  The console and the server together: a request of the console's client is given to the server's
  handler, and the handler's answer to the client. What the page sends is what the server
  publishes, and what it publishes is what the page shows.
\<close>

section \<open>The network between them\<close>

text \<open>A request of the page: the page is served on a loopback address, and the browser adds its origin to all but a
  \<open>GET\<close>.\<close>

definition header_value :: "http_request \<Rightarrow> string \<Rightarrow> gostring" where
  "header_value rq name = (case map_of (rq_headers rq) name of None \<Rightarrow> [] | Some t \<Rightarrow> decode_text t)"

definition from_page :: "nat \<Rightarrow> http_request \<Rightarrow> wire_request" where
  "from_page bytes rq =
     \<lparr>wr_method = rq_method rq, wr_loopbackHost = True, wr_hasOrigin = (rq_method rq \<noteq> ''GET''), wr_validLoopbackOrigin = True,
      wr_csrf = header_value rq ''X-BlackPearl-CSRF'', wr_session = header_value rq ''X-BlackPearl-Session'',
      wr_bootstrap = header_value rq ''X-BlackPearl-Bootstrap'', wr_bytes = bytes, wr_body = rq_body rq\<rparr>"

definition to_page :: "wire_response \<Rightarrow> http_response" where
  "to_page r = \<lparr>rs_ok = (200 \<le> ws_code r \<and> ws_code r < 300),
     rs_header = (\<lambda>h. if h = ''X-BlackPearl-Session'' then map_option utf16 (ws_session r) else None),
     rs_body = Some (ws_json r)\<rparr>"

section \<open>The body of a publication\<close>

definition number_int :: "number \<Rightarrow> int" where
  "number_int n = (case n of Fin q \<Rightarrow> \<lfloor>q\<rfloor> | _ \<Rightarrow> 0)"

definition server_item :: "apply_item \<Rightarrow> item_request" where
  "server_item i =
     \<lparr>iq_objectId = decode_text (ai_objectId i), iq_mediaType = lit (media_type_string (ai_mediaType i)),
      iq_title = decode_text (ai_title i), iq_year = number_int (ai_year i),
      iq_showTitle = (case ai_showTitle i of None \<Rightarrow> [] | Some t \<Rightarrow> decode_text t),
      iq_season = (case ai_season i of None \<Rightarrow> 0 | Some n \<Rightarrow> number_int n),
      iq_episode = (case ai_episode i of None \<Rightarrow> 0 | Some n \<Rightarrow> number_int n)\<rparr>"

text \<open>A number that the console has checked is decoded as the integer it is.\<close>

lemma int_field_range:
  assumes "in_range lo hi n" "- (2 ^ 63) \<le> lo" "hi < 2 ^ 63"
  shows "int_field (json_number n) previous = Some (number_int n)"
    "lo \<le> number_int n" "number_int n \<le> hi" "n = Fin (of_int (number_int n))"
  using assms by (auto simp: in_range_iff int_field_def json_number_def decode_int_def number_int_def)

lemma text_field_simps [simp]:
  "text_field (JString s) previous = Some (decode_text s)" "text_field (json_str t) previous = Some (lit t)"
  by (simp_all add: text_field_def json_str_def)

lemma decode_item:
  assumes "wf_apply_item i"
  shows "decode_struct set_item_field zero_item (json_apply_item i) = Some (server_item i)"
proof -
  have y: "int_field (json_number (ai_year i)) p = Some (number_int (ai_year i))" for p
    using assms by (intro int_field_range [of 1888 2100]) (simp_all add: wf_apply_item_def)
  show ?thesis
  proof (cases "ai_mediaType i")
    case Movie
    then have "ai_showTitle i = None" "ai_season i = None" "ai_episode i = None"
      using assms by (simp_all add: wf_apply_item_def)
    then show ?thesis
      by (simp add: decode_struct_def json_apply_item_def obj_def set_item_field_def key_simps zero_item_def server_item_def y Movie
          del: js_simps_list)
  next
    case Episode
    then obtain t n e where o1: "ai_showTitle i = Some t" "ai_season i = Some n" "ai_episode i = Some e"
      and "in_range 0 99 n" "in_range 1 999 e"
      using assms by (auto simp: wf_apply_item_def split: option.splits)
    then have "int_field (json_number n) p = Some (number_int n)" "int_field (json_number e) p = Some (number_int e)" for p
      by (auto intro: int_field_range)
    then show ?thesis
      by (simp add: decode_struct_def json_apply_item_def obj_def set_item_field_def key_simps zero_item_def server_item_def y
          Episode o1 del: js_simps_list)
  qed
qed

definition server_request :: "apply_input \<Rightarrow> apply_request" where
  "server_request input =
     \<lparr>aq_token = (case in_token input of None \<Rightarrow> [] | Some t \<Rightarrow> decode_text t), aq_items = map server_item (in_items input),
      aq_objectId = [], aq_title = [], aq_year = 0\<rparr>"

lemma decode_items:
  "list_all wf_apply_item items \<Longrightarrow> those (map (decode_struct set_item_field zero_item \<circ> json_apply_item) items) = Some (map server_item items)"
  by (induction items) (simp_all add: decode_item)

lemma decode_request:
  assumes "list_all wf_apply_item (in_items input)"
  shows "decode_struct set_request_field zero_request (json_apply_input input) = Some (server_request input)"
  using decode_items [OF assms]
  by (cases "in_token input")
    (simp_all add: decode_struct_def json_apply_input_def obj_def set_request_field_def key_simps decode_items_def zero_request_def
      server_request_def del: js_simps_list)

section \<open>What the page shows\<close>

text \<open>An item as it comes back: the titles trimmed, and a season of zero left out.\<close>

definition shown :: "apply_item \<Rightarrow> setup_configuration \<Rightarrow> bool" where
  "shown i c \<longleftrightarrow> sc_objectId c = ai_objectId i \<and> sc_mediaType c = ai_mediaType i \<and> sc_year c = ai_year i
     \<and> sc_title c = utf16 (TrimSpace (decode_text (ai_title i)))
     \<and> (case ai_mediaType i of
          Movie \<Rightarrow> sc_showTitle c = None \<and> sc_season c = None \<and> sc_episode c = None
        | Episode \<Rightarrow> sc_showTitle c = map_option (\<lambda>t. utf16 (TrimSpace (decode_text t))) (ai_showTitle i)
            \<and> sc_season c = (if ai_season i = Some (Fin 0) then None else ai_season i)
            \<and> sc_episode c = ai_episode i)"

lemma to_double_range:
  assumes "in_range lo hi n" "- (2 ^ 53) < lo" "hi < 2 ^ 53"
  shows "to_double (of_int (number_int n)) = n"
proof -
  have "lo \<le> number_int n" "number_int n \<le> hi" "n = Fin (of_int (number_int n))"
    using int_field_range [OF assms(1)] assms(2,3) by simp_all
  moreover from this(1,2) assms(2,3) have "safe_integer (number_int n)" by (intro safe_integer_range)
  ultimately show ?thesis using to_double_safe_integer by metis
qed

lemma published_shown:
  assumes "wf_apply_item i" "well_formed_text (ai_objectId i)" "publishes (server_item i) c" "valid_configuration c"
  shows "shown i (received c)"
proof -
  have year: "to_double (of_int (number_int (ai_year i))) = ai_year i"
    using assms(1) by (intro to_double_range [of 1888 2100]) (simp_all add: wf_apply_item_def)
  have common: "gc_objectId c = decode_text (ai_objectId i)" "gc_title c = TrimSpace (decode_text (ai_title i))"
    "gc_year c = number_int (ai_year i)"
    using assms(3) by (simp_all add: publishes_def server_item_def)
  show ?thesis
  proof (cases "ai_mediaType i")
    case Movie
    then have "gc_mediaType c = lit ''movie''" using assms(3) by (simp add: publishes_def server_item_def)
    with assms(4) have "gc_showTitle c = []" "gc_season c = 0" "gc_episode c = 0" "gc_mediaType c = lit ''movie''"
      by (auto simp: valid_configuration_def valid_titles_def)
    with Movie common year assms(2) show ?thesis
      by (simp add: shown_def received_def utf16_decode_text)
  next
    case Episode
    then obtain t n e where o1: "ai_showTitle i = Some t" "ai_season i = Some n" "ai_episode i = Some e"
      and r: "in_range 0 99 n" "in_range 1 999 e"
      using assms(1) by (auto simp: wf_apply_item_def split: option.splits)
    have c: "gc_mediaType c = lit ''episode''" "gc_showTitle c = TrimSpace (decode_text t)" "gc_season c = number_int n"
      "gc_episode c = number_int e"
      using assms(3) Episode o1 by (simp_all add: publishes_def server_item_def)
    have "gc_showTitle c \<noteq> []"
      using assms(4) c(1) by (auto simp: valid_configuration_def valid_titles_def dest: validateTitle_plain(2))
    moreover have "to_double (of_int (number_int n)) = n" "to_double (of_int (number_int e)) = e"
      using r to_double_range by simp_all
    moreover have "number_int n = 0 \<longleftrightarrow> n = Fin 0" "number_int e \<noteq> 0"
      using int_field_range [OF r(1)] int_field_range [OF r(2)] by (auto simp: number_int_def)
    ultimately show ?thesis
      using Episode common year assms(2) c o1 by (simp add: shown_def received_def utf16_decode_text)
  qed
qed

section \<open>A publication from the page to the server and back\<close>

lemma error_reaches_page:
  assumes "error_answer r"
  shows "\<exists>code message. applyConfiguration (\<lambda>_. Some (to_page r)) input csrf auth = Inl (SetupAPIError code message)"
proof -
  obtain status code message where r: "r = writeError status code message" and status: "400 \<le> status"
    using assms by (auto simp: error_answer_def)
  let ?v = "obj [(''code'', Some (json_str code)), (''message'', Some (json_str message))]"
  have "isRecord ?v" "property ?v ''code'' = Some (JString (js code))" "property ?v ''message'' = Some (JString (js message))"
    by (simp_all add: property_obj json_str_def)
  with status show ?thesis
    by (simp add: r applyConfiguration_def perform_def deliver_def applyConfiguration_response_def with_session_def readJSON_def
        to_page_def writeError_def isErrorEnvelope_def)
qed

definition hex_sessions :: "(gostring \<Rightarrow> gostring) \<Rightarrow> bool" where
  "hex_sessions sessionFor \<longleftrightarrow> (\<forall>t. length (sessionFor t) = 64 \<and> list_all is_hex_rune (sessionFor t))"

text \<open>The handler either refuses and changes nothing, or publishes and issues the session of the saved token.\<close>

lemma serveConfiguration_cases:
  assumes "serveConfiguration sessionFor csrf o1 rq s = (r, s')" "atomic_commit (ro_commit o1)" "ro_issue_loads o1"
  obtains (refused) "error_answer r" "same_publication s' s"
  | (published) input m s1 s2 token where "decodeJSON (decode_struct set_request_field zero_request) rq = Some input"
      "Apply (ro_loads o1) (ro_discovery o1) (ro_commit o1) input s1 = (Inr m, s2)"
      "sv_stored s' = Some (token, m)" "sv_manifest s' = Some m"
      "r = \<lparr>ws_code = 200, ws_session = Some (sessionFor token),
          ws_json = obj [(''selected'', Some (marshal_configuration (hd m))),
                         (''selectedItems'', Some (JArray (map marshal_configuration m)))]\<rparr>"
proof -
  show thesis
  proof (cases "wr_method rq \<noteq> ''PUT'' \<or> \<not> authorizeBrowser csrf rq
      \<or> decodeJSON (decode_struct set_request_field zero_request) rq = None")
    case True
    with assms(1) have "s' = s" "error_answer r"
      by (auto simp: serveConfiguration_def split: if_splits)
    then show ?thesis by (intro refused) simp_all
  next
    case False
    then obtain input where input: "decodeJSON (decode_struct set_request_field zero_request) rq = Some input" by auto
    obtain err s1 where a: "AuthorizeSetup sessionFor (ro_authorize_loads o1) (aq_token input) (wr_session rq)
        (wr_bootstrap rq) s = (err, s1)" by force
    have s1: "same_publication s1 s" using AuthorizeSetup_same a by (metis snd_conv)
    obtain result s2 where ap: "Apply (ro_loads o1) (ro_discovery o1) (ro_commit o1) input s1 = (result, s2)" by force
    note outcome = apply_effect [OF ap assms(2)]
    note step = assms(1) [unfolded serveConfiguration_def, simplified False input if_False simp_thms a prod.case option.case]
    show ?thesis
    proof (cases "err \<noteq> []")
      case True
      then have "r = writeServiceError err" "s' = s1" using step False by auto
      with s1 show ?thesis by (intro refused) simp_all
    next
      case ok: False
      show ?thesis
      proof (cases result)
        case (Inl e)
        then have "r = writeServiceError [e]" "s' = s2" using step False ok ap by auto
        moreover have "same_publication s2 s" using outcome Inl s1 by (simp add: same_publication_def)
        ultimately show ?thesis by (intro refused) simp_all
      next
        case (Inr m)
        then obtain token where t: "sv_stored s2 = Some (token, m)" "sv_manifest s2 = Some m" using outcome by auto
        have "IssueSession sessionFor True [] s2 = (Inr (sessionFor token), markTokenConfigured s2)"
          using t(1) by (simp add: IssueSession_def resolveToken_def)
        with step False ok ap Inr assms(3) have "s' = markTokenConfigured s2"
          "r = \<lparr>ws_code = 200, ws_session = Some (sessionFor token),
            ws_json = obj [(''selected'', Some (marshal_configuration (hd m))),
                           (''selectedItems'', Some (JArray (map marshal_configuration m)))]\<rparr>"
          by auto
        with t input ap Inr show ?thesis by (intro published) (auto simp: markTokenConfigured_def)
      qed
    qed
  qed
qed

lemma decode_text_hex: "list_all is_hex_rune s \<Longrightarrow> decode_text (utf16 s) = s"
proof (induction s)
  case (Cons r s)
  then have r: "48 \<le> r" "r \<le> 102" "utf16_units r = [of_nat r]" using hex_rune_unit [of r] by (auto simp: is_hex_rune_def)
  then have "unat (of_nat r :: code_unit) = r" by (simp add: unat_of_nat)
  with r Cons show ?case by (simp add: utf16_Cons is_low_surrogate_def is_high_surrogate_def)
qed simp

lemma published_envelope:
  assumes "valid_manifest m"
  defines "v \<equiv> obj [(''selected'', Some (marshal_configuration (hd m))), (''selectedItems'', Some (JArray (map marshal_configuration m)))]"
  shows "isSelectionEnvelope v" "ar_selectedItems (as_apply_result v) = map received m"
proof -
  have m: "m \<noteq> []" "\<And>c. c \<in> set m \<Longrightarrow> valid_configuration c" using assms(1) by (auto simp: valid_manifest_def list_all_iff)
  then show "isSelectionEnvelope v" "ar_selectedItems (as_apply_result v) = map received m"
    by (auto simp: v_def isSelectionEnvelope_def as_apply_result_def property_obj list_all_iff valid_configuration_received)
qed

text \<open>
  C2. A publication works from the page to the server and back: when the console sends a manifest that its
  form has checked, then whatever the provider and the runtime do and whatever single fault the transaction meets,
  and provided that the saved token can be read back to issue the session, either the console is shown an
  error and the server's manifest is what it was, or the server has saved and activated one manifest and
  the console shows it, one item for each item sent, in order, with the same object, kind, year and
  coordinates and the trimmed titles, and holds a session that authorizes it. Only a season of zero is
  shown as absent.
\<close>

theorem console_publishes_end_to_end:
  assumes "list_all wf_apply_item (in_items input)" "list_all (\<lambda>i. well_formed_text (ai_objectId i)) (in_items input)"
    "hex_sessions sessionFor" "atomic_commit (ro_commit o1)" "ro_issue_loads o1"
    "serveConfiguration sessionFor csrf o1 (from_page bytes (applyConfiguration_request input csrfToken auth)) s = (r, s')"
  shows "case applyConfiguration (\<lambda>_. Some (to_page r)) input csrfToken auth of
      Inl err \<Rightarrow> (\<exists>code message. err = SetupAPIError code message) \<and> same_publication s' s
    | Inr (result, session) \<Rightarrow> (\<exists>token m. sv_stored s' = Some (token, m) \<and> sv_manifest s' = Some m
        \<and> ar_selectedItems result = map received m \<and> list_all2 shown (in_items input) (ar_selectedItems result)
        \<and> fst (AuthorizeSetup sessionFor True [] (decode_text session) [] s') = [])"
  using assms(6,4,5)
proof (cases rule: serveConfiguration_cases)
  case refused
  obtain code message where "applyConfiguration (\<lambda>_. Some (to_page r)) input csrfToken auth = Inl (SetupAPIError code message)"
    using error_reaches_page [OF refused(1)] by blast
  with refused(2) show ?thesis by simp
next
  case (published request m s1 s2 token)
  have "request = server_request input"
    using published(1) decode_request [OF assms(1)]
    by (auto simp: decodeJSON_def from_page_def applyConfiguration_request_def paired_request_def split: if_splits)
  moreover have m: "valid_manifest m" using published(2) assms(4) by (rule Apply_valid_manifest)
  ultimately have items: "list_all2 publishes (map server_item (in_items input)) m"
    using apply_effect [OF published(2) assms(4)] by (auto simp: itemRequests_def server_request_def split: if_splits)
  have valid: "valid_configuration c" if "c \<in> set m" for c using m that by (simp add: valid_manifest_def list_all_iff)
  have "list_all2 shown (in_items input) (map received m)"
    using items assms(1,2) valid
    by (auto simp: list_all2_conv_all_nth list_all_length intro!: published_shown)
  moreover have session: "hex_string 64 (utf16 (sessionFor token))" "decode_text (utf16 (sessionFor token)) = sessionFor token"
    using assms(3) hex_runes_string [of "sessionFor token"] decode_text_hex [of "sessionFor token"]
    by (auto simp: hex_sessions_def)
  moreover obtain result where result:
    "applyConfiguration (\<lambda>_. Some (to_page r)) input csrfToken auth = Inr (result, utf16 (sessionFor token))"
    "ar_selectedItems result = map received m"
    using published_envelope [OF m] session(1)
    by (auto simp: published(5) to_page_def applyConfiguration_def perform_def deliver_def applyConfiguration_response_def
        with_session_Inr_iff readJSON_Inr_iff readSession_Inr_iff)
  moreover have "fst (AuthorizeSetup sessionFor True [] (sessionFor token) [] s') = []"
    using published(3) by (simp add: AuthorizeSetup_def Let_def)
  ultimately show ?thesis using published(3,4) by simp
qed

definition page_input :: apply_input where
  "page_input = \<lparr>in_token = Some (js ''key''), in_items = [\<lparr>ai_objectId = js ''7:1'', ai_mediaType = Episode, ai_title = js ''Pilot'',
     ai_year = Fin 2005, ai_showTitle = Some (js ''Who''), ai_season = Some (Fin 2), ai_episode = Some (Fin 1)\<rparr>]\<rparr>"

definition page_auth :: setup_authorization where
  "page_auth = \<lparr>auth_session = None, auth_bootstrap = Some (js ''pair'')\<rparr>"

definition smooth :: request_outcomes where
  "smooth = \<lparr>ro_authorize_loads = True, ro_loads = True, ro_discovery = Discovered [listed_candidate], ro_commit = no_faults,
     ro_issue_loads = True\<rparr>"

lemma page_input_checked:
  "list_all wf_apply_item (in_items page_input)" "list_all (\<lambda>i. well_formed_text (ai_objectId i)) (in_items page_input)"
  "server_request page_input = sample_request"
proof -
  have "\<not> is_space_cu (cu CHR ''P'')" "\<not> is_space_cu (cu CHR ''W'')" by (simp_all add: is_space_cu_def unat_cu)
  then show "list_all wf_apply_item (in_items page_input)"
    by (simp add: page_input_def wf_apply_item_def trim_empty_iff in_range_def isInteger_def)
  show "list_all (\<lambda>i. well_formed_text (ai_objectId i)) (in_items page_input)"
    by (simp add: page_input_def is_low_surrogate_def is_high_surrogate_def unat_cu)
  show "server_request page_input = sample_request"
    by (simp add: server_request_def page_input_def server_item_def sample_request_def number_int_def del: js_simps_list)
qed

lemma page_input_published:
  "sv_manifest (snd (serveConfiguration sessionFor (lit ''c5'') smooth
     (from_page 200 (applyConfiguration_request page_input (js ''c5'') page_auth)) (service_start (lit ''pair'') None)))
   = Some [sample_item]"
proof -
  let ?rq = "from_page 200 (applyConfiguration_request page_input (js ''c5'') page_auth)" and ?s = "service_start (lit ''pair'') None"
  have rq: "wr_method ?rq = ''PUT''" "authorizeBrowser (lit ''c5'') ?rq" "wr_bootstrap ?rq = lit ''pair''"
    "decodeJSON (decode_struct set_request_field zero_request) ?rq = Some sample_request"
    using decode_request [OF page_input_checked(1)]
    by (simp_all add: from_page_def applyConfiguration_request_def paired_request_def authorizeBrowser_def authorizeBrowserRead_def
        header_value_def mutationHeaders_def header_if_def page_auth_def decodeJSON_def maximumRequestBytes_def
        page_input_checked(3) del: js_simps_list) (simp add: js_def)
  have "AuthorizeSetup sessionFor True (lit ''key'') session (lit ''pair'') ?s = ([], ?s)" for session
    by (simp add: AuthorizeSetup_def service_start_def validBootstrap_def)
  with rq show ?thesis
    by (simp add: serveConfiguration_def smooth_def sample_item_requests sample_apply IssueSession_def resolveToken_def
        markTokenConfigured_def setStatus_def)
qed

theorem console_publishes_end_to_end_witness:
  "\<exists>result session. applyConfiguration (\<lambda>_. Some (to_page (fst (serveConfiguration (\<lambda>_. replicate 64 97) (lit ''c5'') smooth
        (from_page 200 (applyConfiguration_request page_input (js ''c5'') page_auth)) (service_start (lit ''pair'') None)))))
      page_input (js ''c5'') page_auth = Inr (result, session)
    \<and> list_all2 shown (in_items page_input) (ar_selectedItems result)"
proof -
  let ?sf = "\<lambda>_. replicate 64 97" and ?s = "service_start (lit ''pair'') None"
  let ?run = "serveConfiguration ?sf (lit ''c5'') smooth
    (from_page 200 (applyConfiguration_request page_input (js ''c5'') page_auth)) ?s"
  let ?answer = "applyConfiguration (\<lambda>_. Some (to_page (fst ?run))) page_input (js ''c5'') page_auth"
  have "hex_sessions ?sf" by (simp add: hex_sessions_def list_all_iff is_hex_rune_def)
  moreover have "atomic_commit (ro_commit smooth)" "ro_issue_loads smooth" by (simp_all add: smooth_def)
  ultimately have run: "case ?answer of
      Inl err \<Rightarrow> (\<exists>code message. err = SetupAPIError code message) \<and> same_publication (snd ?run) ?s
    | Inr (result, session) \<Rightarrow> (\<exists>token m. sv_stored (snd ?run) = Some (token, m) \<and> sv_manifest (snd ?run) = Some m
        \<and> ar_selectedItems result = map received m \<and> list_all2 shown (in_items page_input) (ar_selectedItems result)
        \<and> fst (AuthorizeSetup ?sf True [] (decode_text session) [] (snd ?run)) = [])"
    using page_input_checked(1,2) by (intro console_publishes_end_to_end [where csrf = "lit ''c5''"]) (simp_all only: prod.collapse)
  have "\<not> same_publication (snd ?run) ?s"
    unfolding same_publication_def page_input_published by (simp add: service_start_def)
  with run show ?thesis by (auto simp del: js_simps_list split: sum.splits prod.splits)
qed

end
