(* ===== verification/Server_Time.thy ===== *)
theory Server_Time
  imports Server_Wire
begin

text \<open>
  Instants and their form in JSON: \<open>time.Time\<close> as the server uses it, with \<open>UnixMilli\<close> for the columns of the databases
  and \<open>time.RFC3339Nano\<close> for the answers.
\<close>

section \<open>Instants\<close>

text \<open>An instant is its distance from the Unix epoch in nanoseconds; the zero \<open>time.Time\<close> is the start of the year 1.\<close>

type_synonym instant = int

definition zero_time :: instant where
  "zero_time = - 62135596800 * 10 ^ 9"

definition UnixMilli :: "instant \<Rightarrow> int" where
  "UnixMilli t = t div 10 ^ 6"

text \<open>\<open>time.UnixMilli\<close>, the instant of a number of milliseconds.\<close>

definition from_millis :: "int \<Rightarrow> instant" where
  "from_millis ms = ms * 10 ^ 6"

lemma UnixMilli_from_millis [simp]: "UnixMilli (from_millis ms) = ms"
  by (simp add: UnixMilli_def from_millis_def)

lemma UnixMilli_mono: "t \<le> u \<Longrightarrow> UnixMilli t \<le> UnixMilli u"
  by (simp add: UnixMilli_def zdiv_mono1)

section \<open>Civil time\<close>

text \<open>The civil date of a day counted from the epoch, in the proleptic Gregorian calendar.\<close>

definition civil_date :: "int \<Rightarrow> int \<times> int \<times> int" where
  "civil_date days =
     (let z = days + 719468; era = z div 146097; doe = z mod 146097;
          yoe = (doe - doe div 1460 + doe div 36524 - doe div 146096) div 365;
          doy = doe - (365 * yoe + yoe div 4 - yoe div 100);
          mp = (5 * doy + 2) div 153; d = doy - (153 * mp + 2) div 5 + 1;
          m = (if mp < 10 then mp + 3 else mp - 9)
      in (yoe + era * 400 + (if m \<le> 2 then 1 else 0), m, d))"

text \<open>The epoch, the first day of the calendar, and the two sides of a leap day in a century that has one.\<close>

lemma civil_date_samples:
  "civil_date 0 = (1970, 1, 1)" "civil_date (- 719162) = (1, 1, 1)" "civil_date 11016 = (2000, 2, 29)"
  "civil_date 11017 = (2000, 3, 1)" "civil_date 47540 = (2100, 2, 28)" "civil_date 47541 = (2100, 3, 1)"
  by code_simp+

record go_time =
  t_year :: nat
  t_month :: nat
  t_day :: nat
  t_hour :: nat
  t_minute :: nat
  t_second :: nat
  t_nanosecond :: nat

definition civil_time :: "instant \<Rightarrow> go_time" where
  "civil_time t =
     (let secs = t div 10 ^ 9; sod = secs mod 86400; (y, m, d) = civil_date (secs div 86400)
      in \<lparr>t_year = nat y, t_month = nat m, t_day = nat d, t_hour = nat (sod div 3600), t_minute = nat (sod mod 3600 div 60),
          t_second = nat (sod mod 60), t_nanosecond = nat (t mod 10 ^ 9)\<rparr>)"

text \<open>\<open>time.RFC3339Nano\<close>: the fraction without trailing zeros, and none at a whole second.\<close>

definition padded :: "nat \<Rightarrow> nat \<Rightarrow> jsstring" where
  "padded k n = padStart k (cu CHR ''0'') (nat_to_string n)"

definition rfc3339nano :: "go_time \<Rightarrow> jsstring" where
  "rfc3339nano t =
     padded 4 (t_year t) @ js ''-'' @ padded 2 (t_month t) @ js ''-'' @ padded 2 (t_day t) @ js ''T''
     @ padded 2 (t_hour t) @ js '':'' @ padded 2 (t_minute t) @ js '':'' @ padded 2 (t_second t)
     @ (if t_nanosecond t = 0 then []
        else js ''.'' @ rev (dropWhile (\<lambda>c. c = cu CHR ''0'') (rev (padded 9 (t_nanosecond t)))))
     @ js ''Z''"

text \<open>\<open>time.Time.MarshalJSON\<close>, which refuses a year that has not four digits.\<close>

definition marshal_time :: "instant \<Rightarrow> json option" where
  "marshal_time t =
     (let y = fst (civil_date (t div 10 ^ 9 div 86400)) in
      if y < 0 \<or> 9999 < y then None else Some (JString (rfc3339nano (civil_time t))))"

text \<open>A time that reaches the console, where \<open>Date.parse\<close> reads it.\<close>

definition readable :: "(jsstring \<Rightarrow> bool) \<Rightarrow> instant \<Rightarrow> bool" where
  "readable dateFinite t \<longleftrightarrow> marshal_time t \<noteq> None \<and> dateFinite (rfc3339nano (civil_time t))"

lemma readable_marshal: "readable dateFinite t \<Longrightarrow> marshal_time t = Some (JString (rfc3339nano (civil_time t)))"
  by (auto simp: readable_def marshal_time_def Let_def split: if_splits)

lemma marshal_time_Some: "marshal_time t = Some v \<Longrightarrow> v = JString (rfc3339nano (civil_time t))"
  by (auto simp: marshal_time_def Let_def split: if_splits)

end
