(* ===== verification/Server_Jobs.thy ===== *)
theory Server_Jobs
  imports Server_Intent Server_Time
begin

text \<open>
  Background jobs on the server: the job snapshot of \<open>internal/acquisition/job.go\<close>, which every job that is stored or loaded passes
  through, and the answers of \<open>internal/handler/setup/acquisition_jobs.go\<close>. The validation of a release
  selection and of a provider object, which the answers do not show, are arguments: what is proved
  holds whatever they accept.
\<close>

section \<open>Job snapshots\<close>

datatype snapshot_error =
    InvalidId | InvalidRequest intent_error | NegativeAttempt | ProgressRange | InvalidTimestamps
  | UnsupportedErrorCode | InvalidSelection | InvalidCreatedObject | InvalidPublishedObject
  | InvalidStage | InvalidOrdinal | InvalidProvenance

record ('sel, 'obj) job_snapshot =
  js_id :: gostring
  js_request :: search_request
  js_state :: gostring
  js_selection :: "'sel option"
  js_createdObject :: "'obj option"
  js_ordinal :: "int option"
  js_createdByJob :: bool
  js_publishedObjectID :: gostring
  js_errorCode :: gostring
  js_attempt :: int
  js_progress :: int
  js_createdAt :: instant
  js_updatedAt :: instant

text \<open>\<open>^[0-9a-f]{32}$\<close>; the dollar of a Go pattern matches at the end of the text only.\<close>

definition jobIDPattern :: "gostring \<Rightarrow> bool" where
  "jobIDPattern s \<longleftrightarrow> length s = 32 \<and> list_all is_hex_rune s"

definition validateJobErrorCode :: "gostring \<Rightarrow> bool" where
  "validateJobErrorCode code \<longleftrightarrow> code \<in> set (map lit
     ['''', ''provider_unavailable'', ''unauthorized'', ''no_release'', ''no_playable_media'',
      ''materialization_failed'', ''stalled'', ''ambiguous_mutation''])"

text \<open>\<open>validateJobSelection\<close> and \<open>validateJobCreatedObject\<close>: nothing to check, a refusal, or a checked copy.\<close>

definition validate_optional :: "('a \<Rightarrow> 'a option) \<Rightarrow> 'e \<Rightarrow> 'a option \<Rightarrow> 'e + 'a option" where
  "validate_optional validate refusal v =
     (case v of None \<Rightarrow> Inr None
      | Some x \<Rightarrow> (case validate x of None \<Rightarrow> Inl refusal | Some y \<Rightarrow> Inr (Some y)))"

definition validateOptionalPublishedObjectID :: "gostring \<Rightarrow> snapshot_error + gostring" where
  "validateOptionalPublishedObjectID value =
     (if value = [] then Inr []
      else if list_ex is_control_rune value then Inl InvalidPublishedObject
      else let clean = TrimSpace value in
        if clean = [] \<or> clean \<noteq> value then Inl InvalidPublishedObject
        else if 512 < go_len clean then Inl InvalidPublishedObject
        else Inr clean)"

definition validateJobStage ::
  "gostring \<Rightarrow> bool \<Rightarrow> bool \<Rightarrow> gostring \<Rightarrow> gostring \<Rightarrow> int \<Rightarrow> bool" where
  "validateJobStage state hasSelection hasCreated published code progress =
     (if state = lit ''queued'' then \<not> (hasSelection \<or> hasCreated \<or> published \<noteq> [] \<or> progress \<noteq> 0)
      else if state = lit ''selected'' then \<not> (\<not> hasSelection \<or> hasCreated \<or> published \<noteq> [] \<or> progress \<noteq> 0)
      else if state = lit ''preparing''
      then \<not> (\<not> hasSelection \<or> \<not> hasCreated \<or> published \<noteq> [] \<or> 100 \<le> progress)
      else if state = lit ''succeeded''
      then \<not> (\<not> hasSelection \<or> \<not> hasCreated \<or> published = [] \<or> progress \<noteq> 100 \<or> code \<noteq> lit '''')
      else if state = lit ''failed'' then \<not> (published \<noteq> [] \<or> code = lit '''')
      else if state = lit ''manual_review'' then \<not> (published \<noteq> [] \<or> code \<noteq> lit ''ambiguous_mutation'')
      else False)"

definition maximumJobCandidates :: int where
  "maximumJobCandidates = 5"

definition validateSelectedCandidateOrdinal :: "gostring \<Rightarrow> bool \<Rightarrow> int option \<Rightarrow> bool" where
  "validateSelectedCandidateOrdinal state hasSelection ordinal =
     (case ordinal of None \<Rightarrow> True
      | Some n \<Rightarrow> \<not> (n < 0 \<or> maximumJobCandidates \<le> n) \<and> hasSelection
          \<and> state \<in> set (map lit [''selected'', ''preparing'', ''succeeded'', ''manual_review'']))"

definition validateCreatedByJob :: "gostring \<Rightarrow> bool \<Rightarrow> bool \<Rightarrow> bool" where
  "validateCreatedByJob state hasCreated createdByJob =
     (if \<not> createdByJob then True
      else hasCreated \<and> state \<in> set (map lit [''preparing'', ''succeeded'', ''manual_review'']))"

definition NewAcquisitionJobSnapshot ::
  "('sel \<Rightarrow> 'sel option) \<Rightarrow> ('obj \<Rightarrow> 'obj option) \<Rightarrow> ('sel, 'obj) job_snapshot
   \<Rightarrow> snapshot_error + ('sel, 'obj) job_snapshot" where
  "NewAcquisitionJobSnapshot cloneSelection newCreatedObject input =
     bind_result (refuse_unless (jobIDPattern (js_id input)) InvalidId) (\<lambda>_.
     bind_result (case validateSearchRequest (js_request input) of
                    Inl e \<Rightarrow> Inl (InvalidRequest e) | Inr r \<Rightarrow> Inr r) (\<lambda>request.
     bind_result (refuse_unless (\<not> js_attempt input < 0) NegativeAttempt) (\<lambda>_.
     bind_result (refuse_unless (\<not> (js_progress input < 0 \<or> 100 < js_progress input)) ProgressRange) (\<lambda>_.
     bind_result (refuse_unless (\<not> (js_createdAt input = zero_time \<or> js_updatedAt input = zero_time
         \<or> js_updatedAt input < js_createdAt input)) InvalidTimestamps) (\<lambda>_.
     bind_result (refuse_unless (validateJobErrorCode (js_errorCode input)) UnsupportedErrorCode) (\<lambda>_.
     bind_result (validate_optional cloneSelection InvalidSelection (js_selection input)) (\<lambda>selection.
     bind_result (validate_optional newCreatedObject InvalidCreatedObject (js_createdObject input)) (\<lambda>created.
     bind_result (validateOptionalPublishedObjectID (js_publishedObjectID input)) (\<lambda>published.
     bind_result (refuse_unless (validateJobStage (js_state input) (selection \<noteq> None) (created \<noteq> None)
         published (js_errorCode input) (js_progress input)) InvalidStage) (\<lambda>_.
     bind_result (refuse_unless (validateSelectedCandidateOrdinal (js_state input) (selection \<noteq> None)
         (js_ordinal input)) InvalidOrdinal) (\<lambda>_.
     bind_result (refuse_unless (validateCreatedByJob (js_state input) (created \<noteq> None)
         (js_createdByJob input)) InvalidProvenance) (\<lambda>_.
     Inr (input\<lparr>js_request := request, js_selection := selection, js_createdObject := created,
                js_publishedObjectID := published\<rparr>)))))))))))))"

section \<open>Answers\<close>

text \<open>
  \<open>newAcquisitionJobResponse\<close> as it is written: a season or an episode of zero is left out, and a time that
  \<open>encoding/json\<close> refuses makes the whole answer fail.
\<close>

definition job_object :: "json \<Rightarrow> json \<Rightarrow> ('sel, 'obj) job_snapshot \<Rightarrow> json" where
  "job_object createdAt updatedAt job = obj [
     (''id'', Some (json_text (js_id job))),
     (''state'', Some (json_text (js_state job))),
     (''mediaType'', Some (json_text (sr_mediaType (js_request job)))),
     (''title'', Some (json_text (sr_title (js_request job)))),
     (''year'', Some (json_int (sr_year (js_request job)))),
     (''season'', omit_zero (sr_season (js_request job))),
     (''episode'', omit_zero (sr_episode (js_request job))),
     (''progress'', Some (json_int (js_progress job))),
     (''errorCode'', omit_empty (js_errorCode job)),
     (''createdAt'', Some createdAt),
     (''updatedAt'', Some updatedAt)]"

definition acquisitionJobResponse :: "('sel, 'obj) job_snapshot \<Rightarrow> json option" where
  "acquisitionJobResponse job =
     (case (marshal_time (js_createdAt job), marshal_time (js_updatedAt job)) of
        (Some createdAt, Some updatedAt) \<Rightarrow> Some (job_object createdAt updatedAt job) | _ \<Rightarrow> None)"

definition listAcquisitionJobs_answer :: "('sel, 'obj) job_snapshot list \<Rightarrow> json option" where
  "listAcquisitionJobs_answer jobs =
     map_option (\<lambda>responses. obj [(''jobs'', Some (JArray responses))]) (those (map acquisitionJobResponse jobs))"

definition submitAcquisitionJob_answer :: "('sel, 'obj) job_snapshot \<Rightarrow> bool \<Rightarrow> json option" where
  "submitAcquisitionJob_answer job created =
     map_option (\<lambda>response. obj [(''job'', Some response), (''created'', Some (JBool created))]) (acquisitionJobResponse job)"

section \<open>What a snapshot guarantees\<close>

lemma validateJobStage_state:
  assumes "validateJobStage state hasSelection hasCreated published code progress"
  shows "isAcquisitionJobState (Some (json_text state))"
  using assms
  by (auto simp: validateJobStage_def isAcquisitionJobState_def json_text_def json_str_def
      simp del: js_simps_list split: if_splits)

lemma validateJobErrorCode_error:
  assumes "validateJobErrorCode code"
  shows "omit_empty code = None \<or> isAcquisitionJobError (omit_empty code)"
  using assms
  by (auto simp: validateJobErrorCode_def omit_empty_def isAcquisitionJobError_def json_text_def json_str_def
      simp del: js_simps_list)

lemma jobIDPattern_hex: "jobIDPattern s \<Longrightarrow> hex_string 32 (utf16 s)"
  using hex_runes_string [of s] by (simp add: jobIDPattern_def)

definition wf_snapshot :: "('sel, 'obj) job_snapshot \<Rightarrow> bool" where
  "wf_snapshot job \<longleftrightarrow> jobIDPattern (js_id job) \<and> wf_request (js_request job)
     \<and> 0 \<le> js_progress job \<and> js_progress job \<le> 100 \<and> validateJobErrorCode (js_errorCode job)
     \<and> isAcquisitionJobState (Some (json_text (js_state job)))"

lemma NewAcquisitionJobSnapshot_wf:
  "NewAcquisitionJobSnapshot clone new input = Inr job \<Longrightarrow> wf_snapshot job"
  by (auto simp: NewAcquisitionJobSnapshot_def wf_snapshot_def result_simps
      dest: request_check.result_valid validateJobStage_state split: sum.splits)

section \<open>The console reads the answers\<close>

lemma property_job_object:
  "property (job_object createdAt updatedAt job) k = Option.bind (map_of [
     (''id'', Some (json_text (js_id job))),
     (''state'', Some (json_text (js_state job))),
     (''mediaType'', Some (json_text (sr_mediaType (js_request job)))),
     (''title'', Some (json_text (sr_title (js_request job)))),
     (''year'', Some (json_int (sr_year (js_request job)))),
     (''season'', omit_zero (sr_season (js_request job))),
     (''episode'', omit_zero (sr_episode (js_request job))),
     (''progress'', Some (json_int (js_progress job))),
     (''errorCode'', omit_empty (js_errorCode job)),
     (''createdAt'', Some createdAt),
     (''updatedAt'', Some updatedAt)] k) id"
  unfolding job_object_def by (rule property_obj) simp

text \<open>A number in range reaches the console as itself.\<close>

lemma json_int_in_range:
  assumes "lo \<le> i" "i \<le> hi" "- (2 ^ 53) < lo" "hi < 2 ^ 53"
  shows "is_number (Some (json_int i)) \<and> in_range lo hi (as_number (Some (json_int i)))"
  using assms json_int_safe [OF safe_integer_range [OF assms]] by (auto simp: in_range_iff)

text \<open>An episode of season 0, which Plex calls a special.\<close>

definition special :: "('sel, 'obj) job_snapshot \<Rightarrow> bool" where
  "special job \<longleftrightarrow> sr_mediaType (js_request job) = lit ''episode'' \<and> sr_season (js_request job) = 0"

definition readable_times :: "(jsstring \<Rightarrow> bool) \<Rightarrow> ('sel, 'obj) job_snapshot \<Rightarrow> bool" where
  "readable_times dateFinite job \<longleftrightarrow>
     readable dateFinite (js_createdAt job) \<and> readable dateFinite (js_updatedAt job)"

text \<open>The answer with times that can be read.\<close>

definition readable_object :: "('sel, 'obj) job_snapshot \<Rightarrow> json" where
  "readable_object job =
     job_object (JString (rfc3339nano (civil_time (js_createdAt job)))) (JString (rfc3339nano (civil_time (js_updatedAt job)))) job"

lemma readable_response: "readable_times dateFinite job \<Longrightarrow> acquisitionJobResponse job = Some (readable_object job)"
  by (auto simp: readable_times_def acquisitionJobResponse_def readable_object_def dest!: readable_marshal)

lemma response_accepted_iff:
  assumes "wf_snapshot job" "readable_times dateFinite job"
  shows "isAcquisitionJob dateFinite (readable_object job) \<longleftrightarrow> \<not> special job"
proof -
  let ?r = "js_request job"
  note wf = assms(1) [unfolded wf_snapshot_def wf_request_def]
  have r: "isRecord (readable_object job)" by (simp add: readable_object_def job_object_def)
  have numbers: "is_number (Some (json_int (sr_year ?r)))" "in_range 1888 2100 (as_number (Some (json_int (sr_year ?r))))"
    "is_number (Some (json_int (js_progress job)))" "in_range 0 100 (as_number (Some (json_int (js_progress job))))"
    using json_int_in_range [of 1888 "sr_year ?r" 2100] json_int_in_range [of 0 "js_progress job" 100] wf
    by simp_all
  have title: "1 \<le> length (utf16 (sr_title ?r))" "length (utf16 (sr_title ?r)) \<le> 200"
    using wf length_utf16_le [of "sr_title ?r"] by (auto simp: Suc_le_eq)
  have kind: "json_text (lit ''movie'') = json_str ''movie''" "json_text (lit ''episode'') = json_str ''episode''"
    by (simp_all add: json_text_def json_str_def del: js_simps_list)
  have coordinates: "omit_zero (sr_season ?r) = None \<or> is_number (omit_zero (sr_season ?r))
      \<and> in_range 0 99 (as_number (omit_zero (sr_season ?r)))"
    "sr_mediaType ?r = lit ''episode'' \<Longrightarrow> is_number (omit_zero (sr_episode ?r))
      \<and> in_range 1 999 (as_number (omit_zero (sr_episode ?r)))"
    using json_int_in_range [of 0 "sr_season ?r" 99] json_int_in_range [of 1 "sr_episode ?r" 999] wf
    by (auto simp: omit_zero_def)
  note common = wf r numbers title kind coordinates assms(2) validateJobErrorCode_error [of "js_errorCode job"]
    jobIDPattern_hex [of "js_id job"]
  show ?thesis
  proof (cases "sr_mediaType ?r = lit ''episode''")
    case True
    then show ?thesis
      using common
      by (auto simp: isAcquisitionJob_iff readable_object_def property_job_object special_def readable_times_def readable_def
          json_text_def omit_zero_def)
  next
    case False
    then have "sr_mediaType ?r = lit ''movie''" "sr_season ?r = 0" "sr_episode ?r = 0" using wf by auto
    then show ?thesis
      using common
      by (auto simp: isAcquisitionJob_iff readable_object_def property_job_object special_def readable_times_def readable_def
          json_text_def omit_zero_def)
  qed
qed

text \<open>
  C36. Which answers about background jobs the console accepts: with readable timestamps a list of at
  most 20 stored jobs is accepted exactly when none of them is a special, an episode of season 0, and the
  answer to a submission exactly when its job is not one. The server allows season 0 and so does the form of
  the console, but the answer leaves a zero season out and the guard requires it. So a special is
  submitted and then reported as an error, and one special hides every job.
\<close>

theorem server_jobs_accepted_iff:
  fixes jobs :: "('sel, 'obj) job_snapshot list"
  assumes "list_all2 (\<lambda>input job. NewAcquisitionJobSnapshot clone new input = Inr job) inputs jobs"
    "length jobs \<le> 20" "list_all (readable_times dateFinite) jobs"
  shows "(\<exists>v. listAcquisitionJobs_answer jobs = Some v
      \<and> (isAcquisitionJobList dateFinite v \<longleftrightarrow> list_all (\<lambda>job. \<not> special job) jobs))
    \<and> list_all (\<lambda>job. \<exists>v. submitAcquisitionJob_answer job created = Some v
        \<and> (isAcquisitionJobSubmission dateFinite v \<longleftrightarrow> \<not> special job)) jobs"
proof -
  have "list_all wf_snapshot jobs"
    using assms(1) by (induction rule: list_all2_induct) (auto intro: NewAcquisitionJobSnapshot_wf)
  then have single: "isAcquisitionJob dateFinite (readable_object job) \<longleftrightarrow> \<not> special job" if "job \<in> set jobs" for job
    using that assms(3) by (intro response_accepted_iff) (simp_all add: list_all_iff)
  have answers: "those (map acquisitionJobResponse jobs) = Some (map readable_object jobs)"
    using assms(3) by (induction jobs) (simp_all add: readable_response [of dateFinite])
  let ?v = "obj [(''jobs'', Some (JArray (map readable_object jobs)))]"
  have "isRecord ?v" "property ?v ''jobs'' = Some (JArray (map readable_object jobs))"
    by (simp_all add: property_obj)
  then have "isAcquisitionJobList dateFinite ?v \<longleftrightarrow> list_all (\<lambda>job. \<not> special job) jobs"
    using assms(2) single by (simp add: isAcquisitionJobList_def list_all_iff)
  moreover have "isAcquisitionJobSubmission dateFinite (obj [(''job'', Some (readable_object job)), (''created'', Some (JBool created))])
      \<longleftrightarrow> \<not> special job" if "job \<in> set jobs" for job
    using single [OF that] by (simp add: isAcquisitionJobSubmission_def property_obj)
  ultimately show ?thesis
    using assms(3) by (auto simp: listAcquisitionJobs_answer_def answers submitAcquisitionJob_answer_def list_all_iff readable_response [of dateFinite])
qed

text \<open>2 January 2026, 03:04:05 and 600 nanoseconds.\<close>

definition sample_time :: instant where
  "sample_time = 1767323045 * 10 ^ 9 + 600"

definition queued_job :: "search_request \<Rightarrow> (unit, unit) job_snapshot" where
  "queued_job r = \<lparr>js_id = replicate 32 97, js_request = r, js_state = lit ''queued'', js_selection = None,
     js_createdObject = None, js_ordinal = None, js_createdByJob = False, js_publishedObjectID = [],
     js_errorCode = lit '''', js_attempt = 0, js_progress = 0, js_createdAt = sample_time, js_updatedAt = sample_time\<rparr>"

definition episode_request :: "int \<Rightarrow> search_request" where
  "episode_request season = \<lparr>sr_mediaType = lit ''episode'', sr_title = lit ''Doctor Who'', sr_year = 2005,
     sr_season = season, sr_episode = 1\<rparr>"

lemma validate_sample_text: "validateSearchText (lit ''Doctor Who'') 200 = Inr (lit ''Doctor Who'')"
  by (simp add: validateSearchText_def TrimSpace_def lit_def is_space_rune_def go_len_def utf8_bytes_def
      is_control_rune_def)

lemma acquisitionRequest_sample:
  "0 \<le> season \<Longrightarrow> season \<le> 99
    \<Longrightarrow> acquisitionRequest (lit ''episode'') (lit ''Doctor Who'') 2005 season 1 = Inr (episode_request season)"
  by (simp add: acquisitionRequest_def NewEpisodeSearch_def validate_sample_text validateSearchYear_def
      maximumSearchTitleBytes_def episode_request_def)

lemma queued_job_snapshot:
  assumes "0 \<le> season" "season \<le> 99"
  shows "NewAcquisitionJobSnapshot Some Some (queued_job (episode_request season)) = Inr (queued_job (episode_request season))"
  using assms
  by (simp add: NewAcquisitionJobSnapshot_def queued_job_def episode_request_def validateSearchRequest_def
      NewEpisodeSearch_def validate_sample_text validateSearchYear_def maximumSearchTitleBytes_def refuse_unless_def
      jobIDPattern_def is_hex_rune_def validateJobErrorCode_def validate_optional_def
      validateOptionalPublishedObjectID_def validateJobStage_def validateSelectedCandidateOrdinal_def
      validateCreatedByJob_def zero_time_def sample_time_def list_all_iff)

theorem server_jobs_accepted_iff_witness:
  "acquisitionRequest (lit ''episode'') (lit ''Doctor Who'') 2005 0 1 = Inr (episode_request 0)
   \<and> (\<exists>v. listAcquisitionJobs_answer [queued_job (episode_request 3)] = Some v \<and> isAcquisitionJobList (\<lambda>_. True) v)
   \<and> (\<exists>v. listAcquisitionJobs_answer [queued_job (episode_request 3), queued_job (episode_request 0)] = Some v
        \<and> \<not> isAcquisitionJobList (\<lambda>_. True) v)"
proof -
  let ?three = "queued_job (episode_request 3)" and ?zero = "queued_job (episode_request 0)"
  have "fst (civil_date (sample_time div 10 ^ 9 div 86400)) = 2026" by code_simp
  then have "marshal_time sample_time \<noteq> None" by (simp add: marshal_time_def)
  then have s: "\<not> special ?three" "special ?zero" "list_all (readable_times (\<lambda>_. True)) [?three, ?zero]"
    by (simp_all add: special_def queued_job_def episode_request_def readable_times_def readable_def)
  have "list_all2 (\<lambda>input job. NewAcquisitionJobSnapshot Some Some input = Inr job) [?three] [?three]"
    "list_all2 (\<lambda>input job. NewAcquisitionJobSnapshot Some Some input = Inr job) [?three, ?zero] [?three, ?zero]"
    by (simp_all add: queued_job_snapshot)
  from this [THEN server_jobs_accepted_iff, where dateFinite = "\<lambda>_. True"]
  show ?thesis using s acquisitionRequest_sample [of 0] by simp
qed

end
