(* ===== verification/Server_Watchlist.thy ===== *)
theory Server_Watchlist
  imports Server_Domain Server_Jobs
begin

text \<open>
  The Watchlist as the server's domain model has it: \<open>internal/acquisition/watchlist.go\<close> (the policy, items of an
  external watchlist, and observations with the episode they ask for) and
  \<open>internal/acquisition/queue.go\<close> (leases and their completions), with \<open>EpisodeCoordinate\<close> of
  \<open>internal/domain/playback.go\<close>.
\<close>

section \<open>Policy\<close>

datatype watch_error =
    InvalidSource | InvalidExternalID | UnsupportedWatchType | InvalidIntent intent_error | CoordinatesRange
  | NotEligible | InvalidLease | InvalidJobID | UnsupportedPolicy | InvalidPublished | InvalidCompletion

record watchlist_policy =
  wp_acquisitionEnabled :: bool
  wp_showPolicy :: gostring

definition NewWatchlistPolicy :: "bool \<Rightarrow> gostring \<Rightarrow> watch_error + watchlist_policy" where
  "NewWatchlistPolicy acquisitionEnabled showPolicy =
     (if showPolicy \<noteq> lit ''off'' \<and> showPolicy \<noteq> lit ''pilot'' then Inl UnsupportedPolicy
      else Inr \<lparr>wp_acquisitionEnabled = acquisitionEnabled, wp_showPolicy = showPolicy\<rparr>)"

section \<open>Items and observations\<close>

record watchlist_item =
  wi_source :: gostring
  wi_externalID :: gostring
  wi_mediaType :: gostring
  wi_title :: gostring
  wi_year :: int

definition maximumWatchlistExternalIDBytes :: nat where
  "maximumWatchlistExternalIDBytes = 512"

definition as_intent :: "intent_error + 'a \<Rightarrow> watch_error + 'a" where
  "as_intent r = (case r of Inl e \<Rightarrow> Inl (InvalidIntent e) | Inr x \<Rightarrow> Inr x)"

definition NewWatchlistItem :: "watchlist_item \<Rightarrow> watch_error + watchlist_item" where
  "NewWatchlistItem input =
     bind_result (case NewBackingRef (wi_source input) (lit ''watchlist-item'') of
                    Inl _ \<Rightarrow> Inl InvalidSource | Inr _ \<Rightarrow> Inr ()) (\<lambda>_.
     bind_result (refuse_unless (\<not> list_ex is_control_rune (wi_externalID input)) InvalidExternalID) (\<lambda>_.
     let externalID = TrimSpace (wi_externalID input) in
     bind_result (refuse_unless (externalID \<noteq> []) InvalidExternalID) (\<lambda>_.
     bind_result (refuse_unless (\<not> maximumWatchlistExternalIDBytes < go_len externalID) InvalidExternalID) (\<lambda>_.
     bind_result (refuse_unless (\<not> (wi_mediaType input \<noteq> lit ''movie'' \<and> wi_mediaType input \<noteq> lit ''show''))
       UnsupportedWatchType) (\<lambda>_.
     bind_result (as_intent (validateSearchText (wi_title input) maximumSearchTitleBytes)) (\<lambda>title.
     bind_result (as_intent (validateSearchYear (wi_year input))) (\<lambda>_.
     Inr \<lparr>wi_source = wi_source input, wi_externalID = externalID, wi_mediaType = wi_mediaType input,
          wi_title = title, wi_year = wi_year input\<rparr>)))))))"

record watchlist_observation =
  ob_item :: watchlist_item
  ob_autoEligible :: bool
  ob_season :: int
  ob_episode :: int

definition NewWatchlistObservation ::
  "watchlist_item \<Rightarrow> bool \<Rightarrow> int \<Rightarrow> int \<Rightarrow> watch_error + watchlist_observation" where
  "NewWatchlistObservation item autoEligible season episode =
     bind_result (NewWatchlistItem item) (\<lambda>validated.
     bind_result
       (if wi_mediaType validated = lit ''movie'' then refuse_unless (\<not> (season \<noteq> 0 \<or> episode \<noteq> 0)) CoordinatesRange
        else if wi_mediaType validated = lit ''show'' then
          (if \<not> autoEligible then refuse_unless (\<not> (season \<noteq> 0 \<or> episode \<noteq> 0)) CoordinatesRange
           else bind_result (refuse_unless (\<not> (season < 1 \<or> 99 < season)) CoordinatesRange) (\<lambda>_.
                refuse_unless (\<not> (episode < 1 \<or> 999 < episode)) CoordinatesRange))
        else Inl UnsupportedWatchType) (\<lambda>_.
     Inr \<lparr>ob_item = validated, ob_autoEligible = autoEligible, ob_season = season, ob_episode = episode\<rparr>))"

text \<open>\<open>WatchlistItem.SearchRequest\<close>.\<close>

definition item_request_of :: "watchlist_item \<Rightarrow> watch_error + search_request" where
  "item_request_of i =
     (if wi_mediaType i \<noteq> lit ''movie'' then Inl UnsupportedWatchType
      else as_intent (NewMovieSearch (wi_title i) (wi_year i)))"

section \<open>Leases\<close>

datatype queue_state = Pending | Acquiring | Published | NotCached | Retryable | NeedsReview

record watchlist_claim =
  wc_observation :: watchlist_observation
  wc_leaseVersion :: int
  wc_attempt :: int
  wc_backgroundJobID :: gostring

definition newWatchlistClaim ::
  "watchlist_observation \<Rightarrow> int \<Rightarrow> int \<Rightarrow> gostring \<Rightarrow> watch_error + watchlist_claim" where
  "newWatchlistClaim ob leaseVersion attempt jobID =
     bind_result (NewWatchlistObservation (ob_item ob) (ob_autoEligible ob) (ob_season ob) (ob_episode ob)) (\<lambda>validated.
     bind_result (refuse_unless (ob_autoEligible validated) NotEligible) (\<lambda>_.
     bind_result (refuse_unless (\<not> leaseVersion < 1) InvalidLease) (\<lambda>_.
     bind_result (refuse_unless (\<not> attempt < 1) InvalidLease) (\<lambda>_.
     Inr \<lparr>wc_observation = validated, wc_leaseVersion = leaseVersion, wc_attempt = attempt,
          wc_backgroundJobID = jobID\<rparr>))))"

definition NewWatchlistIntentClaim :: "watchlist_observation \<Rightarrow> int \<Rightarrow> int \<Rightarrow> watch_error + watchlist_claim" where
  "NewWatchlistIntentClaim ob leaseVersion attempt = newWatchlistClaim ob leaseVersion attempt []"

definition NewWatchlistIntentJobClaim ::
  "watchlist_observation \<Rightarrow> int \<Rightarrow> int \<Rightarrow> gostring \<Rightarrow> watch_error + watchlist_claim" where
  "NewWatchlistIntentJobClaim ob leaseVersion attempt jobID =
     bind_result (refuse_unless (jobIDPattern jobID) InvalidJobID) (\<lambda>_.
     newWatchlistClaim ob leaseVersion attempt jobID)"

text \<open>\<open>WatchlistClaim.SearchRequest\<close>.\<close>

definition claim_request_of :: "watchlist_claim \<Rightarrow> watch_error + search_request" where
  "claim_request_of c =
     (let ob = wc_observation c; item = ob_item ob in
      if wi_mediaType item = lit ''movie'' then item_request_of item
      else if wi_mediaType item = lit ''show''
      then as_intent (NewEpisodeSearch (wi_title item) (wi_year item) (ob_season ob) (ob_episode ob))
      else Inl UnsupportedWatchType)"

record watchlist_completion =
  cp_state :: queue_state
  cp_nextAttempt :: instant
  cp_publishedObjectID :: gostring

definition NewWatchlistSucceeded :: "gostring \<Rightarrow> watch_error + watchlist_completion" where
  "NewWatchlistSucceeded publishedObjectID =
     bind_result (refuse_unless (\<not> list_ex is_control_rune publishedObjectID) InvalidPublished) (\<lambda>_.
     let objectID = TrimSpace publishedObjectID in
     bind_result (refuse_unless (objectID \<noteq> []) InvalidPublished) (\<lambda>_.
     bind_result (refuse_unless (\<not> 512 < go_len objectID) InvalidPublished) (\<lambda>_.
     Inr \<lparr>cp_state = Published, cp_nextAttempt = zero_time, cp_publishedObjectID = objectID\<rparr>)))"

definition NewWatchlistDeferred :: "queue_state \<Rightarrow> instant \<Rightarrow> watch_error + watchlist_completion" where
  "NewWatchlistDeferred state nextAttempt =
     bind_result (refuse_unless (\<not> (state \<noteq> NotCached \<and> state \<noteq> Retryable)) InvalidCompletion) (\<lambda>_.
     bind_result (refuse_unless (nextAttempt \<noteq> zero_time) InvalidCompletion) (\<lambda>_.
     Inr \<lparr>cp_state = state, cp_nextAttempt = nextAttempt, cp_publishedObjectID = []\<rparr>))"

definition NewWatchlistManualReview :: watchlist_completion where
  "NewWatchlistManualReview = \<lparr>cp_state = NeedsReview, cp_nextAttempt = zero_time, cp_publishedObjectID = []\<rparr>"

section \<open>Episode coordinates\<close>

record episode_coordinate =
  ec_season :: int
  ec_episode :: int

definition NewEpisodeCoordinate :: "int \<Rightarrow> int \<Rightarrow> watch_error + episode_coordinate" where
  "NewEpisodeCoordinate season episode =
     (if season < 1 \<or> 99 < season then Inl CoordinatesRange
      else if episode < 1 \<or> 999 < episode then Inl CoordinatesRange
      else Inr \<lparr>ec_season = season, ec_episode = episode\<rparr>)"

definition After :: "episode_coordinate \<Rightarrow> episode_coordinate \<Rightarrow> bool" where
  "After c other \<longleftrightarrow>
     ec_season c > ec_season other \<or> ec_season c = ec_season other \<and> ec_episode c > ec_episode other"

section \<open>What the constructors promise\<close>

definition valid_item :: "watchlist_item \<Rightarrow> bool" where
  "valid_item i \<longleftrightarrow> validateProvider (wi_source i)
     \<and> wi_externalID i \<noteq> [] \<and> TrimSpace (wi_externalID i) = wi_externalID i \<and> go_len (wi_externalID i) \<le> 512
     \<and> \<not> list_ex is_control_rune (wi_externalID i)
     \<and> (wi_mediaType i = lit ''movie'' \<or> wi_mediaType i = lit ''show'')
     \<and> wi_title i \<noteq> [] \<and> TrimSpace (wi_title i) = wi_title i \<and> go_len (wi_title i) \<le> 200
     \<and> \<not> list_ex is_control_rune (wi_title i) \<and> 1888 \<le> wi_year i \<and> wi_year i \<le> 2100"

lemma as_intent_Inr [result_simps]: "as_intent r = Inr x \<longleftrightarrow> r = Inr x"
  by (simp add: as_intent_def split: sum.splits)

lemma watchlist_item_object: "TrimSpace (lit ''watchlist-item'') \<noteq> [] \<and> 0 \<notin> set (lit ''watchlist-item'')"
  by (simp add: lit_def TrimSpace_def is_space_rune_def)

lemma trimmed_no_control: "\<not> list_ex is_control_rune s \<Longrightarrow> \<not> list_ex is_control_rune (TrimSpace s)"
  using TrimSpace_subset by (fastforce simp: list_ex_iff)

interpretation item_check: validator NewWatchlistItem valid_item
proof
  fix i j assume "NewWatchlistItem i = Inr j"
  then show "valid_item j"
    by (auto simp: NewWatchlistItem_def result_simps valid_item_def Let_def search_defs
        maximumWatchlistExternalIDBytes_def trimmed_no_control split: sum.splits if_splits)
next
  fix i assume i: "valid_item i"
  have "\<exists>b. NewBackingRef (wi_source i) (lit ''watchlist-item'') = Inr b"
    using i watchlist_item_object by (simp add: NewBackingRef_Inr valid_item_def)
  with i show "NewWatchlistItem i = Inr i"
    by (auto simp: NewWatchlistItem_def valid_item_def Let_def search_defs maximumWatchlistExternalIDBytes_def
        as_intent_def refuse_unless_def)
qed

text \<open>The coordinates an observation may have.\<close>

definition valid_observation :: "watchlist_observation \<Rightarrow> bool" where
  "valid_observation ob \<longleftrightarrow> valid_item (ob_item ob)
     \<and> (if wi_mediaType (ob_item ob) = lit ''show'' \<and> ob_autoEligible ob
        then 1 \<le> ob_season ob \<and> ob_season ob \<le> 99 \<and> 1 \<le> ob_episode ob \<and> ob_episode ob \<le> 999
        else ob_season ob = 0 \<and> ob_episode ob = 0)"

lemma NewWatchlistObservation_Inr:
  "NewWatchlistObservation item eligible season episode = Inr ob \<longleftrightarrow>
     (\<exists>i. NewWatchlistItem item = Inr i \<and>
        ob = \<lparr>ob_item = i, ob_autoEligible = eligible, ob_season = season, ob_episode = episode\<rparr> \<and> valid_observation ob)"
proof (cases "NewWatchlistItem item")
  case (Inl e)
  then show ?thesis by (simp add: NewWatchlistObservation_def)
next
  case (Inr i)
  then have i: "valid_item i" by (rule item_check.result_valid)
  have shown: "lit ''show'' \<noteq> lit ''movie''" by (simp add: lit_def)
  from i consider "wi_mediaType i = lit ''movie''" | "wi_mediaType i = lit ''show''" by (auto simp: valid_item_def)
  then show ?thesis
    using Inr i shown
    by cases (auto simp: NewWatchlistObservation_def valid_observation_def refuse_unless_def)
qed

text \<open>\<open>validateObservation\<close> of the queue, which checks an observation again.\<close>

definition validateObservation :: "watchlist_observation \<Rightarrow> watch_error + watchlist_observation" where
  "validateObservation ob =
     NewWatchlistObservation (ob_item ob) (ob_autoEligible ob) (ob_season ob) (ob_episode ob)"

interpretation observation_check: validator validateObservation valid_observation
proof
  fix ob ob' assume "validateObservation ob = Inr ob'"
  then show "valid_observation ob'" by (auto simp: validateObservation_def NewWatchlistObservation_Inr)
next
  fix ob assume ob: "valid_observation ob"
  then have "NewWatchlistItem (ob_item ob) = Inr (ob_item ob)"
    by (simp add: valid_observation_def item_check.valid_fixed)
  with ob show "validateObservation ob = Inr ob"
    by (simp add: validateObservation_def NewWatchlistObservation_Inr)
qed

lemma newWatchlistClaim_Inr:
  "newWatchlistClaim ob v a job = Inr c \<longleftrightarrow>
     validateObservation ob = Inr (wc_observation c) \<and> ob_autoEligible (wc_observation c) \<and> 1 \<le> v \<and> 1 \<le> a
     \<and> wc_leaseVersion c = v \<and> wc_attempt c = a \<and> wc_backgroundJobID c = job"
  by (cases c) (auto simp: newWatchlistClaim_def validateObservation_def result_simps)

end
