(* ===== verification/Server_Queue.thy ===== *)
theory Server_Queue
  imports Server_Watchlist "HOL-Library.Product_Lexorder" "HOL-Library.List_Lexorder"
begin

text \<open>
  The durable Watchlist queue of \<open>internal/repository/watchlist/repository.go\<close>: its two tables as lists of rows and one
  function for each statement the repository runs. A statement is atomic; whether it is run, and
  whether its answer arrives, is an input, and so is the end of the caller's context. Rows are
  addressed by their primary key.
\<close>

section \<open>Tables\<close>

record queue_row =
  qr_item :: watchlist_item
  qr_state :: queue_state
  qr_attempt :: int
  qr_leaseVersion :: int
  qr_leaseUntil :: int
  qr_nextAttempt :: int
  qr_publishedObjectID :: gostring
  qr_firstObserved :: int
  qr_lastObserved :: int
  qr_updated :: int
  qr_backgroundJobID :: gostring
  qr_autoEligible :: bool
  qr_season :: int
  qr_episode :: int

record queue =
  q_policy :: watchlist_policy
  q_rows :: "queue_row list"

type_synonym queue_key = "gostring \<times> gostring"

definition item_key :: "watchlist_item \<Rightarrow> queue_key" where
  "item_key i = (wi_source i, wi_externalID i)"

abbreviation row_key :: "queue_row \<Rightarrow> queue_key" where
  "row_key r \<equiv> item_key (qr_item r)"

datatype queue_error = QCancelled | QInvalid | QNotFound | QStale | QFailed

text \<open>A statement is run and answered, not run, or run while its answer is lost.\<close>

datatype db_outcome = Executed | NotExecuted | Unreported

section \<open>Policy\<close>

definition initializeAcquisitionPolicy :: "bool \<Rightarrow> watchlist_policy option \<Rightarrow> watchlist_policy" where
  "initializeAcquisitionPolicy enabled stored =
     (case stored of Some policy \<Rightarrow> policy
      | None \<Rightarrow> \<lparr>wp_acquisitionEnabled = enabled, wp_showPolicy = lit ''off''\<rparr>)"

definition Policy :: "bool \<Rightarrow> db_outcome \<Rightarrow> queue \<Rightarrow> queue_error + watchlist_policy" where
  "Policy cancelled out q =
     (if cancelled then Inl QCancelled
      else if out \<noteq> Executed then Inl QFailed
      else case NewWatchlistPolicy (wp_acquisitionEnabled (q_policy q)) (wp_showPolicy (q_policy q)) of
             Inl _ \<Rightarrow> Inl QInvalid | Inr policy \<Rightarrow> Inr policy)"

definition SetPolicy :: "bool \<Rightarrow> db_outcome \<Rightarrow> watchlist_policy \<Rightarrow> queue \<Rightarrow> (queue_error + unit) \<times> queue" where
  "SetPolicy cancelled out policy q =
     (case NewWatchlistPolicy (wp_acquisitionEnabled policy) (wp_showPolicy policy) of
        Inl _ \<Rightarrow> (Inl QInvalid, q)
      | Inr validated \<Rightarrow>
          if cancelled then (Inl QCancelled, q)
          else if out = NotExecuted then (Inl QFailed, q)
          else (if out = Executed then Inr () else Inl QFailed, q\<lparr>q_policy := validated\<rparr>))"

section \<open>Observations\<close>

definition new_row :: "int \<Rightarrow> watchlist_observation \<Rightarrow> queue_row" where
  "new_row timestamp ob =
     \<lparr>qr_item = ob_item ob, qr_state = Pending, qr_attempt = 0, qr_leaseVersion = 0, qr_leaseUntil = 0, qr_nextAttempt = 0,
      qr_publishedObjectID = [], qr_firstObserved = timestamp, qr_lastObserved = timestamp, qr_updated = timestamp,
      qr_backgroundJobID = [], qr_autoEligible = ob_autoEligible ob, qr_season = ob_season ob, qr_episode = ob_episode ob\<rparr>"

text \<open>The insertion: a conflict on the key updates the description and the times of the existing row.\<close>

definition observed :: "int \<Rightarrow> watchlist_item \<Rightarrow> queue_row \<Rightarrow> queue_row" where
  "observed timestamp item r = r\<lparr>qr_item := item, qr_lastObserved := timestamp, qr_updated := timestamp\<rparr>"

definition upsert_row :: "int \<Rightarrow> watchlist_observation \<Rightarrow> queue_row list \<Rightarrow> queue_row list" where
  "upsert_row timestamp ob rows =
     (if list_ex (\<lambda>r. row_key r = item_key (ob_item ob)) rows
      then map (\<lambda>r. if row_key r = item_key (ob_item ob) then observed timestamp (ob_item ob) r else r) rows
      else rows @ [new_row timestamp ob])"

fun validate_all :: "watchlist_observation list \<Rightarrow> watch_error + watchlist_observation list" where
  "validate_all [] = Inr []"
| "validate_all (ob # obs) =
     bind_result (validateObservation ob) (\<lambda>v. bind_result (validate_all obs) (\<lambda>vs. Inr (v # vs)))"

definition UpsertObservations ::
  "bool \<Rightarrow> db_outcome \<Rightarrow> watchlist_observation list \<Rightarrow> instant \<Rightarrow> queue \<Rightarrow> (queue_error + unit) \<times> queue" where
  "UpsertObservations cancelled out observations observedAt q =
     (if cancelled then (Inl QCancelled, q)
      else if observedAt = zero_time then (Inl QInvalid, q)
      else case validate_all observations of
        Inl _ \<Rightarrow> (Inl QInvalid, q)
      | Inr validated \<Rightarrow>
          if out = NotExecuted then (Inl QFailed, q)
          else (if out = Executed then Inr () else Inl QFailed,
                q\<lparr>q_rows := fold (upsert_row (UnixMilli observedAt)) validated (q_rows q)\<rparr>))"

section \<open>Leases\<close>

definition claimable :: "watchlist_policy \<Rightarrow> int \<Rightarrow> queue_row \<Rightarrow> bool" where
  "claimable policy nowMillis r \<longleftrightarrow>
     wp_acquisitionEnabled policy \<and> qr_autoEligible r
     \<and> (wi_mediaType (qr_item r) = lit ''movie''
        \<or> wi_mediaType (qr_item r) = lit ''show'' \<and> wp_showPolicy policy = lit ''pilot'')
     \<and> ((qr_state r = Pending \<or> qr_state r = NotCached \<or> qr_state r = Retryable) \<and> qr_nextAttempt r \<le> nowMillis
        \<or> qr_state r = Acquiring \<and> qr_leaseUntil r \<le> nowMillis \<and> qr_nextAttempt r \<le> nowMillis)"

text \<open>The columns of the \<open>ORDER BY\<close> clause.\<close>

definition claim_order :: "queue_row \<Rightarrow> nat \<times> int \<times> int \<times> gostring \<times> gostring" where
  "claim_order r =
     (if qr_state r = Acquiring then 0 else 1,
      if qr_state r = Acquiring then qr_leaseUntil r else qr_nextAttempt r,
      qr_firstObserved r, wi_source (qr_item r), wi_externalID (qr_item r))"

definition next_claimable :: "watchlist_policy \<Rightarrow> int \<Rightarrow> queue_row list \<Rightarrow> queue_row option" where
  "next_claimable policy nowMillis rows =
     (case filter (claimable policy nowMillis) rows of [] \<Rightarrow> None | r # rs \<Rightarrow> Some (arg_min_list claim_order (r # rs)))"

definition leased :: "int \<Rightarrow> int \<Rightarrow> queue_row \<Rightarrow> queue_row" where
  "leased nowMillis leaseUntilMillis r =
     r\<lparr>qr_state := Acquiring, qr_attempt := qr_attempt r + 1, qr_leaseVersion := qr_leaseVersion r + 1,
       qr_leaseUntil := leaseUntilMillis, qr_updated := nowMillis\<rparr>"

definition scanClaim :: "queue_row \<Rightarrow> watch_error + watchlist_claim" where
  "scanClaim r =
     bind_result (NewWatchlistItem (qr_item r)) (\<lambda>item.
     bind_result (NewWatchlistObservation item True (qr_season r) (qr_episode r)) (\<lambda>ob.
     if qr_backgroundJobID r \<noteq> []
     then NewWatchlistIntentJobClaim ob (qr_leaseVersion r) (qr_attempt r) (qr_backgroundJobID r)
     else NewWatchlistIntentClaim ob (qr_leaseVersion r) (qr_attempt r)))"

definition update_rows :: "(queue_row \<Rightarrow> bool) \<Rightarrow> (queue_row \<Rightarrow> queue_row) \<Rightarrow> queue \<Rightarrow> queue" where
  "update_rows guard change q = q\<lparr>q_rows := map (\<lambda>r. if guard r then change r else r) (q_rows q)\<rparr>"

definition Claim ::
  "bool \<Rightarrow> db_outcome \<Rightarrow> instant \<Rightarrow> int \<Rightarrow> queue \<Rightarrow> (queue_error + watchlist_claim) \<times> queue" where
  "Claim cancelled out now leaseDuration q =
     (if cancelled then (Inl QCancelled, q)
      else if now = zero_time then (Inl QInvalid, q)
      else if leaseDuration \<le> 0 then (Inl QInvalid, q)
      else if out = NotExecuted then (Inl QFailed, q)
      else case next_claimable (q_policy q) (UnixMilli now) (q_rows q) of
        None \<Rightarrow> (if out = Executed then Inl QNotFound else Inl QFailed, q)
      | Some chosen \<Rightarrow>
          let lease = leased (UnixMilli now) (UnixMilli (now + leaseDuration));
              q' = update_rows (\<lambda>r. row_key r = row_key chosen) lease q
          in if out = Unreported then (Inl QFailed, q')
             else (case scanClaim (lease chosen) of Inl _ \<Rightarrow> (Inl QInvalid, q') | Inr claim \<Rightarrow> (Inr claim, q')))"

abbreviation claim_row_key :: "watchlist_claim \<Rightarrow> queue_key" where
  "claim_row_key c \<equiv> item_key (ob_item (wc_observation c))"

definition owns_lease :: "watchlist_claim \<Rightarrow> int \<Rightarrow> queue_row \<Rightarrow> bool" where
  "owns_lease claim nowMillis r \<longleftrightarrow>
     row_key r = claim_row_key claim \<and> qr_state r = Acquiring
     \<and> qr_leaseVersion r = wc_leaseVersion claim \<and> qr_leaseUntil r > nowMillis"

text \<open>An update under a lease, which must change exactly one row.\<close>

definition under_lease ::
  "db_outcome \<Rightarrow> watchlist_claim \<Rightarrow> int \<Rightarrow> (queue_row \<Rightarrow> queue_row) \<Rightarrow> queue \<Rightarrow> (queue_error + unit) \<times> queue" where
  "under_lease out claim nowMillis change q =
     (if out = NotExecuted then (Inl QFailed, q)
      else let q' = update_rows (owns_lease claim nowMillis) change q in
        if out = Unreported then (Inl QFailed, q')
        else if length (filter (owns_lease claim nowMillis) (q_rows q)) \<noteq> 1 then (Inl QStale, q')
        else (Inr (), q'))"

definition linked :: "gostring \<Rightarrow> instant \<Rightarrow> instant \<Rightarrow> queue_row \<Rightarrow> queue_row" where
  "linked jobID nextAttempt now r =
     r\<lparr>qr_state := Acquiring, qr_leaseUntil := 0, qr_nextAttempt := UnixMilli nextAttempt, qr_backgroundJobID := jobID,
       qr_updated := UnixMilli now\<rparr>"

definition transitionJob ::
  "bool \<Rightarrow> db_outcome \<Rightarrow> watchlist_claim \<Rightarrow> instant \<Rightarrow> gostring \<Rightarrow> instant \<Rightarrow> queue \<Rightarrow> (queue_error + unit) \<times> queue" where
  "transitionJob cancelled out claim nextAttempt jobID now q =
     (if nextAttempt = zero_time then (Inl QInvalid, q)
      else if now = zero_time then (Inl QInvalid, q)
      else if cancelled then (Inl QCancelled, q)
      else under_lease out claim (UnixMilli now) (linked jobID nextAttempt now) q)"

definition validateClaimWithJob :: "watchlist_claim \<Rightarrow> gostring \<Rightarrow> watch_error + watchlist_claim" where
  "validateClaimWithJob claim jobID =
     bind_result (validateObservation (wc_observation claim)) (\<lambda>ob.
     NewWatchlistIntentJobClaim ob (wc_leaseVersion claim) (wc_attempt claim) jobID)"

definition AttachJob ::
  "bool \<Rightarrow> db_outcome \<Rightarrow> watchlist_claim \<Rightarrow> gostring \<Rightarrow> instant \<Rightarrow> instant \<Rightarrow> queue \<Rightarrow> (queue_error + unit) \<times> queue" where
  "AttachJob cancelled out claim jobID nextAttempt now q =
     (case validateClaimWithJob claim jobID of
        Inl _ \<Rightarrow> (Inl QInvalid, q)
      | Inr validated \<Rightarrow> transitionJob cancelled out validated nextAttempt jobID now q)"

definition DeferJob ::
  "bool \<Rightarrow> db_outcome \<Rightarrow> watchlist_claim \<Rightarrow> instant \<Rightarrow> instant \<Rightarrow> queue \<Rightarrow> (queue_error + unit) \<times> queue" where
  "DeferJob cancelled out claim nextAttempt now q =
     (if wc_backgroundJobID claim = [] then (Inl QInvalid, q)
      else case validateClaimWithJob claim (wc_backgroundJobID claim) of
        Inl _ \<Rightarrow> (Inl QInvalid, q)
      | Inr validated \<Rightarrow> transitionJob cancelled out validated nextAttempt (wc_backgroundJobID validated) now q)"

definition validateClaim :: "watchlist_claim \<Rightarrow> watch_error + watchlist_claim" where
  "validateClaim claim =
     bind_result (validateObservation (wc_observation claim)) (\<lambda>ob.
     NewWatchlistIntentClaim ob (wc_leaseVersion claim) (wc_attempt claim))"

definition validateCompletion :: "watchlist_completion \<Rightarrow> watch_error + watchlist_completion" where
  "validateCompletion completion =
     (case cp_state completion of
        Published \<Rightarrow> NewWatchlistSucceeded (cp_publishedObjectID completion)
      | NotCached \<Rightarrow> NewWatchlistDeferred NotCached (cp_nextAttempt completion)
      | Retryable \<Rightarrow> NewWatchlistDeferred Retryable (cp_nextAttempt completion)
      | NeedsReview \<Rightarrow> Inr NewWatchlistManualReview
      | _ \<Rightarrow> Inl InvalidCompletion)"

definition completed :: "watchlist_completion \<Rightarrow> instant \<Rightarrow> queue_row \<Rightarrow> queue_row" where
  "completed completion now r =
     r\<lparr>qr_state := cp_state completion, qr_leaseUntil := 0,
       qr_nextAttempt := (if cp_nextAttempt completion \<noteq> zero_time then UnixMilli (cp_nextAttempt completion) else 0),
       qr_publishedObjectID := cp_publishedObjectID completion, qr_backgroundJobID := [], qr_updated := UnixMilli now\<rparr>"

definition Complete ::
  "bool \<Rightarrow> db_outcome \<Rightarrow> watchlist_claim \<Rightarrow> watchlist_completion \<Rightarrow> instant \<Rightarrow> queue \<Rightarrow> (queue_error + unit) \<times> queue" where
  "Complete cancelled out claim completion now q =
     (case validateClaim claim of
        Inl _ \<Rightarrow> (Inl QInvalid, q)
      | Inr validatedClaim \<Rightarrow>
          (case validateCompletion completion of
             Inl _ \<Rightarrow> (Inl QInvalid, q)
           | Inr validatedCompletion \<Rightarrow>
               if cancelled then (Inl QCancelled, q)
               else if now = zero_time then (Inl QInvalid, q)
               else under_lease out validatedClaim (UnixMilli now) (completed validatedCompletion now) q))"

section \<open>Progression of shows\<close>

record frontier =
  fr_key :: queue_key
  fr_publishedObjectID :: gostring
  fr_coordinate :: episode_coordinate
  fr_observedAfter :: int

definition validateEpisodeFrontier ::
  "gostring \<Rightarrow> gostring \<Rightarrow> gostring \<Rightarrow> episode_coordinate \<Rightarrow> instant \<Rightarrow> watch_error + frontier" where
  "validateEpisodeFrontier source externalID publishedObjectID coordinate observedAfter =
     bind_result (NewWatchlistItem \<lparr>wi_source = source, wi_externalID = externalID, wi_mediaType = lit ''show'',
       wi_title = lit ''Episode frontier'', wi_year = 2026\<rparr>) (\<lambda>item.
     bind_result (NewWatchlistSucceeded publishedObjectID) (\<lambda>completion.
     bind_result (NewEpisodeCoordinate (ec_season coordinate) (ec_episode coordinate)) (\<lambda>validatedCoordinate.
     bind_result (refuse_unless (observedAfter \<noteq> zero_time) InvalidCompletion) (\<lambda>_.
     Inr \<lparr>fr_key = item_key item, fr_publishedObjectID = cp_publishedObjectID completion,
          fr_coordinate = validatedCoordinate, fr_observedAfter = UnixMilli observedAfter\<rparr>))))"

definition at_frontier :: "watchlist_policy \<Rightarrow> frontier \<Rightarrow> queue_row \<Rightarrow> bool" where
  "at_frontier policy identity r \<longleftrightarrow>
     row_key r = fr_key identity \<and> wi_mediaType (qr_item r) = lit ''show'' \<and> qr_state r = Published \<and> qr_autoEligible r
     \<and> qr_publishedObjectID r = fr_publishedObjectID identity
     \<and> qr_season r = ec_season (fr_coordinate identity) \<and> qr_episode r = ec_episode (fr_coordinate identity)
     \<and> qr_lastObserved r \<ge> fr_observedAfter identity
     \<and> wp_acquisitionEnabled policy \<and> wp_showPolicy policy = lit ''pilot''"

definition CanAdvanceEpisode ::
  "bool \<Rightarrow> db_outcome \<Rightarrow> gostring \<Rightarrow> gostring \<Rightarrow> gostring \<Rightarrow> episode_coordinate \<Rightarrow> instant \<Rightarrow> queue \<Rightarrow> queue_error + bool" where
  "CanAdvanceEpisode cancelled out source externalID publishedObjectID current observedAfter q =
     (if cancelled then Inl QCancelled
      else case validateEpisodeFrontier source externalID publishedObjectID current observedAfter of
        Inl _ \<Rightarrow> Inl QInvalid
      | Inr identity \<Rightarrow>
          if out \<noteq> Executed then Inl QFailed else Inr (list_ex (at_frontier (q_policy q) identity) (q_rows q)))"

definition advanced :: "episode_coordinate \<Rightarrow> instant \<Rightarrow> queue_row \<Rightarrow> queue_row" where
  "advanced next now r =
     r\<lparr>qr_state := Pending, qr_attempt := 0, qr_leaseUntil := 0, qr_nextAttempt := 0, qr_publishedObjectID := [],
       qr_backgroundJobID := [], qr_season := ec_season next, qr_episode := ec_episode next, qr_updated := UnixMilli now\<rparr>"

definition AdvanceEpisode ::
  "bool \<Rightarrow> db_outcome \<Rightarrow> gostring \<Rightarrow> gostring \<Rightarrow> gostring \<Rightarrow> episode_coordinate \<Rightarrow> episode_coordinate \<Rightarrow> instant \<Rightarrow> instant
   \<Rightarrow> queue \<Rightarrow> (queue_error + bool) \<times> queue" where
  "AdvanceEpisode cancelled out source externalID publishedObjectID current next observedAfter now q =
     (if cancelled then (Inl QCancelled, q)
      else case validateEpisodeFrontier source externalID publishedObjectID current observedAfter of
        Inl _ \<Rightarrow> (Inl QInvalid, q)
      | Inr identity \<Rightarrow>
          (case NewEpisodeCoordinate (ec_season next) (ec_episode next) of
             Inl _ \<Rightarrow> (Inl QInvalid, q)
           | Inr validatedNext \<Rightarrow>
               if \<not> After validatedNext (fr_coordinate identity) then (Inl QInvalid, q)
               else if now = zero_time then (Inl QInvalid, q)
               else if out = NotExecuted then (Inl QFailed, q)
               else let guard = at_frontier (q_policy q) identity;
                        q' = update_rows guard (advanced validatedNext now) q
                    in (if out = Unreported then Inl QFailed else Inr (length (filter guard (q_rows q)) = 1), q')))"

section \<open>Counts\<close>

record queue_counts =
  qc_pendingMovies :: int
  qc_acquiring :: int
  qc_succeeded :: int
  qc_notCached :: int
  qc_retryable :: int
  qc_manualReview :: int
  qc_observedShows :: int

definition row_count :: "(queue_row \<Rightarrow> bool) \<Rightarrow> queue \<Rightarrow> int" where
  "row_count p q = sum_list (map (\<lambda>r. if p r then 1 else 0) (q_rows q))"

definition queue_Status :: "bool \<Rightarrow> db_outcome \<Rightarrow> queue \<Rightarrow> queue_error + queue_counts" where
  "queue_Status cancelled out q =
     (if cancelled then Inl QCancelled
      else if out \<noteq> Executed then Inl QFailed
      else Inr \<lparr>qc_pendingMovies = row_count (\<lambda>r. wi_mediaType (qr_item r) = lit ''movie'' \<and> qr_state r = Pending) q,
                qc_acquiring = row_count (\<lambda>r. qr_state r = Acquiring) q,
                qc_succeeded = row_count (\<lambda>r. qr_state r = Published) q,
                qc_notCached = row_count (\<lambda>r. qr_state r = NotCached) q,
                qc_retryable = row_count (\<lambda>r. qr_state r = Retryable) q,
                qc_manualReview = row_count (\<lambda>r. qr_state r = NeedsReview) q,
                qc_observedShows = row_count (\<lambda>r. wi_mediaType (qr_item r) = lit ''show'') q\<rparr>)"

end
