(* ===== verification/Server_Leases.thy ===== *)
theory Server_Leases
  imports Server_Queue
begin

text \<open>
  What the Watchlist queue promises over any run: what was decided when an item was first observed is never
  changed, a lease is finished by the worker that holds it and by no other, and finished work is not
  taken up again.
\<close>

section \<open>Runs\<close>

inductive queue_step :: "queue \<Rightarrow> queue \<Rightarrow> bool" where
  policy: "queue_step q (snd (SetPolicy cancelled out p q))"
| observe: "queue_step q (snd (UpsertObservations cancelled out observations observedAt q))"
| claim: "queue_step q (snd (Claim cancelled out now leaseDuration q))"
| attach: "queue_step q (snd (AttachJob cancelled out c jobID nextAttempt now q))"
| defers: "queue_step q (snd (DeferJob cancelled out c nextAttempt now q))"
| complete: "queue_step q (snd (Complete cancelled out c completion now q))"
| advance: "queue_step q (snd (AdvanceEpisode cancelled out source externalID published current next observedAfter now q))"

abbreviation queue_run :: "queue \<Rightarrow> queue \<Rightarrow> bool" where
  "queue_run \<equiv> queue_step\<^sup>*\<^sup>*"

definition row_of :: "queue \<Rightarrow> queue_key \<Rightarrow> queue_row option" where
  "row_of q k = find (\<lambda>r. row_key r = k) (q_rows q)"

text \<open>Every operation changes the policy, adds observed rows, or changes the rows that meet a condition.\<close>

lemma key_kept [simp]:
  "qr_item (leased now until r) = qr_item r" "qr_item (linked job next now r) = qr_item r"
  "qr_item (completed c now r) = qr_item r" "qr_item (advanced n now r) = qr_item r"
  "qr_item (observed ts i r) = i"
  by (simp_all add: leased_def linked_def completed_def advanced_def observed_def)

lemma row_of_update:
  assumes "\<And>r. row_key (change r) = row_key r"
  shows "row_of (update_rows guard change q) k = map_option (\<lambda>r. if guard r then change r else r) (row_of q k)"
proof -
  have "find (\<lambda>r. row_key r = k) (map (\<lambda>r. if guard r then change r else r) rows)
      = map_option (\<lambda>r. if guard r then change r else r) (find (\<lambda>r. row_key r = k) rows)" for rows
    by (induction rows) (auto simp: assms)
  then show ?thesis by (simp add: row_of_def update_rows_def)
qed

lemma row_of_key: "row_of q k = Some r \<Longrightarrow> row_key r = k \<and> r \<in> set (q_rows q)"
  by (auto simp: row_of_def find_Some_iff)

lemma find_key_None: "find (\<lambda>r. row_key r = k) rows = None \<longleftrightarrow> \<not> list_ex (\<lambda>r. row_key r = k) rows"
  by (auto simp: find_None_iff list_ex_iff)

lemma find_key: "find (\<lambda>r. row_key r = k) rows = Some r \<Longrightarrow> row_key r = k"
  by (auto simp: find_Some_iff)

lemma find_upsert_row:
  "find (\<lambda>r. row_key r = k) (upsert_row ts ob rows) =
     (if item_key (ob_item ob) \<noteq> k then find (\<lambda>r. row_key r = k) rows
      else Some (case find (\<lambda>r. row_key r = k) rows of None \<Rightarrow> new_row ts ob | Some r \<Rightarrow> observed ts (ob_item ob) r))"
proof (cases "list_ex (\<lambda>r. row_key r = item_key (ob_item ob)) rows")
  case True
  have "find (\<lambda>r. row_key r = k) (map (\<lambda>r. if row_key r = item_key (ob_item ob) then observed ts (ob_item ob) r else r) rows)
      = map_option (\<lambda>r. if row_key r = item_key (ob_item ob) then observed ts (ob_item ob) r else r)
          (find (\<lambda>r. row_key r = k) rows)"
    by (induction rows) auto
  then show ?thesis
    using True find_key_None [of "item_key (ob_item ob)" rows] find_key [of k rows] unfolding upsert_row_def
    by (cases "find (\<lambda>r. row_key r = k) rows") auto
next
  case False
  then have "find (\<lambda>r. row_key r = item_key (ob_item ob)) rows = None" by (simp add: find_key_None)
  moreover have "find P (rows @ [x]) = (case find P rows of None \<Rightarrow> if P x then Some x else None | Some r \<Rightarrow> Some r)" for P and x :: queue_row
    by (induction rows) auto
  ultimately show ?thesis
    using False unfolding upsert_row_def by (auto simp: new_row_def split: option.splits)
qed

section \<open>Keys\<close>

text \<open>The primary key: no two rows have the same one, so the row a condition on the key finds is the only one.\<close>

definition unique_keys :: "queue \<Rightarrow> bool" where
  "unique_keys q \<longleftrightarrow> distinct (map row_key (q_rows q))"

lemma unique_row: "unique_keys q \<Longrightarrow> r \<in> set (q_rows q) \<Longrightarrow> row_of q (row_key r) = Some r"
proof -
  have "distinct (map row_key rows) \<Longrightarrow> r \<in> set rows \<Longrightarrow> find (\<lambda>s. row_key s = row_key r) rows = Some r" for rows
    by (induction rows) (auto simp: image_iff)
  then show "unique_keys q \<Longrightarrow> r \<in> set (q_rows q) \<Longrightarrow> row_of q (row_key r) = Some r"
    by (simp add: unique_keys_def row_of_def)
qed

lemma unique_keys_update [simp]:
  assumes "\<And>r. row_key (change r) = row_key r"
  shows "unique_keys (update_rows guard change q) = unique_keys q"
proof -
  have "map row_key (map (\<lambda>r. if guard r then change r else r) (q_rows q)) = map row_key (q_rows q)"
    using assms by simp
  then show ?thesis by (simp add: unique_keys_def update_rows_def del: map_map map_eq_conv)
qed

lemma unique_keys_upserts:
  "distinct (map row_key rows) \<Longrightarrow> distinct (map row_key (fold (upsert_row ts) obs rows))"
proof (induction obs arbitrary: rows)
  case (Cons ob obs)
  have "map row_key (map (\<lambda>r. if row_key r = item_key (ob_item ob) then observed ts (ob_item ob) r else r) rows)
      = map row_key rows"
    by simp
  then have "distinct (map row_key (upsert_row ts ob rows))"
    using Cons.prems by (auto simp: upsert_row_def new_row_def list_ex_iff simp del: map_map map_eq_conv)
  with Cons.IH show ?case by simp
qed simp

lemma next_claimable_SomeD:
  assumes "next_claimable p now rows = Some r"
  shows "r \<in> set rows \<and> claimable p now r"
proof -
  obtain a rs where "filter (claimable p now) rows = a # rs" "r = arg_min_list claim_order (a # rs)"
    using assms by (auto simp: next_claimable_def split: list.splits)
  then have "r \<in> set (filter (claimable p now) rows)" using arg_min_list_in [of "a # rs" claim_order] by simp
  then show ?thesis by simp
qed

lemma unique_keys_under_lease:
  "(\<And>r. row_key (change r) = row_key r) \<Longrightarrow> unique_keys (snd (under_lease out c now change q)) = unique_keys q"
  by (simp add: under_lease_def Let_def)

lemma unique_keys_transitionJob: "unique_keys (snd (transitionJob cancelled out c next job now q)) = unique_keys q"
  by (simp add: transitionJob_def unique_keys_under_lease)

lemma unique_keys_step: "queue_step q q' \<Longrightarrow> unique_keys q \<Longrightarrow> unique_keys q'"
proof (induction rule: queue_step.induct)
  case (policy q cancelled out p)
  then show ?case by (auto simp: SetPolicy_def unique_keys_def split: sum.splits)
next
  case (observe q cancelled out observations observedAt)
  then show ?case by (auto simp: UpsertObservations_def unique_keys_def unique_keys_upserts split: sum.splits)
next
  case (claim q cancelled out now leaseDuration)
  then show ?case by (auto simp: Claim_def Let_def split: option.splits sum.splits)
next
  case (advance q cancelled out source externalID published current nxt observedAfter now)
  then show ?case by (auto simp: AdvanceEpisode_def Let_def split: sum.splits)
qed (auto simp: AttachJob_def DeferJob_def Complete_def unique_keys_transitionJob unique_keys_under_lease split: sum.splits)

lemma unique_keys_run: "queue_run q q' \<Longrightarrow> unique_keys q \<Longrightarrow> unique_keys q'"
  by (induction rule: rtranclp_induct) (auto intro: unique_keys_step)

section \<open>Histories of a row\<close>

text \<open>A relation between a row and what becomes of it, closed under the changes the operations make.\<close>

locale row_history =
  fixes R :: "queue_row \<Rightarrow> queue_row \<Rightarrow> bool"
  assumes same: "R r r"
    and further: "R r s \<Longrightarrow> R s t \<Longrightarrow> R r t"
    and by_observation: "item_key i = row_key r \<Longrightarrow> R r (observed ts i r)"
    and by_claim: "claimable p now r \<Longrightarrow> R r (leased now until r)"
    and by_link: "qr_state r = Acquiring \<Longrightarrow> R r (linked job next nw r)"
    and by_completion: "qr_state r = Acquiring \<Longrightarrow> R r (completed c nw r)"
    and by_advance: "at_frontier p identity r \<Longrightarrow> 1 \<le> qr_season r \<Longrightarrow> R r (advanced n nw r)"
begin

lemma updated:
  assumes "row_of q k = Some r" "\<And>r. row_key (change r) = row_key r"
    "\<And>r. row_key r = k \<Longrightarrow> r \<in> set (q_rows q) \<Longrightarrow> guard r \<Longrightarrow> R r (change r)"
  shows "\<exists>r'. row_of (update_rows guard change q) k = Some r' \<and> R r r'"
  using assms(1) row_of_update [of change guard q k, OF assms(2)] assms(3) row_of_key [OF assms(1)] same by auto

lemma by_upserts:
  "find (\<lambda>r. row_key r = k) rows = Some r
    \<Longrightarrow> \<exists>r'. find (\<lambda>r. row_key r = k) (fold (upsert_row ts) obs rows) = Some r' \<and> R r r'"
proof (induction obs arbitrary: rows r)
  case (Cons ob obs)
  have key: "row_key r = k" using Cons.prems by (auto simp: find_Some_iff)
  obtain r1 where "find (\<lambda>r. row_key r = k) (upsert_row ts ob rows) = Some r1" "R r r1"
    using Cons.prems key by (cases "item_key (ob_item ob) = k") (auto simp: find_upsert_row same by_observation)
  with Cons.IH further show ?case by fastforce
qed (simp add: same)

lemma by_lease:
  assumes "row_of q k = Some r" "\<And>r. row_key (change r) = row_key r"
    "\<And>r. qr_state r = Acquiring \<Longrightarrow> R r (change r)"
  shows "\<exists>r'. row_of (snd (under_lease out c now change q)) k = Some r' \<and> R r r'"
  using updated [of q k r change "owns_lease c now"] assms same
  by (auto simp: under_lease_def Let_def owns_lease_def)

lemma by_job: "row_of q k = Some r \<Longrightarrow> \<exists>r'. row_of (snd (transitionJob cancelled out c next job now q)) k = Some r' \<and> R r r'"
  using by_lease [of q k r "linked job next now"] by_link same by (auto simp: transitionJob_def)

lemma by_claiming:
  assumes "unique_keys q" "row_of q k = Some r"
  shows "\<exists>r'. row_of (snd (Claim cancelled out now leaseDuration q)) k = Some r' \<and> R r r'"
proof (cases "next_claimable (q_policy q) (UnixMilli now) (q_rows q)")
  case None
  then show ?thesis using assms same by (auto simp: Claim_def)
next
  case (Some chosen)
  note chosen = next_claimable_SomeD [OF Some]
  let ?lease = "leased (UnixMilli now) (UnixMilli (now + leaseDuration))"
  have "\<exists>r'. row_of (update_rows (\<lambda>r. row_key r = row_key chosen) ?lease q) k = Some r' \<and> R r r'"
  proof (rule updated [OF assms(2)])
    fix r assume "r \<in> set (q_rows q)" "row_key r = row_key chosen"
    then have "r = chosen" using unique_row [OF assms(1)] chosen by (metis option.inject)
    with chosen show "R r (?lease r)" using by_claim by blast
  qed simp
  with Some assms same show ?thesis by (auto simp: Claim_def Let_def split: sum.splits)
qed

lemma by_advancing:
  assumes "row_of q k = Some r"
  shows "\<exists>r'. row_of (snd (AdvanceEpisode cancelled out source externalID published current nxt observedAfter now q)) k = Some r'
    \<and> R r r'"
proof (cases "validateEpisodeFrontier source externalID published current observedAfter")
  case (Inl e)
  then show ?thesis using assms same by (auto simp: AdvanceEpisode_def)
next
  case (Inr identity)
  then have "1 \<le> ec_season (fr_coordinate identity)"
    by (auto simp: validateEpisodeFrontier_def NewEpisodeCoordinate_def result_simps split: if_splits)
  then have "\<exists>r'. row_of (update_rows (at_frontier (q_policy q) identity) (advanced n now) q) k = Some r' \<and> R r r'" for n
    by (intro updated [OF assms]) (auto simp: at_frontier_def intro!: by_advance)
  with Inr assms same show ?thesis by (auto simp: AdvanceEpisode_def Let_def split: sum.splits)
qed

lemma one_step:
  "queue_step q q' \<Longrightarrow> unique_keys q \<Longrightarrow> row_of q k = Some r \<Longrightarrow> \<exists>r'. row_of q' k = Some r' \<and> R r r'"
proof (induction rule: queue_step.induct)
  case (policy q cancelled out p)
  then show ?case using same by (auto simp: SetPolicy_def row_of_def split: sum.splits)
next
  case (observe q cancelled out observations observedAt)
  then show ?case
    using same by_upserts by (auto simp: UpsertObservations_def row_of_def split: sum.splits)
next
  case (complete q cancelled out c completion now)
  then show ?case
    using by_lease [of q k r "completed v now" for v] by_completion same by (auto simp: Complete_def split: sum.splits)
qed (use by_claiming by_advancing by_job same in \<open>auto simp: AttachJob_def DeferJob_def split: sum.splits\<close>)

lemma run:
  assumes "queue_run q q'" "unique_keys q" "row_of q k = Some r"
  shows "\<exists>r'. row_of q' k = Some r' \<and> R r r'"
  using assms(1)
proof (induction rule: rtranclp_induct)
  case (step q1 q2)
  then obtain r1 where r1: "row_of q1 k = Some r1" "R r r1" by blast
  obtain r2 where "row_of q2 k = Some r2" "R r1 r2"
    using one_step [OF step.hyps(2) unique_keys_run [OF step.hyps(1) assms(2)] r1(1)] by blast
  with r1(2) show ?case using further by blast
qed (use assms(3) same in auto)

end

text \<open>What was decided when the item was first observed.\<close>

interpretation decision: row_history "\<lambda>r r'. qr_autoEligible r' = qr_autoEligible r
    \<and> (\<not> qr_autoEligible r \<and> qr_state r \<noteq> Acquiring \<longrightarrow> qr_state r' = qr_state r)"
  by unfold_locales
    (auto simp: observed_def leased_def linked_def completed_def advanced_def claimable_def at_frontier_def)

text \<open>The version of a lease only grows.\<close>

interpretation lease_version: row_history "\<lambda>r r'. qr_leaseVersion r \<le> qr_leaseVersion r'"
  by unfold_locales (auto simp: observed_def leased_def linked_def completed_def advanced_def)

text \<open>Finished work: what needs a review, and a movie that is published, whose row has no season.\<close>

interpretation finished: row_history "\<lambda>r r'. (qr_state r = NeedsReview \<longrightarrow> qr_state r' = NeedsReview)
    \<and> (qr_state r = Published \<and> qr_season r = 0 \<longrightarrow>
        qr_state r' = Published \<and> qr_season r' = 0 \<and> qr_publishedObjectID r' = qr_publishedObjectID r)"
  by unfold_locales
    (auto simp: observed_def leased_def linked_def completed_def advanced_def claimable_def at_frontier_def)

section \<open>The rows are valid\<close>

definition open_queue :: "bool \<Rightarrow> queue" where
  "open_queue initialAcquisitionEnabled =
     \<lparr>q_policy = initializeAcquisitionPolicy initialAcquisitionEnabled None, q_rows = []\<rparr>"

definition queue_ok :: "queue \<Rightarrow> bool" where
  "queue_ok q \<longleftrightarrow> unique_keys q \<and> list_all (\<lambda>r. valid_item (qr_item r)) (q_rows q)"

lemma items_update:
  "(\<And>r. qr_item (change r) = qr_item r) \<Longrightarrow>
    list_all (\<lambda>r. valid_item (qr_item r)) (q_rows (update_rows guard change q)) = list_all (\<lambda>r. valid_item (qr_item r)) (q_rows q)"
  by (simp add: update_rows_def list.pred_map comp_def if_distrib [where f = qr_item])

lemma items_upserts:
  "validate_all obs = Inr vs \<Longrightarrow> list_all (\<lambda>r. valid_item (qr_item r)) rows
    \<Longrightarrow> list_all (\<lambda>r. valid_item (qr_item r)) (fold (upsert_row ts) vs rows)"
proof (induction obs arbitrary: vs rows)
  case (Cons ob obs)
  then obtain v vs' where v: "validateObservation ob = Inr v" "validate_all obs = Inr vs'" "vs = v # vs'"
    by (auto simp: result_simps)
  then have "valid_item (ob_item v)" using observation_check.result_valid by (simp add: valid_observation_def)
  then have "list_all (\<lambda>r. valid_item (qr_item r)) (upsert_row ts v rows)"
    using Cons.prems(2) by (auto simp: upsert_row_def list_all_iff new_row_def)
  with Cons.IH v show ?case by simp
qed simp

lemma queue_ok_step: "queue_step q q' \<Longrightarrow> queue_ok q \<Longrightarrow> queue_ok q'"
proof -
  assume s: "queue_step q q'" and ok: "queue_ok q"
  from s ok have "list_all (\<lambda>r. valid_item (qr_item r)) (q_rows q')"
    by (induction rule: queue_step.induct)
      (auto simp: queue_ok_def SetPolicy_def UpsertObservations_def Claim_def AttachJob_def DeferJob_def Complete_def
        AdvanceEpisode_def transitionJob_def under_lease_def Let_def items_update items_upserts
        split: sum.splits option.splits)
  with s ok show "queue_ok q'" using unique_keys_step by (simp add: queue_ok_def)
qed

lemma queue_ok_run: "queue_run q q' \<Longrightarrow> queue_ok q \<Longrightarrow> queue_ok q'"
  by (induction rule: rtranclp_induct) (auto intro: queue_ok_step)

lemma queue_ok_open: "queue_run (open_queue e) q \<Longrightarrow> queue_ok q"
  using queue_ok_run [of "open_queue e" q] by (simp add: queue_ok_def open_queue_def unique_keys_def)

text \<open>Everything in a row but its description and the times of observation.\<close>

definition same_work :: "queue_row \<Rightarrow> queue_row \<Rightarrow> bool" where
  "same_work r r' \<longleftrightarrow> qr_state r' = qr_state r \<and> qr_attempt r' = qr_attempt r \<and> qr_leaseVersion r' = qr_leaseVersion r
     \<and> qr_leaseUntil r' = qr_leaseUntil r \<and> qr_nextAttempt r' = qr_nextAttempt r
     \<and> qr_publishedObjectID r' = qr_publishedObjectID r \<and> qr_firstObserved r' = qr_firstObserved r
     \<and> qr_backgroundJobID r' = qr_backgroundJobID r \<and> qr_autoEligible r' = qr_autoEligible r
     \<and> qr_season r' = qr_season r \<and> qr_episode r' = qr_episode r"

lemma same_work_trans: "same_work r s \<Longrightarrow> same_work s t \<Longrightarrow> same_work r t"
  by (simp add: same_work_def)

lemma same_work_observed [simp]: "same_work r (observed ts i r)" "same_work r r"
  by (simp_all add: same_work_def observed_def)

lemma upserts_keep:
  "find (\<lambda>r. row_key r = k) rows = Some r
    \<Longrightarrow> \<exists>r'. find (\<lambda>r. row_key r = k) (fold (upsert_row ts) obs rows) = Some r' \<and> same_work r r'"
proof (induction obs arbitrary: rows r)
  case (Cons ob obs)
  obtain s where "find (\<lambda>r. row_key r = k) (upsert_row ts ob rows) = Some s" "same_work r s"
    using Cons.prems by (cases "item_key (ob_item ob) = k") (auto simp: find_upsert_row)
  with Cons.IH [of _ s] same_work_trans [of r s] show ?case by fastforce
qed simp

section \<open>Leases\<close>

text \<open>What a granted lease says about the row.\<close>

lemma Claim_granted:
  assumes "queue_ok q" "Claim cancelled out now d q = (Inr c, q')"
  obtains r where "row_of q (claim_row_key c) = Some r" "claimable (q_policy q) (UnixMilli now) r"
    "row_of q' (claim_row_key c) = Some (leased (UnixMilli now) (UnixMilli (now + d)) r)"
    "wc_leaseVersion c = qr_leaseVersion r + 1" "valid_observation (wc_observation c)"
    "ob_autoEligible (wc_observation c)" "1 \<le> wc_leaseVersion c" "1 \<le> wc_attempt c" "queue_ok q'"
proof -
  let ?lease = "leased (UnixMilli now) (UnixMilli (now + d))"
  obtain r where r: "next_claimable (q_policy q) (UnixMilli now) (q_rows q) = Some r"
    and c: "scanClaim (?lease r) = Inr c" and q': "q' = update_rows (\<lambda>s. row_key s = row_key r) ?lease q"
    using assms(2) by (auto simp: Claim_def Let_def split: if_splits option.splits sum.splits)
  note chosen = next_claimable_SomeD [OF r]
  have item: "NewWatchlistItem (qr_item r) = Inr (qr_item r)"
    using assms(1) chosen by (intro item_check.valid_fixed) (simp add: queue_ok_def list_all_iff)
  obtain ob where "NewWatchlistObservation (qr_item r) True (qr_season r) (qr_episode r) = Inr ob"
    and claim: "newWatchlistClaim ob (qr_leaseVersion r + 1) (qr_attempt r + 1) (qr_backgroundJobID r) = Inr c"
    using c by (auto simp: scanClaim_def item result_simps NewWatchlistIntentJobClaim_def NewWatchlistIntentClaim_def leased_def
        split: if_splits)
  then have ob: "valid_observation ob" "ob_item ob = qr_item r" "ob_autoEligible ob"
    by (auto simp: NewWatchlistObservation_Inr item)
  have cs: "wc_observation c = ob" "wc_leaseVersion c = qr_leaseVersion r + 1" "1 \<le> qr_leaseVersion r + 1" "1 \<le> qr_attempt r + 1"
    "wc_attempt c = qr_attempt r + 1"
    using claim ob(1) by (auto simp: newWatchlistClaim_Inr observation_check.valid_fixed)
  have row: "row_of q (claim_row_key c) = Some r"
    using unique_row chosen assms(1) ob(2) cs(1) by (simp add: queue_ok_def)
  have "queue_ok q'"
    using assms(1) by (simp add: q' queue_ok_def items_update)
  with row cs ob chosen show thesis
    by (intro that [of r]) (simp_all add: q' row_of_update)
qed

lemma checked_claim:
  assumes "valid_observation (wc_observation c)" "ob_autoEligible (wc_observation c)" "1 \<le> wc_leaseVersion c" "1 \<le> wc_attempt c"
  shows "validateClaim c = Inr (c\<lparr>wc_backgroundJobID := []\<rparr>)"
    "validateClaimWithJob c job = (if jobIDPattern job then Inr (c\<lparr>wc_backgroundJobID := job\<rparr>) else Inl InvalidJobID)"
  using assms observation_check.valid_fixed [OF assms(1)]
  by (simp_all add: validateClaim_def validateClaimWithJob_def NewWatchlistIntentClaim_def NewWatchlistIntentJobClaim_def
      newWatchlistClaim_def validateObservation_def refuse_unless_def)

lemma owner_unique:
  assumes "unique_keys q" "row_of q (claim_row_key c) = Some r"
  shows "filter (owns_lease c now) (q_rows q) = (if owns_lease c now r then [r] else [])"
proof -
  have "distinct (map row_key rows) \<Longrightarrow> find (\<lambda>r. row_key r = claim_row_key c) rows = Some r
      \<Longrightarrow> filter (owns_lease c now) rows = (if owns_lease c now r then [r] else [])" for rows
  proof (induction rows)
    case (Cons a rows)
    show ?case
    proof (cases "row_key a = claim_row_key c")
      case True
      with Cons.prems have "\<forall>s \<in> set rows. \<not> owns_lease c now s" "a = r"
        by (auto simp: owns_lease_def image_iff)
      then show ?thesis by (auto simp: filter_empty_conv)
    next
      case False
      with Cons show ?thesis by (auto simp: owns_lease_def)
    qed
  qed simp
  with assms show ?thesis by (simp add: unique_keys_def row_of_def)
qed

lemma under_lease_stale:
  assumes "unique_keys q" "row_of q (claim_row_key c) = Some r" "qr_leaseVersion r \<noteq> wc_leaseVersion c"
  shows "\<exists>e. under_lease out c now change q = (Inl e, q)"
proof -
  have "filter (owns_lease c now) (q_rows q) = []"
    using owner_unique [OF assms(1,2)] assms(3) by (simp add: owns_lease_def)
  moreover from this have "update_rows (owns_lease c now) change q = q"
    by (simp add: update_rows_def filter_empty_conv map_idI)
  ultimately show ?thesis by (simp add: under_lease_def Let_def)
qed

lemma Complete_held:
  assumes "queue_ok q" "row_of q (claim_row_key c) = Some r" "qr_state r = Acquiring" "qr_leaseVersion r = wc_leaseVersion c"
    "UnixMilli t < qr_leaseUntil r" "t \<noteq> zero_time" "validateCompletion completion = Inr v"
    and c: "valid_observation (wc_observation c)" "ob_autoEligible (wc_observation c)" "1 \<le> wc_leaseVersion c" "1 \<le> wc_attempt c"
  shows "\<exists>q' r'. Complete False Executed c completion t q = (Inr (), q') \<and> row_of q' (claim_row_key c) = Some r'
    \<and> qr_state r' = cp_state v \<and> qr_publishedObjectID r' = cp_publishedObjectID v \<and> qr_leaseUntil r' = 0"
proof -
  let ?c = "c\<lparr>wc_backgroundJobID := []\<rparr>"
  have own: "owns_lease ?c (UnixMilli t) r"
    using assms(3-5) row_of_key [OF assms(2)] by (simp add: owns_lease_def)
  then have "filter (owns_lease ?c (UnixMilli t)) (q_rows q) = [r]"
    using owner_unique [of q ?c r] assms(1,2) by (simp add: queue_ok_def)
  then have "Complete False Executed c completion t q = (Inr (), update_rows (owns_lease ?c (UnixMilli t)) (completed v t) q)"
    using assms(6,7) by (simp add: Complete_def checked_claim [OF c] under_lease_def)
  with own assms(2) show ?thesis by (simp add: row_of_update completed_def)
qed

text \<open>A queue with one movie, its first lease, and the lease that follows when that one has run out.\<close>

definition watched_movie :: watchlist_item where
  "watched_movie = \<lparr>wi_source = lit ''plex'', wi_externalID = lit ''m1'', wi_mediaType = lit ''movie'', wi_title = lit ''Heat'',
     wi_year = 1995\<rparr>"

definition movie_observation :: "bool \<Rightarrow> watchlist_observation" where
  "movie_observation eligible =
     \<lparr>ob_item = watched_movie, ob_autoEligible = eligible, ob_season = 0, ob_episode = 0\<rparr>"

definition clock :: "int \<Rightarrow> instant" where
  "clock ms = ms * 10 ^ 6"

lemma clock_simps [simp]:
  "UnixMilli (clock ms) = ms" "clock a + clock b = clock (a + b)" "0 \<le> ms \<Longrightarrow> clock ms \<noteq> zero_time" "clock ms \<le> 0 \<longleftrightarrow> ms \<le> 0"
  by (auto simp: clock_def UnixMilli_def zero_time_def)

definition sample_queue :: "bool \<Rightarrow> queue" where
  "sample_queue eligible = snd (UpsertObservations False Executed [movie_observation eligible] (clock 1000) (open_queue True))"

definition sample_row :: "bool \<Rightarrow> queue_row" where
  "sample_row eligible = new_row 1000 (movie_observation eligible)"

definition sample_claim :: "int \<Rightarrow> watchlist_claim" where
  "sample_claim version = \<lparr>wc_observation = movie_observation True, wc_leaseVersion = version, wc_attempt = version,
     wc_backgroundJobID = []\<rparr>"

lemma valid_movie_observation: "valid_observation (movie_observation eligible)"
  by (simp add: valid_observation_def movie_observation_def valid_item_def watched_movie_def lit_def provider_rune_def
      TrimSpace_def is_space_rune_def is_control_rune_def go_len_def utf8_bytes_def)

lemma sample_queue_run: "queue_run (open_queue True) (sample_queue eligible)"
  unfolding sample_queue_def by (rule r_into_rtranclp) (rule queue_step.observe)

lemma sample_queue_rows:
  "sample_queue eligible = \<lparr>q_policy = \<lparr>wp_acquisitionEnabled = True, wp_showPolicy = lit ''off''\<rparr>, q_rows = [sample_row eligible]\<rparr>"
  by (simp add: sample_queue_def UpsertObservations_def open_queue_def initializeAcquisitionPolicy_def
      observation_check.valid_fixed [OF valid_movie_observation] upsert_row_def sample_row_def)

lemma sample_queue_row: "row_of (sample_queue eligible) (lit ''plex'', lit ''m1'') = Some (sample_row eligible)"
  by (simp add: row_of_def sample_queue_rows sample_row_def new_row_def movie_observation_def watched_movie_def item_key_def)

lemma sample_key: "claim_row_key (sample_claim v) = (lit ''plex'', lit ''m1'')"
  by (simp add: sample_claim_def movie_observation_def watched_movie_def item_key_def)

lemma scan_sample:
  assumes "qr_item r = watched_movie" "qr_season r = 0" "qr_episode r = 0" "qr_backgroundJobID r = []" "qr_leaseVersion r = v"
    "qr_attempt r = v" "1 \<le> v"
  shows "scanClaim r = Inr (sample_claim v)"
proof -
  have "NewWatchlistItem watched_movie = Inr watched_movie"
    using valid_movie_observation [of True] by (intro item_check.valid_fixed) (simp add: valid_observation_def movie_observation_def)
  moreover have "NewWatchlistObservation watched_movie True 0 0 = Inr (movie_observation True)"
    using observation_check.valid_fixed [OF valid_movie_observation [of True]]
    by (simp add: validateObservation_def movie_observation_def)
  ultimately show ?thesis
    using assms valid_movie_observation [of True]
    by (simp add: scanClaim_def NewWatchlistIntentClaim_def newWatchlistClaim_Inr observation_check.valid_fixed sample_claim_def)
      (simp add: movie_observation_def)
qed

lemmas sample_lease_defs = Claim_def next_claimable_def claimable_def Let_def

lemma sample_lease:
  assumes "0 < d"
  shows "Claim False Executed (clock 2000) (clock d) (sample_queue True) =
     (Inr (sample_claim 1), update_rows (\<lambda>r. row_key r = row_key (sample_row True)) (leased 2000 (2000 + d)) (sample_queue True))"
proof -
  have "scanClaim (leased 2000 (2000 + d) (sample_row True)) = Inr (sample_claim 1)"
    by (rule scan_sample) (simp_all add: leased_def sample_row_def new_row_def movie_observation_def)
  then show ?thesis
    using assms by (simp add: sample_queue_rows sample_lease_defs)
      (simp add: sample_row_def new_row_def movie_observation_def watched_movie_def)
qed

lemmas sample_first_lease = sample_lease [of 1000, simplified]

lemma sample_second_lease:
  "Claim False Executed (clock 4000) (clock 1000) (snd (Claim False Executed (clock 2000) (clock 1000) (sample_queue True))) =
     (Inr (sample_claim 2), snd (Claim False Executed (clock 4000) (clock 1000)
        (snd (Claim False Executed (clock 2000) (clock 1000) (sample_queue True)))))"
proof -
  let ?r = "leased 2000 3000 (sample_row True)"
  have "scanClaim (leased 4000 5000 ?r) = Inr (sample_claim 2)"
    by (rule scan_sample) (simp_all add: leased_def sample_row_def new_row_def movie_observation_def)
  moreover have "claimable \<lparr>wp_acquisitionEnabled = True, wp_showPolicy = lit ''off''\<rparr> 4000 ?r"
    by (simp add: claimable_def leased_def sample_row_def new_row_def movie_observation_def watched_movie_def)
  ultimately show ?thesis
    unfolding sample_first_lease
    by (simp add: sample_queue_rows update_rows_def Claim_def next_claimable_def Let_def)
qed

text \<open>The steps of everyone else while a lease lasts: nobody uses this lease, and claims are made before it runs out.\<close>

definition other_lease :: "watchlist_claim \<Rightarrow> watchlist_claim \<Rightarrow> bool" where
  "other_lease c d \<longleftrightarrow> valid_observation (wc_observation d)
     \<and> (claim_row_key d = claim_row_key c \<longrightarrow> wc_leaseVersion d \<noteq> wc_leaseVersion c)"

inductive other_step :: "watchlist_claim \<Rightarrow> int \<Rightarrow> queue \<Rightarrow> queue \<Rightarrow> bool" for c leaseUntil where
  policy: "other_step c leaseUntil q (snd (SetPolicy cancelled out p q))"
| observe: "other_step c leaseUntil q (snd (UpsertObservations cancelled out observations observedAt q))"
| claim: "UnixMilli now < leaseUntil \<Longrightarrow> other_step c leaseUntil q (snd (Claim cancelled out now leaseDuration q))"
| attach: "other_lease c d \<Longrightarrow> other_step c leaseUntil q (snd (AttachJob cancelled out d jobID nextAttempt now q))"
| defers: "other_lease c d \<Longrightarrow> other_step c leaseUntil q (snd (DeferJob cancelled out d nextAttempt now q))"
| complete: "other_lease c d \<Longrightarrow> other_step c leaseUntil q (snd (Complete cancelled out d completion now q))"
| advance: "other_step c leaseUntil q (snd (AdvanceEpisode cancelled out source externalID published current next observedAfter now q))"

abbreviation other_run :: "watchlist_claim \<Rightarrow> int \<Rightarrow> queue \<Rightarrow> queue \<Rightarrow> bool" where
  "other_run c leaseUntil \<equiv> (other_step c leaseUntil)\<^sup>*\<^sup>*"

lemma other_step_queue: "other_step c leaseUntil q q' \<Longrightarrow> queue_step q q'"
  by (induction rule: other_step.induct) (rule queue_step.intros)+

definition holds :: "watchlist_claim \<Rightarrow> int \<Rightarrow> queue \<Rightarrow> bool" where
  "holds c leaseUntil q \<longleftrightarrow> queue_ok q \<and> (\<exists>r. row_of q (claim_row_key c) = Some r \<and> qr_state r = Acquiring
     \<and> qr_leaseVersion r = wc_leaseVersion c \<and> qr_leaseUntil r = leaseUntil)"

lemma holds_other_update:
  assumes "row_of q (claim_row_key c) = Some r" "\<not> guard r" "\<And>r. row_key (change r) = row_key r"
  shows "row_of (update_rows guard change q) (claim_row_key c) = Some r"
  using row_of_update [of change guard q "claim_row_key c", OF assms(3)] assms(1,2) by simp

lemma other_claim_validated:
  assumes "other_lease c d"
  shows "validateClaim d = Inr v \<Longrightarrow> other_lease c v" "validateClaimWithJob d job = Inr v \<Longrightarrow> other_lease c v"
  using assms observation_check.valid_fixed
  by (auto simp: other_lease_def validateClaim_def validateClaimWithJob_def result_simps NewWatchlistIntentClaim_def
      NewWatchlistIntentJobClaim_def newWatchlistClaim_Inr split: if_splits)

lemma other_under_lease:
  assumes "other_lease c d" "row_of q (claim_row_key c) = Some r" "qr_leaseVersion r = wc_leaseVersion c"
    "\<And>r. row_key (change r) = row_key r"
  shows "row_of (snd (under_lease out d now change q)) (claim_row_key c) = Some r"
proof -
  have "\<not> owns_lease d now r" using assms(1,3) row_of_key [OF assms(2)] by (auto simp: other_lease_def owns_lease_def)
  then have "row_of (update_rows (owns_lease d now) change q) (claim_row_key c) = Some r"
    by (intro holds_other_update [OF assms(2)] assms(4))
  with assms(2) show ?thesis by (simp add: under_lease_def Let_def)
qed

text \<open>A live lease survives what everyone else does.\<close>

lemma holds_step:
  assumes "other_step c leaseUntil q q'" "holds c leaseUntil q"
  shows "holds c leaseUntil q'"
proof -
  obtain r where r: "row_of q (claim_row_key c) = Some r" "qr_state r = Acquiring" "qr_leaseVersion r = wc_leaseVersion c"
      "qr_leaseUntil r = leaseUntil" and ok: "queue_ok q"
    using assms(2) by (auto simp: holds_def)
  have "\<exists>r'. row_of q' (claim_row_key c) = Some r' \<and> same_work r r'"
    using assms(1)
  proof cases
    case (observe cancelled out observations observedAt)
    with r(1) show ?thesis
      using upserts_keep [of "claim_row_key c" "q_rows q" r] by (auto simp: row_of_def UpsertObservations_def split: sum.split)
  next
    case (claim now cancelled out leaseDuration)
    show ?thesis
    proof (cases "next_claimable (q_policy q) (UnixMilli now) (q_rows q)")
      case None
      with r(1) claim(1) show ?thesis by (auto simp: Claim_def)
    next
      case (Some chosen)
      note chosen = next_claimable_SomeD [OF Some]
      have "\<not> claimable (q_policy q) (UnixMilli now) r" using r(2,4) claim(2) by (simp add: claimable_def)
      moreover have "chosen = r" if "row_key r = row_key chosen"
        using unique_row [of q chosen] chosen ok r(1) row_of_key [OF r(1)] that by (simp add: queue_ok_def)
      ultimately have "row_key r \<noteq> row_key chosen" using chosen by blast
      then have "row_of (update_rows (\<lambda>s. row_key s = row_key chosen) (leased (UnixMilli now) (UnixMilli (now + leaseDuration))) q)
          (claim_row_key c) = Some r"
        by (intro holds_other_update [OF r(1)]) simp_all
      with r(1) Some claim(1) show ?thesis by (auto simp: Claim_def Let_def split: sum.split)
    qed
  next
    case (attach d cancelled out jobID nextAttempt now)
    then show ?thesis
      using r(1) other_under_lease [OF other_claim_validated(2) r(1,3)]
      by (auto simp: AttachJob_def transitionJob_def split: sum.split)
  next
    case (defers d cancelled out nextAttempt now)
    then show ?thesis
      using r(1) other_under_lease [OF other_claim_validated(2) r(1,3)]
      by (auto simp: DeferJob_def transitionJob_def split: sum.split)
  next
    case (complete d cancelled out completion now)
    then show ?thesis
      using r(1) other_under_lease [OF other_claim_validated(1) r(1,3)] by (auto simp: Complete_def split: sum.split)
  next
    case (advance cancelled out source externalID published current nxt observedAfter now)
    have "\<not> at_frontier p identity r" for p identity using r(2) by (simp add: at_frontier_def)
    then have "row_of (update_rows (at_frontier p identity) (advanced n now) q) (claim_row_key c) = Some r" for p identity n
      by (intro holds_other_update [OF r(1)]) simp_all
    with r(1) advance show ?thesis by (auto simp: AdvanceEpisode_def Let_def split: sum.split)
  qed (use r(1) in \<open>auto simp: SetPolicy_def row_of_def split: sum.split\<close>)
  with r queue_ok_step [OF other_step_queue [OF assms(1)] ok] show ?thesis by (auto simp: holds_def same_work_def)
qed

lemma holds_run: "other_run c leaseUntil q q' \<Longrightarrow> holds c leaseUntil q \<Longrightarrow> holds c leaseUntil q'"
  by (induction rule: rtranclp_induct) (auto intro: holds_step)

text \<open>
  C10. The holder of a lease can finish it: whatever everyone else does until then (observations, changes of the policy, claims
  before the lease runs out, operations with other leases, progressions of shows), a worker that was granted a lease can complete it
  before it runs out with any valid outcome, if its own statement does not fail, and the row then has that outcome and is not
  leased. So no one takes a live lease away.
\<close>

theorem lease_holder_finishes:
  assumes "queue_run (open_queue e) q" "Claim cancelled out now leaseDuration q = (Inr c, q1)"
    "other_run c (UnixMilli (now + leaseDuration)) q1 q2"
    "UnixMilli t < UnixMilli (now + leaseDuration)" "t \<noteq> zero_time" "validateCompletion completion = Inr v"
  shows "\<exists>q3 r. Complete False Executed c completion t q2 = (Inr (), q3) \<and> row_of q3 (claim_row_key c) = Some r
    \<and> qr_state r = cp_state v \<and> qr_publishedObjectID r = cp_publishedObjectID v \<and> qr_leaseUntil r = 0"
proof -
  obtain r where r: "row_of q1 (claim_row_key c) = Some (leased (UnixMilli now) (UnixMilli (now + leaseDuration)) r)"
      "wc_leaseVersion c = qr_leaseVersion r + 1" "queue_ok q1"
    and c: "valid_observation (wc_observation c)" "ob_autoEligible (wc_observation c)" "1 \<le> wc_leaseVersion c" "1 \<le> wc_attempt c"
    using Claim_granted [OF queue_ok_open [OF assms(1)] assms(2)] by metis
  then have "holds c (UnixMilli (now + leaseDuration)) q1" by (simp add: holds_def leased_def)
  with assms(3) have "holds c (UnixMilli (now + leaseDuration)) q2" by (rule holds_run)
  then obtain s where "queue_ok q2" "row_of q2 (claim_row_key c) = Some s" "qr_state s = Acquiring"
      "qr_leaseVersion s = wc_leaseVersion c" "qr_leaseUntil s = UnixMilli (now + leaseDuration)"
    by (auto simp: holds_def)
  from Complete_held [OF this(1-4) _ assms(5,6) c] this(5) assms(4) show ?thesis by simp
qed

text \<open>A second worker asks for work while the lease lasts.\<close>

theorem lease_holder_finishes_witness:
  "\<exists>q3 r. Complete False Executed (sample_claim 1) NewWatchlistManualReview (clock 2500)
       (snd (Claim False Executed (clock 2400) (clock 1000) (snd (Claim False Executed (clock 2000) (clock 1000) (sample_queue True)))))
       = (Inr (), q3)
     \<and> row_of q3 (lit ''plex'', lit ''m1'') = Some r \<and> qr_state r = NeedsReview"
proof -
  let ?q1 = "snd (Claim False Executed (clock 2000) (clock 1000) (sample_queue True))"
  have lease: "Claim False Executed (clock 2000) (clock 1000) (sample_queue True) = (Inr (sample_claim 1), ?q1)"
    by (simp add: sample_first_lease)
  have others: "other_run (sample_claim 1) (UnixMilli (clock 2000 + clock 1000)) ?q1 (snd (Claim False Executed (clock 2400) (clock 1000) ?q1))"
    by (intro r_into_rtranclp other_step.claim) simp
  have "validateCompletion NewWatchlistManualReview = Inr NewWatchlistManualReview"
    by (simp add: validateCompletion_def NewWatchlistManualReview_def)
  from lease_holder_finishes [OF sample_queue_run [of True] lease others, of "clock 2500", OF _ _ this]
  show ?thesis by (auto simp: sample_key NewWatchlistManualReview_def)
qed

text \<open>
  C9. A lease that was lost cannot be used: once a row has been leased again, whatever happened in between and
  afterwards, the worker with the older lease can neither complete the row, nor attach a job to it, nor
  defer it; each attempt reports an error and changes nothing.
\<close>

theorem stale_lease_refused:
  assumes "queue_run (open_queue e) q" "Claim cancelled1 out1 now1 lease1 q = (Inr old, q1)" "queue_run q1 q2"
    "Claim cancelled2 out2 now2 lease2 q2 = (Inr new, q3)" "claim_row_key new = claim_row_key old" "queue_run q3 q4"
  shows "(\<exists>err. Complete cancelled out old completion t q4 = (Inl err, q4))
    \<and> (\<exists>err. AttachJob cancelled out old jobID nextAttempt t q4 = (Inl err, q4))
    \<and> (\<exists>err. DeferJob cancelled out old nextAttempt t q4 = (Inl err, q4))"
proof -
  have ok: "queue_ok q" using assms(1) by (rule queue_ok_open)
  obtain r where r: "row_of q1 (claim_row_key old) = Some (leased (UnixMilli now1) (UnixMilli (now1 + lease1)) r)"
    "wc_leaseVersion old = qr_leaseVersion r + 1" and ok1: "queue_ok q1"
    and c: "valid_observation (wc_observation old)" "ob_autoEligible (wc_observation old)" "1 \<le> wc_leaseVersion old"
      "1 \<le> wc_attempt old"
    using Claim_granted [OF ok assms(2)] by metis
  have ok2: "queue_ok q2" using assms(3) ok1 by (rule queue_ok_run)
  obtain s where s: "row_of q2 (claim_row_key old) = Some s"
    "row_of q3 (claim_row_key old) = Some (leased (UnixMilli now2) (UnixMilli (now2 + lease2)) s)" and ok3: "queue_ok q3"
    using Claim_granted [OF ok2 assms(4)] assms(5) by metis
  obtain s' where "row_of q2 (claim_row_key old) = Some s'" "qr_leaseVersion r + 1 \<le> qr_leaseVersion s'"
    using lease_version.run [OF assms(3) _ r(1)] ok1 by (auto simp: queue_ok_def leased_def)
  moreover obtain u where u: "row_of q4 (claim_row_key old) = Some u" "qr_leaseVersion s + 1 \<le> qr_leaseVersion u"
    using lease_version.run [OF assms(6) _ s(2)] ok3 by (auto simp: queue_ok_def leased_def)
  ultimately have newer: "qr_leaseVersion u \<noteq> wc_leaseVersion old" using r(2) s(1) by simp
  have "unique_keys q4" using ok3 assms(6) queue_ok_run by (auto simp: queue_ok_def)
  then have "\<exists>err. under_lease out (old\<lparr>wc_backgroundJobID := job\<rparr>) m change q4 = (Inl err, q4)"
    "\<exists>err. under_lease out old m change q4 = (Inl err, q4)" for job m change
    using u(1) newer by (simp_all add: under_lease_stale [of _ _ u])
  then show ?thesis
    by (auto simp: Complete_def AttachJob_def DeferJob_def transitionJob_def checked_claim [OF c] split: sum.splits)
qed

theorem stale_lease_refused_witness:
  "\<exists>err. Complete False Executed (sample_claim 1) NewWatchlistManualReview (clock 4500)
      (snd (Claim False Executed (clock 4000) (clock 1000) (snd (Claim False Executed (clock 2000) (clock 1000) (sample_queue True)))))
    = (Inl err, snd (Claim False Executed (clock 4000) (clock 1000)
        (snd (Claim False Executed (clock 2000) (clock 1000) (sample_queue True)))))"
proof -
  have "Claim False Executed (clock 2000) (clock 1000) (sample_queue True)
      = (Inr (sample_claim 1), snd (Claim False Executed (clock 2000) (clock 1000) (sample_queue True)))"
    by (simp add: sample_first_lease)
  from stale_lease_refused [OF sample_queue_run [of True] this rtranclp.rtrancl_refl sample_second_lease _ rtranclp.rtrancl_refl]
  show ?thesis by (simp add: sample_key)
qed

text \<open>
  Consent is decided once: an item that was not eligible for automatic acquisition when it was first
  observed is never leased, whatever is observed, however the policy is changed and whatever the workers do
  afterwards.
\<close>

lemma ineligible_not_claimed:
  assumes "queue_run (open_queue e) q" "row_of q k = Some r" "\<not> qr_autoEligible r" "qr_state r = Pending" "queue_run q q'"
    "Claim cancelled out now leaseDuration q' = (Inr c, q'')"
  shows "claim_row_key c \<noteq> k"
proof -
  have ok: "queue_ok q" "queue_ok q'" using queue_ok_open [OF assms(1)] queue_ok_run [OF assms(5)] by simp_all
  obtain r' where r': "row_of q' k = Some r'" "\<not> qr_autoEligible r'"
    using decision.run [OF assms(5) _ assms(2)] ok(1) assms(3,4) by (auto simp: queue_ok_def)
  show ?thesis
    using ok(2) assms(6) by (rule Claim_granted) (use r' in \<open>auto simp: claimable_def\<close>)
qed

text \<open>
  Finished work is not taken up again: a row that needs a manual review keeps that state in every
  run, and a published movie stays published with the same object. Only a show can go on to its next episode.
\<close>

lemma finished_work_stays:
  assumes "queue_run (open_queue e) q" "row_of q k = Some r" "queue_run q q'"
  shows "(qr_state r = NeedsReview \<longrightarrow> (\<exists>r'. row_of q' k = Some r' \<and> qr_state r' = NeedsReview))
    \<and> (qr_state r = Published \<and> qr_season r = 0 \<longrightarrow>
        (\<exists>r'. row_of q' k = Some r' \<and> qr_state r' = Published \<and> qr_publishedObjectID r' = qr_publishedObjectID r))"
  using finished.run [OF assms(3) _ assms(2)] queue_ok_open [OF assms(1)] by (auto simp: queue_ok_def)

end
