(* ===== verification/Server_Observer.thy ===== *)
theory Server_Observer
  imports Server_Leases
begin

text \<open>
  The Watchlist observer of \<open>internal/service/watchlist/observer.go\<close>: it reads the watchlist, decides once for each new item
  whether it may be acquired without being asked for, and records it in the queue. The snapshot of the gateway, the clock, the
  end of the context and the database are inputs.
\<close>

section \<open>Errors\<close>

text \<open>What \<open>errors.Is\<close> can find in an error of a boundary, and in the error that is reported.\<close>

datatype boundary_error = ContextCause | UnauthorizedCause | OtherCause

datatype public_error = PublicContext | PublicUnauthorized | PublicUnavailable

definition publicError :: "bool \<Rightarrow> boundary_error \<Rightarrow> public_error" where
  "publicError ended err =
     (if ended then PublicContext
      else case err of ContextCause \<Rightarrow> PublicContext | UnauthorizedCause \<Rightarrow> PublicUnauthorized | OtherCause \<Rightarrow> PublicUnavailable)"

definition queue_cause :: "queue_error \<Rightarrow> boundary_error" where
  "queue_cause e = (if e = QCancelled then ContextCause else OtherCause)"

section \<open>The observer\<close>

record observer =
  ow_healthy :: bool
  ow_lastSyncAt :: "instant option"
  ow_baselineComplete :: bool

definition start_observer :: observer where
  "start_observer = \<lparr>ow_healthy = False, ow_lastSyncAt = None, ow_baselineComplete = False\<rparr>"

definition markUnhealthy :: "observer \<Rightarrow> observer" where
  "markUnhealthy w = w\<lparr>ow_healthy := False\<rparr>"

text \<open>The loop that turns the items of a snapshot into observations.\<close>

fun observe_items ::
  "bool \<Rightarrow> watchlist_policy \<Rightarrow> watchlist_item list \<Rightarrow> watch_error + watchlist_observation list" where
  "observe_items baselineComplete policy [] = Inr []"
| "observe_items baselineComplete policy (item # items) =
     (let eligible = baselineComplete \<and> wp_acquisitionEnabled policy;
          isShow = (wi_mediaType item = lit ''show'');
          autoEligible = (if isShow then eligible \<and> wp_showPolicy policy = lit ''pilot'' else eligible);
          (season, episode) = (if isShow \<and> autoEligible then (1, 1) else (0, 0))
      in bind_result (NewWatchlistObservation item autoEligible season episode) (\<lambda>observation.
         bind_result (observe_items baselineComplete policy items) (\<lambda>observations.
         Inr (observation # observations))))"

datatype snapshot_outcome = SnapshotFailed boundary_error | Snapshot "watchlist_item list"

record sync_inputs =
  si_ended :: bool
  si_snapshot :: snapshot_outcome
  si_now :: instant
  si_policy_cancelled :: bool
  si_policy_out :: db_outcome
  si_upsert_cancelled :: bool
  si_upsert_out :: db_outcome
  si_error_ended :: bool

definition Sync :: "sync_inputs \<Rightarrow> observer \<Rightarrow> queue \<Rightarrow> (public_error + unit) \<times> observer \<times> queue" where
  "Sync i w q =
     (if si_ended i then (Inl PublicContext, w, q)
      else case si_snapshot i of
        SnapshotFailed err \<Rightarrow> (Inl (publicError (si_error_ended i) err), markUnhealthy w, q)
      | Snapshot items \<Rightarrow>
          if si_now i = zero_time then (Inl PublicUnavailable, markUnhealthy w, q)
          else (case Policy (si_policy_cancelled i) (si_policy_out i) q of
            Inl err \<Rightarrow> (Inl (publicError (si_error_ended i) (queue_cause err)), markUnhealthy w, q)
          | Inr policy \<Rightarrow>
              (case observe_items (ow_baselineComplete w) policy items of
                 Inl _ \<Rightarrow> (Inl PublicUnavailable, markUnhealthy w, q)
               | Inr observations \<Rightarrow>
                   (case UpsertObservations (si_upsert_cancelled i) (si_upsert_out i) observations (si_now i) q of
                      (Inl err, q') \<Rightarrow> (Inl (publicError (si_error_ended i) (queue_cause err)), markUnhealthy w, q')
                    | (Inr _, q') \<Rightarrow>
                        (Inr (), w\<lparr>ow_healthy := True, ow_lastSyncAt := Some (si_now i), ow_baselineComplete := True\<rparr>, q')))))"

record observer_status =
  os_enabled :: bool
  os_healthy :: bool
  os_acquisitionEnabled :: bool
  os_showPolicy :: gostring
  os_lastSyncAt :: "instant option"
  os_queue :: queue_counts

record status_inputs =
  sti_ended :: bool
  sti_counts_out :: db_outcome
  sti_policy_out :: db_outcome
  sti_error_ended :: bool

definition observer_Status :: "status_inputs \<Rightarrow> observer \<Rightarrow> queue \<Rightarrow> public_error + observer_status" where
  "observer_Status i w q =
     (if sti_ended i then Inl PublicContext
      else case queue_Status False (sti_counts_out i) q of
        Inl err \<Rightarrow> Inl (publicError (sti_error_ended i) (queue_cause err))
      | Inr counts \<Rightarrow>
          (case Policy False (sti_policy_out i) q of
             Inl err \<Rightarrow> Inl (publicError (sti_error_ended i) (queue_cause err))
           | Inr policy \<Rightarrow>
               Inr \<lparr>os_enabled = True, os_healthy = ow_healthy w, os_acquisitionEnabled = wp_acquisitionEnabled policy,
                    os_showPolicy = wp_showPolicy policy, os_lastSyncAt = ow_lastSyncAt w, os_queue = counts\<rparr>))"

definition observer_SetPolicy :: "bool \<Rightarrow> bool \<Rightarrow> db_outcome \<Rightarrow> watchlist_policy \<Rightarrow> queue \<Rightarrow> (public_error + unit) \<times> queue" where
  "observer_SetPolicy ended errorEnded out policy q =
     (if ended then (Inl PublicContext, q)
      else case SetPolicy False out policy q of
        (Inl err, q') \<Rightarrow> (Inl (publicError errorEnded (queue_cause err)), q')
      | (Inr _, q') \<Rightarrow> (Inr (), q'))"

definition observer_SetAcquisitionEnabled ::
  "bool \<Rightarrow> db_outcome \<Rightarrow> bool \<Rightarrow> db_outcome \<Rightarrow> bool \<Rightarrow> queue \<Rightarrow> (public_error + unit) \<times> queue" where
  "observer_SetAcquisitionEnabled ended readOut errorEnded out enabled q =
     (case Policy ended readOut q of
        Inl err \<Rightarrow> (Inl (publicError errorEnded (queue_cause err)), q)
      | Inr policy \<Rightarrow>
          (case NewWatchlistPolicy enabled (wp_showPolicy policy) of
             Inl _ \<Rightarrow> (Inl PublicUnavailable, q)
           | Inr updated \<Rightarrow> observer_SetPolicy ended errorEnded out updated q))"

text \<open>Switching acquisition on or off keeps the policy for shows.\<close>

lemma SetAcquisitionEnabled_keeps_shows:
  "observer_SetAcquisitionEnabled ended readOut errorEnded out enabled q = (Inr (), q')
    \<Longrightarrow> q_policy q' = (q_policy q)\<lparr>wp_acquisitionEnabled := enabled\<rparr>"
  by (cases "q_policy q")
    (auto simp: observer_SetAcquisitionEnabled_def observer_SetPolicy_def SetPolicy_def Policy_def NewWatchlistPolicy_def
      split: if_splits)

section \<open>What a synchronisation decides\<close>

text \<open>The decision about an item that is observed for the first time.\<close>

definition eligible_by :: "observer \<Rightarrow> watchlist_policy \<Rightarrow> watchlist_item \<Rightarrow> bool" where
  "eligible_by w policy item \<longleftrightarrow> ow_baselineComplete w \<and> wp_acquisitionEnabled policy
     \<and> (wi_mediaType item = lit ''show'' \<longrightarrow> wp_showPolicy policy = lit ''pilot'')"

definition decides :: "observer \<Rightarrow> watchlist_policy \<Rightarrow> watchlist_item \<Rightarrow> watchlist_observation \<Rightarrow> bool" where
  "decides w policy item ob \<longleftrightarrow>
     NewWatchlistItem item = Inr (ob_item ob) \<and> (ob_autoEligible ob \<longleftrightarrow> eligible_by w policy item)
     \<and> (if wi_mediaType item = lit ''show'' \<and> eligible_by w policy item
        then ob_season ob = 1 \<and> ob_episode ob = 1 else ob_season ob = 0 \<and> ob_episode ob = 0)"

lemma observe_items_decides:
  "observe_items (ow_baselineComplete w) policy items = Inr obs
    \<Longrightarrow> list_all2 (decides w policy) items obs \<and> list_all valid_observation obs"
proof (induction items arbitrary: obs)
  case (Cons item items)
  then obtain ob obs' where ob: "NewWatchlistObservation item (eligible_by w policy item)
      (if wi_mediaType item = lit ''show'' \<and> eligible_by w policy item then 1 else 0)
      (if wi_mediaType item = lit ''show'' \<and> eligible_by w policy item then 1 else 0) = Inr ob"
    and obs': "observe_items (ow_baselineComplete w) policy items = Inr obs'" "obs = ob # obs'"
    by (auto simp: result_simps Let_def eligible_by_def split: if_splits)
  then have "decides w policy item ob" "valid_observation ob"
    by (auto simp: NewWatchlistObservation_Inr decides_def)
  with Cons.IH obs' show ?case by simp
qed simp

lemma validate_all_valid: "list_all valid_observation obs \<Longrightarrow> validate_all obs = Inr obs"
  by (induction obs) (simp_all add: observation_check.valid_fixed)

text \<open>A key without a row gets the row of the first observation that has it, and none if no observation has it.\<close>

lemma upserts_add:
  "find (\<lambda>r. row_key r = k) rows = None \<Longrightarrow>
     (case find (\<lambda>ob. item_key (ob_item ob) = k) obs of
        None \<Rightarrow> find (\<lambda>r. row_key r = k) (fold (upsert_row ts) obs rows) = None
      | Some ob \<Rightarrow> \<exists>r'. find (\<lambda>r. row_key r = k) (fold (upsert_row ts) obs rows) = Some r' \<and> same_work (new_row ts ob) r')"
proof (induction obs arbitrary: rows)
  case (Cons ob obs)
  show ?case
  proof (cases "item_key (ob_item ob) = k")
    case True
    with Cons.prems have "find (\<lambda>r. row_key r = k) (upsert_row ts ob rows) = Some (new_row ts ob)"
      by (simp add: find_upsert_row)
    with upserts_keep [OF this, of ts obs] True show ?thesis by simp
  next
    case False
    with Cons.prems have "find (\<lambda>r. row_key r = k) (upsert_row ts ob rows) = None" by (simp add: find_upsert_row)
    from Cons.IH [OF this] False show ?thesis by (simp split: option.splits)
  qed
qed simp

lemma Policy_Inr: "Policy cancelled out q = Inr policy \<Longrightarrow> policy = q_policy q"
  by (auto simp: Policy_def NewWatchlistPolicy_def split: if_splits)

lemma Sync_records:
  assumes "Sync i w q = (Inr (), w', q')"
  obtains items obs where "si_snapshot i = Snapshot items" "list_all2 (decides w (q_policy q)) items obs"
    "q' = q\<lparr>q_rows := fold (upsert_row (UnixMilli (si_now i))) obs (q_rows q)\<rparr>"
    "w' = w\<lparr>ow_healthy := True, ow_lastSyncAt := Some (si_now i), ow_baselineComplete := True\<rparr>"
proof -
  obtain items policy obs where i: "si_snapshot i = Snapshot items" "Policy (si_policy_cancelled i) (si_policy_out i) q = Inr policy"
    "observe_items (ow_baselineComplete w) policy items = Inr obs"
    "UpsertObservations (si_upsert_cancelled i) (si_upsert_out i) obs (si_now i) q = (Inr (), q')"
    "w' = w\<lparr>ow_healthy := True, ow_lastSyncAt := Some (si_now i), ow_baselineComplete := True\<rparr>"
    using assms by (auto simp: Sync_def split: if_splits snapshot_outcome.splits sum.splits prod.splits)
  have "validate_all obs = Inr obs" using observe_items_decides [OF i(3)] by (simp add: validate_all_valid)
  with i(4) have "q' = q\<lparr>q_rows := fold (upsert_row (UnixMilli (si_now i))) obs (q_rows q)\<rparr>"
    by (auto simp: UpsertObservations_def split: if_splits)
  with i observe_items_decides [OF i(3)] Policy_Inr [OF i(2)] show thesis by (intro that) auto
qed

lemma Sync_run:
  assumes "Sync i w q = (result, w', q')"
  shows "queue_run q q'"
proof -
  have "q' = q \<or> (\<exists>cancelled out obs t. q' = snd (UpsertObservations cancelled out obs t q))"
    using assms by (auto simp: Sync_def split: if_splits snapshot_outcome.splits sum.splits prod.splits) (metis snd_conv)+
  then show ?thesis using queue_step.observe by auto
qed

text \<open>The key under which an item is recorded, and a row that was recorded for an item.\<close>

definition has_key :: "queue_key \<Rightarrow> watchlist_item \<Rightarrow> bool" where
  "has_key k item \<longleftrightarrow> (case NewWatchlistItem item of Inl _ \<Rightarrow> False | Inr v \<Rightarrow> (wi_source v, wi_externalID v) = k)"

definition recorded_for :: "observer \<Rightarrow> watchlist_policy \<Rightarrow> instant \<Rightarrow> watchlist_item \<Rightarrow> queue_row \<Rightarrow> bool" where
  "recorded_for w policy now item r \<longleftrightarrow> qr_state r = Pending \<and> qr_attempt r = 0 \<and> qr_leaseVersion r = 0 \<and> qr_leaseUntil r = 0
     \<and> qr_publishedObjectID r = [] \<and> qr_backgroundJobID r = [] \<and> qr_firstObserved r = UnixMilli now
     \<and> (qr_autoEligible r \<longleftrightarrow> ow_baselineComplete w \<and> wp_acquisitionEnabled policy
          \<and> (wi_mediaType item = lit ''show'' \<longrightarrow> wp_showPolicy policy = lit ''pilot''))
     \<and> (if wi_mediaType item = lit ''show'' \<and> qr_autoEligible r
        then qr_season r = 1 \<and> qr_episode r = 1 else qr_season r = 0 \<and> qr_episode r = 0)"

lemma find_decided:
  "list_all2 (decides w policy) items obs \<Longrightarrow>
     (case find (has_key k) items of
        None \<Rightarrow> find (\<lambda>ob. item_key (ob_item ob) = k) obs = None
      | Some item \<Rightarrow> \<exists>ob. find (\<lambda>ob. item_key (ob_item ob) = k) obs = Some ob \<and> decides w policy item ob)"
proof (induction rule: list_all2_induct)
  case (Cons item items ob obs)
  then have "has_key k item \<longleftrightarrow> item_key (ob_item ob) = k" by (simp add: decides_def has_key_def item_key_def)
  with Cons show ?case by (cases "has_key k item") (simp_all split: option.splits)
qed simp

lemma Sync_rows:
  assumes "Sync i w q = (Inr (), w', q')"
  obtains items where "si_snapshot i = Snapshot items" "ow_baselineComplete w'"
    "\<And>k r. row_of q k = Some r \<Longrightarrow> \<exists>r'. row_of q' k = Some r' \<and> same_work r r'"
    "\<And>k. row_of q k = None \<Longrightarrow> find (has_key k) items = None \<Longrightarrow> row_of q' k = None"
    "\<And>k item. row_of q k = None \<Longrightarrow> find (has_key k) items = Some item
      \<Longrightarrow> \<exists>r'. row_of q' k = Some r' \<and> recorded_for w (q_policy q) (si_now i) item r'"
proof -
  obtain items obs where items: "si_snapshot i = Snapshot items" "list_all2 (decides w (q_policy q)) items obs"
    and q': "q' = q\<lparr>q_rows := fold (upsert_row (UnixMilli (si_now i))) obs (q_rows q)\<rparr>"
    and w': "w' = w\<lparr>ow_healthy := True, ow_lastSyncAt := Some (si_now i), ow_baselineComplete := True\<rparr>"
    using assms by (rule Sync_records)
  let ?ts = "UnixMilli (si_now i)"
  note added = upserts_add [where rows = "q_rows q" and obs = obs and ts = ?ts] and decided = find_decided [OF items(2)]
  show thesis
  proof (rule that [OF items(1)])
    show "ow_baselineComplete w'" by (simp add: w')
    show "\<exists>r'. row_of q' k = Some r' \<and> same_work r r'" if "row_of q k = Some r" for k r
      using that upserts_keep [of k "q_rows q" r ?ts obs] by (simp add: row_of_def q')
    show "row_of q' k = None" if "row_of q k = None" "find (has_key k) items = None" for k
      using that added [of k] decided [of k] by (simp add: row_of_def q')
    show "\<exists>r'. row_of q' k = Some r' \<and> recorded_for w (q_policy q) (si_now i) item r'"
      if fresh: "row_of q k = None" and first: "find (has_key k) items = Some item" for k item
    proof -
      obtain ob where "find (\<lambda>ob. item_key (ob_item ob) = k) obs = Some ob" and ob: "decides w (q_policy q) item ob"
        using first decided [of k] by auto
      with added [of k] fresh obtain r' where "row_of q' k = Some r'" "same_work (new_row ?ts ob) r'"
        by (auto simp: row_of_def q')
      with ob show ?thesis
        by (intro exI [of _ r']) (auto simp: recorded_for_def same_work_def new_row_def decides_def eligible_by_def split: if_splits)
    qed
  qed
qed

text \<open>
  C11. A synchronisation decides once: an item that is already recorded keeps its state, its lease, its job, its
  published object, its eligibility and its episode. Each key that is new gets a row exactly when an item of the snapshot
  has it, and the first such item decides about it: the row is pending, first observed now, and it may be acquired without being
  asked for exactly when an earlier synchronisation has completed, acquisition is switched on and, for a show, the pilot policy is
  chosen. A new show then asks for its first episode and everything else for no episode.
\<close>

theorem sync_decides_once:
  assumes "Sync i w q = (Inr (), w', q')"
  shows "\<exists>items. si_snapshot i = Snapshot items \<and> ow_baselineComplete w'
    \<and> (case row_of q k of
         Some r \<Rightarrow> (\<exists>r'. row_of q' k = Some r' \<and> same_work r r')
       | None \<Rightarrow> (case find (has_key k) items of
             None \<Rightarrow> row_of q' k = None
           | Some item \<Rightarrow> (\<exists>r'. row_of q' k = Some r' \<and> recorded_for w (q_policy q) (si_now i) item r')))"
  by (rule Sync_rows [OF assms]) (auto split: option.split)

definition first_sync :: sync_inputs where
  "first_sync = \<lparr>si_ended = False, si_snapshot = Snapshot [watched_movie], si_now = clock 1000, si_policy_cancelled = False,
     si_policy_out = Executed, si_upsert_cancelled = False, si_upsert_out = Executed, si_error_ended = False\<rparr>"

lemma first_sync_recorded:
  "Sync first_sync start_observer (open_queue True) =
     (Inr (), \<lparr>ow_healthy = True, ow_lastSyncAt = Some (clock 1000), ow_baselineComplete = True\<rparr>, sample_queue False)"
proof -
  have "NewWatchlistObservation watched_movie False 0 0 = Inr (movie_observation False)"
    using observation_check.valid_fixed [OF valid_movie_observation [of False]]
    by (simp add: validateObservation_def movie_observation_def)
  moreover have "Policy False Executed (open_queue True) = Inr \<lparr>wp_acquisitionEnabled = True, wp_showPolicy = lit ''off''\<rparr>"
    by (simp add: Policy_def open_queue_def initializeAcquisitionPolicy_def NewWatchlistPolicy_def)
  moreover have "UpsertObservations False Executed [movie_observation False] (clock 1000) (open_queue True) = (Inr (), sample_queue False)"
    by (simp add: UpsertObservations_def sample_queue_def observation_check.valid_fixed [OF valid_movie_observation])
  ultimately show ?thesis
    by (simp add: Sync_def first_sync_def start_observer_def watched_movie_def)
qed

theorem sync_decides_once_witness:
  "\<exists>w' q' r'. Sync first_sync start_observer (open_queue True) = (Inr (), w', q')
     \<and> row_of q' (lit ''plex'', lit ''m1'') = Some r' \<and> \<not> qr_autoEligible r' \<and> ow_baselineComplete w'"
proof -
  have "row_of (open_queue True) (lit ''plex'', lit ''m1'') = None" by (simp add: row_of_def open_queue_def)
  moreover have "NewWatchlistItem watched_movie = Inr watched_movie"
    using valid_movie_observation [of True] by (intro item_check.valid_fixed) (simp add: valid_observation_def movie_observation_def)
  then have "has_key (lit ''plex'', lit ''m1'') watched_movie" by (simp add: has_key_def watched_movie_def)
  moreover have "si_snapshot first_sync = Snapshot [watched_movie]" "\<not> ow_baselineComplete start_observer"
    by (simp_all add: first_sync_def start_observer_def)
  ultimately have "\<exists>r'. row_of (sample_queue False) (lit ''plex'', lit ''m1'') = Some r' \<and> \<not> qr_autoEligible r'"
    using sync_decides_once [OF first_sync_recorded, of "(lit ''plex'', lit ''m1'')"] by (auto simp: recorded_for_def)
  then show ?thesis by (simp add: first_sync_recorded)
qed

text \<open>
  C12. Nothing that was on the watchlist before is acquired without being asked for: an item that is first recorded by the
  first synchronisation after a start, or while acquisition is switched off, is never leased to a worker,
  whatever happens later, a change of the policy included.
\<close>

theorem baseline_never_acquired:
  assumes "queue_run (open_queue e) q" "Sync i w q = (Inr (), w', q')" "row_of q k = None" "row_of q' k = Some r"
    "\<not> ow_baselineComplete w \<or> \<not> wp_acquisitionEnabled (q_policy q)" "queue_run q' q''"
    "Claim cancelled out now leaseDuration q'' = (Inr c, q3)"
  shows "claim_row_key c \<noteq> k"
proof -
  obtain item where "recorded_for w (q_policy q) (si_now i) item r"
    using Sync_rows [OF assms(2)] assms(3,4) by (metis option.distinct(1) option.exhaust option.inject)
  then have "\<not> qr_autoEligible r" "qr_state r = Pending" using assms(5) by (auto simp: recorded_for_def)
  moreover have "queue_run (open_queue e) q'" using assms(1) Sync_run [OF assms(2)] by simp
  ultimately show ?thesis using ineligible_not_claimed [OF _ assms(4) _ _ assms(6,7)] by blast
qed

theorem baseline_never_acquired_witness:
  "\<exists>w' r. Sync first_sync start_observer (open_queue True) = (Inr (), w', sample_queue False)
     \<and> row_of (sample_queue False) (lit ''plex'', lit ''m1'') = Some r
     \<and> fst (Claim False Executed (clock 2000) (clock 1000) (sample_queue False)) \<noteq> Inr (sample_claim 1)"
proof -
  have "row_of (open_queue True) (lit ''plex'', lit ''m1'') = None" by (simp add: row_of_def open_queue_def)
  moreover have "\<not> ow_baselineComplete start_observer" by (simp add: start_observer_def)
  ultimately have "claim_row_key (sample_claim 1) \<noteq> (lit ''plex'', lit ''m1'')"
    if "Claim False Executed (clock 2000) (clock 1000) (sample_queue False) = (Inr (sample_claim 1), q3)" for q3
    using baseline_never_acquired [OF rtranclp.rtrancl_refl first_sync_recorded _ sample_queue_row _ rtranclp.rtrancl_refl that]
    by blast
  then show ?thesis
    using sample_key [of 1] by (auto simp: first_sync_recorded sample_queue_row prod_eq_iff)
qed

end
