(* ===== verification/Server_Worker.thy ===== *)
theory Server_Worker
  imports Server_Observer Server_Contract
begin

text \<open>
  The Watchlist worker of \<open>internal/service/watchlist/worker.go\<close>: it leases one item of the queue at a time and either
  finds it published, submits a background job for it, or follows the job that was submitted
  before. The published index is the setup service; the answers of the job manager, the clock and the database are inputs.
\<close>

section \<open>Options\<close>

record worker_options =
  wo_leaseDuration :: int
  wo_operationTimeout :: int
  wo_idleInterval :: int
  wo_reconcileInterval :: int
  wo_notCachedCooldown :: int
  wo_retryCooldown :: int

definition durableCompletionTimeout :: int where
  "durableCompletionTimeout = 5 * 10 ^ 9"

definition NewWorker :: "worker_options \<Rightarrow> worker_options option" where
  "NewWorker options =
     (if list_ex (\<lambda>d. d \<le> 0) [wo_leaseDuration options, wo_operationTimeout options, wo_idleInterval options,
           wo_reconcileInterval options, wo_notCachedCooldown options, wo_retryCooldown options] then None
      else if wo_leaseDuration options \<le> wo_operationTimeout options + durableCompletionTimeout then None
      else Some options)"

section \<open>Inputs\<close>

text \<open>A failure of the job manager is given by what \<open>errors.Is\<close> finds in it, in the classes of the queue.\<close>

datatype submit_outcome = Submitted gostring | SubmitFailed queue_error

datatype get_outcome = JobFound gostring gostring gostring | JobNotFound | JobUnreadable queue_error

record worker_inputs =
  wk_now :: instant
  wk_claim_cancelled :: bool
  wk_claim_out :: db_outcome
  wk_index_loads :: bool
  wk_submit :: submit_outcome
  wk_get :: get_outcome
  wk_transitionNow :: instant
  wk_commit_cancelled :: bool
  wk_commit_out :: db_outcome
  wk_commitNow :: instant
  wk_ended :: bool

datatype worker_error = WorkNotFound | WorkContext | WorkStale | WorkUnavailable | WorkRefused

definition workerBoundaryError :: "bool \<Rightarrow> queue_error \<Rightarrow> worker_error" where
  "workerBoundaryError ended err =
     (if err = QNotFound then WorkNotFound
      else if ended then WorkContext
      else if err = QCancelled then WorkContext
      else if err = QStale then WorkStale
      else WorkUnavailable)"

section \<open>Steps\<close>

text \<open>\<open>commitDurably\<close> and \<open>completeDurably\<close>.\<close>

definition commitDurably :: "worker_inputs \<Rightarrow> (queue_error + unit) \<times> queue \<Rightarrow> (worker_error + unit) \<times> queue" where
  "commitDurably i transition =
     (case transition of
        (Inl err, q) \<Rightarrow> (Inl (workerBoundaryError (wk_commit_cancelled i) err), q)
      | (Inr _, q) \<Rightarrow> (Inr (), q))"

definition completeDurably ::
  "worker_inputs \<Rightarrow> watchlist_claim \<Rightarrow> watchlist_completion \<Rightarrow> queue \<Rightarrow> (worker_error + queue_state) \<times> queue" where
  "completeDurably i claim completion q =
     (case commitDurably i (Complete (wk_commit_cancelled i) (wk_commit_out i) claim completion (wk_commitNow i) q) of
        (Inl err, q') \<Rightarrow> (Inl err, q')
      | (Inr _, q') \<Rightarrow> (Inr (cp_state completion), q'))"

text \<open>\<open>submit\<close>; the last component is the requests that were given to the job manager.\<close>

definition worker_submit ::
  "worker_options \<Rightarrow> worker_inputs \<Rightarrow> service \<Rightarrow> watchlist_claim \<Rightarrow> queue
   \<Rightarrow> (worker_error + queue_state) \<times> queue \<times> search_request list" where
  "worker_submit options i s claim q =
     (case claim_request_of claim of
        Inl _ \<Rightarrow> (case completeDurably i claim NewWatchlistManualReview q of (r, q') \<Rightarrow> (r, q', []))
      | Inr request \<Rightarrow>
          (case FindPublished (wk_index_loads i) request s of
             Inl _ \<Rightarrow> (Inl (workerBoundaryError (wk_ended i) QFailed), q, [])
           | Inr (Some objectID) \<Rightarrow>
               (case NewWatchlistSucceeded objectID of
                  Inl _ \<Rightarrow> (case completeDurably i claim NewWatchlistManualReview q of (r, q') \<Rightarrow> (r, q', []))
                | Inr completion \<Rightarrow> (case completeDurably i claim completion q of (r, q') \<Rightarrow> (r, q', [])))
           | Inr None \<Rightarrow>
               (case wk_submit i of
                  SubmitFailed err \<Rightarrow> (Inl (workerBoundaryError (wk_ended i) err), q, [request])
                | Submitted jobID \<Rightarrow>
                    (case commitDurably i (AttachJob (wk_commit_cancelled i) (wk_commit_out i) claim jobID
                            (wk_transitionNow i + wo_reconcileInterval options) (wk_transitionNow i) q) of
                       (Inl err, q') \<Rightarrow> (Inl err, q', [request])
                     | (Inr _, q') \<Rightarrow> (Inr Acquiring, q', [request])))))"

definition completeFailedJob ::
  "worker_options \<Rightarrow> worker_inputs \<Rightarrow> watchlist_claim \<Rightarrow> gostring \<Rightarrow> queue \<Rightarrow> (worker_error + queue_state) \<times> queue" where
  "completeFailedJob options i claim code q =
     (if code = lit ''no_release'' \<or> code = lit ''stalled'' then
        (case NewWatchlistDeferred NotCached (wk_transitionNow i + wo_notCachedCooldown options) of
           Inl _ \<Rightarrow> (Inl WorkRefused, q)
         | Inr completion \<Rightarrow> completeDurably i claim completion q)
      else if code = lit ''unauthorized'' \<or> code = lit ''provider_unavailable'' then
        (case NewWatchlistDeferred Retryable (wk_transitionNow i + wo_retryCooldown options) of
           Inl _ \<Rightarrow> (Inl WorkRefused, q)
         | Inr completion \<Rightarrow> completeDurably i claim completion q)
      else completeDurably i claim NewWatchlistManualReview q)"

definition reconcile ::
  "worker_options \<Rightarrow> worker_inputs \<Rightarrow> watchlist_claim \<Rightarrow> queue \<Rightarrow> (worker_error + queue_state) \<times> queue" where
  "reconcile options i claim q =
     (case wk_get i of
        JobNotFound \<Rightarrow> completeDurably i claim NewWatchlistManualReview q
      | JobUnreadable err \<Rightarrow> (Inl (workerBoundaryError (wk_ended i) err), q)
      | JobFound state published code \<Rightarrow>
          if state = lit ''queued'' \<or> state = lit ''selected'' \<or> state = lit ''preparing'' then
            (case commitDurably i (DeferJob (wk_commit_cancelled i) (wk_commit_out i) claim
                    (wk_transitionNow i + wo_reconcileInterval options) (wk_transitionNow i) q) of
               (Inl err, q') \<Rightarrow> (Inl err, q')
             | (Inr _, q') \<Rightarrow> (Inr Acquiring, q'))
          else if state = lit ''succeeded'' then
            (case NewWatchlistSucceeded published of
               Inl _ \<Rightarrow> completeDurably i claim NewWatchlistManualReview q
             | Inr completion \<Rightarrow> completeDurably i claim completion q)
          else if state = lit ''manual_review'' then completeDurably i claim NewWatchlistManualReview q
          else if state = lit ''failed'' then completeFailedJob options i claim code q
          else completeDurably i claim NewWatchlistManualReview q)"

definition ProcessOne ::
  "worker_options \<Rightarrow> worker_inputs \<Rightarrow> service \<Rightarrow> queue
   \<Rightarrow> (worker_error + queue_state) \<times> queue \<times> search_request list" where
  "ProcessOne options i s q =
     (if wk_now i = zero_time then (Inl WorkUnavailable, q, [])
      else case Claim (wk_claim_cancelled i) (wk_claim_out i) (wk_now i) (wo_leaseDuration options) q of
        (Inl err, q1) \<Rightarrow> (Inl (workerBoundaryError (wk_ended i) err), q1, [])
      | (Inr claim, q1) \<Rightarrow>
          if wc_backgroundJobID claim = [] then worker_submit options i s claim q1
          else (case reconcile options i claim q1 of (r, q2) \<Rightarrow> (r, q2, [])))"

section \<open>A settled lease\<close>

text \<open>What a successful update under a lease leaves in the row.\<close>

lemma under_lease_done:
  assumes "under_lease out c now change q = (Inr (), q')" "unique_keys q" "row_of q (claim_row_key c) = Some r"
    "\<And>r. row_key (change r) = row_key r"
  shows "row_of q' (claim_row_key c) = Some (change r) \<and> owns_lease c now r"
proof -
  have "length (filter (owns_lease c now) (q_rows q)) = 1" "q' = update_rows (owns_lease c now) change q"
    using assms(1) by (auto simp: under_lease_def Let_def split: if_splits)
  moreover have "filter (owns_lease c now) (q_rows q) = (if owns_lease c now r then [r] else [])"
    using owner_unique [OF assms(2,3)] .
  ultimately show ?thesis using assms(3) by (auto simp: row_of_update [OF assms(4)] split: if_splits)
qed

text \<open>A claim that the queue granted in this state.\<close>

definition granted :: "queue \<Rightarrow> watchlist_claim \<Rightarrow> bool" where
  "granted q c \<longleftrightarrow> queue_ok q \<and> row_of q (claim_row_key c) \<noteq> None \<and> valid_observation (wc_observation c)
     \<and> ob_autoEligible (wc_observation c) \<and> 1 \<le> wc_leaseVersion c \<and> 1 \<le> wc_attempt c"

lemma Claim_is_granted: "queue_ok q \<Longrightarrow> Claim cancelled out now d q = (Inr c, q') \<Longrightarrow> granted q' c"
  by (erule (1) Claim_granted) (simp add: granted_def)

definition settled :: "queue \<Rightarrow> watchlist_claim \<Rightarrow> queue_state \<Rightarrow> bool" where
  "settled q c st \<longleftrightarrow>
     (case row_of q (claim_row_key c) of None \<Rightarrow> False | Some r \<Rightarrow> qr_state r = st \<and> qr_leaseUntil r = 0)"

lemma granted_row:
  assumes "granted q c"
  obtains r where "row_of q (claim_row_key c) = Some r"
  using assms by (auto simp: granted_def)

lemma validateCompletion_state: "validateCompletion completion = Inr v \<Longrightarrow> cp_state v = cp_state completion"
  by (auto simp: validateCompletion_def NewWatchlistSucceeded_def NewWatchlistDeferred_def NewWatchlistManualReview_def
      result_simps Let_def split: queue_state.splits)

lemma completeDurably_settles:
  assumes "granted q c" "completeDurably i c completion q = (Inr st, q')"
  shows "st = cp_state completion \<and> settled q' c st"
proof -
  have c: "valid_observation (wc_observation c)" "ob_autoEligible (wc_observation c)" "1 \<le> wc_leaseVersion c" "1 \<le> wc_attempt c"
    and ok: "unique_keys q" using assms(1) by (auto simp: granted_def queue_ok_def)
  obtain r where r: "row_of q (claim_row_key c) = Some r" using granted_row [OF assms(1)] .
  let ?c = "c\<lparr>wc_backgroundJobID := []\<rparr>"
  obtain v where v: "validateCompletion completion = Inr v" "st = cp_state completion"
    "under_lease (wk_commit_out i) ?c (UnixMilli (wk_commitNow i)) (completed v (wk_commitNow i)) q = (Inr (), q')"
    using assms(2) by (auto simp: completeDurably_def commitDurably_def Complete_def checked_claim [OF c] split: sum.splits prod.splits if_splits)
  have "row_of q' (claim_row_key c) = Some (completed v (wk_commitNow i) r)"
    using under_lease_done [OF v(3) ok, of r] r by simp
  with v(1,2) validateCompletion_state show ?thesis by (simp add: settled_def completed_def)
qed

lemma transitionJob_settles:
  assumes "granted q c" "transitionJob cancelled out (c\<lparr>wc_backgroundJobID := job\<rparr>) next job now q = (Inr (), q')"
  shows "settled q' c Acquiring \<and> map_option qr_backgroundJobID (row_of q' (claim_row_key c)) = Some job"
proof -
  have ok: "unique_keys q" using assms(1) by (auto simp: granted_def queue_ok_def)
  obtain r where r: "row_of q (claim_row_key c) = Some r" using granted_row [OF assms(1)] .
  have "under_lease out (c\<lparr>wc_backgroundJobID := job\<rparr>) (UnixMilli now) (linked job next now) q = (Inr (), q')"
    using assms(2) by (auto simp: transitionJob_def split: if_splits)
  from under_lease_done [OF this ok, of r] r show ?thesis by (simp add: settled_def linked_def)
qed

lemma submit_settles:
  assumes "granted q c" "worker_submit options i s c q = (Inr st, q', submitted)"
  shows "settled q' c st \<and> (submitted = [] \<or> (\<exists>job. wk_submit i = Submitted job \<and> st = Acquiring
    \<and> map_option qr_backgroundJobID (row_of q' (claim_row_key c)) = Some job))"
proof -
  have c: "valid_observation (wc_observation c)" "ob_autoEligible (wc_observation c)" "1 \<le> wc_leaseVersion c" "1 \<le> wc_attempt c"
    using assms(1) by (auto simp: granted_def)
  consider (complete) completion where "completeDurably i c completion q = (Inr st, q')" "submitted = []"
    | (attach) job where "wk_submit i = Submitted job" "st = Acquiring"
        "transitionJob (wk_commit_cancelled i) (wk_commit_out i) (c\<lparr>wc_backgroundJobID := job\<rparr>)
           (wk_transitionNow i + wo_reconcileInterval options) job (wk_transitionNow i) q = (Inr (), q')"
    using assms(2)
    by (auto simp: worker_submit_def commitDurably_def AttachJob_def checked_claim [OF c]
        split: sum.splits option.splits prod.splits submit_outcome.splits if_splits)
  then show ?thesis
    by cases (use completeDurably_settles [OF assms(1)] transitionJob_settles [OF assms(1)] in auto)
qed

lemma reconcile_settles:
  assumes "granted q c" "reconcile options i c q = (Inr st, q')"
  shows "settled q' c st"
proof -
  have c: "valid_observation (wc_observation c)" "ob_autoEligible (wc_observation c)" "1 \<le> wc_leaseVersion c" "1 \<le> wc_attempt c"
    using assms(1) by (auto simp: granted_def)
  let ?job = "wc_backgroundJobID c"
  consider (complete) completion where "completeDurably i c completion q = (Inr st, q')"
    | (defers) "st = Acquiring" "transitionJob (wk_commit_cancelled i) (wk_commit_out i) (c\<lparr>wc_backgroundJobID := ?job\<rparr>)
           (wk_transitionNow i + wo_reconcileInterval options) ?job (wk_transitionNow i) q = (Inr (), q')"
    using assms(2)
    by (auto simp: reconcile_def completeFailedJob_def commitDurably_def DeferJob_def checked_claim [OF c]
        split: sum.splits prod.splits get_outcome.splits if_splits)
  then show ?thesis
    by cases (use completeDurably_settles [OF assms(1)] transitionJob_settles [OF assms(1), where job = ?job] in auto)
qed

lemma worker_submit_requests:
  "worker_submit options i s c q = (result, q', submitted) \<Longrightarrow> submitted = []
    \<or> (\<exists>request. claim_request_of c = Inr request \<and> FindPublished (wk_index_loads i) request s = Inr None \<and> submitted = [request])"
  by (auto simp: worker_submit_def split: sum.splits option.splits prod.splits submit_outcome.splits)

text \<open>
  C13. The worker settles what it leases and asks for nothing twice: when it reports a state, the row that it leased
  has that state and its lease is released; it submits at most one job, only for an item that
  has no job yet and whose movie or episode is not published, and when it then reports success
  the row is linked to that job.
\<close>

theorem worker_settles_lease:
  assumes "queue_run (open_queue e) q" "ProcessOne options i s q = (result, q', submitted)"
  shows "(case result of
      Inl _ \<Rightarrow> True
    | Inr st \<Rightarrow> (\<exists>c q1. Claim (wk_claim_cancelled i) (wk_claim_out i) (wk_now i) (wo_leaseDuration options) q = (Inr c, q1)
        \<and> settled q' c st
        \<and> (submitted = [] \<or> (\<exists>job. wk_submit i = Submitted job \<and> st = Acquiring
              \<and> map_option qr_backgroundJobID (row_of q' (claim_row_key c)) = Some job))))
    \<and> (submitted = [] \<or> (\<exists>c q1 request. Claim (wk_claim_cancelled i) (wk_claim_out i) (wk_now i) (wo_leaseDuration options) q = (Inr c, q1)
         \<and> wc_backgroundJobID c = [] \<and> claim_request_of c = Inr request
         \<and> FindPublished (wk_index_loads i) request s = Inr None \<and> submitted = [request]))"
proof -
  obtain claimed q1 where claimed: "Claim (wk_claim_cancelled i) (wk_claim_out i) (wk_now i) (wo_leaseDuration options) q = (claimed, q1)"
    by force
  show ?thesis
  proof (cases claimed)
    case (Inl err)
    then show ?thesis using assms(2) claimed by (auto simp: ProcessOne_def split: if_splits)
  next
    case (Inr c)
    have g: "granted q1 c" using Claim_is_granted [OF queue_ok_open [OF assms(1)]] claimed Inr by simp
    show ?thesis
    proof (cases "wk_now i = zero_time")
      case True
      then show ?thesis using assms(2) by (auto simp: ProcessOne_def)
    next
      case now: False
      show ?thesis
      proof (cases "wc_backgroundJobID c = []")
        case True
        then have w: "worker_submit options i s c q1 = (result, q', submitted)"
          using assms(2) claimed Inr now by (simp add: ProcessOne_def)
        show ?thesis
          using submit_settles [OF g, of options i s] w worker_submit_requests [OF w] claimed Inr True
          by (cases result) auto
      next
        case False
        then have "reconcile options i c q1 = (result, q')" "submitted = []"
          using assms(2) claimed Inr now by (auto simp: ProcessOne_def split: prod.splits)
        then show ?thesis using reconcile_settles [OF g, of options i] claimed Inr by (cases result) auto
      qed
    qed
  qed
qed

definition minute_options :: worker_options where
  "minute_options = \<lparr>wo_leaseDuration = clock 60000, wo_operationTimeout = clock 30000, wo_idleInterval = clock 1000,
     wo_reconcileInterval = clock 5000, wo_notCachedCooldown = clock 9000, wo_retryCooldown = clock 9000\<rparr>"

definition quiet_inputs :: worker_inputs where
  "quiet_inputs = \<lparr>wk_now = clock 2000, wk_claim_cancelled = False, wk_claim_out = Executed, wk_index_loads = True,
     wk_submit = Submitted (replicate 32 97), wk_get = JobNotFound, wk_transitionNow = clock 2100, wk_commit_cancelled = False,
     wk_commit_out = Executed, wk_commitNow = clock 2100, wk_ended = False\<rparr>"

lemma sample_process:
  "\<exists>q'. ProcessOne minute_options quiet_inputs (service_start [] None) (sample_queue True)
     = (Inr Acquiring, q', [\<lparr>sr_mediaType = lit ''movie'', sr_title = lit ''Heat'', sr_year = 1995, sr_season = 0, sr_episode = 0\<rparr>])"
proof -
  obtain q1 where claim: "Claim False Executed (clock 2000) (clock 60000) (sample_queue True) = (Inr (sample_claim 1), q1)"
    using sample_lease [of 60000] by simp
  have c: "valid_observation (wc_observation (sample_claim 1))" "ob_autoEligible (wc_observation (sample_claim 1))"
    "1 \<le> wc_leaseVersion (sample_claim 1)" "1 \<le> wc_attempt (sample_claim 1)"
    using valid_movie_observation [of True] by (simp_all add: sample_claim_def movie_observation_def)
  have job: "jobIDPattern (replicate 32 97)" by (simp add: jobIDPattern_def is_hex_rune_def list_all_iff)
  let ?c = "(sample_claim 1)\<lparr>wc_backgroundJobID := replicate 32 97\<rparr>"
  have q1: "q1 = update_rows (\<lambda>r. row_key r = row_key (sample_row True)) (leased 2000 62000) (sample_queue True)"
    using claim sample_lease [of 60000] by simp
  have "owns_lease ?c 2100 (leased 2000 62000 (sample_row True))"
    by (simp add: owns_lease_def leased_def sample_row_def new_row_def sample_claim_def movie_observation_def)
  then have "length (filter (owns_lease ?c 2100) (q_rows q1)) = 1"
    by (simp add: q1 update_rows_def sample_queue_rows)
  then have "\<exists>q2. transitionJob False Executed ?c (clock 7100) (replicate 32 97) (clock 2100) q1 = (Inr (), q2)"
    by (simp add: transitionJob_def under_lease_def Let_def)
  moreover have "claim_request_of (sample_claim 1) = Inr \<lparr>sr_mediaType = lit ''movie'', sr_title = lit ''Heat'', sr_year = 1995,
      sr_season = 0, sr_episode = 0\<rparr>"
    by (simp add: claim_request_of_def item_request_of_def sample_claim_def movie_observation_def watched_movie_def as_intent_def
        search_defs TrimSpace_def lit_def is_space_rune_def go_len_def utf8_bytes_def is_control_rune_def)
  moreover have "wc_backgroundJobID (sample_claim 1) = []" by (simp add: sample_claim_def)
  ultimately show ?thesis
    using claim job
    by (auto simp: ProcessOne_def quiet_inputs_def minute_options_def worker_submit_def FindPublished_def service_start_def
        AttachJob_def checked_claim [OF c] commitDurably_def)
qed

theorem worker_settles_lease_witness:
  "\<exists>q'. fst (ProcessOne minute_options quiet_inputs (service_start [] None) (sample_queue True)) = Inr Acquiring
     \<and> q' = fst (snd (ProcessOne minute_options quiet_inputs (service_start [] None) (sample_queue True)))
     \<and> map_option qr_backgroundJobID (row_of q' (lit ''plex'', lit ''m1'')) = Some (replicate 32 97)"
proof -
  obtain q' request where p: "ProcessOne minute_options quiet_inputs (service_start [] None) (sample_queue True)
      = (Inr Acquiring, q', [request])"
    using sample_process by blast
  have claim: "Claim (wk_claim_cancelled quiet_inputs) (wk_claim_out quiet_inputs) (wk_now quiet_inputs)
      (wo_leaseDuration minute_options) (sample_queue True) = (Inr c, q1) \<Longrightarrow> c = sample_claim 1" for c q1
    using sample_lease [of 60000] by (simp add: quiet_inputs_def minute_options_def)
  show ?thesis
    using worker_settles_lease [OF sample_queue_run p] claim sample_key [of 1] p
    by (auto simp: quiet_inputs_def)
qed

end
