(* ===== verification/Server_JobStore.thy ===== *)
theory Server_JobStore
  imports Server_Queue
begin

text \<open>
  The durable queue of background jobs: \<open>internal/repository/acquisitionjob/repository.go\<close>, its two tables as lists of rows and one
  function for each operation, and the manager of \<open>internal/service/acquisitionjob/manager.go\<close> that the control
  API calls. As in the Watchlist queue, whether a statement is run and its answer arrives is an input.
  Selections and provider objects are arguments here: how they are checked, what identifies a selection and what is read back from the
  columns that are written for one. \<open>Server_Selections\<close> holds those of the program; \<open>strings.ToLower\<close> is given.
\<close>

section \<open>Tables\<close>

record ('sel, 'obj) job_checks =
  ck_selection :: "'sel \<Rightarrow> 'sel option"
  ck_object :: "'obj \<Rightarrow> 'obj option"
  ck_stored :: "'sel \<Rightarrow> 'sel option option"
  ck_planned :: "'sel \<Rightarrow> 'sel option"
  ck_attached :: "'obj \<Rightarrow> 'obj option option"
  ck_identity :: "'sel \<Rightarrow> gostring \<times> gostring \<times> gostring"
  ck_lower :: "gostring \<Rightarrow> gostring"

text \<open>The columns that a job is read from, the times in whole milliseconds, and the columns of its lease.\<close>

record ('sel, 'obj) job_row =
  jr_job :: "('sel, 'obj) job_snapshot"
  jr_intentKey :: gostring
  jr_leaseVersion :: int
  jr_leaseUntil :: int
  jr_nextAttempt :: int

record 'sel job_candidate =
  ca_selection :: 'sel
  ca_ordinal :: int
  ca_outcome :: gostring

record ('sel, 'obj) job_store =
  jt_jobs :: "('sel, 'obj) job_row list"
  jt_candidates :: "(gostring \<times> 'sel job_candidate) list"

abbreviation row_id :: "('sel, 'obj) job_row \<Rightarrow> gostring" where
  "row_id r \<equiv> js_id (jr_job r)"

definition active_states :: "gostring list" where
  "active_states = map lit [''queued'', ''selected'', ''preparing'']"

abbreviation active_row :: "('sel, 'obj) job_row \<Rightarrow> bool" where
  "active_row r \<equiv> js_state (jr_job r) \<in> set active_states"

section \<open>Reading a row\<close>

definition persistedRequest :: "search_request \<Rightarrow> intent_error + search_request" where
  "persistedRequest r =
     (if sr_mediaType r = lit ''movie'' then NewMovieSearch (sr_title r) (sr_year r)
      else if sr_mediaType r = lit ''episode'' then NewEpisodeSearch (sr_title r) (sr_year r) (sr_season r) (sr_episode r)
      else Inl UnsupportedMediaType)"

text \<open>
  What is read from the columns of a selection or an object that was written before: \<open>None\<close> when the values are refused, and nothing
  when they are empty, as they are without one. The ordinal is \<open>-1\<close> without a plan.
\<close>

definition read_columns :: "('a \<Rightarrow> 'a option option) \<Rightarrow> 'a option \<Rightarrow> 'a option option" where
  "read_columns stored v = (case v of None \<Rightarrow> Some None | Some x \<Rightarrow> stored x)"

definition read_ordinal :: "int option \<Rightarrow> int option" where
  "read_ordinal v = (case v of None \<Rightarrow> None | Some n \<Rightarrow> if 0 \<le> n then Some n else None)"

definition queryJob :: "('sel, 'obj) job_checks \<Rightarrow> ('sel, 'obj) job_row \<Rightarrow> snapshot_error + ('sel, 'obj) job_snapshot" where
  "queryJob ck r =
     (case persistedRequest (js_request (jr_job r)) of
        Inl e \<Rightarrow> Inl (InvalidRequest e)
      | Inr request \<Rightarrow>
          (case read_columns (ck_stored ck) (js_selection (jr_job r)) of
             None \<Rightarrow> Inl InvalidSelection
           | Some selection \<Rightarrow>
               (case read_columns (ck_attached ck) (js_createdObject (jr_job r)) of
                  None \<Rightarrow> Inl InvalidCreatedObject
                | Some created \<Rightarrow>
                    NewAcquisitionJobSnapshot (ck_selection ck) (ck_object ck)
                      ((jr_job r)\<lparr>js_request := request, js_selection := selection, js_createdObject := created,
                        js_ordinal := read_ordinal (js_ordinal (jr_job r))\<rparr>))))"

definition jobIntentKey :: "('sel, 'obj) job_checks \<Rightarrow> search_request \<Rightarrow> gostring" where
  "jobIntentKey ck r =
     sr_mediaType r @ [0] @ ck_lower ck (sr_title r) @ [0] @ decimal (sr_year r) @ [0] @ decimal (sr_season r) @ [0]
     @ decimal (sr_episode r)"

definition validJobID :: "gostring \<Rightarrow> bool" where
  "validJobID s \<longleftrightarrow> go_len s = 32 \<and> list_all is_hex_rune s"

section \<open>Submitting\<close>

definition queued_input :: "gostring \<Rightarrow> search_request \<Rightarrow> instant \<Rightarrow> ('sel, 'obj) job_snapshot" where
  "queued_input jobID request now =
     \<lparr>js_id = jobID, js_request = request, js_state = lit ''queued'', js_selection = None, js_createdObject = None, js_ordinal = None,
      js_createdByJob = False, js_publishedObjectID = [], js_errorCode = [], js_attempt = 0, js_progress = 0,
      js_createdAt = now, js_updatedAt = now\<rparr>"

definition new_job_row :: "gostring \<Rightarrow> ('sel, 'obj) job_snapshot \<Rightarrow> int \<Rightarrow> ('sel, 'obj) job_row" where
  "new_job_row key queued timestamp =
     \<lparr>jr_job = queued\<lparr>js_createdAt := from_millis timestamp, js_updatedAt := from_millis timestamp\<rparr>, jr_intentKey = key,
      jr_leaseVersion = 0, jr_leaseUntil = 0, jr_nextAttempt = 0\<rparr>"

definition Submit ::
  "('sel, 'obj) job_checks \<Rightarrow> bool \<Rightarrow> db_outcome \<Rightarrow> gostring \<Rightarrow> search_request \<Rightarrow> instant \<Rightarrow> ('sel, 'obj) job_store
   \<Rightarrow> (queue_error + ('sel, 'obj) job_snapshot \<times> bool) \<times> ('sel, 'obj) job_store" where
  "Submit ck cancelled out jobID request now st =
     (if now = zero_time then (Inl QInvalid, st)
      else case NewAcquisitionJobSnapshot (ck_selection ck) (ck_object ck) (queued_input jobID request now) of
        Inl _ \<Rightarrow> (Inl QInvalid, st)
      | Inr queued \<Rightarrow>
          if cancelled then (Inl QCancelled, st)
          else if out = NotExecuted then (Inl QFailed, st)
          else let intentKey = jobIntentKey ck (js_request queued) in
            (case find (\<lambda>r. jr_intentKey r = intentKey \<and> active_row r) (jt_jobs st) of
               Some r \<Rightarrow>
                 (case queryJob ck r of
                    Inl _ \<Rightarrow> (Inl QFailed, st)
                  | Inr existing \<Rightarrow> (if out = Executed then Inr (existing, False) else Inl QFailed, st))
             | None \<Rightarrow>
                 if list_ex (\<lambda>r. row_id r = js_id queued) (jt_jobs st) then (Inl QFailed, st)
                 else (if out = Executed then Inr (queued, True) else Inl QFailed,
                       st\<lparr>jt_jobs := jt_jobs st @ [new_job_row intentKey queued (UnixMilli now)]\<rparr>)))"

section \<open>Leases\<close>

record ('sel, 'obj) job_claim =
  jc_job :: "('sel, 'obj) job_snapshot"
  jc_leaseVersion :: int

definition NewAcquisitionJobClaim :: "('sel, 'obj) job_snapshot \<Rightarrow> int \<Rightarrow> ('sel, 'obj) job_claim option" where
  "NewAcquisitionJobClaim job leaseVersion =
     (if js_id job = [] then None
      else if leaseVersion < 1 then None
      else if js_state job = lit ''succeeded'' \<or> js_state job = lit ''failed'' \<or> js_state job = lit ''manual_review'' then None
      else Some \<lparr>jc_job = job, jc_leaseVersion = leaseVersion\<rparr>)"

definition due :: "int \<Rightarrow> ('sel, 'obj) job_row \<Rightarrow> bool" where
  "due nowMillis r \<longleftrightarrow> active_row r \<and> jr_nextAttempt r \<le> nowMillis \<and> jr_leaseUntil r \<le> nowMillis"

definition due_order :: "('sel, 'obj) job_row \<Rightarrow> int \<times> int \<times> gostring" where
  "due_order r = (jr_nextAttempt r, UnixMilli (js_createdAt (jr_job r)), row_id r)"

definition next_due :: "int \<Rightarrow> ('sel, 'obj) job_row list \<Rightarrow> ('sel, 'obj) job_row option" where
  "next_due nowMillis rows =
     (case filter (due nowMillis) rows of [] \<Rightarrow> None | r # rs \<Rightarrow> Some (arg_min_list due_order (r # rs)))"

definition job_leased :: "int \<Rightarrow> int \<Rightarrow> ('sel, 'obj) job_row \<Rightarrow> ('sel, 'obj) job_row" where
  "job_leased nowMillis leaseUntilMillis r =
     r\<lparr>jr_job := (jr_job r)\<lparr>js_attempt := js_attempt (jr_job r) + 1, js_updatedAt := from_millis nowMillis\<rparr>,
       jr_leaseVersion := jr_leaseVersion r + 1, jr_leaseUntil := leaseUntilMillis\<rparr>"

definition update_jobs ::
  "(('sel, 'obj) job_row \<Rightarrow> bool) \<Rightarrow> (('sel, 'obj) job_row \<Rightarrow> ('sel, 'obj) job_row) \<Rightarrow> ('sel, 'obj) job_store \<Rightarrow> ('sel, 'obj) job_store" where
  "update_jobs guard change st = st\<lparr>jt_jobs := map (\<lambda>r. if guard r then change r else r) (jt_jobs st)\<rparr>"

text \<open>The lease is taken in one statement; the version is read back in a second one.\<close>

definition ClaimJob ::
  "('sel, 'obj) job_checks \<Rightarrow> db_outcome \<Rightarrow> bool \<Rightarrow> instant \<Rightarrow> int \<Rightarrow> ('sel, 'obj) job_store
   \<Rightarrow> (queue_error + ('sel, 'obj) job_claim) \<times> ('sel, 'obj) job_store" where
  "ClaimJob ck out versionReads now leaseDuration st =
     (if now = zero_time then (Inl QInvalid, st)
      else if leaseDuration \<le> 0 then (Inl QInvalid, st)
      else if out = NotExecuted then (Inl QFailed, st)
      else case next_due (UnixMilli now) (jt_jobs st) of
        None \<Rightarrow> (if out = Executed then Inl QNotFound else Inl QFailed, st)
      | Some chosen \<Rightarrow>
          let lease = job_leased (UnixMilli now) (UnixMilli (now + leaseDuration));
              st' = update_jobs (\<lambda>r. row_id r = row_id chosen) lease st
          in if out = Unreported then (Inl QFailed, st')
             else (case queryJob ck (lease chosen) of
               Inl _ \<Rightarrow> (Inl QFailed, st')
             | Inr job \<Rightarrow>
                 if \<not> versionReads then (Inl QFailed, st')
                 else (case NewAcquisitionJobClaim job (jr_leaseVersion (lease chosen)) of
                         None \<Rightarrow> (Inl QInvalid, st') | Some claim \<Rightarrow> (Inr claim, st'))))"

section \<open>Transitions under a lease\<close>

definition validateTransitionInput :: "('sel, 'obj) job_claim \<Rightarrow> instant \<Rightarrow> bool" where
  "validateTransitionInput claim now \<longleftrightarrow> now \<noteq> zero_time \<and> js_id (jc_job claim) \<noteq> [] \<and> \<not> jc_leaseVersion claim < 1"

definition holds_lease :: "('sel, 'obj) job_claim \<Rightarrow> gostring list \<Rightarrow> int \<Rightarrow> ('sel, 'obj) job_row \<Rightarrow> bool" where
  "holds_lease claim states nowMillis r \<longleftrightarrow>
     row_id r = js_id (jc_job claim) \<and> jr_leaseVersion r = jc_leaseVersion claim \<and> jr_leaseUntil r > nowMillis
     \<and> js_state (jr_job r) \<in> set states"

definition released :: "int \<Rightarrow> (('sel, 'obj) job_row \<Rightarrow> ('sel, 'obj) job_row) \<Rightarrow> ('sel, 'obj) job_row \<Rightarrow> ('sel, 'obj) job_row" where
  "released nowMillis assignments r =
     (assignments r)\<lparr>jr_leaseUntil := 0, jr_job := (jr_job (assignments r))\<lparr>js_updatedAt := from_millis nowMillis\<rparr>\<rparr>"

definition transitionWithStates ::
  "db_outcome \<Rightarrow> ('sel, 'obj) job_claim \<Rightarrow> gostring list \<Rightarrow> instant \<Rightarrow> (('sel, 'obj) job_row \<Rightarrow> ('sel, 'obj) job_row)
   \<Rightarrow> ('sel, 'obj) job_store \<Rightarrow> (queue_error + unit) \<times> ('sel, 'obj) job_store" where
  "transitionWithStates out claim states now assignments st =
     (if \<not> validateTransitionInput claim now then (Inl QInvalid, st)
      else if out = NotExecuted then (Inl QFailed, st)
      else let guard = holds_lease claim states (UnixMilli now);
               st' = update_jobs guard (released (UnixMilli now) assignments) st
           in if out = Unreported then (Inl QFailed, st')
              else if length (filter guard (jt_jobs st)) \<noteq> 1 then (Inl QStale, st')
              else (Inr (), st'))"

definition set_job :: "(('sel, 'obj) job_snapshot \<Rightarrow> ('sel, 'obj) job_snapshot) \<Rightarrow> ('sel, 'obj) job_row \<Rightarrow> ('sel, 'obj) job_row" where
  "set_job f r = r\<lparr>jr_job := f (jr_job r)\<rparr>"

definition retry_at :: "int \<Rightarrow> ('sel, 'obj) job_row \<Rightarrow> ('sel, 'obj) job_row" where
  "retry_at millis r = r\<lparr>jr_nextAttempt := millis\<rparr>"

definition selected_job :: "'sel \<Rightarrow> int option \<Rightarrow> ('sel, 'obj) job_snapshot \<Rightarrow> ('sel, 'obj) job_snapshot" where
  "selected_job selection ordinal j =
     j\<lparr>js_state := lit ''selected'', js_selection := Some selection, js_ordinal := ordinal, js_createdByJob := False,
       js_errorCode := [], js_progress := 0\<rparr>"

definition Select ::
  "('sel, 'obj) job_checks \<Rightarrow> db_outcome \<Rightarrow> ('sel, 'obj) job_claim \<Rightarrow> 'sel \<Rightarrow> instant \<Rightarrow> ('sel, 'obj) job_store
   \<Rightarrow> (queue_error + unit) \<times> ('sel, 'obj) job_store" where
  "Select ck out claim selection now st =
     (case ck_selection ck selection of
        None \<Rightarrow> (Inl QInvalid, st)
      | Some validated \<Rightarrow>
          transitionWithStates out claim [lit ''queued''] now (retry_at 0 \<circ> set_job (selected_job validated None)) st)"

definition prepared_job :: "'obj \<Rightarrow> bool \<Rightarrow> ('sel, 'obj) job_snapshot \<Rightarrow> ('sel, 'obj) job_snapshot" where
  "prepared_job created createdByJob j =
     j\<lparr>js_state := lit ''preparing'', js_createdObject := Some created, js_createdByJob := createdByJob, js_errorCode := [],
       js_progress := 0\<rparr>"

definition AttachPrepared ::
  "('sel, 'obj) job_checks \<Rightarrow> db_outcome \<Rightarrow> ('sel, 'obj) job_claim \<Rightarrow> 'obj \<Rightarrow> bool \<Rightarrow> instant \<Rightarrow> ('sel, 'obj) job_store
   \<Rightarrow> (queue_error + unit) \<times> ('sel, 'obj) job_store" where
  "AttachPrepared ck out claim created createdByJob now st =
     (case ck_object ck created of
        None \<Rightarrow> (Inl QInvalid, st)
      | Some validated \<Rightarrow>
          transitionWithStates out claim [lit ''selected''] now (retry_at 0 \<circ> set_job (prepared_job validated createdByJob)) st)"

definition Attach ::
  "('sel, 'obj) job_checks \<Rightarrow> db_outcome \<Rightarrow> ('sel, 'obj) job_claim \<Rightarrow> 'obj \<Rightarrow> instant \<Rightarrow> ('sel, 'obj) job_store
   \<Rightarrow> (queue_error + unit) \<times> ('sel, 'obj) job_store" where
  "Attach ck out claim created now st = AttachPrepared ck out claim created False now st"

definition DeferAcquisition ::
  "db_outcome \<Rightarrow> ('sel, 'obj) job_claim \<Rightarrow> instant \<Rightarrow> gostring \<Rightarrow> int \<Rightarrow> instant \<Rightarrow> ('sel, 'obj) job_store
   \<Rightarrow> (queue_error + unit) \<times> ('sel, 'obj) job_store" where
  "DeferAcquisition out claim nextAttempt code progress now st =
     (if nextAttempt = zero_time \<or> \<not> now < nextAttempt then (Inl QInvalid, st)
      else if progress < 0 \<or> 100 \<le> progress then (Inl QInvalid, st)
      else if code \<noteq> [] \<and> code \<noteq> lit ''provider_unavailable'' \<and> code \<noteq> lit ''unauthorized'' then (Inl QInvalid, st)
      else transitionWithStates out claim active_states now
             (retry_at (UnixMilli nextAttempt) \<circ> set_job (\<lambda>j. j\<lparr>js_errorCode := code, js_progress := progress\<rparr>)) st)"

definition succeeded_job :: "gostring \<Rightarrow> ('sel, 'obj) job_snapshot \<Rightarrow> ('sel, 'obj) job_snapshot" where
  "succeeded_job published j =
     j\<lparr>js_state := lit ''succeeded'', js_publishedObjectID := published, js_errorCode := [], js_progress := 100\<rparr>"

definition Succeed ::
  "('sel, 'obj) job_checks \<Rightarrow> db_outcome \<Rightarrow> ('sel, 'obj) job_claim \<Rightarrow> gostring \<Rightarrow> instant \<Rightarrow> ('sel, 'obj) job_store
   \<Rightarrow> (queue_error + unit) \<times> ('sel, 'obj) job_store" where
  "Succeed ck out claim publishedObjectID now st =
     (case NewAcquisitionJobSnapshot (ck_selection ck) (ck_object ck)
             ((succeeded_job publishedObjectID (jc_job claim))\<lparr>js_updatedAt := now\<rparr>) of
        Inl _ \<Rightarrow> (Inl QInvalid, st)
      | Inr validated \<Rightarrow>
          transitionWithStates out claim [lit ''preparing''] now
            (retry_at 0 \<circ> set_job (succeeded_job (js_publishedObjectID validated))) st)"

definition Fail ::
  "('sel, 'obj) job_checks \<Rightarrow> db_outcome \<Rightarrow> ('sel, 'obj) job_claim \<Rightarrow> gostring \<Rightarrow> bool \<Rightarrow> instant \<Rightarrow> ('sel, 'obj) job_store
   \<Rightarrow> (queue_error + unit) \<times> ('sel, 'obj) job_store" where
  "Fail ck out claim code manualReview now st =
     (let state = (if manualReview then lit ''manual_review'' else lit ''failed'') in
      case NewAcquisitionJobSnapshot (ck_selection ck) (ck_object ck)
             ((jc_job claim)\<lparr>js_state := state, js_publishedObjectID := [], js_errorCode := code, js_updatedAt := now\<rparr>) of
        Inl _ \<Rightarrow> (Inl QInvalid, st)
      | Inr _ \<Rightarrow>
          transitionWithStates out claim active_states now
            (retry_at 0 \<circ> set_job (\<lambda>j. j\<lparr>js_state := state, js_errorCode := code\<rparr>)) st)"

section \<open>Candidate plans\<close>

definition candidate_outcomes :: "gostring list" where
  "candidate_outcomes = map lit [''pending'', ''selected'', ''stalled'', ''missing'', ''unplayable'']"

definition NewJobCandidate :: "('sel, 'obj) job_checks \<Rightarrow> 'sel \<Rightarrow> int \<Rightarrow> gostring \<Rightarrow> 'sel job_candidate option" where
  "NewJobCandidate ck selection ordinal outcome =
     (if ck_selection ck selection = None then None
      else if ordinal < 0 \<or> maximumJobCandidates \<le> ordinal then None
      else if outcome \<notin> set candidate_outcomes then None
      else map_option (\<lambda>validated. \<lparr>ca_selection = validated, ca_ordinal = ordinal, ca_outcome = outcome\<rparr>)
             (ck_selection ck selection))"

text \<open>The loop of \<open>validateCandidatePlan\<close> with the identities that were seen.\<close>

fun plan_items ::
  "('sel, 'obj) job_checks \<Rightarrow> int \<Rightarrow> (gostring \<times> gostring \<times> gostring) list \<Rightarrow> 'sel job_candidate list
   \<Rightarrow> 'sel job_candidate list option" where
  "plan_items ck index identities [] = Some []"
| "plan_items ck index identities (c # cs) =
     (let expectedOutcome = (if index = 0 then lit ''selected'' else lit ''pending'') in
      case NewJobCandidate ck (ca_selection c) index expectedOutcome of
        None \<Rightarrow> None
      | Some candidate \<Rightarrow>
          if ca_ordinal c \<noteq> index \<or> ca_outcome c \<noteq> expectedOutcome then None
          else if ck_identity ck (ca_selection candidate) \<in> set identities then None
          else map_option ((#) candidate) (plan_items ck (index + 1) (ck_identity ck (ca_selection candidate) # identities) cs))"

definition validateCandidatePlan :: "('sel, 'obj) job_checks \<Rightarrow> 'sel job_candidate list \<Rightarrow> 'sel job_candidate list option" where
  "validateCandidatePlan ck candidates =
     (if candidates = [] \<or> maximumJobCandidates < int (length candidates) then None else plan_items ck 0 [] candidates)"

text \<open>The unique indexes of the candidate table.\<close>

definition candidate_conflict ::
  "('sel, 'obj) job_checks \<Rightarrow> gostring \<Rightarrow> 'sel job_candidate list \<Rightarrow> (gostring \<times> 'sel job_candidate) list \<Rightarrow> bool" where
  "candidate_conflict ck jobID candidates stored \<longleftrightarrow>
     list_ex (\<lambda>(i, s). i = jobID \<and> list_ex (\<lambda>c. ca_ordinal s = ca_ordinal c
         \<or> ck_identity ck (ca_selection s) = ck_identity ck (ca_selection c)
         \<or> ca_outcome s = lit ''selected'' \<and> ca_outcome c = lit ''selected'') candidates) stored"

definition without_object :: "('sel, 'obj) job_snapshot \<Rightarrow> ('sel, 'obj) job_snapshot" where
  "without_object j = j\<lparr>js_createdObject := None, js_createdByJob := False\<rparr>"

definition Plan ::
  "('sel, 'obj) job_checks \<Rightarrow> db_outcome \<Rightarrow> ('sel, 'obj) job_claim \<Rightarrow> 'sel job_candidate list \<Rightarrow> instant \<Rightarrow> ('sel, 'obj) job_store
   \<Rightarrow> (queue_error + unit) \<times> ('sel, 'obj) job_store" where
  "Plan ck out claim candidates now st =
     (case validateCandidatePlan ck candidates of
        None \<Rightarrow> (Inl QInvalid, st)
      | Some validated \<Rightarrow>
          if \<not> validateTransitionInput claim now then (Inl QInvalid, st)
          else if out = NotExecuted then (Inl QFailed, st)
          else let jobID = js_id (jc_job claim); guard = holds_lease claim [lit ''queued''] (UnixMilli now);
                   first = ca_selection (hd validated) in
            if candidate_conflict ck jobID validated (jt_candidates st) then (Inl QFailed, st)
            else if length (filter guard (jt_jobs st)) \<noteq> 1 then (Inl QStale, st)
            else (if out = Executed then Inr () else Inl QFailed,
                  update_jobs guard (released (UnixMilli now) (retry_at 0 \<circ> set_job (without_object \<circ> selected_job first (Some 0))))
                    (st\<lparr>jt_candidates := jt_candidates st @ map (Pair jobID) validated\<rparr>)))"

definition failed_job :: "gostring \<Rightarrow> ('sel, 'obj) job_snapshot \<Rightarrow> ('sel, 'obj) job_snapshot" where
  "failed_job code j =
     (without_object j)\<lparr>js_state := lit ''failed'', js_selection := None, js_ordinal := None, js_errorCode := code, js_progress := 0\<rparr>"

definition validateTerminalCode :: "('sel, 'obj) job_checks \<Rightarrow> gostring \<Rightarrow> ('sel, 'obj) job_snapshot \<Rightarrow> instant \<Rightarrow> bool" where
  "validateTerminalCode ck code job now \<longleftrightarrow>
     (case NewAcquisitionJobSnapshot (ck_selection ck) (ck_object ck)
             ((failed_job code job)\<lparr>js_publishedObjectID := [], js_updatedAt := now\<rparr>) of
        Inl _ \<Rightarrow> False | Inr _ \<Rightarrow> True)"

text \<open>\<open>UPDATE acquisition_job_candidates\<close>: the outcome of one candidate.\<close>

definition is_candidate :: "gostring \<Rightarrow> int \<Rightarrow> gostring \<Rightarrow> gostring \<times> 'sel job_candidate \<Rightarrow> bool" where
  "is_candidate jobID ordinal outcome row \<longleftrightarrow>
     fst row = jobID \<and> ca_ordinal (snd row) = ordinal \<and> ca_outcome (snd row) = outcome"

definition mark_candidate ::
  "gostring \<Rightarrow> int \<Rightarrow> gostring \<Rightarrow> gostring \<Rightarrow> (gostring \<times> 'sel job_candidate) list \<Rightarrow> (gostring \<times> 'sel job_candidate) list" where
  "mark_candidate jobID ordinal from outcome rows =
     map (\<lambda>row. if is_candidate jobID ordinal from row then (fst row, (snd row)\<lparr>ca_outcome := outcome\<rparr>) else row) rows"

definition next_candidate :: "gostring \<Rightarrow> (gostring \<times> 'sel job_candidate) list \<Rightarrow> 'sel job_candidate option" where
  "next_candidate jobID rows =
     (case filter (\<lambda>row. fst row = jobID \<and> ca_outcome (snd row) = lit ''pending'') rows of
        [] \<Rightarrow> None | c # cs \<Rightarrow> Some (arg_min_list ca_ordinal (map snd (c # cs))))"

definition queryCandidate :: "('sel, 'obj) job_checks \<Rightarrow> 'sel job_candidate \<Rightarrow> 'sel job_candidate option" where
  "queryCandidate ck c =
     (case ck_planned ck (ca_selection c) of
        None \<Rightarrow> None
      | Some selection \<Rightarrow> NewJobCandidate ck selection (ca_ordinal c) (ca_outcome c))"

definition Advance ::
  "('sel, 'obj) job_checks \<Rightarrow> db_outcome \<Rightarrow> ('sel, 'obj) job_claim \<Rightarrow> gostring \<Rightarrow> gostring \<Rightarrow> instant \<Rightarrow> ('sel, 'obj) job_store
   \<Rightarrow> (queue_error + bool) \<times> ('sel, 'obj) job_store" where
  "Advance ck out claim outcome terminalCode now st =
     (let job = jc_job claim; jobID = js_id job; state = js_state job in
      case (js_ordinal job, js_selection job) of
        (Some ordinal, Some selection) \<Rightarrow>
          if state \<noteq> lit ''selected'' \<and> state \<noteq> lit ''preparing'' then (Inl QInvalid, st)
          else if NewJobCandidate ck selection ordinal outcome = None then (Inl QInvalid, st)
          else if outcome \<notin> set (map lit [''stalled'', ''missing'', ''unplayable'']) then (Inl QInvalid, st)
          else if state = lit ''selected'' \<and> outcome \<noteq> lit ''missing'' then (Inl QInvalid, st)
          else if \<not> validateTerminalCode ck terminalCode job now then (Inl QInvalid, st)
          else if \<not> validateTransitionInput claim now then (Inl QInvalid, st)
          else if out = NotExecuted then (Inl QFailed, st)
          else if length (filter (is_candidate jobID ordinal (lit ''selected'')) (jt_candidates st)) \<noteq> 1 then (Inl QStale, st)
          else let marked = mark_candidate jobID ordinal (lit ''selected'') outcome (jt_candidates st);
                   guard = holds_lease claim [state] (UnixMilli now) in
            (case next_candidate jobID marked of
               None \<Rightarrow>
                 if length (filter guard (jt_jobs st)) \<noteq> 1 then (Inl QStale, st)
                 else (if out = Executed then Inr False else Inl QFailed,
                       update_jobs guard (released (UnixMilli now) (retry_at 0 \<circ> set_job (failed_job terminalCode)))
                         (st\<lparr>jt_candidates := marked\<rparr>))
             | Some pending \<Rightarrow>
                 (case queryCandidate ck pending of
                    None \<Rightarrow> (Inl QFailed, st)
                  | Some next \<Rightarrow>
                      if length (filter guard (jt_jobs st)) \<noteq> 1 then (Inl QStale, st)
                      else (if out = Executed then Inr (snd (snd (ck_identity ck (ca_selection next))) \<noteq> []) else Inl QFailed,
                            update_jobs guard (released (UnixMilli now)
                                (retry_at 0 \<circ> set_job (without_object \<circ> selected_job (ca_selection next) (Some (ca_ordinal next)))))
                              (st\<lparr>jt_candidates := mark_candidate jobID (ca_ordinal next) (lit ''pending'') (lit ''selected'') marked\<rparr>))))
      | _ \<Rightarrow> (Inl QInvalid, st))"

section \<open>Reading\<close>

definition GetJob :: "('sel, 'obj) job_checks \<Rightarrow> bool \<Rightarrow> gostring \<Rightarrow> ('sel, 'obj) job_store \<Rightarrow> queue_error + ('sel, 'obj) job_snapshot" where
  "GetJob ck runs jobID st =
     (if \<not> validJobID jobID then Inl QInvalid
      else if \<not> runs then Inl QFailed
      else case find (\<lambda>r. row_id r = jobID) (jt_jobs st) of
        None \<Rightarrow> Inl QNotFound
      | Some r \<Rightarrow> (case queryJob ck r of Inl _ \<Rightarrow> Inl QFailed | Inr job \<Rightarrow> Inr job))"

fun read_jobs :: "('sel, 'obj) job_checks \<Rightarrow> ('sel, 'obj) job_row list \<Rightarrow> queue_error + ('sel, 'obj) job_snapshot list" where
  "read_jobs ck [] = Inr []"
| "read_jobs ck (r # rs) =
     (case queryJob ck r of
        Inl _ \<Rightarrow> Inl QFailed
      | Inr job \<Rightarrow> bind_result (read_jobs ck rs) (\<lambda>jobs. Inr (job # jobs)))"

definition recent :: "('sel, 'obj) job_row \<Rightarrow> int \<times> gostring" where
  "recent r = (UnixMilli (js_updatedAt (jr_job r)), row_id r)"

definition ListJobs ::
  "('sel, 'obj) job_checks \<Rightarrow> bool \<Rightarrow> int \<Rightarrow> ('sel, 'obj) job_store \<Rightarrow> queue_error + ('sel, 'obj) job_snapshot list" where
  "ListJobs ck runs limit st =
     (if limit < 1 \<or> 100 < limit then Inl QInvalid
      else if \<not> runs then Inl QFailed
      else read_jobs ck (take (nat limit) (rev (sort_key recent (jt_jobs st)))))"

section \<open>The manager\<close>

record manager_inputs =
  mi_ended :: bool
  mi_newID :: "gostring option"
  mi_now :: instant
  mi_cancelled :: bool
  mi_out :: db_outcome

definition manager_Submit ::
  "('sel, 'obj) job_checks \<Rightarrow> manager_inputs \<Rightarrow> search_request \<Rightarrow> ('sel, 'obj) job_store
   \<Rightarrow> (queue_error + ('sel, 'obj) job_snapshot \<times> bool) \<times> ('sel, 'obj) job_store" where
  "manager_Submit ck i request st =
     (if mi_ended i then (Inl QCancelled, st)
      else case mi_newID i of
        None \<Rightarrow> (Inl QFailed, st)
      | Some jobID \<Rightarrow> Submit ck (mi_cancelled i) (mi_out i) jobID request (mi_now i) st)"

end
