(* ===== verification/Server_Routes.thy ===== *)
theory Server_Routes
  imports Server_Handler Server_Worker Server_JobStore
begin

text \<open>
  The complete control API of \<open>internal/handler/setup\<close>: the routes for the Watchlist, instant acquisition and background
  jobs (\<open>acquisition.go\<close>, \<open>acquisition_jobs.go\<close>) and the dispatch of \<open>ServeHTTP\<close>. The state behind the API is the setup
  service, the Watchlist observer, its queue and the store of background jobs; the acquisition coordinator is an argument.
\<close>

section \<open>Answers\<close>

text \<open>A JSON answer, or a text of the HTTP library with its status.\<close>

datatype answer = JSONAnswer wire_response | PlainAnswer nat

definition notFound :: answer where
  "notFound = PlainAnswer 404"

text \<open>\<open>writeJSON\<close> with a session that was set before; a value that cannot be marshalled is an internal error.\<close>

definition writeJSON :: "nat \<Rightarrow> gostring option \<Rightarrow> json option \<Rightarrow> answer" where
  "writeJSON status session value =
     (case value of None \<Rightarrow> PlainAnswer 500
      | Some v \<Rightarrow> JSONAnswer \<lparr>ws_code = status, ws_session = session, ws_json = v\<rparr>)"

definition marshal_counts :: "queue_counts \<Rightarrow> json" where
  "marshal_counts c = obj [
     (''pendingMovies'', Some (json_int (qc_pendingMovies c))),
     (''acquiring'', Some (json_int (qc_acquiring c))),
     (''succeeded'', Some (json_int (qc_succeeded c))),
     (''notCached'', Some (json_int (qc_notCached c))),
     (''retryable'', Some (json_int (qc_retryable c))),
     (''manualReview'', Some (json_int (qc_manualReview c))),
     (''observedShows'', Some (json_int (qc_observedShows c)))]"

definition marshal_watchlist :: "json option \<Rightarrow> observer_status \<Rightarrow> json" where
  "marshal_watchlist lastSync st = obj [
     (''enabled'', Some (JBool (os_enabled st))),
     (''healthy'', Some (JBool (os_healthy st))),
     (''acquisitionEnabled'', Some (JBool (os_acquisitionEnabled st))),
     (''showPolicy'', Some (json_text (os_showPolicy st))),
     (''lastSyncAt'', lastSync),
     (''queue'', Some (marshal_counts (os_queue st)))]"

definition marshal_observer_status :: "observer_status \<Rightarrow> json option" where
  "marshal_observer_status st =
     (case os_lastSyncAt st of
        None \<Rightarrow> Some (marshal_watchlist None st)
      | Some t \<Rightarrow> (case marshal_time t of None \<Rightarrow> None | Some v \<Rightarrow> Some (marshal_watchlist (Some v) st)))"

section \<open>The state behind the API\<close>

record ('sel, 'obj) backend =
  be_service :: service
  be_observer :: observer
  be_queue :: queue
  be_jobs :: "('sel, 'obj) job_store"

record route_outcomes =
  rt_setup :: request_outcomes
  rt_status :: status_inputs
  rt_policy_ended :: bool
  rt_policy_error_ended :: bool
  rt_policy_out :: db_outcome
  rt_manager :: manager_inputs
  rt_jobs_read :: bool

text \<open>What \<open>errors.Is\<close> finds in an error of the coordinator.\<close>

datatype acquisition_error =
  InvalidSettings | SearchUnauthorized | NotConfigured | NoCachedRelease | NoPlayable | ProviderUnauthorized
  | AcquisitionUnavailable

record ('sel, 'obj) api =
  ap_acquisition :: bool
  ap_jobs :: bool
  ap_watchlist :: bool
  ap_configured :: "acquisition_error list + bool"
  ap_configure :: "gostring \<Rightarrow> gostring \<Rightarrow> acquisition_error list"
  ap_acquire :: "search_request \<Rightarrow> service \<Rightarrow> (acquisition_error list + acquired_media) \<times> service"
  ap_checks :: "('sel, 'obj) job_checks"

definition refuse :: "wire_response \<Rightarrow> answer" where
  "refuse r = JSONAnswer r"

definition writeAcquisitionError :: "acquisition_error list \<Rightarrow> wire_response" where
  "writeAcquisitionError err =
     (if InvalidSettings \<in> set err then writeError 422 ''invalid_settings'' ''Enter a valid Prowlarr URL and API key.''
      else if SearchUnauthorized \<in> set err then writeError 401 ''search_unauthorized''
        ''Prowlarr rejected that API key. Copy the API key from Prowlarr Settings and try again.''
      else if NotConfigured \<in> set err then writeError 409 ''search_not_configured''
        ''Connect Prowlarr before searching for new media.''
      else if NoCachedRelease \<in> set err then writeError 404 ''not_cached''
        ''No instant TorBox result is available for that title yet. Try another title or try again later.''
      else if NoPlayable \<in> set err then writeError 422 ''no_playable_media''
        ''The instant result did not contain a matching MP4 or MKV video.''
      else if ProviderUnauthorized \<in> set err then writeError 401 ''provider_unauthorized''
        ''Prowlarr or TorBox rejected a saved API key. Reconnect the provider and try again.''
      else writeError 503 ''acquisition_unavailable'' ''BlackPearl could not add that title right now. Try again shortly.'')"

definition writeAcquisitionJobError :: "queue_error \<Rightarrow> wire_response" where
  "writeAcquisitionJobError err =
     (if err = QNotFound then writeError 404 ''job_not_found'' ''That background request was not found.''
      else writeError 503 ''job_unavailable'' ''BlackPearl could not update background requests right now.'')"

definition authorizeAcquisition ::
  "(gostring \<Rightarrow> gostring) \<Rightarrow> request_outcomes \<Rightarrow> wire_request \<Rightarrow> service \<Rightarrow> service_error list \<times> service" where
  "authorizeAcquisition sessionFor o1 rq s =
     AuthorizeSetup sessionFor (ro_authorize_loads o1) [] (wr_session rq) (wr_bootstrap rq) s"

text \<open>\<open>issueSession\<close> followed by the answer.\<close>

definition issue_and_write ::
  "(gostring \<Rightarrow> gostring) \<Rightarrow> request_outcomes \<Rightarrow> nat \<Rightarrow> json option \<Rightarrow> service \<Rightarrow> answer \<times> service" where
  "issue_and_write sessionFor o1 status value s =
     (case IssueSession sessionFor (ro_issue_loads o1) [] s of
        (Inl e, s') \<Rightarrow> (refuse (writeServiceError [e]), s')
      | (Inr session, s') \<Rightarrow> (writeJSON status (Some session) value, s'))"

section \<open>The Watchlist\<close>

definition serveWatchlistStatus ::
  "(gostring \<Rightarrow> gostring) \<Rightarrow> gostring \<Rightarrow> ('sel, 'obj) api \<Rightarrow> route_outcomes \<Rightarrow> wire_request \<Rightarrow> ('sel, 'obj) backend \<Rightarrow> answer \<times> ('sel, 'obj) backend" where
  "serveWatchlistStatus sessionFor csrf a o1 rq b =
     (if \<not> ap_watchlist a then (notFound, b)
      else if wr_method rq \<noteq> ''GET'' then (refuse methodNotAllowed, b)
      else if \<not> authorizeBrowserRead csrf rq then (refuse forbidden, b)
      else case authorizeAcquisition sessionFor (rt_setup o1) rq (be_service b) of
        (err, s1) \<Rightarrow>
          let b1 = b\<lparr>be_service := s1\<rparr> in
          if err \<noteq> [] then (refuse (writeServiceError err), b1)
          else (case observer_Status (rt_status o1) (be_observer b1) (be_queue b1) of
            Inl e \<Rightarrow> (refuse (if e = PublicUnauthorized
                then writeError 401 ''plex_unauthorized''
                  ''Plex rejected the saved watchlist credential. Sign in to Plex again and retry.''
                else writeError 503 ''watchlist_unavailable'' ''Plex watchlist status is temporarily unavailable.''), b1)
          | Inr st \<Rightarrow> (writeJSON 200 None (marshal_observer_status st), b1)))"

text \<open>The input of the settings route: the switch must be present, the policy for shows defaults to the empty string.\<close>

record watchlist_input =
  wl_enabled :: "bool option"
  wl_showPolicy :: gostring

definition set_watchlist_field :: "jsstring \<Rightarrow> json \<Rightarrow> watchlist_input \<Rightarrow> watchlist_input option" where
  "set_watchlist_field k v r =
     (if is_key k ''acquisitionEnabled'' then
        (case v of JBool b \<Rightarrow> Some (r\<lparr>wl_enabled := Some b\<rparr>) | JNull \<Rightarrow> Some (r\<lparr>wl_enabled := None\<rparr>) | _ \<Rightarrow> None)
      else if is_key k ''showPolicy'' then map_option (\<lambda>t. r\<lparr>wl_showPolicy := t\<rparr>) (text_field v (wl_showPolicy r))
      else None)"

definition decode_watchlist :: "json \<Rightarrow> watchlist_input option" where
  "decode_watchlist = decode_struct set_watchlist_field \<lparr>wl_enabled = None, wl_showPolicy = []\<rparr>"

definition serveWatchlistSettings ::
  "(gostring \<Rightarrow> gostring) \<Rightarrow> gostring \<Rightarrow> ('sel, 'obj) api \<Rightarrow> route_outcomes \<Rightarrow> wire_request \<Rightarrow> ('sel, 'obj) backend \<Rightarrow> answer \<times> ('sel, 'obj) backend" where
  "serveWatchlistSettings sessionFor csrf a o1 rq b =
     (if \<not> ap_watchlist a then (notFound, b)
      else if wr_method rq \<noteq> ''PUT'' then (refuse methodNotAllowed, b)
      else if \<not> authorizeBrowser csrf rq then (refuse forbidden, b)
      else case Option.bind (decodeJSON decode_watchlist rq) (\<lambda>input. map_option (\<lambda>e. (e, wl_showPolicy input)) (wl_enabled input)) of
        None \<Rightarrow> (refuse (writeError 400 ''invalid_request''
                   ''Choose how BlackPearl should handle new Watchlist movies and shows.''), b)
      | Some (enabled, showPolicy) \<Rightarrow>
          (case NewWatchlistPolicy enabled showPolicy of
             Inl _ \<Rightarrow> (refuse (writeError 400 ''invalid_request'' ''Choose off or pilot for new Watchlist shows.''), b)
           | Inr policy \<Rightarrow>
               (case authorizeAcquisition sessionFor (rt_setup o1) rq (be_service b) of
                  (err, s1) \<Rightarrow>
                    let b1 = b\<lparr>be_service := s1\<rparr> in
                    if err \<noteq> [] then (refuse (writeServiceError err), b1)
                    else (case observer_SetPolicy (rt_policy_ended o1) (rt_policy_error_ended o1) (rt_policy_out o1) policy (be_queue b1) of
                      (Inl _, q) \<Rightarrow> (refuse (writeError 503 ''watchlist_unavailable''
                          ''The Watchlist setting could not be saved right now.''), b1\<lparr>be_queue := q\<rparr>)
                    | (Inr _, q) \<Rightarrow>
                        let b2 = b1\<lparr>be_queue := q\<rparr> in
                        (case observer_Status (rt_status o1) (be_observer b2) (be_queue b2) of
                           Inl _ \<Rightarrow> (refuse (writeError 503 ''watchlist_unavailable''
                             ''The Watchlist setting was saved, but its status could not be refreshed.''), b2)
                         | Inr st \<Rightarrow>
                             (case issue_and_write sessionFor (rt_setup o1) 200 (marshal_observer_status st) (be_service b2) of
                                (r, s3) \<Rightarrow> (r, b2\<lparr>be_service := s3\<rparr>)))))))"

section \<open>Acquisition\<close>

definition serveAcquisitionStatus ::
  "('sel, 'obj) api \<Rightarrow> wire_request \<Rightarrow> ('sel, 'obj) backend \<Rightarrow> answer \<times> ('sel, 'obj) backend" where
  "serveAcquisitionStatus a rq b =
     (if \<not> ap_acquisition a then (notFound, b)
      else if wr_method rq \<noteq> ''GET'' then (refuse methodNotAllowed, b)
      else case ap_configured a of
        Inl err \<Rightarrow> (refuse (writeAcquisitionError err), b)
      | Inr configured \<Rightarrow> (writeJSON 200 None (Some (obj [(''configured'', Some (JBool configured))])), b))"

record settings_input =
  se_baseURL :: gostring
  se_apiKey :: gostring

definition set_settings_field :: "jsstring \<Rightarrow> json \<Rightarrow> settings_input \<Rightarrow> settings_input option" where
  "set_settings_field k v r =
     (if is_key k ''baseUrl'' then map_option (\<lambda>t. r\<lparr>se_baseURL := t\<rparr>) (text_field v (se_baseURL r))
      else if is_key k ''apiKey'' then map_option (\<lambda>t. r\<lparr>se_apiKey := t\<rparr>) (text_field v (se_apiKey r))
      else None)"

definition decode_settings :: "json \<Rightarrow> settings_input option" where
  "decode_settings = decode_struct set_settings_field \<lparr>se_baseURL = [], se_apiKey = []\<rparr>"

definition serveAcquisitionSettings ::
  "(gostring \<Rightarrow> gostring) \<Rightarrow> gostring \<Rightarrow> ('sel, 'obj) api \<Rightarrow> route_outcomes \<Rightarrow> wire_request \<Rightarrow> ('sel, 'obj) backend \<Rightarrow> answer \<times> ('sel, 'obj) backend" where
  "serveAcquisitionSettings sessionFor csrf a o1 rq b =
     (if \<not> ap_acquisition a then (notFound, b)
      else if wr_method rq \<noteq> ''PUT'' then (refuse methodNotAllowed, b)
      else if \<not> authorizeBrowser csrf rq then (refuse forbidden, b)
      else case decodeJSON decode_settings rq of
        None \<Rightarrow> (refuse (writeError 400 ''invalid_request'' ''Enter valid Prowlarr connection details.''), b)
      | Some input \<Rightarrow>
          (case authorizeAcquisition sessionFor (rt_setup o1) rq (be_service b) of
             (err, s1) \<Rightarrow>
               let b1 = b\<lparr>be_service := s1\<rparr> in
               if err \<noteq> [] then (refuse (writeServiceError err), b1)
               else let refused = ap_configure a (se_baseURL input) (se_apiKey input) in
                 if refused \<noteq> [] then (refuse (writeAcquisitionError refused), b1)
                 else (case issue_and_write sessionFor (rt_setup o1) 200 (Some (obj [(''configured'', Some (JBool True))])) s1 of
                   (r, s2) \<Rightarrow> (r, b1\<lparr>be_service := s2\<rparr>))))"

text \<open>The input that instant acquisition and background jobs share.\<close>

definition zero_intent :: search_request where
  "zero_intent = \<lparr>sr_mediaType = [], sr_title = [], sr_year = 0, sr_season = 0, sr_episode = 0\<rparr>"

definition set_intent_field :: "jsstring \<Rightarrow> json \<Rightarrow> search_request \<Rightarrow> search_request option" where
  "set_intent_field k v r =
     (if is_key k ''mediaType'' then map_option (\<lambda>t. r\<lparr>sr_mediaType := t\<rparr>) (text_field v (sr_mediaType r))
      else if is_key k ''title'' then map_option (\<lambda>t. r\<lparr>sr_title := t\<rparr>) (text_field v (sr_title r))
      else if is_key k ''year'' then map_option (\<lambda>i. r\<lparr>sr_year := i\<rparr>) (int_field v (sr_year r))
      else if is_key k ''season'' then map_option (\<lambda>i. r\<lparr>sr_season := i\<rparr>) (int_field v (sr_season r))
      else if is_key k ''episode'' then map_option (\<lambda>i. r\<lparr>sr_episode := i\<rparr>) (int_field v (sr_episode r))
      else None)"

text \<open>Decoding the input and checking the intent: a malformed body and an invalid intent are told apart.\<close>

definition decode_intent :: "wire_request \<Rightarrow> wire_response + search_request" where
  "decode_intent rq =
     (case decodeJSON (decode_struct set_intent_field zero_intent) rq of
        None \<Rightarrow> Inl (writeError 400 ''invalid_request'' ''Enter a valid movie or episode request.'')
      | Some input \<Rightarrow>
          (case acquisitionRequest (sr_mediaType input) (sr_title input) (sr_year input) (sr_season input) (sr_episode input) of
             Inl _ \<Rightarrow> Inl (writeError 422 ''invalid_intent''
                        ''Enter a valid movie or episode title, year, season, and episode.'')
           | Inr search \<Rightarrow> Inr search))"

definition findSelectedConfiguration :: "manifest \<Rightarrow> gostring \<Rightarrow> go_configuration option" where
  "findSelectedConfiguration items objectID = find (\<lambda>item. gc_objectId item = objectID) items"

definition serveAcquisition ::
  "(gostring \<Rightarrow> gostring) \<Rightarrow> gostring \<Rightarrow> ('sel, 'obj) api \<Rightarrow> route_outcomes \<Rightarrow> wire_request \<Rightarrow> ('sel, 'obj) backend \<Rightarrow> answer \<times> ('sel, 'obj) backend" where
  "serveAcquisition sessionFor csrf a o1 rq b =
     (if \<not> ap_acquisition a then (notFound, b)
      else if wr_method rq \<noteq> ''POST'' then (refuse methodNotAllowed, b)
      else if \<not> authorizeBrowser csrf rq then (refuse forbidden, b)
      else case decode_intent rq of
        Inl refusal \<Rightarrow> (refuse refusal, b)
      | Inr search \<Rightarrow>
          (case authorizeAcquisition sessionFor (rt_setup o1) rq (be_service b) of
             (err, s1) \<Rightarrow>
               if err \<noteq> [] then (refuse (writeServiceError err), b\<lparr>be_service := s1\<rparr>)
               else (case ap_acquire a search s1 of
                 (Inl refused, s2) \<Rightarrow> (refuse (writeAcquisitionError refused), b\<lparr>be_service := s2\<rparr>)
               | (Inr media, s2) \<Rightarrow>
                   let selectedItems = (if gs_selectedItems (Status s2) = []
                         then (case gs_selected (Status s2) of None \<Rightarrow> [] | Some selected \<Rightarrow> [selected])
                         else gs_selectedItems (Status s2)) in
                   (case findSelectedConfiguration selectedItems (cd_objectId (am_candidate media)) of
                      None \<Rightarrow> (refuse (writeAcquisitionError [AcquisitionUnavailable]), b\<lparr>be_service := s2\<rparr>)
                    | Some selected \<Rightarrow>
                        (case issue_and_write sessionFor (rt_setup o1) 200
                             (Some (obj [(''selected'', Some (marshal_configuration selected)),
                                         (''selectedItems'', Some (JArray (map marshal_configuration selectedItems)))])) s2 of
                           (r, s3) \<Rightarrow> (r, b\<lparr>be_service := s3\<rparr>))))))"

section \<open>Background jobs\<close>

definition submitAcquisitionJob_route ::
  "(gostring \<Rightarrow> gostring) \<Rightarrow> gostring \<Rightarrow> ('sel, 'obj) api \<Rightarrow> route_outcomes \<Rightarrow> wire_request \<Rightarrow> ('sel, 'obj) backend \<Rightarrow> answer \<times> ('sel, 'obj) backend" where
  "submitAcquisitionJob_route sessionFor csrf a o1 rq b =
     (if \<not> authorizeBrowser csrf rq then (refuse forbidden, b)
      else case decode_intent rq of
        Inl refusal \<Rightarrow> (refuse refusal, b)
      | Inr search \<Rightarrow>
          (case authorizeAcquisition sessionFor (rt_setup o1) rq (be_service b) of
             (err, s1) \<Rightarrow>
               let b1 = b\<lparr>be_service := s1\<rparr> in
               if err \<noteq> [] then (refuse (writeServiceError err), b1)
               else (case manager_Submit (ap_checks a) (rt_manager o1) search (be_jobs b1) of
                 (Inl refused, jobs) \<Rightarrow> (refuse (writeAcquisitionJobError refused), b1\<lparr>be_jobs := jobs\<rparr>)
               | (Inr (job, created), jobs) \<Rightarrow>
                   (case issue_and_write sessionFor (rt_setup o1) 202 (submitAcquisitionJob_answer job created) s1 of
                      (r, s2) \<Rightarrow> (r, b1\<lparr>be_jobs := jobs, be_service := s2\<rparr>)))))"

definition listAcquisitionJobs_route ::
  "(gostring \<Rightarrow> gostring) \<Rightarrow> gostring \<Rightarrow> ('sel, 'obj) api \<Rightarrow> route_outcomes \<Rightarrow> wire_request \<Rightarrow> ('sel, 'obj) backend \<Rightarrow> answer \<times> ('sel, 'obj) backend" where
  "listAcquisitionJobs_route sessionFor csrf a o1 rq b =
     (if \<not> authorizeBrowserRead csrf rq then (refuse forbidden, b)
      else case authorizeAcquisition sessionFor (rt_setup o1) rq (be_service b) of
        (err, s1) \<Rightarrow>
          let b1 = b\<lparr>be_service := s1\<rparr> in
          if err \<noteq> [] then (refuse (writeServiceError err), b1)
          else (case ListJobs (ap_checks a) (rt_jobs_read o1) 20 (be_jobs b1) of
            Inl refused \<Rightarrow> (refuse (writeAcquisitionJobError refused), b1)
          | Inr jobs \<Rightarrow> (writeJSON 200 None (listAcquisitionJobs_answer jobs), b1)))"

definition serveAcquisitionJobs ::
  "(gostring \<Rightarrow> gostring) \<Rightarrow> gostring \<Rightarrow> ('sel, 'obj) api \<Rightarrow> route_outcomes \<Rightarrow> wire_request \<Rightarrow> ('sel, 'obj) backend \<Rightarrow> answer \<times> ('sel, 'obj) backend" where
  "serveAcquisitionJobs sessionFor csrf a o1 rq b =
     (if \<not> ap_jobs a then (notFound, b)
      else if wr_method rq = ''POST'' then submitAcquisitionJob_route sessionFor csrf a o1 rq b
      else if wr_method rq = ''GET'' then listAcquisitionJobs_route sessionFor csrf a o1 rq b
      else (refuse (writeError 405 ''method_not_allowed'' ''Method not allowed.''), b))"

definition jobs_prefix :: gostring where
  "jobs_prefix = lit ''/api/acquisition/jobs/''"

definition serveAcquisitionJob ::
  "(gostring \<Rightarrow> gostring) \<Rightarrow> gostring \<Rightarrow> ('sel, 'obj) api \<Rightarrow> route_outcomes \<Rightarrow> gostring \<Rightarrow> wire_request \<Rightarrow> ('sel, 'obj) backend \<Rightarrow> answer \<times> ('sel, 'obj) backend" where
  "serveAcquisitionJob sessionFor csrf a o1 path rq b =
     (if \<not> ap_jobs a then (notFound, b)
      else if wr_method rq \<noteq> ''GET'' then (refuse methodNotAllowed, b)
      else if \<not> authorizeBrowserRead csrf rq then (refuse forbidden, b)
      else case authorizeAcquisition sessionFor (rt_setup o1) rq (be_service b) of
        (err, s1) \<Rightarrow>
          let b1 = b\<lparr>be_service := s1\<rparr> in
          if err \<noteq> [] then (refuse (writeServiceError err), b1)
          else let jobID = drop (length jobs_prefix) path in
            if jobID = [] \<or> slash \<in> set jobID
            then (refuse (writeError 404 ''job_not_found'' ''That background request was not found.''), b1)
            else (case GetJob (ap_checks a) (rt_jobs_read o1) jobID (be_jobs b1) of
              Inl refused \<Rightarrow> (refuse (writeAcquisitionJobError refused), b1)
            | Inr job \<Rightarrow> (writeJSON 200 None (acquisitionJobResponse job), b1)))"

section \<open>Dispatch\<close>

text \<open>A setup route, which only touches the setup service.\<close>

definition setup_route :: "wire_response \<times> service \<Rightarrow> ('sel, 'obj) backend \<Rightarrow> answer \<times> ('sel, 'obj) backend" where
  "setup_route result b = (case result of (r, s) \<Rightarrow> (JSONAnswer r, b\<lparr>be_service := s\<rparr>))"

definition ServeHTTP ::
  "(gostring \<Rightarrow> gostring) \<Rightarrow> gostring \<Rightarrow> ('sel, 'obj) api \<Rightarrow> route_outcomes \<Rightarrow> gostring \<Rightarrow> wire_request \<Rightarrow> ('sel, 'obj) backend \<Rightarrow> answer \<times> ('sel, 'obj) backend" where
  "ServeHTTP sessionFor csrf a o1 path rq b =
     (if path = lit ''/api/setup/status'' then setup_route (serveStatus (utf16 csrf) rq (be_service b), be_service b) b
      else if path = lit ''/api/setup/discover''
      then setup_route (serveDiscover sessionFor csrf (rt_setup o1) rq (be_service b)) b
      else if path = lit ''/api/setup/configuration''
      then setup_route (serveConfiguration sessionFor csrf (rt_setup o1) rq (be_service b)) b
      else if path = lit ''/api/acquisition/status'' then serveAcquisitionStatus a rq b
      else if path = lit ''/api/acquisition/settings'' then serveAcquisitionSettings sessionFor csrf a o1 rq b
      else if path = lit ''/api/acquisition/acquire'' then serveAcquisition sessionFor csrf a o1 rq b
      else if path = lit ''/api/acquisition/jobs'' then serveAcquisitionJobs sessionFor csrf a o1 rq b
      else if path = lit ''/api/watchlist/status'' then serveWatchlistStatus sessionFor csrf a o1 rq b
      else if path = lit ''/api/watchlist/settings'' then serveWatchlistSettings sessionFor csrf a o1 rq b
      else if take (length jobs_prefix) path = jobs_prefix then serveAcquisitionJob sessionFor csrf a o1 path rq b
      else (notFound, b))"

end
