(* ===== verification/Server_Access.thy ===== *)
theory Server_Access
  imports Server_Routes
begin

text \<open>
  Who may change anything: a request that does not come from the local page, or that carries neither a session, nor the
  pairing secret, nor the saved token, changes nothing on any route, whatever the route would do.
\<close>

section \<open>Answers\<close>

lemma error_answer_acquisition [simp]:
  "error_answer (writeAcquisitionError err)" "error_answer (writeAcquisitionJobError e)"
  by (simp_all add: writeAcquisitionError_def writeAcquisitionJobError_def)

section \<open>Requests that may change something\<close>

text \<open>A request of the local page: to a loopback host, with a loopback origin and with the CSRF token that the page was given.\<close>

definition from_local_page :: "gostring \<Rightarrow> wire_request \<Rightarrow> bool" where
  "from_local_page csrf rq \<longleftrightarrow>
     wr_loopbackHost rq \<and> wr_hasOrigin rq \<and> wr_validLoopbackOrigin rq \<and> wr_csrf rq = csrf"

text \<open>A token that the body of the request carries: the value of one of the members with that name.\<close>

definition body_token :: "wire_request \<Rightarrow> gostring \<Rightarrow> bool" where
  "body_token rq token \<longleftrightarrow>
     (\<exists>members k x. wr_body rq = Some (JObject members) \<and> (k, JString x) \<in> set members \<and> is_key k ''token'' \<and> decode_text x = token)"

text \<open>The secrets that a request can show: that of the pairing, the session of the saved token, or the saved token.\<close>

inductive knows_secret :: "(gostring \<Rightarrow> gostring) \<Rightarrow> wire_request \<Rightarrow> service \<Rightarrow> bool"
  for sessionFor :: "gostring \<Rightarrow> gostring" and rq :: wire_request and s :: service where
  pairing: "wr_bootstrap rq = sv_bootstrapToken s \<Longrightarrow> sv_bootstrapToken s \<noteq> [] \<Longrightarrow> knows_secret sessionFor rq s"
| session: "sv_stored s = Some (token, m) \<Longrightarrow> wr_session rq = sessionFor token \<Longrightarrow> knows_secret sessionFor rq s"
| token: "sv_stored s = Some (token, m) \<Longrightarrow> body_token rq token \<Longrightarrow> token \<noteq> [] \<Longrightarrow> knows_secret sessionFor rq s"

inductive_cases knows_secretE: "knows_secret sessionFor rq s"

definition unchanged :: "('sel, 'obj) backend \<Rightarrow> ('sel, 'obj) backend \<Rightarrow> bool" where
  "unchanged b b' \<longleftrightarrow> same_publication (be_service b') (be_service b) \<and> be_observer b' = be_observer b \<and> be_queue b' = be_queue b
     \<and> be_jobs b' = be_jobs b"

lemma unchanged_simps [simp]:
  "unchanged b b" "unchanged b (b\<lparr>be_service := s\<rparr>) = same_publication s (be_service b)"
  by (auto simp: unchanged_def)

text \<open>The gate of the routes that write, and the tokens that the two setup routes read of the body.\<close>

lemma authorizeBrowser_local: "authorizeBrowser csrf rq \<Longrightarrow> from_local_page csrf rq"
  by (simp add: authorizeBrowser_def authorizeBrowserRead_def from_local_page_def split: if_splits)

lemma set_fields_source:
  assumes "set_fields set_field ps r = Some r'"
    and "\<And>k v r r'. set_field k v r = Some r' \<Longrightarrow> get r' = get r \<or> (\<exists>x. v = JString x \<and> is_key k name \<and> get r' = decode_text x)"
  shows "get r' = get r \<or> (\<exists>k x. (k, JString x) \<in> set ps \<and> is_key k name \<and> get r' = decode_text x)"
  using assms(1)
proof (induction ps arbitrary: r)
  case (Cons p ps)
  obtain k v where p: "p = (k, v)" by force
  with Cons.prems obtain r1 where r1: "set_field k v r = Some r1" "set_fields set_field ps r1 = Some r'"
    by (auto simp: bind_eq_Some_conv)
  show ?case using Cons.IH [OF r1(2)] assms(2) [OF r1(1)] unfolding p by (metis list.set_intros)
qed simp

lemma decoded_token:
  assumes "decodeJSON (decode_struct set_field zero) rq = Some r'" "get zero = []"
    and "\<And>k v r r'. set_field k v r = Some r' \<Longrightarrow> get r' = get r \<or> (\<exists>x. v = JString x \<and> is_key k ''token'' \<and> get r' = decode_text x)"
  shows "get r' = [] \<or> body_token rq (get r')"
proof -
  obtain v where v: "wr_body rq = Some v" "decode_struct set_field zero v = Some r'"
    using assms(1) by (auto simp: decodeJSON_def bind_eq_Some_conv split: if_splits)
  show ?thesis
  proof (cases v)
    case (JObject ps)
    with v(2) have "set_fields set_field ps zero = Some r'" by (simp add: decode_struct_def)
    from set_fields_source [of set_field ps zero r' get, OF this assms(3)] v(1) JObject assms(2) show ?thesis
      unfolding body_token_def by metis
  qed (use v(2) assms(2) in \<open>auto simp: decode_struct_def\<close>)
qed

lemma decoded_tokens:
  "decodeJSON (decode_struct set_token_field []) rq = Some t \<Longrightarrow> t = [] \<or> body_token rq t"
  "decodeJSON (decode_struct set_request_field zero_request) rq = Some input \<Longrightarrow> aq_token input = [] \<or> body_token rq (aq_token input)"
proof -
  assume "decodeJSON (decode_struct set_token_field []) rq = Some t"
  then show "t = [] \<or> body_token rq t"
    by (rule decoded_token [where get = "\<lambda>t. t"]) (auto simp: set_token_field_def text_field_def split: if_splits json.splits)
next
  assume "decodeJSON (decode_struct set_request_field zero_request) rq = Some input"
  then show "aq_token input = [] \<or> body_token rq (aq_token input)"
    by (rule decoded_token [where get = aq_token])
      (auto simp: set_request_field_def zero_request_def text_field_def split: if_splits json.splits)
qed

text \<open>A refused authorization, with no token or with the one in the body.\<close>

lemma authorize_refused:
  assumes "\<not> knows_secret sessionFor rq s" "token = [] \<or> body_token rq token"
  obtains err s' where "AuthorizeSetup sessionFor loads token (wr_session rq) (wr_bootstrap rq) s = (err, s')" "err \<noteq> []"
    "same_publication s' s"
proof -
  obtain err s' where a: "AuthorizeSetup sessionFor loads token (wr_session rq) (wr_bootstrap rq) s = (err, s')" by force
  have "err \<noteq> []"
  proof
    assume "err = []"
    with a assms(2) have "knows_secret sessionFor rq s"
      by (auto simp: AuthorizeSetup_def validBootstrap_def markTokenConfigured_def Let_def intro: knows_secret.intros
          split: if_splits option.splits)
    with assms(1) show False by simp
  qed
  with a AuthorizeSetup_same that show thesis by (metis snd_conv)
qed

lemma acquisition_refused:
  assumes "\<not> knows_secret sessionFor rq s"
  obtains err s' where "authorizeAcquisition sessionFor o1 rq s = (err, s')" "err \<noteq> []" "same_publication s' s"
  using authorize_refused [OF assms, of "[]"] by (auto simp: authorizeAcquisition_def)

text \<open>The routes that only read, whoever asks.\<close>

lemma acquisition_same: "authorizeAcquisition sessionFor o1 rq s = (err, s') \<Longrightarrow> same_publication s' s"
  using AuthorizeSetup_same by (metis authorizeAcquisition_def snd_conv)

lemma reading_routes:
  "unchanged b (snd (serveWatchlistStatus sessionFor csrf a o1 rq b))"
  "unchanged b (snd (listAcquisitionJobs_route sessionFor csrf a o1 rq b))"
  "unchanged b (snd (serveAcquisitionJob sessionFor csrf a o1 path rq b))"
  "unchanged b (snd (serveAcquisitionStatus a rq b))"
proof -
  obtain err s' where au: "authorizeAcquisition sessionFor (rt_setup o1) rq (be_service b) = (err, s')" by force
  note same = au acquisition_same [OF au]
  show "unchanged b (snd (serveWatchlistStatus sessionFor csrf a o1 rq b))"
    by (auto simp: serveWatchlistStatus_def same Let_def split: sum.splits)
  show "unchanged b (snd (listAcquisitionJobs_route sessionFor csrf a o1 rq b))"
    by (auto simp: listAcquisitionJobs_route_def same Let_def split: sum.splits)
  show "unchanged b (snd (serveAcquisitionJob sessionFor csrf a o1 path rq b))"
    by (auto simp: serveAcquisitionJob_def same Let_def split: sum.splits)
  show "unchanged b (snd (serveAcquisitionStatus a rq b))"
    by (simp add: serveAcquisitionStatus_def split: sum.split)
qed

text \<open>The routes that write refuse, and do not call the coordinator.\<close>

definition other_coordinator ::
  "(gostring \<Rightarrow> gostring \<Rightarrow> acquisition_error list)
     \<Rightarrow> (search_request \<Rightarrow> service \<Rightarrow> (acquisition_error list + acquired_media) \<times> service) \<Rightarrow> ('sel, 'obj) api \<Rightarrow> ('sel, 'obj) api" where
  "other_coordinator f g a = a\<lparr>ap_configure := f, ap_acquire := g\<rparr>"

lemma setup_routes_refuse:
  assumes "\<not> (from_local_page csrf rq \<and> knows_secret sessionFor rq (be_service b))"
  shows "unchanged b (snd (setup_route (serveDiscover sessionFor csrf o1 rq (be_service b)) b))"
    "unchanged b (snd (setup_route (serveConfiguration sessionFor csrf o1 rq (be_service b)) b))"
proof -
  have secret: "\<not> knows_secret sessionFor rq (be_service b)" if "authorizeBrowser csrf rq"
    using assms that authorizeBrowser_local by blast
  show "unchanged b (snd (setup_route (serveDiscover sessionFor csrf o1 rq (be_service b)) b))"
  proof (cases "authorizeBrowser csrf rq")
    case True
    show ?thesis
    proof (cases "decodeJSON (decode_struct set_token_field []) rq")
      case (Some token)
      obtain err s' where "AuthorizeSetup sessionFor (ro_authorize_loads o1) token (wr_session rq) (wr_bootstrap rq) (be_service b)
          = (err, s')" "err \<noteq> []" "same_publication s' (be_service b)"
        using authorize_refused [OF secret [OF True] decoded_tokens(1) [OF Some]] by blast
      with Some show ?thesis by (simp add: serveDiscover_def setup_route_def)
    qed (simp add: serveDiscover_def setup_route_def)
  qed (simp add: serveDiscover_def setup_route_def)
  show "unchanged b (snd (setup_route (serveConfiguration sessionFor csrf o1 rq (be_service b)) b))"
  proof (cases "authorizeBrowser csrf rq")
    case True
    show ?thesis
    proof (cases "decodeJSON (decode_struct set_request_field zero_request) rq")
      case (Some input)
      obtain err s' where "AuthorizeSetup sessionFor (ro_authorize_loads o1) (aq_token input) (wr_session rq) (wr_bootstrap rq)
          (be_service b) = (err, s')" "err \<noteq> []" "same_publication s' (be_service b)"
        using authorize_refused [OF secret [OF True] decoded_tokens(2) [OF Some]] by blast
      with Some show ?thesis by (simp add: serveConfiguration_def setup_route_def)
    qed (simp add: serveConfiguration_def setup_route_def)
  qed (simp add: serveConfiguration_def setup_route_def)
qed

lemma writing_routes_refuse:
  assumes "\<not> (from_local_page csrf rq \<and> knows_secret sessionFor rq (be_service b))"
  shows "unchanged b (snd (serveWatchlistSettings sessionFor csrf a o1 rq b))"
    "unchanged b (snd (serveAcquisitionSettings sessionFor csrf a o1 rq b))"
    "unchanged b (snd (serveAcquisition sessionFor csrf a o1 rq b))"
    "unchanged b (snd (submitAcquisitionJob_route sessionFor csrf a o1 rq b))"
    "serveAcquisitionSettings sessionFor csrf (other_coordinator f g a) o1 rq b = serveAcquisitionSettings sessionFor csrf a o1 rq b"
    "serveAcquisition sessionFor csrf (other_coordinator f g a) o1 rq b = serveAcquisition sessionFor csrf a o1 rq b"
proof -
  consider (page) "\<not> authorizeBrowser csrf rq"
    | (pair) err s' where "authorizeAcquisition sessionFor (rt_setup o1) rq (be_service b) = (err, s')" "err \<noteq> []"
        "same_publication s' (be_service b)"
    using assms authorizeBrowser_local acquisition_refused by metis
  note refused = this
  show "unchanged b (snd (serveWatchlistSettings sessionFor csrf a o1 rq b))"
    using refused by cases (auto simp: serveWatchlistSettings_def split: option.splits sum.splits)
  show "unchanged b (snd (serveAcquisitionSettings sessionFor csrf a o1 rq b))"
    using refused by cases (auto simp: serveAcquisitionSettings_def split: option.splits)
  show "unchanged b (snd (serveAcquisition sessionFor csrf a o1 rq b))"
    using refused by cases (auto simp: serveAcquisition_def split: sum.splits)
  show "unchanged b (snd (submitAcquisitionJob_route sessionFor csrf a o1 rq b))"
    using refused by cases (auto simp: submitAcquisitionJob_route_def split: sum.splits)
  show "serveAcquisitionSettings sessionFor csrf (other_coordinator f g a) o1 rq b = serveAcquisitionSettings sessionFor csrf a o1 rq b"
    using refused by cases (auto simp: serveAcquisitionSettings_def other_coordinator_def split: option.splits)
  show "serveAcquisition sessionFor csrf (other_coordinator f g a) o1 rq b = serveAcquisition sessionFor csrf a o1 rq b"
    using refused by cases (auto simp: serveAcquisition_def other_coordinator_def split: sum.splits)
qed

lemma other_coordinator_keeps:
  "ap_acquisition (other_coordinator f g a) = ap_acquisition a" "ap_jobs (other_coordinator f g a) = ap_jobs a"
  "ap_watchlist (other_coordinator f g a) = ap_watchlist a" "ap_configured (other_coordinator f g a) = ap_configured a"
  "ap_checks (other_coordinator f g a) = ap_checks a"
  by (simp_all add: other_coordinator_def)

lemma same_without_coordinator:
  "serveWatchlistStatus sessionFor csrf (other_coordinator f g a) o1 rq b = serveWatchlistStatus sessionFor csrf a o1 rq b"
  "serveWatchlistSettings sessionFor csrf (other_coordinator f g a) o1 rq b = serveWatchlistSettings sessionFor csrf a o1 rq b"
  "serveAcquisitionStatus (other_coordinator f g a) rq b = serveAcquisitionStatus a rq b"
  "serveAcquisitionJobs sessionFor csrf (other_coordinator f g a) o1 rq b = serveAcquisitionJobs sessionFor csrf a o1 rq b"
  "serveAcquisitionJob sessionFor csrf (other_coordinator f g a) o1 path rq b = serveAcquisitionJob sessionFor csrf a o1 path rq b"
  unfolding serveWatchlistStatus_def serveWatchlistSettings_def serveAcquisitionStatus_def serveAcquisitionJobs_def
    submitAcquisitionJob_route_def listAcquisitionJobs_route_def serveAcquisitionJob_def other_coordinator_keeps
  by (rule refl)+

text \<open>
  C3. Nothing changes without authorization: if a request, on any route and with any method, is not one of the local page (a
  loopback host, a loopback origin that is present, the CSRF token of the page), or if it shows none of the secrets (the
  pairing secret, the session of the saved token, the saved token in its body), then the published and
  the saved manifest, the Watchlist policy, the queue, the observer and the background jobs stay as they are, and
  the acquisition coordinator is neither configured nor asked for media: with any other coordinator the answer is the same.
\<close>

theorem no_change_without_authorization:
  assumes "\<not> (from_local_page csrf rq \<and> knows_secret sessionFor rq (be_service b))"
    "ServeHTTP sessionFor csrf a o1 path rq b = (r, b')"
  shows "same_publication (be_service b') (be_service b) \<and> be_observer b' = be_observer b \<and> be_queue b' = be_queue b
    \<and> be_jobs b' = be_jobs b \<and> ServeHTTP sessionFor csrf (a\<lparr>ap_configure := f, ap_acquire := g\<rparr>) o1 path rq b = (r, b')"
proof -
  have "unchanged b (snd (ServeHTTP sessionFor csrf a o1 path rq b))"
    by (simp add: ServeHTTP_def setup_routes_refuse [OF assms(1)] writing_routes_refuse [OF assms(1)] reading_routes
        serveAcquisitionJobs_def)
      (simp add: setup_route_def)
  moreover have "ServeHTTP sessionFor csrf (other_coordinator f g a) o1 path rq b = ServeHTTP sessionFor csrf a o1 path rq b"
    by (simp add: ServeHTTP_def writing_routes_refuse [OF assms(1)] same_without_coordinator)
  ultimately show ?thesis using assms(2) by (simp add: unchanged_def other_coordinator_def)
qed

text \<open>A server with a saved token, and a request of the local page that was never paired with it.\<close>

definition paired_backend :: "(unit, unit) backend" where
  "paired_backend = \<lparr>be_service = service_start (lit ''pair'') (Some (lit ''key'', [sample_item])),
     be_observer = start_observer, be_queue = open_queue False, be_jobs = \<lparr>jt_jobs = [], jt_candidates = []\<rparr>\<rparr>"

definition quiet_outcomes :: route_outcomes where
  "quiet_outcomes = \<lparr>rt_setup = \<lparr>ro_authorize_loads = True, ro_loads = True, ro_discovery = Discovered [], ro_commit = no_faults,
       ro_issue_loads = True\<rparr>,
     rt_status = \<lparr>sti_ended = False, sti_counts_out = Executed, sti_policy_out = Executed, sti_error_ended = False\<rparr>,
     rt_policy_ended = False, rt_policy_error_ended = False, rt_policy_out = Executed,
     rt_manager = \<lparr>mi_ended = False, mi_newID = Some (replicate 32 97), mi_now = sample_time, mi_cancelled = False, mi_out = Executed\<rparr>,
     rt_jobs_read = True\<rparr>"

text \<open>Checks that accept every selection and object as it is.\<close>

definition open_checks :: "(unit, unit) job_checks" where
  "open_checks = \<lparr>ck_selection = Some, ck_object = Some, ck_stored = (\<lambda>s. Some (Some s)), ck_planned = Some,
     ck_attached = (\<lambda>v. Some (Some v)), ck_identity = (\<lambda>_. ([], [], [])), ck_lower = id\<rparr>"

definition watchlist_api :: "(unit, unit) api" where
  "watchlist_api = \<lparr>ap_acquisition = False, ap_jobs = False, ap_watchlist = True, ap_configured = Inr False,
     ap_configure = (\<lambda>_ _. []), ap_acquire = (\<lambda>_ s. (Inl [], s)), ap_checks = open_checks\<rparr>"

definition switch_on_request :: "gostring \<Rightarrow> wire_request" where
  "switch_on_request session =
     \<lparr>wr_method = ''PUT'', wr_loopbackHost = True, wr_hasOrigin = True, wr_validLoopbackOrigin = True, wr_csrf = lit ''c5'',
      wr_session = session, wr_bootstrap = [], wr_bytes = 60,
      wr_body = Some (JObject [(js ''acquisitionEnabled'', JBool True), (js ''showPolicy'', json_str ''pilot'')])\<rparr>"

theorem no_change_without_authorization_witness:
  "be_queue (snd (ServeHTTP (\<lambda>_. lit ''session'') (lit ''c5'') watchlist_api quiet_outcomes (lit ''/api/watchlist/settings'')
      (switch_on_request (lit ''guess'')) paired_backend)) = open_queue False"
proof -
  have "\<not> knows_secret (\<lambda>_. lit ''session'') (switch_on_request (lit ''guess'')) (be_service paired_backend)"
    by (auto simp: body_token_def switch_on_request_def paired_backend_def service_start_def key_simps
        simp del: js_simps_list elim!: knows_secretE)
  then have "\<not> (from_local_page (lit ''c5'') (switch_on_request (lit ''guess''))
      \<and> knows_secret (\<lambda>_. lit ''session'') (switch_on_request (lit ''guess'')) (be_service paired_backend))" by simp
  from no_change_without_authorization [OF this, of watchlist_api quiet_outcomes "lit ''/api/watchlist/settings''"]
  show ?thesis by (metis paired_backend_def prod.collapse backend.select_convs(3))
qed

end
