(* ===== verification/Server_JobLife.thy ===== *)
theory Server_JobLife
  imports Server_JobStore
begin

text \<open>
  The life of background jobs: every row that the repository writes is read back as a valid job, an intent has at most one active
  job, submitting it again returns that job, and a finished job is never changed.
\<close>

section \<open>Jobs that are read back\<close>

text \<open>
  Checked values are checked again without a change, and they are read back from the columns that are written for them.
\<close>

definition checks_ok :: "('sel, 'obj) job_checks \<Rightarrow> bool" where
  "checks_ok ck \<longleftrightarrow> (\<forall>s t. ck_selection ck s = Some t \<longrightarrow> ck_selection ck t = Some t)
     \<and> (\<forall>s t. ck_object ck s = Some t \<longrightarrow> ck_object ck t = Some t)
     \<and> (\<forall>s. ck_selection ck s = Some s \<longrightarrow> ck_stored ck s = Some (Some s) \<and> ck_planned ck s = Some s)
     \<and> (\<forall>v. ck_object ck v = Some v \<longrightarrow> ck_attached ck v = Some (Some v))"

definition fixed :: "('a \<Rightarrow> 'a option) \<Rightarrow> 'a option \<Rightarrow> bool" where
  "fixed validate v \<longleftrightarrow> (case v of None \<Rightarrow> True | Some x \<Rightarrow> validate x = Some x)"

lemma fixed_simps [simp]: "fixed f None" "fixed f (Some x) \<longleftrightarrow> f x = Some x"
  by (simp_all add: fixed_def)

definition sound_job :: "('sel, 'obj) job_checks \<Rightarrow> ('sel, 'obj) job_snapshot \<Rightarrow> bool" where
  "sound_job ck j \<longleftrightarrow> jobIDPattern (js_id j) \<and> wf_request (js_request j) \<and> 0 \<le> js_attempt j
     \<and> 0 \<le> js_progress j \<and> js_progress j \<le> 100
     \<and> js_createdAt j \<noteq> zero_time \<and> js_updatedAt j \<noteq> zero_time \<and> js_createdAt j \<le> js_updatedAt j
     \<and> validateJobErrorCode (js_errorCode j)
     \<and> fixed (ck_selection ck) (js_selection j) \<and> fixed (ck_object ck) (js_createdObject j)
     \<and> validateOptionalPublishedObjectID (js_publishedObjectID j) = Inr (js_publishedObjectID j)
     \<and> validateJobStage (js_state j) (js_selection j \<noteq> None) (js_createdObject j \<noteq> None) (js_publishedObjectID j)
         (js_errorCode j) (js_progress j)
     \<and> validateSelectedCandidateOrdinal (js_state j) (js_selection j \<noteq> None) (js_ordinal j)
     \<and> validateCreatedByJob (js_state j) (js_createdObject j \<noteq> None) (js_createdByJob j)"

abbreviation snapshot_of ::
  "('sel, 'obj) job_checks \<Rightarrow> ('sel, 'obj) job_snapshot \<Rightarrow> snapshot_error + ('sel, 'obj) job_snapshot" where
  "snapshot_of ck \<equiv> NewAcquisitionJobSnapshot (ck_selection ck) (ck_object ck)"

lemma validate_optional_fixed: "fixed f v \<Longrightarrow> validate_optional f e v = Inr v"
  by (cases v) (simp_all add: validate_optional_def)

lemma validate_optional_Inr:
  assumes "validate_optional f e v = Inr w" "\<And>s t. f s = Some t \<Longrightarrow> f t = Some t"
  shows "fixed f w"
proof (cases v)
  case None
  with assms(1) show ?thesis by (simp add: validate_optional_def)
next
  case (Some x)
  with assms(1) obtain y where "f x = Some y" "w = Some y" by (auto simp: validate_optional_def split: option.splits)
  with assms(2) [of x y] show ?thesis by simp
qed

lemma published_fixed:
  "validateOptionalPublishedObjectID v = Inr w \<Longrightarrow> w = v \<and> validateOptionalPublishedObjectID w = Inr w"
  by (auto simp: validateOptionalPublishedObjectID_def Let_def split: if_splits)

lemma snapshot_of_sound: "sound_job ck j \<Longrightarrow> snapshot_of ck j = Inr j"
  by (auto simp: sound_job_def NewAcquisitionJobSnapshot_def request_check.valid_fixed validate_optional_fixed)

lemma snapshot_of_Inr:
  assumes "snapshot_of ck j = Inr k" "checks_ok ck"
  shows "sound_job ck k" "\<exists>request selection created. k = j\<lparr>js_request := request, js_selection := selection, js_createdObject := created\<rparr>
    \<and> validateSearchRequest (js_request j) = Inr request
    \<and> (fixed (ck_selection ck) (js_selection j) \<longrightarrow> selection = js_selection j)
    \<and> (fixed (ck_object ck) (js_createdObject j) \<longrightarrow> created = js_createdObject j)"
proof -
  have idem: "ck_selection ck s = Some t \<Longrightarrow> ck_selection ck t = Some t" "ck_object ck o1 = Some o2 \<Longrightarrow> ck_object ck o2 = Some o2"
    for s t o1 o2 using assms(2) by (auto simp: checks_ok_def)
  obtain request selection created published where p:
    "validateSearchRequest (js_request j) = Inr request"
    "validate_optional (ck_selection ck) InvalidSelection (js_selection j) = Inr selection"
    "validate_optional (ck_object ck) InvalidCreatedObject (js_createdObject j) = Inr created"
    "validateOptionalPublishedObjectID (js_publishedObjectID j) = Inr published"
    "k = j\<lparr>js_request := request, js_selection := selection, js_createdObject := created, js_publishedObjectID := published\<rparr>"
    using assms(1) by (auto simp: NewAcquisitionJobSnapshot_def result_simps split: sum.splits)
  have pub: "published = js_publishedObjectID j" using published_fixed [OF p(4)] by simp
  show "sound_job ck k"
    using assms(1) p pub validate_optional_Inr [OF p(2)] validate_optional_Inr [OF p(3)] idem
      request_check.result_valid [OF p(1)]
    by (auto simp: NewAcquisitionJobSnapshot_def result_simps sound_job_def split: sum.splits)
  show "\<exists>request selection created. k = j\<lparr>js_request := request, js_selection := selection, js_createdObject := created\<rparr>
    \<and> validateSearchRequest (js_request j) = Inr request
    \<and> (fixed (ck_selection ck) (js_selection j) \<longrightarrow> selection = js_selection j)
    \<and> (fixed (ck_object ck) (js_createdObject j) \<longrightarrow> created = js_createdObject j)"
    using p pub validate_optional_fixed [of "ck_selection ck" "js_selection j" InvalidSelection]
      validate_optional_fixed [of "ck_object ck" "js_createdObject j" InvalidCreatedObject]
    by (intro exI [of _ request] exI [of _ selection] exI [of _ created]) auto
qed

lemma persistedRequest_eq: "persistedRequest = validateSearchRequest"
  by (intro ext) (simp add: persistedRequest_def validateSearchRequest_def)

lemma read_columns_fixed:
  "fixed f v \<Longrightarrow> (\<And>x. f x = Some x \<Longrightarrow> stored x = Some (Some x)) \<Longrightarrow> read_columns stored v = Some v"
  by (cases v) (simp_all add: read_columns_def)

lemma queryJob_sound:
  assumes "sound_job ck (jr_job r)" "checks_ok ck"
  shows "queryJob ck r = Inr (jr_job r)"
proof -
  let ?j = "jr_job r"
  have "read_columns (ck_stored ck) (js_selection ?j) = Some (js_selection ?j)"
    "read_columns (ck_attached ck) (js_createdObject ?j) = Some (js_createdObject ?j)"
    using assms by (auto simp: sound_job_def checks_ok_def intro: read_columns_fixed)
  moreover have "read_ordinal (js_ordinal ?j) = js_ordinal ?j"
    using assms(1) by (auto simp: sound_job_def validateSelectedCandidateOrdinal_def read_ordinal_def split: option.splits)
  ultimately show ?thesis
    using assms(1) snapshot_of_sound [OF assms(1)]
    by (simp add: queryJob_def persistedRequest_eq sound_job_def request_check.valid_fixed)
qed

text \<open>What is read is a checked snapshot, whatever the row holds.\<close>

lemma queryJob_Inr:
  assumes "queryJob ck r = Inr job"
  obtains request selection created where "snapshot_of ck ((jr_job r)\<lparr>js_request := request, js_selection := selection,
    js_createdObject := created, js_ordinal := read_ordinal (js_ordinal (jr_job r))\<rparr>) = Inr job"
  using assms by (auto simp: queryJob_def split: sum.splits option.splits)

section \<open>Rows and claims\<close>

text \<open>The invariant of a store at an instant, with the claims that were granted so far.\<close>

definition row_ok :: "('sel, 'obj) job_checks \<Rightarrow> instant \<Rightarrow> ('sel, 'obj) job_row \<Rightarrow> bool" where
  "row_ok ck now r \<longleftrightarrow> sound_job ck (jr_job r) \<and> 0 \<le> jr_leaseVersion r
     \<and> 0 \<le> js_createdAt (jr_job r) \<and> js_updatedAt (jr_job r) \<le> from_millis (UnixMilli now)"

definition claim_current :: "('sel, 'obj) job_claim \<Rightarrow> ('sel, 'obj) job_row \<Rightarrow> bool" where
  "claim_current c r \<longleftrightarrow> row_id r = js_id (jc_job c)
     \<longrightarrow> jc_leaseVersion c \<le> jr_leaseVersion r
       \<and> (jr_leaseVersion r = jc_leaseVersion c \<and> jr_leaseUntil r \<noteq> 0 \<longrightarrow> jr_job r = jc_job c)"

abbreviation active_keys :: "('sel, 'obj) job_row list \<Rightarrow> gostring list" where
  "active_keys rows \<equiv> map jr_intentKey (filter active_row rows)"

definition keyed :: "('sel, 'obj) job_checks \<Rightarrow> ('sel, 'obj) job_row \<Rightarrow> bool" where
  "keyed ck r \<longleftrightarrow> jr_intentKey r = jobIntentKey ck (js_request (jr_job r))"

definition store_ok :: "('sel, 'obj) job_checks \<Rightarrow> instant \<Rightarrow> ('sel, 'obj) job_store \<Rightarrow> ('sel, 'obj) job_claim list \<Rightarrow> bool" where
  "store_ok ck now st claims \<longleftrightarrow> 0 \<le> now
     \<and> distinct (map row_id (jt_jobs st)) \<and> distinct (active_keys (jt_jobs st))
     \<and> (\<forall>r \<in> set (jt_jobs st). row_ok ck now r \<and> keyed ck r)
     \<and> (\<forall>c \<in> set claims. (\<exists>r \<in> set (jt_jobs st). row_id r = js_id (jc_job c))
         \<and> (\<forall>r \<in> set (jt_jobs st). claim_current c r))"

lemma from_millis_le: "0 \<le> t \<Longrightarrow> 0 \<le> from_millis (UnixMilli t) \<and> from_millis (UnixMilli t) \<le> t"
  by (simp add: from_millis_def UnixMilli_def)

lemma row_ok_later: "row_ok ck now r \<Longrightarrow> now \<le> later \<Longrightarrow> row_ok ck later r"
  using UnixMilli_mono [of now later] by (auto simp: row_ok_def from_millis_def)

lemma store_ok_later: "store_ok ck now st claims \<Longrightarrow> now \<le> later \<Longrightarrow> store_ok ck later st claims"
  by (auto simp: store_ok_def intro: row_ok_later)

text \<open>Changing the rows that meet a condition.\<close>

lemma jobs_update [simp]: "jt_jobs (update_jobs guard change st) = map (\<lambda>r. if guard r then change r else r) (jt_jobs st)"
  by (simp add: update_jobs_def)

lemma active_keys_update:
  assumes "\<And>r. r \<in> set rows \<Longrightarrow> guard r \<Longrightarrow> active_row r \<and> jr_intentKey (change r) = jr_intentKey r" "distinct (active_keys rows)"
  shows "distinct (active_keys (map (\<lambda>r. if guard r then change r else r) rows))"
  using assms
proof (induction rows)
  case (Cons r rows)
  have "set (active_keys (map (\<lambda>r. if guard r then change r else r) rows)) \<subseteq> set (active_keys rows)"
    using Cons.prems(1) by force
  then show ?case using Cons by auto
qed simp

lemma store_ok_update:
  assumes ok: "store_ok ck now st claims"
    and change: "\<And>r. r \<in> set (jt_jobs st) \<Longrightarrow> guard r \<Longrightarrow>
      active_row r \<and> row_id (change r) = row_id r \<and> jr_intentKey (change r) = jr_intentKey r \<and> row_ok ck now (change r)
      \<and> keyed ck (change r) \<and> (\<forall>c \<in> set claims. claim_current c (change r))"
  shows "store_ok ck now (update_jobs guard change st) claims"
proof -
  define f where "f = (\<lambda>r. if guard r then change r else r)"
  have f: "row_id (f r) = row_id r" "row_ok ck now (f r) \<and> keyed ck (f r)" "\<And>c. c \<in> set claims \<Longrightarrow> claim_current c (f r)"
    if "r \<in> set (jt_jobs st)" for r
    using ok change that by (auto simp: store_ok_def f_def)
  have "map row_id (map f (jt_jobs st)) = map row_id (jt_jobs st)" using f(1) by simp
  moreover have "distinct (active_keys (map f (jt_jobs st)))"
    using ok change unfolding f_def by (intro active_keys_update) (auto simp: store_ok_def)
  moreover have "jt_jobs (update_jobs guard change st) = map f (jt_jobs st)" by (simp add: f_def)
  ultimately show ?thesis
    using ok f by (simp add: store_ok_def del: map_map map_eq_conv jobs_update)
qed

lemma store_ok_candidates [simp]: "store_ok ck now (st\<lparr>jt_candidates := cs\<rparr>) claims = store_ok ck now st claims"
  by (simp add: store_ok_def)

section \<open>Every operation keeps the invariant\<close>

definition stamped :: "instant \<Rightarrow> ('sel, 'obj) job_snapshot \<Rightarrow> ('sel, 'obj) job_snapshot" where
  "stamped now j = j\<lparr>js_updatedAt := from_millis (UnixMilli now)\<rparr>"

lemma stamped_simps [simp]:
  "js_id (stamped now j) = js_id j" "js_request (stamped now j) = js_request j" "js_state (stamped now j) = js_state j"
  "js_createdAt (stamped now j) = js_createdAt j" "js_updatedAt (stamped now j) = from_millis (UnixMilli now)"
  by (simp_all add: stamped_def)

lemma stamped_sound: "row_ok ck now r \<Longrightarrow> 0 \<le> now \<Longrightarrow> sound_job ck (stamped now (jr_job r))"
  using from_millis_le [of now] by (simp add: row_ok_def sound_job_def stamped_def zero_time_def)

lemma sound_times:
  "sound_job ck j \<Longrightarrow> 0 \<le> t \<Longrightarrow> t \<le> u \<Longrightarrow> sound_job ck (j\<lparr>js_createdAt := t, js_updatedAt := u\<rparr>)"
  by (simp add: sound_job_def zero_time_def)

lemma store_ok_Submit:
  assumes ok: "store_ok ck now st claims" and ck: "checks_ok ck" and run: "Submit ck cancelled out jobID request now st = (result, st')"
  shows "store_ok ck now st' claims"
proof (cases "st' = st")
  case False
  then obtain queued where q: "snapshot_of ck (queued_input jobID request now) = Inr queued"
    "find (\<lambda>r. jr_intentKey r = jobIntentKey ck (js_request queued) \<and> active_row r) (jt_jobs st) = None"
    "\<not> list_ex (\<lambda>r. row_id r = js_id queued) (jt_jobs st)"
    "st' = st\<lparr>jt_jobs := jt_jobs st @ [new_job_row (jobIntentKey ck (js_request queued)) queued (UnixMilli now)]\<rparr>"
    using run by (auto simp: Submit_def Let_def split: if_splits sum.splits option.splits)
  let ?r = "new_job_row (jobIntentKey ck (js_request queued)) queued (UnixMilli now)"
  have now: "0 \<le> now" using ok by (simp add: store_ok_def)
  have "row_ok ck now ?r"
    using snapshot_of_Inr(1) [OF q(1) ck] from_millis_le [OF now] by (simp add: row_ok_def new_job_row_def sound_times)
  moreover have "row_id ?r = js_id queued" "keyed ck ?r" by (simp_all add: new_job_row_def keyed_def)
  moreover have "\<forall>r \<in> set (jt_jobs st). row_id r \<noteq> js_id queued" using q(3) by (auto simp: list_ex_iff)
  moreover have "jr_intentKey ?r \<notin> set (active_keys (jt_jobs st))"
    using q(2) by (auto simp: find_None_iff new_job_row_def)
  ultimately show ?thesis
    using ok by (auto simp: store_ok_def q(4) claim_current_def)
qed (use ok in simp)

lemma next_due_SomeD: "next_due now rows = Some r \<Longrightarrow> r \<in> set rows \<and> due now r"
  using arg_min_list_in [of "filter (due now) rows" due_order]
  by (auto simp: next_due_def split: list.splits)

lemma same_id_row: "store_ok ck now st claims \<Longrightarrow> r \<in> set (jt_jobs st) \<Longrightarrow> s \<in> set (jt_jobs st) \<Longrightarrow> row_id r = row_id s \<Longrightarrow> r = s"
  by (auto simp: store_ok_def distinct_map inj_on_def)

lemma store_ok_ClaimJob:
  assumes ok: "store_ok ck now st claims" "checks_ok ck" and run: "ClaimJob ck out versionReads now leaseDuration st = (result, st')"
  shows "store_ok ck now st' (case result of Inl _ \<Rightarrow> claims | Inr c \<Rightarrow> c # claims)"
proof (cases "st' = st \<and> (\<exists>e. result = Inl e)")
  case False
  then obtain chosen where ch: "next_due (UnixMilli now) (jt_jobs st) = Some chosen"
    using run by (auto simp: ClaimJob_def split: if_splits option.splits)
  define lease :: "('a, 'b) job_row \<Rightarrow> ('a, 'b) job_row" where "lease = job_leased (UnixMilli now) (UnixMilli (now + leaseDuration))"
  have chosen: "chosen \<in> set (jt_jobs st)" "active_row chosen" using next_due_SomeD [OF ch] by (auto simp: due_def)
  have st': "st' = update_jobs (\<lambda>r. row_id r = row_id chosen) lease st"
    using run False ch by (auto simp: ClaimJob_def Let_def lease_def split: if_splits sum.splits option.splits)
  have now: "0 \<le> now" using ok by (simp add: store_ok_def)
  have lease: "row_id (lease r) = row_id r" "jr_intentKey (lease r) = jr_intentKey r" "jr_leaseVersion (lease r) = jr_leaseVersion r + 1" for r
    by (simp_all add: lease_def job_leased_def)
  have job: "jr_job (lease r) = (stamped now (jr_job r))\<lparr>js_attempt := js_attempt (jr_job r) + 1\<rparr>" for r
    by (simp add: lease_def job_leased_def stamped_def)
  have leased: "row_ok ck now (lease chosen) \<and> keyed ck (lease chosen)"
    using ok chosen now stamped_sound [of ck now chosen]
    by (auto simp: store_ok_def row_ok_def job lease sound_job_def keyed_def)
  have kept: "store_ok ck now st' claims"
    unfolding st'
  proof (rule store_ok_update [OF ok(1)])
    fix r assume r: "r \<in> set (jt_jobs st)" "row_id r = row_id chosen"
    then have "r = chosen" using same_id_row [OF ok(1)] chosen(1) by blast
    moreover have "claim_current c (lease chosen)" if "c \<in> set claims" for c
      using ok chosen(1) that by (fastforce simp: store_ok_def claim_current_def lease)
    ultimately show "active_row r \<and> row_id (lease r) = row_id r \<and> jr_intentKey (lease r) = jr_intentKey r \<and> row_ok ck now (lease r)
        \<and> keyed ck (lease r) \<and> (\<forall>c \<in> set claims. claim_current c (lease r))"
      using chosen leased lease by blast
  qed
  show ?thesis
  proof (cases result)
    case (Inr c)
    have "queryJob ck (lease chosen) = Inr (jr_job (lease chosen))"
      using leased ok(2) by (intro queryJob_sound) (simp_all add: row_ok_def)
    then have c: "c = \<lparr>jc_job = jr_job (lease chosen), jc_leaseVersion = jr_leaseVersion (lease chosen)\<rparr>"
      using run ch Inr by (auto simp: ClaimJob_def Let_def NewAcquisitionJobClaim_def lease_def split: if_splits sum.splits option.splits)
    have mem: "lease chosen \<in> set (jt_jobs st')" using chosen(1) by (auto simp: st')
    moreover have "claim_current c r" if "r \<in> set (jt_jobs st')" for r
      using same_id_row [OF kept that mem] by (auto simp: claim_current_def c)
    ultimately show ?thesis using kept Inr by (auto simp: store_ok_def c)
  qed (use kept in simp)
qed (use ok in auto)

text \<open>What a transition may assign to the job of its claim.\<close>

definition sound_change ::
  "('sel, 'obj) job_checks \<Rightarrow> instant \<Rightarrow> ('sel, 'obj) job_claim \<Rightarrow> gostring list
   \<Rightarrow> (('sel, 'obj) job_snapshot \<Rightarrow> ('sel, 'obj) job_snapshot) \<Rightarrow> bool" where
  "sound_change ck now claim states f \<longleftrightarrow> set states \<subseteq> set active_states
     \<and> (\<forall>j. js_id (f j) = js_id j \<and> js_request (f j) = js_request j \<and> js_createdAt (f j) = js_createdAt j)
     \<and> (sound_job ck (stamped now (jc_job claim)) \<and> js_state (jc_job claim) \<in> set states
         \<longrightarrow> sound_job ck (stamped now (f (jc_job claim))))"

lemma released_simps [simp]:
  "jr_job (released (UnixMilli now) (retry_at m \<circ> set_job f) r) = stamped now (f (jr_job r))"
  "jr_intentKey (released n (retry_at m \<circ> set_job f) r) = jr_intentKey r"
  "jr_leaseVersion (released n (retry_at m \<circ> set_job f) r) = jr_leaseVersion r"
  "jr_leaseUntil (released n a r) = 0"
  by (simp_all add: released_def retry_at_def set_job_def stamped_def)

lemma store_ok_lease:
  assumes ok: "store_ok ck now st claims" and claim: "claim \<in> set claims" and f: "sound_change ck now claim states f"
  shows "store_ok ck now (update_jobs (holds_lease claim states (UnixMilli now)) (released (UnixMilli now) (retry_at m \<circ> set_job f)) st) claims"
proof (rule store_ok_update [OF ok])
  let ?change = "released (UnixMilli now) (retry_at m \<circ> set_job f)"
  fix r assume r: "r \<in> set (jt_jobs st)" "holds_lease claim states (UnixMilli now) r"
  have now: "0 \<le> now" "0 \<le> UnixMilli now" using ok by (simp_all add: store_ok_def UnixMilli_def pos_imp_zdiv_nonneg_iff)
  have job: "jr_job r = jc_job claim" "js_state (jr_job r) \<in> set states"
    using ok claim r now by (force simp: store_ok_def claim_current_def holds_lease_def)+
  have row: "row_ok ck now r" "keyed ck r" using ok r(1) by (auto simp: store_ok_def)
  have "sound_job ck (stamped now (f (jr_job r)))"
    using f stamped_sound [OF row(1) now(1)] job by (simp add: sound_change_def)
  then have "row_ok ck now (?change r)" using row(1) f by (simp add: row_ok_def sound_change_def)
  moreover have "active_row r" using f job(2) by (auto simp: sound_change_def)
  moreover have "claim_current c (?change r)" if "c \<in> set claims" for c
    using ok r(1) that f by (fastforce simp: store_ok_def claim_current_def sound_change_def)
  ultimately show "active_row r \<and> row_id (?change r) = row_id r \<and> jr_intentKey (?change r) = jr_intentKey r
      \<and> row_ok ck now (?change r) \<and> keyed ck (?change r) \<and> (\<forall>c \<in> set claims. claim_current c (?change r))"
    using row(2) f by (simp add: keyed_def sound_change_def)
qed

lemma store_ok_transition:
  assumes "store_ok ck now st claims" "claim \<in> set claims" "sound_change ck now claim states f"
    "transitionWithStates out claim states now (retry_at m \<circ> set_job f) st = (result, st')"
  shows "store_ok ck now st' claims"
  using assms(4) assms(1) store_ok_lease [OF assms(1-3), of m]
  by (auto simp: transitionWithStates_def Let_def split: if_splits)

text \<open>The assignments of the operations.\<close>

lemmas stage_defs = sound_job_def stamped_def validateJobStage_def validateSelectedCandidateOrdinal_def validateCreatedByJob_def
  validateJobErrorCode_def maximumJobCandidates_def

lemma queued_stage: "sound_job ck j \<Longrightarrow> js_state j = lit ''queued'' \<Longrightarrow> js_selection j = None \<and> js_createdObject j = None
    \<and> js_publishedObjectID j = [] \<and> js_progress j = 0 \<and> js_ordinal j = None \<and> \<not> js_createdByJob j"
  by (auto simp: stage_defs split: option.splits)

lemma selected_stage: "sound_job ck j \<Longrightarrow> js_state j = lit ''selected'' \<Longrightarrow> js_selection j \<noteq> None \<and> js_createdObject j = None
    \<and> js_publishedObjectID j = [] \<and> js_progress j = 0 \<and> \<not> js_createdByJob j"
  by (auto simp: stage_defs split: option.splits)

lemma preparing_stage: "sound_job ck j \<Longrightarrow> js_state j = lit ''preparing'' \<Longrightarrow> js_selection j \<noteq> None \<and> js_createdObject j \<noteq> None
    \<and> js_publishedObjectID j = [] \<and> js_progress j < 100"
  by (auto simp: stage_defs split: option.splits)

lemma active_published: "sound_job ck j \<Longrightarrow> js_state j \<in> set active_states \<Longrightarrow> js_publishedObjectID j = []"
  using queued_stage selected_stage preparing_stage unfolding active_states_def by fastforce

lemma sound_stage:
  assumes "sound_job ck j" "fixed (ck_selection ck) selection" "fixed (ck_object ck) created"
    "validateOptionalPublishedObjectID published = Inr published" "validateJobErrorCode code" "0 \<le> progress" "progress \<le> 100"
    "validateJobStage state (selection \<noteq> None) (created \<noteq> None) published code progress"
    "validateSelectedCandidateOrdinal state (selection \<noteq> None) ordinal" "validateCreatedByJob state (created \<noteq> None) byJob"
  shows "sound_job ck (j\<lparr>js_state := state, js_selection := selection, js_createdObject := created, js_ordinal := ordinal,
    js_createdByJob := byJob, js_publishedObjectID := published, js_errorCode := code, js_progress := progress\<rparr>)"
  using assms by (simp add: sound_job_def)

lemma sound_Select:
  "ck_selection ck v = Some v \<Longrightarrow> sound_change ck now claim [lit ''queued''] (selected_job v None)"
  using queued_stage [of ck "stamped now (jc_job claim)"]
  by (auto simp: sound_change_def active_states_def selected_job_def stage_defs)

lemma sound_Plan:
  "ck_selection ck v = Some v \<Longrightarrow> sound_change ck now claim [lit ''queued''] (without_object \<circ> selected_job v (Some 0))"
  using queued_stage [of ck "stamped now (jc_job claim)"]
  by (auto simp: sound_change_def active_states_def selected_job_def without_object_def stage_defs)

lemma sound_Attach:
  "ck_object ck v = Some v \<Longrightarrow> sound_change ck now claim [lit ''selected''] (prepared_job v byJob)"
  using selected_stage [of ck "stamped now (jc_job claim)"]
  by (auto simp: sound_change_def active_states_def prepared_job_def stage_defs split: option.splits)

lemma sound_Defer:
  assumes "0 \<le> progress" "progress < 100" "js_state (jc_job claim) = lit ''preparing'' \<or> progress = 0"
    "code \<in> {[], lit ''provider_unavailable'', lit ''unauthorized''}"
  shows "sound_change ck now claim active_states (\<lambda>j. j\<lparr>js_errorCode := code, js_progress := progress\<rparr>)"
proof -
  let ?j = "stamped now (jc_job claim)"
  have code: "validateJobErrorCode code" using assms(4) by (auto simp: validateJobErrorCode_def)
  have "validateJobStage (js_state ?j) (js_selection ?j \<noteq> None) (js_createdObject ?j \<noteq> None) (js_publishedObjectID ?j) code progress"
    if j: "sound_job ck ?j" "js_state ?j \<in> set active_states"
    using j(2) queued_stage [OF j(1)] selected_stage [OF j(1)] preparing_stage [OF j(1)] assms(1-3)
    by (simp add: active_states_def) (elim disjE; simp add: validateJobStage_def)
  then show ?thesis
    using assms(1,2) code by (simp add: sound_change_def) (simp add: sound_job_def stamped_def)
qed

lemma sound_Next:
  "ck_selection ck v = Some v \<Longrightarrow> 0 \<le> n \<Longrightarrow> n < maximumJobCandidates \<Longrightarrow> state \<in> {lit ''selected'', lit ''preparing''}
    \<Longrightarrow> sound_change ck now claim [state] (without_object \<circ> selected_job v (Some n))"
  using selected_stage [of ck "stamped now (jc_job claim)"] preparing_stage [of ck "stamped now (jc_job claim)"]
  by (auto simp: sound_change_def active_states_def selected_job_def without_object_def stage_defs)

text \<open>An input that is the job of the claim but for its stage passes the check as it is.\<close>

lemma snapshot_of_claim:
  assumes "snapshot_of ck k = Inr v" "checks_ok ck" "sound_job ck j" "js_request k = js_request j"
    "fixed (ck_selection ck) (js_selection k)" "fixed (ck_object ck) (js_createdObject k)"
  shows "v = k \<and> sound_job ck k"
proof -
  have "validateSearchRequest (js_request k) = Inr (js_request k)"
    using assms(3,4) by (simp add: sound_job_def request_check.valid_fixed)
  with snapshot_of_Inr [OF assms(1,2)] assms(5,6) show ?thesis by auto
qed

lemma sound_time: "sound_job ck j \<Longrightarrow> sound_job ck (stamped now k) \<Longrightarrow> js_createdAt j = js_createdAt k \<Longrightarrow> sound_job ck (stamped now j)"
  by (simp add: sound_job_def stamped_def)

lemma sound_Succeed:
  assumes "snapshot_of ck ((succeeded_job published (jc_job claim))\<lparr>js_updatedAt := t\<rparr>) = Inr v" "checks_ok ck"
  shows "sound_change ck now claim [lit ''preparing''] (succeeded_job (js_publishedObjectID v))"
proof -
  let ?k = "(succeeded_job published (jc_job claim))\<lparr>js_updatedAt := t\<rparr>"
  have "sound_job ck (stamped now (succeeded_job (js_publishedObjectID v) (jc_job claim)))"
    if j: "sound_job ck (stamped now (jc_job claim))"
  proof -
    have "fixed (ck_selection ck) (js_selection ?k)" "fixed (ck_object ck) (js_createdObject ?k)"
      using j by (simp_all add: sound_job_def stamped_def succeeded_job_def)
    then have "v = ?k \<and> sound_job ck ?k" using snapshot_of_claim [OF assms j] by (simp add: succeeded_job_def)
    moreover from this have "sound_job ck (stamped now ?k)"
      using j by (intro sound_time [of ck ?k now "jc_job claim"]) (auto simp: succeeded_job_def)
    ultimately show ?thesis by (auto simp: stamped_def succeeded_job_def)
  qed
  then show ?thesis by (auto simp: sound_change_def active_states_def succeeded_job_def)
qed

lemma sound_Fail:
  assumes "snapshot_of ck ((jc_job claim)\<lparr>js_state := state, js_publishedObjectID := [], js_errorCode := code, js_updatedAt := t\<rparr>) = Inr v"
    "checks_ok ck"
  shows "sound_change ck now claim active_states (\<lambda>j. j\<lparr>js_state := state, js_errorCode := code\<rparr>)"
proof -
  let ?k = "(jc_job claim)\<lparr>js_state := state, js_publishedObjectID := [], js_errorCode := code, js_updatedAt := t\<rparr>"
  have "sound_job ck (stamped now ((jc_job claim)\<lparr>js_state := state, js_errorCode := code\<rparr>))"
    if j: "sound_job ck (stamped now (jc_job claim))" "js_state (jc_job claim) \<in> set active_states"
  proof -
    have "fixed (ck_selection ck) (js_selection ?k)" "fixed (ck_object ck) (js_createdObject ?k)"
      using j(1) by (simp_all add: sound_job_def stamped_def)
    then have "sound_job ck ?k" using snapshot_of_claim [OF assms j(1)] by simp
    then have "sound_job ck (stamped now ?k)" using j by (intro sound_time [of ck ?k now "jc_job claim"]) auto
    moreover have "js_publishedObjectID (jc_job claim) = []"
      using active_published [OF j(1)] j(2) by (simp add: stamped_def)
    ultimately show ?thesis by (simp add: stamped_def sound_job_def)
  qed
  then show ?thesis by (auto simp: sound_change_def)
qed

lemma sound_Exhausted:
  assumes "validateTerminalCode ck code (jc_job claim) t" "checks_ok ck" "state \<in> {lit ''selected'', lit ''preparing''}"
  shows "sound_change ck now claim [state] (failed_job code)"
proof -
  let ?k = "(failed_job code (jc_job claim))\<lparr>js_publishedObjectID := [], js_updatedAt := t\<rparr>"
  obtain v where v: "snapshot_of ck ?k = Inr v" using assms(1) by (auto simp: validateTerminalCode_def split: sum.splits)
  have "sound_job ck (stamped now (failed_job code (jc_job claim)))"
    if j: "sound_job ck (stamped now (jc_job claim))" "js_state (jc_job claim) = state"
  proof -
    have "sound_job ck ?k"
      using snapshot_of_claim [OF v assms(2) j(1)] by (simp add: failed_job_def without_object_def)
    then have "sound_job ck (stamped now ?k)"
      using j by (intro sound_time [of ck ?k now "jc_job claim"]) (auto simp: failed_job_def without_object_def)
    moreover have "js_publishedObjectID (jc_job claim) = []"
      using active_published [OF j(1)] j(2) assms(3) by (auto simp: stamped_def active_states_def)
    ultimately show ?thesis by (simp add: stamped_def failed_job_def without_object_def sound_job_def)
  qed
  then show ?thesis using assms(3) by (auto simp: sound_change_def failed_job_def without_object_def active_states_def)
qed

section \<open>Candidates and plans\<close>

text \<open>The selections of the candidate table are checked ones, and so is what is read from it.\<close>

lemma NewJobCandidate_Some:
  "NewJobCandidate ck selection ordinal outcome = Some c \<Longrightarrow> checks_ok ck
    \<Longrightarrow> ck_selection ck (ca_selection c) = Some (ca_selection c) \<and> 0 \<le> ca_ordinal c \<and> ca_ordinal c < maximumJobCandidates"
  by (auto simp: NewJobCandidate_def checks_ok_def split: if_splits)

lemma queryCandidate_Some:
  "queryCandidate ck c = Some v \<Longrightarrow> checks_ok ck
    \<Longrightarrow> ck_selection ck (ca_selection v) = Some (ca_selection v) \<and> 0 \<le> ca_ordinal v \<and> ca_ordinal v < maximumJobCandidates"
  using NewJobCandidate_Some by (fastforce simp: queryCandidate_def split: option.splits)

lemma plan_first:
  assumes "validateCandidatePlan ck candidates = Some validated" "checks_ok ck"
  shows "ck_selection ck (ca_selection (hd validated)) = Some (ca_selection (hd validated))"
proof -
  obtain c cs where "candidates = c # cs" "plan_items ck 0 [] (c # cs) = Some validated"
    using assms(1) by (cases candidates) (auto simp: validateCandidatePlan_def split: if_splits)
  then obtain candidate where "NewJobCandidate ck (ca_selection c) 0 (lit ''selected'') = Some candidate" "hd validated = candidate"
    by (auto simp: Let_def split: option.splits if_splits)
  with NewJobCandidate_Some [OF _ assms(2)] show ?thesis by blast
qed

lemma store_ok_Plan:
  assumes ok: "store_ok ck now st claims" "claim \<in> set claims" "checks_ok ck" and run: "Plan ck out claim candidates now st = (result, st')"
  shows "store_ok ck now st' claims"
proof (cases "st' = st")
  case False
  then obtain validated where v: "validateCandidatePlan ck candidates = Some validated"
    "st' = update_jobs (holds_lease claim [lit ''queued''] (UnixMilli now))
      (released (UnixMilli now) (retry_at 0 \<circ> set_job (without_object \<circ> selected_job (ca_selection (hd validated)) (Some 0))))
      (st\<lparr>jt_candidates := jt_candidates st @ map (Pair (js_id (jc_job claim))) validated\<rparr>)"
    using run by (auto simp: Plan_def Let_def split: option.splits if_splits)
  show ?thesis
    unfolding v(2) using ok plan_first [OF v(1) ok(3)] by (intro store_ok_lease sound_Plan) simp_all
qed (use ok in simp)

text \<open>The two ways an advance changes the store.\<close>

lemma Advance_changes:
  assumes "Advance ck out claim outcome code now st = (result, st')" "st' \<noteq> st"
  obtains (exhausted) cs where "js_state (jc_job claim) \<in> {lit ''selected'', lit ''preparing''}"
      "validateTerminalCode ck code (jc_job claim) now"
      "st' = update_jobs (holds_lease claim [js_state (jc_job claim)] (UnixMilli now))
        (released (UnixMilli now) (retry_at 0 \<circ> set_job (failed_job code))) (st\<lparr>jt_candidates := cs\<rparr>)"
    | (advanced) cs pending next_one where "js_state (jc_job claim) \<in> {lit ''selected'', lit ''preparing''}"
        "queryCandidate ck pending = Some next_one"
        "st' = update_jobs (holds_lease claim [js_state (jc_job claim)] (UnixMilli now)) (released (UnixMilli now)
          (retry_at 0 \<circ> set_job (without_object \<circ> selected_job (ca_selection next_one) (Some (ca_ordinal next_one)))))
          (st\<lparr>jt_candidates := cs\<rparr>)"
  using assms by (auto simp: Advance_def Let_def split: option.splits if_splits)

lemma store_ok_Advance:
  assumes ok: "store_ok ck now st claims" "claim \<in> set claims" "checks_ok ck"
    and run: "Advance ck out claim outcome code now st = (result, st')"
  shows "store_ok ck now st' claims"
proof (cases "st' = st")
  case False
  with run show ?thesis
  proof (cases rule: Advance_changes)
    case (exhausted cs)
    show ?thesis unfolding exhausted(3) using ok exhausted(1,2) by (intro store_ok_lease sound_Exhausted) simp_all
  next
    case (advanced cs pending next_one)
    show ?thesis
      unfolding advanced(3) using ok advanced(1) queryCandidate_Some [OF advanced(2) ok(3)]
      by (intro store_ok_lease sound_Next) simp_all
  qed
qed (use ok in simp)

section \<open>Runs\<close>

text \<open>A store with the time of its last operation and every claim that it granted.\<close>

record ('sel, 'obj) job_system =
  sy_now :: instant
  sy_store :: "('sel, 'obj) job_store"
  sy_claims :: "('sel, 'obj) job_claim list"

definition moved :: "instant \<Rightarrow> ('sel, 'obj) job_store \<Rightarrow> ('sel, 'obj) job_system \<Rightarrow> ('sel, 'obj) job_system" where
  "moved now st s = s\<lparr>sy_now := now, sy_store := st\<rparr>"

text \<open>
  The clock never goes back, and workers use claims that they were granted. A worker that defers a job without a
  provider object reports no progress for it, as \<open>deferJob\<close> does.
\<close>

inductive job_step :: "('sel, 'obj) job_checks \<Rightarrow> ('sel, 'obj) job_system \<Rightarrow> ('sel, 'obj) job_system \<Rightarrow> bool" for ck where
  submit: "sy_now s \<le> now \<Longrightarrow> job_step ck s (moved now (snd (Submit ck cancelled out jobID request now (sy_store s))) s)"
| refused: "sy_now s \<le> now \<Longrightarrow> ClaimJob ck out reads now leaseDuration (sy_store s) = (Inl e, st) \<Longrightarrow> job_step ck s (moved now st s)"
| granted: "sy_now s \<le> now \<Longrightarrow> ClaimJob ck out reads now leaseDuration (sy_store s) = (Inr c, st)
    \<Longrightarrow> job_step ck s ((moved now st s)\<lparr>sy_claims := c # sy_claims s\<rparr>)"
| select: "sy_now s \<le> now \<Longrightarrow> c \<in> set (sy_claims s) \<Longrightarrow> job_step ck s (moved now (snd (Select ck out c selection now (sy_store s))) s)"
| plan: "sy_now s \<le> now \<Longrightarrow> c \<in> set (sy_claims s) \<Longrightarrow> job_step ck s (moved now (snd (Plan ck out c candidates now (sy_store s))) s)"
| attach: "sy_now s \<le> now \<Longrightarrow> c \<in> set (sy_claims s)
    \<Longrightarrow> job_step ck s (moved now (snd (AttachPrepared ck out c created byJob now (sy_store s))) s)"
| advance: "sy_now s \<le> now \<Longrightarrow> c \<in> set (sy_claims s)
    \<Longrightarrow> job_step ck s (moved now (snd (Advance ck out c outcome code now (sy_store s))) s)"
| defers: "sy_now s \<le> now \<Longrightarrow> c \<in> set (sy_claims s) \<Longrightarrow> js_state (jc_job c) = lit ''preparing'' \<or> progress = 0
    \<Longrightarrow> job_step ck s (moved now (snd (DeferAcquisition out c nextAttempt code progress now (sy_store s))) s)"
| succeed: "sy_now s \<le> now \<Longrightarrow> c \<in> set (sy_claims s)
    \<Longrightarrow> job_step ck s (moved now (snd (Succeed ck out c published now (sy_store s))) s)"
| fail: "sy_now s \<le> now \<Longrightarrow> c \<in> set (sy_claims s)
    \<Longrightarrow> job_step ck s (moved now (snd (Fail ck out c code manualReview now (sy_store s))) s)"

definition open_jobs :: "instant \<Rightarrow> ('sel, 'obj) job_system" where
  "open_jobs now = \<lparr>sy_now = now, sy_store = \<lparr>jt_jobs = [], jt_candidates = []\<rparr>, sy_claims = []\<rparr>"

abbreviation job_run :: "('sel, 'obj) job_checks \<Rightarrow> ('sel, 'obj) job_system \<Rightarrow> ('sel, 'obj) job_system \<Rightarrow> bool" where
  "job_run ck \<equiv> (job_step ck)\<^sup>*\<^sup>*"

abbreviation system_ok :: "('sel, 'obj) job_checks \<Rightarrow> ('sel, 'obj) job_system \<Rightarrow> bool" where
  "system_ok ck s \<equiv> store_ok ck (sy_now s) (sy_store s) (sy_claims s)"

lemma moved_simps [simp]:
  "sy_now (moved now st s) = now" "sy_store (moved now st s) = st" "sy_claims (moved now st s) = sy_claims s"
  by (simp_all add: moved_def)

lemma system_ok_step:
  assumes step: "job_step ck s s'" and ok: "system_ok ck s" and ck: "checks_ok ck"
  shows "system_ok ck s'"
proof -
  have later: "store_ok ck now (sy_store s) (sy_claims s)" if "sy_now s \<le> now" for now
    using ok that by (rule store_ok_later)
  have idem: "ck_selection ck x = Some y \<Longrightarrow> ck_selection ck y = Some y" "ck_object ck u = Some v \<Longrightarrow> ck_object ck v = Some v" for x y u v
    using ck by (auto simp: checks_ok_def)
  have transition: "store_ok ck now (snd (transitionWithStates out c states now (retry_at m \<circ> set_job f) (sy_store s))) (sy_claims s)"
    if "sy_now s \<le> now" "c \<in> set (sy_claims s)" "sound_change ck now c states f" for now out c states m f
    using store_ok_transition [OF later [OF that(1)] that(2,3)] by (metis prod.collapse)
  show ?thesis
    using step
  proof cases
    case (submit now cancelled out jobID request)
    with store_ok_Submit [OF later ck] show ?thesis by (metis moved_simps prod.collapse)
  next
    case (refused now out reads leaseDuration e st)
    with store_ok_ClaimJob [OF later ck refused(3)] show ?thesis by simp
  next
    case (granted now out reads leaseDuration c st)
    with store_ok_ClaimJob [OF later ck granted(3)] show ?thesis by simp
  next
    case (select now c out selection)
    then show ?thesis
      by (auto simp: Select_def intro!: later transition sound_Select intro: idem(1) split: option.split)
  next
    case (plan now c out candidates)
    with store_ok_Plan [OF later plan(3) ck] show ?thesis by (metis moved_simps prod.collapse)
  next
    case (attach now c out created byJob)
    then show ?thesis
      by (auto simp: AttachPrepared_def intro!: later transition sound_Attach intro: idem(2) split: option.split)
  next
    case (advance now c out outcome code)
    with store_ok_Advance [OF later advance(3) ck] show ?thesis by (metis moved_simps prod.collapse)
  next
    case (defers now c progress out nextAttempt code)
    then show ?thesis
      by (auto simp: DeferAcquisition_def intro!: later transition sound_Defer)
  next
    case (succeed now c out published)
    then show ?thesis
      by (auto simp: Succeed_def intro!: later transition sound_Succeed [OF _ ck] split: sum.split)
  next
    case (fail now c out code manualReview)
    then show ?thesis
      by (auto simp: Fail_def Let_def intro!: later transition sound_Fail [OF _ ck] split: sum.split)
  qed
qed

lemma system_ok_run: "job_run ck s s' \<Longrightarrow> system_ok ck s \<Longrightarrow> checks_ok ck \<Longrightarrow> system_ok ck s'"
  by (induction rule: rtranclp_induct) (auto intro: system_ok_step)

lemma system_ok_open: "0 \<le> start \<Longrightarrow> job_run ck (open_jobs start) s \<Longrightarrow> checks_ok ck \<Longrightarrow> system_ok ck s"
  by (erule system_ok_run) (simp_all add: open_jobs_def store_ok_def)

end
