(* ===== verification/Server_JobRuns.thy ===== *)
theory Server_JobRuns
  imports Server_JobLife "HOL-Library.Multiset"
begin

text \<open>
  What a run of the job repository does to its rows: every operation is one of three moves (a row is added, one active row is leased,
  the row of a live claim changes its stage), and what the moves keep of a row holds over every run.
\<close>

section \<open>Moves\<close>

definition keeps_identity :: "(('sel, 'obj) job_snapshot \<Rightarrow> ('sel, 'obj) job_snapshot) \<Rightarrow> bool" where
  "keeps_identity f \<longleftrightarrow> (\<forall>j. js_id (f j) = js_id j \<and> js_request (f j) = js_request j \<and> js_createdAt (f j) = js_createdAt j)"

inductive job_move :: "('sel, 'obj) job_row list \<Rightarrow> ('sel, 'obj) job_row list \<Rightarrow> bool" where
  stay: "job_move rows rows"
| add: "\<forall>r \<in> set rows. row_id r \<noteq> row_id new \<Longrightarrow> job_move rows (rows @ [new])"
| lease: "\<forall>r \<in> set rows. row_id r = k \<longrightarrow> active_row r
    \<Longrightarrow> job_move rows (map (\<lambda>r. if row_id r = k then job_leased nowMillis leaseUntil r else r) rows)"
| transit: "keeps_identity f \<Longrightarrow> set states \<subseteq> set active_states
    \<Longrightarrow> job_move rows (map (\<lambda>r. if holds_lease c states n r then released n (retry_at m \<circ> set_job f) r else r) rows)"

lemma keeps_identity_changes:
  "keeps_identity (selected_job v n)" "keeps_identity (without_object \<circ> selected_job v n)" "keeps_identity (prepared_job v' byJob)"
  "keeps_identity (succeeded_job published)" "keeps_identity (failed_job code)"
  "keeps_identity (\<lambda>j. j\<lparr>js_errorCode := code, js_progress := progress\<rparr>)" "keeps_identity (\<lambda>j. j\<lparr>js_state := state, js_errorCode := code\<rparr>)"
  by (simp_all add: keeps_identity_def selected_job_def without_object_def prepared_job_def succeeded_job_def failed_job_def)

lemma transition_move:
  assumes "keeps_identity f" "set states \<subseteq> set active_states"
  shows "job_move (jt_jobs st) (jt_jobs (snd (transitionWithStates out c states now (retry_at m \<circ> set_job f) st)))"
  using transit [OF assms] by (auto simp: transitionWithStates_def Let_def stay)

lemma active_members [simp]:
  "lit ''queued'' \<in> set active_states" "lit ''selected'' \<in> set active_states" "lit ''preparing'' \<in> set active_states"
  by (simp_all add: active_states_def)

lemma job_leased_id [simp]: "row_id (job_leased nowMillis leaseUntil r) = row_id r"
  by (simp add: job_leased_def)

lemma Submit_move: "job_move (jt_jobs st) (jt_jobs (snd (Submit ck cancelled out jobID request now st)))"
proof -
  have "job_move (jt_jobs st) (jt_jobs st @ [new_job_row key queued t])"
    if "\<not> list_ex (\<lambda>r. row_id r = js_id queued) (jt_jobs st)" for key t and queued :: "('a, 'b) job_snapshot"
    using that by (intro add) (auto simp: list_ex_iff new_job_row_def)
  then show ?thesis by (auto simp: Submit_def Let_def intro: stay split: sum.split option.split)
qed

lemma ClaimJob_move:
  assumes "store_ok ck now st claims"
  shows "job_move (jt_jobs st) (jt_jobs (snd (ClaimJob ck out versionReads now leaseDuration st)))"
proof (cases "next_due (UnixMilli now) (jt_jobs st)")
  case (Some chosen)
  have "\<forall>r \<in> set (jt_jobs st). row_id r = row_id chosen \<longrightarrow> active_row r"
    using next_due_SomeD [OF Some] same_id_row [OF assms] by (auto simp: due_def)
  from lease [OF this] show ?thesis
    using Some by (auto simp: ClaimJob_def Let_def stay split: sum.split option.split)
qed (simp add: ClaimJob_def stay)

lemma Plan_move: "job_move (jt_jobs st) (jt_jobs (snd (Plan ck out claim candidates now st)))"
  using transit [OF keeps_identity_changes(2), of "[lit ''queued'']"]
  by (auto simp: Plan_def Let_def stay split: option.split)

lemma Advance_move: "job_move (jt_jobs st) (jt_jobs (snd (Advance ck out claim outcome code now st)))"
proof (cases "snd (Advance ck out claim outcome code now st) = st")
  case False
  obtain result st' where run: "Advance ck out claim outcome code now st = (result, st')" by force
  with False have "st' \<noteq> st" by simp
  with run show ?thesis
    by (cases rule: Advance_changes) (auto simp: run keeps_identity_changes intro!: transit)
qed (simp add: stay)

lemma step_move:
  assumes "job_step ck s s'" "system_ok ck s"
  shows "job_move (jt_jobs (sy_store s)) (jt_jobs (sy_store s'))"
  using assms(1)
proof cases
  case (refused now out reads leaseDuration e st)
  with ClaimJob_move [OF store_ok_later [OF assms(2) refused(2)], of out reads leaseDuration] show ?thesis by simp
next
  case (granted now out reads leaseDuration c st)
  with ClaimJob_move [OF store_ok_later [OF assms(2) granted(2)], of out reads leaseDuration] show ?thesis by simp
qed (auto simp: Submit_move Plan_move Advance_move Select_def AttachPrepared_def DeferAcquisition_def Succeed_def Fail_def Let_def
    intro!: stay transition_move keeps_identity_changes split: option.split sum.split)

section \<open>What is kept of a row\<close>

text \<open>A relation between a row and its later versions that the moves respect.\<close>

locale job_history =
  fixes R :: "('sel, 'obj) job_row \<Rightarrow> ('sel, 'obj) job_row \<Rightarrow> bool"
  assumes same: "R r r"
    and further: "R r s \<Longrightarrow> R s t \<Longrightarrow> R r t"
    and by_lease: "active_row r \<Longrightarrow> R r (job_leased nowMillis leaseUntil r)"
    and by_transition: "active_row r \<Longrightarrow> keeps_identity f \<Longrightarrow> R r (released n (retry_at m \<circ> set_job f) r)"
begin

lemma move:
  assumes "job_move rows rows'" "r \<in> set rows"
  shows "\<exists>r' \<in> set rows'. row_id r' = row_id r \<and> R r r'"
  using assms
proof cases
  case (transit f states c n m)
  have "active_row r \<and> row_id (released n (retry_at m \<circ> set_job f) r) = row_id r" if "holds_lease c states n r"
    using that transit by (auto simp: holds_lease_def keeps_identity_def released_def retry_at_def set_job_def)
  with transit assms(2) show ?thesis
    by (intro bexI [of _ "if holds_lease c states n r then released n (retry_at m \<circ> set_job f) r else r"])
      (auto intro: same by_transition)
next
  case (lease k nowMillis leaseUntil)
  with assms(2) show ?thesis
    by (intro bexI [of _ "if row_id r = k then job_leased nowMillis leaseUntil r else r"])
      (auto intro: same by_lease)
qed (use assms(2) same in auto)

lemma run:
  assumes "job_run ck s s'" "system_ok ck s" "checks_ok ck" "r \<in> set (jt_jobs (sy_store s))"
  shows "\<exists>r' \<in> set (jt_jobs (sy_store s')). row_id r' = row_id r \<and> R r r'"
  using assms(1)
proof (induction rule: rtranclp_induct)
  case (step u v)
  then obtain r' where "r' \<in> set (jt_jobs (sy_store u))" "row_id r' = row_id r" "R r r'" by blast
  moreover have "system_ok ck u" using system_ok_run [OF step(1) assms(2,3)] .
  ultimately show ?case using move [OF step_move [OF step(2)]] further by metis
qed (use assms(4) same in blast)

end

interpretation job_identity: job_history "\<lambda>r r'. jr_intentKey r' = jr_intentKey r \<and> js_request (jr_job r') = js_request (jr_job r)
    \<and> js_createdAt (jr_job r') = js_createdAt (jr_job r)"
  by unfold_locales (auto simp: job_leased_def released_def retry_at_def set_job_def keeps_identity_def)

interpretation job_version: job_history "\<lambda>r r'. jr_leaseVersion r \<le> jr_leaseVersion r'"
  by unfold_locales (auto simp: job_leased_def released_def retry_at_def set_job_def)

interpretation job_end: job_history "\<lambda>r r'. \<not> active_row r \<longrightarrow> r' = r"
  by unfold_locales auto

lemma snapshot_of_queued:
  assumes "jobIDPattern jobID" "now \<noteq> zero_time" "validateSearchRequest request = Inr v"
  shows "snapshot_of ck (queued_input jobID request now) = Inr (queued_input jobID v now)"
  using assms
  by (simp add: NewAcquisitionJobSnapshot_def queued_input_def result_simps refuse_unless_def validateJobErrorCode_def
      validate_optional_def validateOptionalPublishedObjectID_def validateJobStage_def validateSelectedCandidateOrdinal_def
      validateCreatedByJob_def)

section \<open>A sample run\<close>

definition sample_checks :: "(unit, unit) job_checks" where
  "sample_checks = \<lparr>ck_selection = Some, ck_object = Some, ck_stored = (\<lambda>s. Some (Some s)), ck_planned = Some,
     ck_attached = (\<lambda>v. Some (Some v)), ck_identity = (\<lambda>_. ([], [], lit ''6:1'')), ck_lower = (\<lambda>t. t)\<rparr>"

definition sample_id :: gostring where
  "sample_id = replicate 32 97"

text \<open>The row of one queued job after some leases.\<close>

definition sample_job_row :: "int \<Rightarrow> int \<Rightarrow> int \<Rightarrow> (unit, unit) job_row" where
  "sample_job_row version updated leaseUntil =
     \<lparr>jr_job = (queued_input sample_id (episode_request 3) (from_millis 1000))\<lparr>js_attempt := version, js_updatedAt := from_millis updated\<rparr>,
      jr_intentKey = jobIntentKey sample_checks (episode_request 3), jr_leaseVersion = version, jr_leaseUntil = leaseUntil,
      jr_nextAttempt = 0\<rparr>"

definition sample_store :: "int \<Rightarrow> int \<Rightarrow> int \<Rightarrow> (unit, unit) job_store" where
  "sample_store version updated leaseUntil = \<lparr>jt_jobs = [sample_job_row version updated leaseUntil], jt_candidates = []\<rparr>"

definition sample_job_claim :: "int \<Rightarrow> int \<Rightarrow> (unit, unit) job_claim" where
  "sample_job_claim version updated =
     \<lparr>jc_job = jr_job (sample_job_row version updated 0), jc_leaseVersion = version\<rparr>"

lemma from_millis_simps [simp]:
  "from_millis a + from_millis b = from_millis (a + b)" "from_millis a \<le> from_millis b \<longleftrightarrow> a \<le> b"
  "0 \<le> a \<Longrightarrow> from_millis a \<noteq> zero_time" "from_millis a \<le> 0 \<longleftrightarrow> a \<le> 0" "0 \<le> from_millis a \<longleftrightarrow> 0 \<le> a"
  by (simp_all add: from_millis_def zero_time_def)

lemma sample_checks_ok: "checks_ok sample_checks"
  by (simp add: checks_ok_def sample_checks_def)

lemma sample_request: "validateSearchRequest (episode_request 3) = Inr (episode_request 3)"
  by (simp add: episode_request_def validateSearchRequest_def NewEpisodeSearch_def validate_sample_text validateSearchYear_def
      maximumSearchTitleBytes_def)

lemma sample_id_valid: "jobIDPattern sample_id" "sample_id \<noteq> []"
  by (simp_all add: sample_id_def jobIDPattern_def list_all_iff is_hex_rune_def)

lemma sample_job_row_simps [simp]:
  "row_id (sample_job_row k u v) = sample_id" "js_state (jr_job (sample_job_row k u v)) = lit ''queued''"
  "jr_leaseVersion (sample_job_row k u v) = k" "jr_leaseUntil (sample_job_row k u v) = v" "jr_nextAttempt (sample_job_row k u v) = 0"
  "js_request (jr_job (sample_job_row k u v)) = episode_request 3"
  "jr_intentKey (sample_job_row k u v) = jobIntentKey sample_checks (episode_request 3)"
  by (simp_all add: sample_job_row_def queued_input_def)

lemma sample_sound: "0 \<le> k \<Longrightarrow> 1000 \<le> u \<Longrightarrow> sound_job sample_checks (jr_job (sample_job_row k u v))"
  using sample_id_valid request_check.result_valid [OF sample_request]
  by (simp add: sound_job_def sample_job_row_def queued_input_def validateJobErrorCode_def validateOptionalPublishedObjectID_def
      validateJobStage_def validateSelectedCandidateOrdinal_def validateCreatedByJob_def)

lemma sample_submitted:
  "Submit sample_checks False Executed sample_id (episode_request 3) (from_millis 1000) \<lparr>jt_jobs = [], jt_candidates = []\<rparr>
    = (Inr (jr_job (sample_job_row 0 1000 0), True), sample_store 0 1000 0)"
  by (simp add: Submit_def Let_def snapshot_of_queued [OF sample_id_valid(1) _ sample_request])
    (simp add: queued_input_def new_job_row_def sample_store_def sample_job_row_def)

lemma sample_claimed:
  assumes "0 \<le> k" "1000 \<le> u" "u \<le> t" "v \<le> t" "0 < d"
  shows "ClaimJob sample_checks Executed True (from_millis t) (from_millis d) (sample_store k u v)
    = (Inr (sample_job_claim (k + 1) t), sample_store (k + 1) t (t + d))"
proof -
  have lease: "job_leased t (t + d) (sample_job_row k u v) = sample_job_row (k + 1) t (t + d)"
    by (simp add: job_leased_def sample_job_row_def queued_input_def)
  have "queryJob sample_checks (sample_job_row (k + 1) t (t + d)) = Inr (jr_job (sample_job_row (k + 1) t (t + d)))"
    using assms by (intro queryJob_sound sample_sound sample_checks_ok) simp_all
  moreover have "jr_job (sample_job_row (k + 1) t (t + d)) = jr_job (sample_job_row (k + 1) t 0)" by (simp add: sample_job_row_def)
  moreover have "lit ''queued'' \<noteq> lit ''succeeded''" "lit ''queued'' \<noteq> lit ''failed''" "lit ''queued'' \<noteq> lit ''manual_review''"
    by (simp_all add: lit_def)
  moreover have "due t (sample_job_row k u v)" using assms by (simp add: due_def)
  moreover have "\<not> from_millis d \<le> 0" "from_millis t \<noteq> zero_time" using assms by simp_all
  ultimately show ?thesis
    using assms sample_id_valid(2)
    by (simp add: ClaimJob_def sample_store_def next_due_def Let_def update_jobs_def NewAcquisitionJobClaim_def sample_job_claim_def lease)
qed

text \<open>One submission, and a lease at every time of a list that runs out after a second.\<close>

definition sample_system :: "(unit, unit) job_system" where
  "sample_system = \<lparr>sy_now = from_millis 1000, sy_store = sample_store 0 1000 0, sy_claims = []\<rparr>"

definition sample_leased :: "(unit, unit) job_system" where
  "sample_leased = \<lparr>sy_now = from_millis 2000, sy_store = sample_store 1 2000 3000, sy_claims = [sample_job_claim 1 2000]\<rparr>"

definition sample_leased_twice :: "(unit, unit) job_system" where
  "sample_leased_twice = \<lparr>sy_now = from_millis 4000, sy_store = sample_store 2 4000 5000,
     sy_claims = [sample_job_claim 2 4000, sample_job_claim 1 2000]\<rparr>"

lemma sample_runs:
  "job_run sample_checks (open_jobs 0) sample_system" "job_run sample_checks (open_jobs 0) sample_leased"
  "job_run sample_checks (open_jobs 0) sample_leased_twice"
proof -
  have "job_step sample_checks (open_jobs 0) (moved (from_millis 1000) (snd (Submit sample_checks False Executed sample_id
      (episode_request 3) (from_millis 1000) (sy_store (open_jobs 0)))) (open_jobs 0))"
    by (intro submit) (simp add: open_jobs_def)
  moreover have "moved (from_millis 1000) (snd (Submit sample_checks False Executed sample_id (episode_request 3) (from_millis 1000)
      (sy_store (open_jobs 0)))) (open_jobs 0) = sample_system"
    by (simp add: open_jobs_def sample_submitted moved_def sample_system_def)
  ultimately show first: "job_run sample_checks (open_jobs 0) sample_system" by (simp add: r_into_rtranclp)
  have "job_step sample_checks sample_system ((moved (from_millis 2000) (sample_store 1 2000 3000) sample_system)
      \<lparr>sy_claims := sample_job_claim 1 2000 # sy_claims sample_system\<rparr>)"
    using sample_claimed [of 0 1000 2000 0 1000] by (intro granted) (simp_all add: sample_system_def)
  then have "job_step sample_checks sample_system sample_leased" by (simp add: sample_system_def moved_def sample_leased_def)
  with first show second: "job_run sample_checks (open_jobs 0) sample_leased" by (rule rtranclp.rtrancl_into_rtrancl)
  have "job_step sample_checks sample_leased ((moved (from_millis 4000) (sample_store 2 4000 5000) sample_leased)
      \<lparr>sy_claims := sample_job_claim 2 4000 # sy_claims sample_leased\<rparr>)"
    using sample_claimed [of 1 2000 4000 3000 1000] by (intro granted) (simp_all add: sample_leased_def)
  then have "job_step sample_checks sample_leased sample_leased_twice" by (simp add: sample_leased_def moved_def sample_leased_twice_def)
  with second show "job_run sample_checks (open_jobs 0) sample_leased_twice" by (rule rtranclp.rtrancl_into_rtrancl)
qed

section \<open>Reading\<close>

lemma hex_rune_len: "list_all is_hex_rune s \<Longrightarrow> go_len s = length s"
  by (induction s) (auto simp: go_len_def utf8_bytes_def is_hex_rune_def)

lemma jobIDPattern_valid: "jobIDPattern s \<Longrightarrow> validJobID s"
  by (simp add: jobIDPattern_def validJobID_def hex_rune_len)

lemma read_jobs_sound: "checks_ok ck \<Longrightarrow> \<forall>r \<in> set rows. sound_job ck (jr_job r) \<Longrightarrow> read_jobs ck rows = Inr (map jr_job rows)"
  by (induction rows) (simp_all add: queryJob_sound result_simps)

lemma system_rows:
  assumes "system_ok ck s" "r \<in> set (jt_jobs (sy_store s))"
  shows "sound_job ck (jr_job r)" "keyed ck r" "find (\<lambda>r'. row_id r' = row_id r) (jt_jobs (sy_store s)) = Some r"
proof -
  show "sound_job ck (jr_job r)" "keyed ck r" using assms by (auto simp: store_ok_def row_ok_def)
  obtain r' where r': "find (\<lambda>r'. row_id r' = row_id r) (jt_jobs (sy_store s)) = Some r'"
    using assms(2) by (cases "find (\<lambda>r'. row_id r' = row_id r) (jt_jobs (sy_store s))") (auto simp: find_None_iff)
  then have "r' \<in> set (jt_jobs (sy_store s))" "row_id r' = row_id r" by (auto simp: find_Some_iff)
  with r' same_id_row [OF assms(1)] assms(2) show "find (\<lambda>r'. row_id r' = row_id r) (jt_jobs (sy_store s)) = Some r" by metis
qed

lemma GetJob_row:
  assumes "system_ok ck s" "checks_ok ck" "r \<in> set (jt_jobs (sy_store s))"
  shows "GetJob ck True (row_id r) (sy_store s) = Inr (jr_job r)"
  using system_rows [OF assms(1,3)] jobIDPattern_valid [of "row_id r"] queryJob_sound [OF _ assms(2), of r]
  by (auto simp: GetJob_def sound_job_def)

lemma ListJobs_rows:
  assumes "system_ok ck s" "checks_ok ck" "1 \<le> limit" "limit \<le> 100"
  shows "ListJobs ck True limit (sy_store s) = Inr (map jr_job (take (nat limit) (rev (sort_key recent (jt_jobs (sy_store s))))))"
proof -
  have "\<forall>r \<in> set (take (nat limit) (rev (sort_key recent (jt_jobs (sy_store s))))). sound_job ck (jr_job r)"
    using system_rows(1) [OF assms(1)] by (auto dest!: in_set_takeD)
  with assms(3,4) read_jobs_sound [OF assms(2)] show ?thesis by (simp add: ListJobs_def)
qed

section \<open>One active job for each intent\<close>

lemma distinct_key_filter:
  "distinct (active_keys rows) \<Longrightarrow> r \<in> set rows \<Longrightarrow> active_row r
    \<Longrightarrow> filter (\<lambda>x. active_row x \<and> jr_intentKey x = jr_intentKey r) rows = [r]"
proof (induction rows)
  case (Cons x rows)
  show ?case
  proof (cases "x = r")
    case True
    then have "filter (\<lambda>x. active_row x \<and> jr_intentKey x = jr_intentKey r) rows = []"
      using Cons.prems by (simp add: filter_empty_conv image_iff) metis
    with True Cons.prems show ?thesis by simp
  next
    case False
    with Cons have "jr_intentKey r \<in> set (active_keys rows)" by auto
    with False Cons show ?thesis by (auto split: if_splits)
  qed
qed simp

text \<open>A successful submission ends in the only active row of its intent.\<close>

lemma Submit_Inr:
  assumes "system_ok ck s" "checks_ok ck" "sy_now s \<le> now"
    "Submit ck cancelled out jobID request now (sy_store s) = (Inr (job, created), st)"
  obtains v r where "validateSearchRequest request = Inr v" "r \<in> set (jt_jobs st)" "active_row r"
    "jr_intentKey r = jobIntentKey ck v" "row_id r = js_id job" "store_ok ck now st (sy_claims s)"
    "if created then js_id job = jobID \<and> js_request job = v \<and> jt_jobs st = jt_jobs (sy_store s) @ [r]
       \<and> js_createdAt job = now \<and> js_updatedAt job = now
       \<and> jr_job r = job\<lparr>js_createdAt := from_millis (UnixMilli now), js_updatedAt := from_millis (UnixMilli now)\<rparr>
     else st = sy_store s \<and> jr_job r = job"
proof -
  have later: "store_ok ck now (sy_store s) (sy_claims s)" using assms(1,3) by (rule store_ok_later)
  have ok: "store_ok ck now st (sy_claims s)" by (rule store_ok_Submit [OF later assms(2,4)])
  obtain queued where q: "snapshot_of ck (queued_input jobID request now) = Inr queued"
    using assms(4) by (auto simp: Submit_def split: if_splits sum.splits)
  from snapshot_of_Inr(2) [OF q assms(2)] obtain v where v: "validateSearchRequest request = Inr v" "js_request queued = v"
    "js_id queued = jobID" "js_state queued = lit ''queued''" "js_createdAt queued = now" "js_updatedAt queued = now"
    by (auto simp: queued_input_def)
  show thesis
  proof (cases "find (\<lambda>r. jr_intentKey r = jobIntentKey ck v \<and> active_row r) (jt_jobs (sy_store s))")
    case (Some r)
    then have r: "r \<in> set (jt_jobs (sy_store s))" "active_row r" "jr_intentKey r = jobIntentKey ck v" by (auto simp: find_Some_iff)
    have "queryJob ck r = Inr (jr_job r)" using system_rows(1) [OF assms(1) r(1)] assms(2) by (rule queryJob_sound)
    then have "job = jr_job r \<and> \<not> created \<and> st = sy_store s"
      using assms(4) q v Some by (auto simp: Submit_def Let_def split: if_splits)
    with that [OF v(1)] r ok show ?thesis by simp
  next
    case None
    then have st: "st = (sy_store s)\<lparr>jt_jobs := jt_jobs (sy_store s) @ [new_job_row (jobIntentKey ck v) queued (UnixMilli now)]\<rparr>"
      "job = queued" "created"
      using assms(4) q v by (auto simp: Submit_def Let_def split: if_splits)
    then show ?thesis
      using v ok by (intro that [OF v(1), of "new_job_row (jobIntentKey ck v) queued (UnixMilli now)"]) (simp_all add: new_job_row_def)
  qed
qed

text \<open>The key tells intents apart: its parts contain no separator, as long as \<open>strings.ToLower\<close> does not add one.\<close>

lemma decimal_no_zero [simp]: "0 \<notin> set (decimal i)"
  by (auto simp: decimal_def)

lemma decimal_inj: "0 \<le> i \<Longrightarrow> 0 \<le> j \<Longrightarrow> decimal i = decimal j \<Longrightarrow> i = j"
  using parse_nat_to_string [of "nat i"] parse_nat_to_string [of "nat j"]
  by (auto simp: decimal_def nat_to_string_def inj_map_eq_map inj_def)

lemma split_separator:
  "a @ 0 # b = c @ 0 # d \<Longrightarrow> 0 \<notin> set a \<Longrightarrow> 0 \<notin> set c \<Longrightarrow> a = c \<and> b = (d :: gostring)"
  by (auto simp: append_eq_append_conv2 append_eq_Cons_conv Cons_eq_append_conv)

definition keys_ok :: "('sel, 'obj) job_checks \<Rightarrow> bool" where
  "keys_ok ck \<longleftrightarrow> (\<forall>t. 0 \<notin> set t \<longrightarrow> 0 \<notin> set (ck_lower ck t))"

definition same_intent :: "('sel, 'obj) job_checks \<Rightarrow> search_request \<Rightarrow> search_request \<Rightarrow> bool" where
  "same_intent ck r r' \<longleftrightarrow> sr_mediaType r = sr_mediaType r' \<and> ck_lower ck (sr_title r) = ck_lower ck (sr_title r')
     \<and> sr_year r = sr_year r' \<and> sr_season r = sr_season r' \<and> sr_episode r = sr_episode r'"

lemma jobIntentKey_iff:
  assumes "wf_request r" "wf_request r'" "keys_ok ck"
  shows "jobIntentKey ck r = jobIntentKey ck r' \<longleftrightarrow> same_intent ck r r'"
proof
  assume eq: "jobIntentKey ck r = jobIntentKey ck r'"
  have "0 \<notin> set (ck_lower ck (sr_title x))" "0 \<notin> set (sr_mediaType x)" if "wf_request x" for x
  proof -
    have "0 \<notin> set (sr_title x)" using that by (force simp: wf_request_def list_ex_iff is_control_rune_def)
    then show "0 \<notin> set (ck_lower ck (sr_title x))" using assms(3) by (simp add: keys_ok_def)
    show "0 \<notin> set (sr_mediaType x)" using that by (auto simp: wf_request_def lit_def)
  qed
  note parts = this [OF assms(1)] this [OF assms(2)]
  have rest: "sr_mediaType r = sr_mediaType r' \<and> ck_lower ck (sr_title r) = ck_lower ck (sr_title r')
      \<and> decimal (sr_year r) = decimal (sr_year r') \<and> decimal (sr_season r) = decimal (sr_season r')
      \<and> decimal (sr_episode r) = decimal (sr_episode r')"
    using eq parts by (auto simp: jobIntentKey_def dest!: split_separator)
  have "0 \<le> sr_year x \<and> 0 \<le> sr_season x \<and> 0 \<le> sr_episode x" if "wf_request x" for x
    using that by (auto simp: wf_request_def)
  with rest assms(1,2) show "same_intent ck r r'" by (simp add: same_intent_def decimal_inj)
qed (simp add: jobIntentKey_def same_intent_def)

lemma intent_rows:
  assumes "store_ok ck now st claims" "wf_request v" "keys_ok ck" "x \<in> set (jt_jobs st)"
  shows "jr_intentKey x = jobIntentKey ck v \<longleftrightarrow> same_intent ck (js_request (jr_job x)) v" "sound_job ck (jr_job x)"
proof -
  have "keyed ck x" "sound_job ck (jr_job x)" using assms by (auto simp: store_ok_def row_ok_def)
  with jobIntentKey_iff [OF _ assms(2,3), of "js_request (jr_job x)"]
  show "jr_intentKey x = jobIntentKey ck v \<longleftrightarrow> same_intent ck (js_request (jr_job x)) v" "sound_job ck (jr_job x)"
    by (simp_all add: keyed_def sound_job_def)
qed

lemma only_active_row:
  assumes "store_ok ck now st claims" "wf_request v" "keys_ok ck"
    "r \<in> set (jt_jobs st)" "active_row r" "jr_intentKey r = jobIntentKey ck v"
  shows "filter (\<lambda>x. active_row x \<and> same_intent ck (js_request (jr_job x)) v) (jt_jobs st) = [r]"
proof -
  have "filter (\<lambda>x. active_row x \<and> same_intent ck (js_request (jr_job x)) v) (jt_jobs st)
      = filter (\<lambda>x. active_row x \<and> jr_intentKey x = jr_intentKey r) (jt_jobs st)"
    using intent_rows(1) [OF assms(1-3)] assms(6) by (intro filter_cong) auto
  with assms show ?thesis using distinct_key_filter [of "jt_jobs st" r] by (simp add: store_ok_def)
qed

text \<open>
  C14. An intent has at most one active job: after a successful submission exactly one active row has the intent (kind, title
  up to case, year, coordinates), and it is the returned job, which is either new or was already there, in which case nothing
  changed. Submitting the intent again returns the same job and changes nothing.
\<close>

theorem submit_deduplicates:
  assumes "checks_ok ck" "keys_ok ck" "0 \<le> start" "job_run ck (open_jobs start) s" "sy_now s \<le> now"
    and submit: "Submit ck cancelled out jobID request now (sy_store s) = (Inr (job, created), st)"
      "validateSearchRequest request = Inr v"
    and again: "validateSearchRequest request2 = Inr v2" "same_intent ck v2 v" "jobIDPattern jobID2" "now2 \<noteq> zero_time"
  shows "map row_id (filter (\<lambda>r. active_row r \<and> same_intent ck (js_request (jr_job r)) v) (jt_jobs st)) = [js_id job]
    \<and> (if created then js_id job = jobID \<and> js_request job = v \<and> length (jt_jobs st) = length (jt_jobs (sy_store s)) + 1
        else st = sy_store s \<and> same_intent ck (js_request job) v)
    \<and> (\<exists>job2. Submit ck False Executed jobID2 request2 now2 st = (Inr (job2, False), st) \<and> js_id job2 = js_id job)"
proof -
  have ok: "system_ok ck s" using assms(1,3,4) by (intro system_ok_open)
  obtain r where r: "r \<in> set (jt_jobs st)" "active_row r" "jr_intentKey r = jobIntentKey ck v" "row_id r = js_id job"
    and st: "store_ok ck now st (sy_claims s)"
    and job: "if created then js_id job = jobID \<and> js_request job = v \<and> jt_jobs st = jt_jobs (sy_store s) @ [r]
      else st = sy_store s \<and> jr_job r = job"
    by (rule Submit_Inr [OF ok assms(1,5) submit(1)]) (auto simp: submit(2) split: if_splits)
  have wf: "wf_request v" "wf_request v2" using submit(2) again(1) by (blast intro: request_check.result_valid)+
  have rows: "jr_intentKey x = jobIntentKey ck v \<longleftrightarrow> same_intent ck (js_request (jr_job x)) v" "sound_job ck (jr_job x)"
    if "x \<in> set (jt_jobs st)" for x
    using intent_rows [OF st wf(1) assms(2) that] .
  have only: "filter (\<lambda>x. active_row x \<and> same_intent ck (js_request (jr_job x)) v) (jt_jobs st) = [r]"
    using only_active_row [OF st wf(1) assms(2) r(1-3)] .
  have key2: "jobIntentKey ck v2 = jobIntentKey ck v" using jobIntentKey_iff [OF wf(2,1) assms(2)] again(2) by simp
  obtain r2 where r2: "find (\<lambda>x. jr_intentKey x = jobIntentKey ck v2 \<and> active_row x) (jt_jobs st) = Some r2"
    using r key2 by (cases "find (\<lambda>x. jr_intentKey x = jobIntentKey ck v2 \<and> active_row x) (jt_jobs st)") (auto simp: find_None_iff)
  then have "r2 \<in> set (filter (\<lambda>x. active_row x \<and> same_intent ck (js_request (jr_job x)) v) (jt_jobs st))"
    using rows(1) key2 by (auto simp: find_Some_iff)
  then have "r2 = r" by (simp add: only)
  then have "Submit ck False Executed jobID2 request2 now2 st = (Inr (jr_job r, False), st)"
    using r2 again(4) queryJob_sound [OF rows(2) [OF r(1)] assms(1)]
    by (simp add: Submit_def Let_def snapshot_of_queued [OF again(3,4,1)]) (simp add: queued_input_def)
  with only job r rows(1) [OF r(1)] show ?thesis by (auto split: if_splits)
qed

theorem submit_deduplicates_witness:
  "\<exists>job2. Submit sample_checks False Executed (replicate 32 98) (episode_request 3) (from_millis 5000) (sample_store 0 1000 0)
      = (Inr (job2, False), sample_store 0 1000 0) \<and> js_id job2 = sample_id"
proof -
  have keys: "keys_ok sample_checks" by (simp add: keys_ok_def sample_checks_def)
  have s: "sy_now (open_jobs 0 :: (unit, unit) job_system) \<le> from_millis 1000" by (simp add: open_jobs_def)
  have submit: "Submit sample_checks False Executed sample_id (episode_request 3) (from_millis 1000) (sy_store (open_jobs 0))
      = (Inr (jr_job (sample_job_row 0 1000 0), True), sample_store 0 1000 0)"
    by (simp add: open_jobs_def sample_submitted)
  have "jobIDPattern (replicate 32 98)" "from_millis 5000 \<noteq> zero_time" "same_intent sample_checks (episode_request 3) (episode_request 3)"
    by (simp_all add: jobIDPattern_def list_all_iff is_hex_rune_def same_intent_def)
  with submit_deduplicates [OF sample_checks_ok keys order.refl rtranclp.rtrancl_refl s submit sample_request sample_request]
  show ?thesis by fastforce
qed

section \<open>Finished jobs and old claims\<close>

text \<open>A leased job of the sample store fails.\<close>

definition sample_failed_row :: "(unit, unit) job_row" where
  "sample_failed_row = released 2500 (retry_at 0 \<circ> set_job (\<lambda>j. j\<lparr>js_state := lit ''failed'', js_errorCode := lit ''no_release''\<rparr>))
     (sample_job_row 1 2000 3000)"

definition sample_failed :: "(unit, unit) job_store" where
  "sample_failed = \<lparr>jt_jobs = [sample_failed_row], jt_candidates = []\<rparr>"

lemma sample_Fail:
  "Fail sample_checks Executed (sample_job_claim 1 2000) (lit ''no_release'') False (from_millis 2500) (sample_store 1 2000 3000)
    = (Inr (), sample_failed)"
  "js_state (jr_job sample_failed_row) = lit ''failed''" "row_id sample_failed_row = sample_id"
proof -
  let ?c = "sample_job_claim 1 2000" and ?code = "lit ''no_release''"
  have words: "lit ''failed'' \<noteq> lit ''queued''" "lit ''failed'' \<noteq> lit ''selected''" "lit ''failed'' \<noteq> lit ''preparing''"
    "lit ''failed'' \<noteq> lit ''succeeded''" "?code \<noteq> []" by (simp_all add: lit_def)
  have "sound_job sample_checks ((jc_job ?c)\<lparr>js_state := lit ''failed'', js_publishedObjectID := [], js_errorCode := ?code,
      js_updatedAt := from_millis 2500\<rparr>)"
    using sample_sound [of 1 2000 0] words
    by (simp add: sample_job_claim_def) (simp add: sound_job_def sample_job_row_def queued_input_def validateJobStage_def
        validateJobErrorCode_def validateSelectedCandidateOrdinal_def validateCreatedByJob_def)
  from snapshot_of_sound [OF this]
  show "Fail sample_checks Executed ?c ?code False (from_millis 2500) (sample_store 1 2000 3000) = (Inr (), sample_failed)"
    using sample_id_valid(2)
    by (simp add: sample_failed_def sample_failed_row_def Fail_def transitionWithStates_def validateTransitionInput_def Let_def
        sample_store_def holds_lease_def sample_job_claim_def update_jobs_def)
qed (simp_all add: sample_failed_row_def released_def retry_at_def set_job_def)

text \<open>
  C17. A finished job, one that succeeded, failed or waits for a manual review, is never changed again, whatever is submitted
  and whatever the workers do; looking it up keeps returning the same job.
\<close>

theorem finished_jobs_kept:
  assumes "checks_ok ck" "0 \<le> start" "job_run ck (open_jobs start) s" "r \<in> set (jt_jobs (sy_store s))"
    "js_state (jr_job r) \<in> set (map lit [''succeeded'', ''failed'', ''manual_review''])" "job_run ck s s'"
  shows "r \<in> set (jt_jobs (sy_store s')) \<and> GetJob ck True (row_id r) (sy_store s') = Inr (jr_job r)"
proof -
  have ok: "system_ok ck s" using assms(1-3) by (intro system_ok_open)
  have "\<not> active_row r" using assms(5) by (auto simp: active_states_def lit_def)
  then have r: "r \<in> set (jt_jobs (sy_store s'))" using job_end.run [OF assms(6) ok assms(1,4)] by auto
  with GetJob_row [OF system_ok_run [OF assms(6) ok assms(1)] assms(1) r] show ?thesis by simp
qed

theorem finished_jobs_kept_witness:
  "js_state (jr_job sample_failed_row) = lit ''failed''
   \<and> GetJob sample_checks True sample_id (snd (Submit sample_checks False Executed (replicate 32 98) (episode_request 3)
        (from_millis 3000) sample_failed)) = Inr (jr_job sample_failed_row)"
proof -
  let ?s = "moved (from_millis 2500) sample_failed sample_leased"
  have "job_step sample_checks sample_leased ?s"
    using job_step.fail [where s = sample_leased and now = "from_millis 2500" and c = "sample_job_claim 1 2000" and out = Executed
        and code = "lit ''no_release''" and manualReview = False and ck = sample_checks]
    by (simp add: sample_leased_def sample_Fail)
  with sample_runs(2) have run: "job_run sample_checks (open_jobs 0) ?s" by (rule rtranclp.rtrancl_into_rtrancl)
  have "job_step sample_checks ?s (moved (from_millis 3000) (snd (Submit sample_checks False Executed (replicate 32 98) (episode_request 3)
      (from_millis 3000) (sy_store ?s))) ?s)"
    by (intro submit) simp
  then have later: "job_run sample_checks ?s (moved (from_millis 3000) (snd (Submit sample_checks False Executed (replicate 32 98)
      (episode_request 3) (from_millis 3000) (sy_store ?s))) ?s)" ..
  have "sample_failed_row \<in> set (jt_jobs (sy_store ?s))" "js_state (jr_job sample_failed_row) \<in> set (map lit [''succeeded'', ''failed'', ''manual_review''])"
    by (simp_all add: sample_failed_def sample_Fail)
  from finished_jobs_kept [OF sample_checks_ok order.refl run this later] show ?thesis by (simp add: sample_Fail)
qed

text \<open>Claims of a job are granted with growing versions.\<close>

definition claims_ordered :: "('sel, 'obj) job_claim list \<Rightarrow> bool" where
  "claims_ordered = sorted_wrt (\<lambda>newer older. js_id (jc_job newer) = js_id (jc_job older) \<longrightarrow> jc_leaseVersion older < jc_leaseVersion newer)"

lemma ClaimJob_version:
  assumes "ClaimJob ck out versionReads now leaseDuration st = (Inr c, st')" "store_ok ck now st claims"
  shows "\<exists>r \<in> set (jt_jobs st). row_id r = js_id (jc_job c) \<and> jc_leaseVersion c = jr_leaseVersion r + 1"
proof -
  obtain r job where r: "next_due (UnixMilli now) (jt_jobs st) = Some r"
    and q: "queryJob ck (job_leased (UnixMilli now) (UnixMilli (now + leaseDuration)) r) = Inr job"
    and c: "c = \<lparr>jc_job = job, jc_leaseVersion = jr_leaseVersion r + 1\<rparr>"
    using assms(1) by (auto simp: ClaimJob_def Let_def NewAcquisitionJobClaim_def job_leased_def split: if_splits sum.splits option.splits)
  from q have "js_id job = row_id r"
    by (rule queryJob_Inr) (auto simp: NewAcquisitionJobSnapshot_def result_simps job_leased_def split: sum.splits)
  with next_due_SomeD [OF r] c show ?thesis by auto
qed

lemma claims_ordered_run:
  assumes "job_run ck (open_jobs start) s" "0 \<le> start" "checks_ok ck"
  shows "claims_ordered (sy_claims s)"
  using assms(1)
proof (induction rule: rtranclp_induct)
  case base
  show ?case by (simp add: open_jobs_def claims_ordered_def)
next
  case (step u s)
  have u: "system_ok ck u" using system_ok_open assms(2,3) step(1) by blast
  show ?case
    using step(2)
  proof cases
    case (granted now out reads leaseDuration c st)
    have later: "store_ok ck now (sy_store u) (sy_claims u)" using u granted(2) by (rule store_ok_later)
    obtain r where r: "r \<in> set (jt_jobs (sy_store u))" "row_id r = js_id (jc_job c)" "jc_leaseVersion c = jr_leaseVersion r + 1"
      using ClaimJob_version [OF granted(3) later] by blast
    have "jc_leaseVersion old < jc_leaseVersion c" if "old \<in> set (sy_claims u)" "js_id (jc_job c) = js_id (jc_job old)" for old
      using u r that by (fastforce simp: store_ok_def claim_current_def)
    with step(3) granted(1) show ?thesis by (simp add: claims_ordered_def)
  qed (use step(3) in simp_all)
qed

lemma transition_refused:
  assumes "filter (\<lambda>r. row_id r = js_id (jc_job c) \<and> jr_leaseVersion r = jc_leaseVersion c) (jt_jobs st) = []"
  shows "\<exists>e. transitionWithStates out c states now assignments st = (Inl e, st)" "filter (holds_lease c states now') (jt_jobs st) = []"
proof -
  have none: "\<not> holds_lease c states' n r" if "r \<in> set (jt_jobs st)" for states' n r
    using assms that by (auto simp: holds_lease_def filter_empty_conv)
  then show "filter (holds_lease c states now') (jt_jobs st) = []" by (simp add: filter_empty_conv)
  have "map (\<lambda>r. if holds_lease c states n r then change r else r) (jt_jobs st) = jt_jobs st" for n change
    using none by (intro map_idI) simp
  then have "update_jobs (holds_lease c states n) change st = st" "filter (holds_lease c states n) (jt_jobs st) = []" for n change
    using none by (simp_all add: update_jobs_def filter_empty_conv)
  then show "\<exists>e. transitionWithStates out c states now assignments st = (Inl e, st)"
    by (simp add: transitionWithStates_def Let_def)
qed

lemma Advance_refused:
  assumes "\<And>states n. filter (holds_lease c states n) (jt_jobs st) = []"
  shows "\<exists>e. Advance ck out c outcome code now st = (Inl e, st)"
proof (cases "js_ordinal (jc_job c)")
  case (Some ordinal)
  then show ?thesis
    by (cases "js_selection (jc_job c)") (simp_all add: Advance_def Let_def assms split: option.split)
qed (simp add: Advance_def Let_def)

text \<open>
  A worker that lost its lease can do nothing: once a job was leased again, every operation with an older claim of that job,
  in whatever state the store is later, reports an error and changes nothing.
\<close>

lemma old_job_claim_refused:
  assumes "checks_ok ck" "0 \<le> start" "job_run ck (open_jobs start) s" "sy_claims s = xs @ new # ys @ old # zs"
    "js_id (jc_job new) = js_id (jc_job old)"
  shows "(\<exists>e. Select ck out old selection now (sy_store s) = (Inl e, sy_store s))
    \<and> (\<exists>e. Plan ck out old candidates now (sy_store s) = (Inl e, sy_store s))
    \<and> (\<exists>e. AttachPrepared ck out old created byJob now (sy_store s) = (Inl e, sy_store s))
    \<and> (\<exists>e. Advance ck out old outcome code now (sy_store s) = (Inl e, sy_store s))
    \<and> (\<exists>e. DeferAcquisition out old nextAttempt code progress now (sy_store s) = (Inl e, sy_store s))
    \<and> (\<exists>e. Succeed ck out old published now (sy_store s) = (Inl e, sy_store s))
    \<and> (\<exists>e. Fail ck out old code manualReview now (sy_store s) = (Inl e, sy_store s))"
proof -
  have ok: "system_ok ck s" using assms(1-3) by (intro system_ok_open)
  have "jc_leaseVersion old < jc_leaseVersion new"
    using claims_ordered_run [OF assms(3,2,1)] assms(4,5) by (simp add: claims_ordered_def sorted_wrt_append)
  moreover have "new \<in> set (sy_claims s)" using assms(4) by simp
  ultimately have none: "filter (\<lambda>r. row_id r = js_id (jc_job old) \<and> jr_leaseVersion r = jc_leaseVersion old) (jt_jobs (sy_store s)) = []"
    using ok assms(5) by (fastforce simp: store_ok_def claim_current_def filter_empty_conv)
  note refused = transition_refused [OF none]
  have "\<exists>e. Plan ck out old candidates now (sy_store s) = (Inl e, sy_store s)"
    by (simp add: Plan_def Let_def refused(2) split: option.split)
  moreover have "\<exists>e. Select ck out old selection now (sy_store s) = (Inl e, sy_store s)"
    "\<exists>e. AttachPrepared ck out old created byJob now (sy_store s) = (Inl e, sy_store s)"
    using refused(1) by (simp_all add: Select_def AttachPrepared_def split: option.split)
  moreover have "\<exists>e. DeferAcquisition out old nextAttempt code progress now (sy_store s) = (Inl e, sy_store s)"
    "\<exists>e. Succeed ck out old published now (sy_store s) = (Inl e, sy_store s)"
    "\<exists>e. Fail ck out old code manualReview now (sy_store s) = (Inl e, sy_store s)"
    using refused(1) by (simp_all add: DeferAcquisition_def Succeed_def Fail_def Let_def split: sum.split)
  ultimately show ?thesis using Advance_refused [OF refused(2)] by blast
qed

lemma old_job_claim_refused_sample:
  "\<exists>e. Fail sample_checks Executed (sample_job_claim 1 2000) (lit ''no_release'') False (from_millis 4500) (sample_store 2 4000 5000)
     = (Inl e, sample_store 2 4000 5000)"
proof -
  have "sy_claims sample_leased_twice = [] @ sample_job_claim 2 4000 # [] @ sample_job_claim 1 2000 # []"
    by (simp add: sample_leased_twice_def)
  from old_job_claim_refused [OF sample_checks_ok order.refl sample_runs(3) this, where now = "from_millis 4500" and out = Executed
      and code = "lit ''no_release''" and manualReview = False]
  show ?thesis by (simp add: sample_job_claim_def) (simp add: sample_leased_twice_def)
qed

end
