(* ===== verification/Console_Jobs.thy ===== *)
theory Console_Jobs
  imports Console_Server Server_Access Server_JobRuns
begin

text \<open>
  Background requests from the page to the server and back: the console's client, the dispatch and the routes of the control API, the
  job manager and its store. A request of the page that succeeds is the one active job of its intent, and the page can
  follow that job until it is finished.
\<close>

section \<open>The network between them\<close>

text \<open>A text answer is no JSON, so the client fails to read its body.\<close>

fun answer_to_page :: "answer \<Rightarrow> http_response" where
  "answer_to_page (JSONAnswer r) = to_page r"
| "answer_to_page (PlainAnswer status) = \<lparr>rs_ok = (200 \<le> status \<and> status < 300), rs_header = (\<lambda>_. None), rs_body = None\<rparr>"

definition exchange ::
  "(gostring \<Rightarrow> gostring) \<Rightarrow> gostring \<Rightarrow> ('sel, 'obj) api \<Rightarrow> route_outcomes \<Rightarrow> nat \<Rightarrow> http_request \<Rightarrow> ('sel, 'obj) backend
   \<Rightarrow> answer \<times> ('sel, 'obj) backend" where
  "exchange sessionFor csrf a o1 bytes rq b = ServeHTTP sessionFor csrf a o1 (decode_text (rq_url rq)) (from_page bytes rq) b"

lemma path_jobs: "ServeHTTP sessionFor csrf a o1 (lit ''/api/acquisition/jobs'') rq b = serveAcquisitionJobs sessionFor csrf a o1 rq b"
  by (simp add: ServeHTTP_def lit_def)

lemma lit_prefix: "lit p @ x = lit s \<Longrightarrow> take (length p) s = p"
proof -
  assume "lit p @ x = lit s"
  then have "take (length p) (lit s) = lit p" by (metis append_eq_conv_conj length_lit)
  then have "map of_char (take (length p) s) = map (of_char :: char \<Rightarrow> nat) p" by (simp add: lit_def take_map)
  then show ?thesis by (metis inj_map_eq_map inj_on_def of_char_eq_iff)
qed

lemma path_job: "ServeHTTP sessionFor csrf a o1 (jobs_prefix @ jobID) rq b = serveAcquisitionJob sessionFor csrf a o1 (jobs_prefix @ jobID) rq b"
proof -
  have "jobs_prefix @ jobID \<noteq> lit s" if "take (length ''/api/acquisition/jobs/'') s \<noteq> ''/api/acquisition/jobs/''" for s
    using that lit_prefix [of "''/api/acquisition/jobs/''" jobID s] unfolding jobs_prefix_def by blast
  then show ?thesis by (simp add: ServeHTTP_def)
qed

lemma decode_text_append: "\<not> is_high_surrogate (last s) \<Longrightarrow> decode_text (s @ t) = decode_text s @ decode_text t"
proof (induction s rule: decode_text.induct)
  case (2 c s)
  then show ?case by (cases s) (auto split: if_splits)
qed simp

section \<open>Intents\<close>

fun server_intent :: "acquisition_intent \<Rightarrow> search_request" where
  "server_intent (MovieIntent title year) =
     \<lparr>sr_mediaType = lit ''movie'', sr_title = decode_text title, sr_year = number_int year, sr_season = 0, sr_episode = 0\<rparr>"
| "server_intent (EpisodeIntent title year season episode) =
     \<lparr>sr_mediaType = lit ''episode'', sr_title = decode_text title, sr_year = number_int year, sr_season = number_int season,
      sr_episode = number_int episode\<rparr>"

text \<open>What the route decodes from the body is the intent of the page, and its check is the one that stored requests pass.\<close>

lemma decode_page_intent:
  assumes "wf_intent i"
  shows "decode_struct set_intent_field zero_intent (json_intent i) = Some (server_intent i)"
proof (cases i)
  case (MovieIntent title year)
  then have "int_field (json_number year) p = Some (number_int year)" for p
    using assms by (intro int_field_range [of 1888 2100]) simp_all
  then show ?thesis
    by (simp add: decode_struct_def MovieIntent obj_def set_intent_field_def key_simps zero_intent_def del: js_simps_list)
next
  case (EpisodeIntent title year season episode)
  then have "int_field (json_number year) p = Some (number_int year)" "int_field (json_number season) p = Some (number_int season)"
    "int_field (json_number episode) p = Some (number_int episode)" for p
    using assms by (auto intro: int_field_range)
  then show ?thesis
    by (simp add: decode_struct_def EpisodeIntent obj_def set_intent_field_def key_simps zero_intent_def del: js_simps_list)
qed

lemma acquisitionRequest_intent:
  "acquisitionRequest (sr_mediaType (server_intent i)) (sr_title (server_intent i)) (sr_year (server_intent i))
     (sr_season (server_intent i)) (sr_episode (server_intent i)) = validateSearchRequest (server_intent i)"
  by (cases i) (simp_all add: acquisitionRequest_def validateSearchRequest_def)

lemma decode_intent_page:
  assumes "wf_intent i"
  shows "decode_intent (from_page bytes (submitAcquisitionJob_request i csrfToken auth)) =
    (if maximumRequestBytes < bytes then Inl (writeError 400 ''invalid_request'' ''Enter a valid movie or episode request.'')
     else case validateSearchRequest (server_intent i) of
       Inl _ \<Rightarrow> Inl (writeError 422 ''invalid_intent'' ''Enter a valid movie or episode title, year, season, and episode.'')
     | Inr search \<Rightarrow> Inr search)"
  by (simp add: decode_intent_def decodeJSON_def from_page_def submitAcquisitionJob_request_def paired_request_def
      decode_page_intent [OF assms] acquisitionRequest_intent)

section \<open>What the page shows of a job\<close>

definition shows_job :: "acquisition_job \<Rightarrow> ('sel, 'obj) job_snapshot \<Rightarrow> bool" where
  "shows_job j job \<longleftrightarrow> aj_id j = utf16 (js_id job) \<and> js (job_state_string (aj_state j)) = utf16 (js_state job)
     \<and> js (media_type_string (aj_mediaType j)) = utf16 (sr_mediaType (js_request job))
     \<and> aj_title j = utf16 (sr_title (js_request job)) \<and> aj_year j = Fin (of_int (sr_year (js_request job)))
     \<and> aj_season j = (if sr_season (js_request job) = 0 then None else Some (Fin (of_int (sr_season (js_request job)))))
     \<and> aj_episode j = (if sr_episode (js_request job) = 0 then None else Some (Fin (of_int (sr_episode (js_request job)))))
     \<and> aj_progress j = Fin (of_int (js_progress job))
     \<and> map_option (\<lambda>e. js (job_error_string e)) (aj_errorCode j) = (if js_errorCode job = [] then None else Some (utf16 (js_errorCode job)))"

lemma readable_object_shows:
  assumes "wf_snapshot job"
  shows "shows_job (as_acquisition_job (readable_object job)) job"
proof -
  let ?r = "js_request job"
  note wf = assms [unfolded wf_snapshot_def wf_request_def]
  have numbers: "to_double (of_int n) = Fin (of_int n)" if "0 \<le> n" "n \<le> 2100" for n
    using that safe_integer_range [of 0 n 2100] by (simp add: to_double_safe_integer)
  have year: "json_int (sr_year ?r) = JNumber (Fin (of_int (sr_year ?r)))" "json_int (js_progress job) = JNumber (Fin (of_int (js_progress job)))"
    using wf numbers [of "sr_year ?r"] numbers [of "js_progress job"] by (auto simp: json_int_def)
  have coordinates: "omit_zero (sr_season ?r) = (if sr_season ?r = 0 then None else Some (JNumber (Fin (of_int (sr_season ?r)))))"
    "omit_zero (sr_episode ?r) = (if sr_episode ?r = 0 then None else Some (JNumber (Fin (of_int (sr_episode ?r)))))"
    using wf numbers [of "sr_season ?r"] numbers [of "sr_episode ?r"] by (auto simp: json_int_def omit_zero_def)
  have "Some (json_str (media_type_string (as_media_type (Some (json_text (sr_mediaType ?r)))))) = Some (json_text (sr_mediaType ?r))"
    using wf by (intro enum_faithful) (auto simp: json_text_lit)
  moreover have "Some (json_str (job_state_string (as_job_state (Some (json_text (js_state job)))))) = Some (json_text (js_state job))"
    using wf by (intro enum_faithful) simp
  moreover have "Some (json_str (job_error_string (as_job_error (Some (json_text (js_errorCode job)))))) = Some (json_text (js_errorCode job))"
    if "js_errorCode job \<noteq> []"
    using wf validateJobErrorCode_error [of "js_errorCode job"] that by (intro enum_faithful) (auto simp: omit_empty_def)
  ultimately show ?thesis
    by (auto simp: shows_job_def readable_object_def as_acquisition_job_def property_job_object year coordinates json_text_def json_str_def
        omit_empty_def as_optional_def simp del: js_simps_list)
qed

section \<open>Submitting\<close>

lemma refused_reaches_page:
  assumes "error_answer r"
  shows "\<exists>code message. submitAcquisitionJob dateFinite (\<lambda>_. Some (to_page r)) i csrfToken auth = Inl (SetupAPIError code message)"
proof -
  obtain status code message where r: "r = writeError status code message" and status: "400 \<le> status"
    using assms by (auto simp: error_answer_def)
  let ?v = "obj [(''code'', Some (json_str code)), (''message'', Some (json_str message))]"
  have "isRecord ?v" "property ?v ''code'' = Some (JString (js code))" "property ?v ''message'' = Some (JString (js message))"
    by (simp_all add: property_obj json_str_def)
  with status show ?thesis
    by (simp add: r submitAcquisitionJob_def perform_def deliver_def submitAcquisitionJob_response_def with_session_def readJSON_def
        to_page_def writeError_def isErrorEnvelope_def)
qed

text \<open>
  A submission that reports an error either left the store alone or was executed and then lost its answer: then the store is the
  one of the executed submission.
\<close>

lemma Submit_Inl:
  "Submit ck cancelled out jobID request now st = (Inl e, st') \<Longrightarrow>
     st' = st \<or> out = Unreported \<and> (\<exists>job created. Submit ck cancelled Executed jobID request now st = (Inr (job, created), st'))"
  by (cases out) (auto simp: Submit_def Let_def split: if_splits sum.splits option.splits)

lemma Submit_executed: "Submit ck cancelled out jobID request now st = (Inr x, st') \<Longrightarrow> out = Executed"
  by (cases out) (auto simp: Submit_def Let_def split: if_splits sum.splits option.splits)

lemma manager_Submit_cases:
  assumes "manager_Submit ck m request st = (result, st')"
  obtains (refused) e where "result = Inl e" "st' = st"
  | (lost) e job created jobID where "result = Inl e" "mi_out m = Unreported" "mi_newID m = Some jobID"
      "Submit ck (mi_cancelled m) Executed jobID request (mi_now m) st = (Inr (job, created), st')"
  | (accepted) job created jobID where "result = Inr (job, created)" "mi_newID m = Some jobID"
      "Submit ck (mi_cancelled m) Executed jobID request (mi_now m) st = (Inr (job, created), st')"
proof (cases "mi_newID m")
  case None
  with assms refused show thesis by (auto simp: manager_Submit_def split: if_splits)
next
  case (Some jobID)
  show thesis
  proof (cases result)
    case (Inl e)
    with assms Some Submit_Inl [of ck "mi_cancelled m" "mi_out m" jobID request "mi_now m" st e st'] refused lost show thesis
      by (auto simp: manager_Submit_def split: if_splits)
  next
    case (Inr x)
    with assms Some have "Submit ck (mi_cancelled m) (mi_out m) jobID request (mi_now m) st = (Inr x, st')"
      by (auto simp: manager_Submit_def split: if_splits)
    with Submit_executed [OF this] Inr Some accepted show thesis by (cases x) auto
  qed
qed

text \<open>Who is authorized without a token has a saved one; a session is issued unless the repository cannot be read.\<close>

lemma authorized_issue:
  assumes "authorizeAcquisition sessionFor o1 rq s = ([], s1)"
  obtains token m s2 where "sv_stored s2 = Some (token, m)" "sv_stored s = Some (token, m)"
    "\<And>status v. issue_and_write sessionFor o1 status v s1
       = (if ro_issue_loads o1 then writeJSON status (Some (sessionFor token)) v else refuse (writeServiceError [ErrUnavailable]), s2)"
proof -
  obtain token m where "sv_stored s = Some (token, m)" "s1 = markTokenConfigured s"
    using assms(1) by (auto simp: authorizeAcquisition_def AuthorizeSetup_def Let_def split: if_splits option.splits)
  then show thesis
    by (intro that [of "if ro_issue_loads o1 then markTokenConfigured s1 else s1" token m])
      (simp_all add: markTokenConfigured_def issue_and_write_def IssueSession_def resolveToken_def)
qed

text \<open>Three ways for a submission to go: refused, stored behind an error, or answered with the job.\<close>

lemma submit_route_cases:
  assumes "submitAcquisitionJob_route sessionFor csrf a o1 rq b = (answer, b')"
  obtains (refused) r where "answer = JSONAnswer r" "error_answer r" "be_jobs b' = be_jobs b"
  | (unseen) r request jobID job created where "answer = JSONAnswer r" "error_answer r"
      "mi_out (rt_manager o1) = Unreported \<or> \<not> ro_issue_loads (rt_setup o1)" "decode_intent rq = Inr request"
      "Submit (ap_checks a) (mi_cancelled (rt_manager o1)) Executed jobID request (mi_now (rt_manager o1)) (be_jobs b)
        = (Inr (job, created), be_jobs b')"
  | (accepted) request jobID job created token m where "decode_intent rq = Inr request"
      "Submit (ap_checks a) (mi_cancelled (rt_manager o1)) Executed jobID request (mi_now (rt_manager o1)) (be_jobs b)
        = (Inr (job, created), be_jobs b')"
      "sv_stored (be_service b') = Some (token, m)"
      "answer = writeJSON 202 (Some (sessionFor token)) (submitAcquisitionJob_answer job created)"
proof (cases "authorizeBrowser csrf rq")
  case False
  with assms show ?thesis by (intro refused) (auto simp: submitAcquisitionJob_route_def refuse_def)
next
  case page: True
  show ?thesis
  proof (cases "decode_intent rq")
    case (Inl refusal)
    then have "error_answer refusal" by (auto simp: decode_intent_def split: option.splits sum.splits)
    with assms page Inl show ?thesis by (intro refused) (auto simp: submitAcquisitionJob_route_def refuse_def)
  next
    case (Inr request)
    obtain err s1 where auth: "authorizeAcquisition sessionFor (rt_setup o1) rq (be_service b) = (err, s1)" by force
    show ?thesis
    proof (cases "err = []")
      case False
      with assms page Inr auth show ?thesis by (intro refused) (auto simp: submitAcquisitionJob_route_def refuse_def)
    next
      case True
      obtain token m s2 where t: "sv_stored s2 = Some (token, m)"
        "\<And>status v. issue_and_write sessionFor (rt_setup o1) status v s1 = (if ro_issue_loads (rt_setup o1)
           then writeJSON status (Some (sessionFor token)) v else refuse (writeServiceError [ErrUnavailable]), s2)"
        by (rule authorized_issue [OF auth [unfolded True]]) (rule that)
      obtain result jobs where run: "manager_Submit (ap_checks a) (rt_manager o1) request (be_jobs b) = (result, jobs)" by force
      note step = assms [unfolded submitAcquisitionJob_route_def, simplified page Inr auth True Let_def]
      show ?thesis
        using run
      proof (cases rule: manager_Submit_cases)
        case (refused e)
        with step run that(1) show ?thesis by (auto simp: refuse_def)
      next
        case (lost e job created jobID)
        with step run show ?thesis by (intro that(2) [OF _ _ _ Inr, of _ jobID job created]) (auto simp: refuse_def)
      next
        case (accepted job created jobID)
        show ?thesis
        proof (cases "ro_issue_loads (rt_setup o1)")
          case True
          with step run accepted t have "answer = writeJSON 202 (Some (sessionFor token)) (submitAcquisitionJob_answer job created)"
            "be_jobs b' = jobs" "be_service b' = s2" by auto
          with accepted t(1) that(3) [OF Inr] show ?thesis by auto
        next
          case False
          with step run accepted t have "answer = JSONAnswer (writeServiceError [ErrUnavailable])" "be_jobs b' = jobs"
            by (auto simp: refuse_def)
          with accepted False that(2) [OF _ _ _ Inr] show ?thesis by auto
        qed
      qed
    qed
  qed
qed

text \<open>The answer to a submission that the page accepts.\<close>

lemma submission_reaches_page:
  assumes "wf_snapshot job" "readable_times dateFinite job" "\<not> special job" "hex_sessions sessionFor"
  shows "submitAcquisitionJob dateFinite (\<lambda>_. Some (answer_to_page (writeJSON 202 (Some (sessionFor token))
      (submitAcquisitionJob_answer job created)))) i csrfToken auth
    = Inr ((as_acquisition_job (readable_object job), created), utf16 (sessionFor token))"
proof -
  let ?v = "obj [(''job'', Some (readable_object job)), (''created'', Some (JBool created))]"
  have "isAcquisitionJobSubmission dateFinite ?v"
    using response_accepted_iff [OF assms(1,2)] assms(3) by (simp add: isAcquisitionJobSubmission_def property_obj)
  moreover have "as_job_submission ?v = (as_acquisition_job (readable_object job), created)"
    by (simp add: as_job_submission_def property_obj)
  moreover have "hex_string 64 (utf16 (sessionFor token))"
    using assms(4) hex_runes_string [of "sessionFor token"] by (simp add: hex_sessions_def)
  moreover have "submitAcquisitionJob_answer job created = Some ?v"
    by (simp add: submitAcquisitionJob_answer_def readable_response [OF assms(2)])
  ultimately show ?thesis
    by (simp add: submitAcquisitionJob_def perform_def deliver_def submitAcquisitionJob_response_def with_session_Inr_iff
        readJSON_Inr_iff readSession_Inr_iff writeJSON_def to_page_def)
qed

text \<open>Conversely, the page accepts no special and no time that it cannot read.\<close>

lemma page_accepts_submission:
  assumes "wf_snapshot job"
    and "submitAcquisitionJob dateFinite (\<lambda>_. Some (answer_to_page (writeJSON 202 session (submitAcquisitionJob_answer job created))))
      i csrfToken auth = Inr x"
  shows "readable_times dateFinite job" "\<not> special job"
proof -
  obtain v where v: "submitAcquisitionJob_answer job created = Some v" "isAcquisitionJobSubmission dateFinite v"
    using assms(2)
    by (cases "submitAcquisitionJob_answer job created"; cases x)
      (auto simp: submitAcquisitionJob_def perform_def deliver_def submitAcquisitionJob_response_def with_session_Inr_iff
        readJSON_Inr_iff writeJSON_def to_page_def)
  then obtain w where w: "acquisitionJobResponse job = Some w" "isAcquisitionJob dateFinite w"
    by (auto simp: submitAcquisitionJob_answer_def isAcquisitionJobSubmission_def property_obj)
  then have "marshal_time (js_createdAt job) \<noteq> None" "marshal_time (js_updatedAt job) \<noteq> None" and r: "w = readable_object job"
    by (auto simp: acquisitionJobResponse_def readable_object_def split: option.splits dest!: marshal_time_Some)
  moreover have "dateFinite (as_string (property w ''createdAt''))" "dateFinite (as_string (property w ''updatedAt''))"
    using w(2) by (auto simp: isAcquisitionJob_def split: if_splits)
  ultimately show "readable_times dateFinite job"
    by (simp add: readable_times_def readable_def readable_object_def property_job_object)
  from response_accepted_iff [OF assms(1) this] w(2) r show "\<not> special job" by simp
qed

lemma wf_snapshot_times [simp]: "wf_snapshot (job\<lparr>js_createdAt := t, js_updatedAt := u\<rparr>) = wf_snapshot job"
  by (simp add: wf_snapshot_def)

lemma shows_job_times [simp]: "shows_job j (job\<lparr>js_createdAt := t, js_updatedAt := u\<rparr>) = shows_job j job"
  by (simp add: shows_job_def)

lemma sound_wf: "sound_job ck job \<Longrightarrow> wf_snapshot job"
  using snapshot_of_sound [of ck job] by (auto intro: NewAcquisitionJobSnapshot_wf)

lemma session_authorizes:
  assumes "hex_sessions sessionFor" "sv_stored s = Some (token, m)"
  shows "fst (AuthorizeSetup sessionFor True [] (decode_text (utf16 (sessionFor token))) [] s) = []"
  using assms decode_text_hex [of "sessionFor token"] by (simp add: AuthorizeSetup_def Let_def hex_sessions_def)

text \<open>An executed submission: the only active row of the intent, which is new or was there before.\<close>

lemma Submit_held:
  assumes ck: "checks_ok ck" "keys_ok ck" and ok: "system_ok ck s" and store: "jobs = sy_store s" "sy_now s \<le> now"
    and request: "validateSearchRequest w = Inr v"
    and submitted: "Submit ck cancelled Executed jobID v now jobs = (Inr (job, created), jobs')"
  obtains r where "filter (\<lambda>r. active_row r \<and> same_intent ck (js_request (jr_job r)) v) (jt_jobs jobs') = [r]"
    "if created then jt_jobs jobs' = jt_jobs jobs @ [r] \<and> js_createdAt job = now \<and> js_updatedAt job = now else jobs' = jobs"
    "shows_job j (jr_job r) \<longleftrightarrow> shows_job j job" "special (jr_job r) \<longleftrightarrow> special job" "wf_snapshot job"
    "job_step ck s (moved now jobs' s)"
proof -
  obtain v' r where r: "validateSearchRequest v = Inr v'" "r \<in> set (jt_jobs jobs')" "active_row r"
      "jr_intentKey r = jobIntentKey ck v'" "store_ok ck now jobs' (sy_claims s)"
    and case_created: "if created then js_id job = jobID \<and> js_request job = v' \<and> jt_jobs jobs' = jt_jobs (sy_store s) @ [r]
         \<and> js_createdAt job = now \<and> js_updatedAt job = now
         \<and> jr_job r = job\<lparr>js_createdAt := from_millis (UnixMilli now), js_updatedAt := from_millis (UnixMilli now)\<rparr>
       else jobs' = sy_store s \<and> jr_job r = job"
    by (rule Submit_Inr [OF ok ck(1) store(2) submitted [unfolded store(1)]]) blast
  have wf: "wf_request v" using request by (rule request_check.result_valid)
  then have v: "v' = v" using r(1) by (simp add: request_check.valid_fixed)
  have only: "filter (\<lambda>r. active_row r \<and> same_intent ck (js_request (jr_job r)) v) (jt_jobs jobs') = [r]"
    using only_active_row [OF r(5) _ ck(2) r(2-4)] wf v by simp
  have "wf_snapshot (jr_job r)" using r(2,5) by (auto simp: store_ok_def row_ok_def intro: sound_wf)
  moreover have "job_step ck s (moved now jobs' s)"
    using submit [OF store(2), of ck] submitted store(1) by (metis snd_conv)
  ultimately show thesis
    using only case_created store(1) by (intro that [of r]) (auto simp: special_def split: if_splits)
qed

text \<open>
  A request of the page fails and stores nothing, or fails although the job is stored, for one of four reasons, or the page shows the
  one active job of the intent.
\<close>

lemma request_outcome:
  assumes "wf_intent i" "hex_sessions sessionFor"
    and ck: "checks_ok (ap_checks a)" "keys_ok (ap_checks a)"
    and ok: "system_ok (ap_checks a) s" and store: "be_jobs b = sy_store s" "sy_now s \<le> mi_now (rt_manager o1)"
    and run: "exchange sessionFor csrf a o1 bytes (submitAcquisitionJob_request i csrfToken auth) b = (answer, b')"
  obtains (failed) err where "submitAcquisitionJob dateFinite (\<lambda>_. Some (answer_to_page answer)) i csrfToken auth = Inl err"
      "be_jobs b' = be_jobs b"
  | (unseen) err v r where "submitAcquisitionJob dateFinite (\<lambda>_. Some (answer_to_page answer)) i csrfToken auth = Inl err"
      "validateSearchRequest (server_intent i) = Inr v"
      "filter (\<lambda>r. active_row r \<and> same_intent (ap_checks a) (js_request (jr_job r)) v) (jt_jobs (be_jobs b')) = [r]"
      "jt_jobs (be_jobs b') = jt_jobs (be_jobs b) @ [r]"
      "special (jr_job r) \<or> mi_out (rt_manager o1) = Unreported \<or> \<not> ro_issue_loads (rt_setup o1)
         \<or> \<not> readable dateFinite (mi_now (rt_manager o1))"
  | (held) j created token m v r where
      "submitAcquisitionJob dateFinite (\<lambda>_. Some (answer_to_page answer)) i csrfToken auth = Inr ((j, created), utf16 (sessionFor token))"
      "sv_stored (be_service b') = Some (token, m)" "validateSearchRequest (server_intent i) = Inr v"
      "filter (\<lambda>r. active_row r \<and> same_intent (ap_checks a) (js_request (jr_job r)) v) (jt_jobs (be_jobs b')) = [r]"
      "shows_job j (jr_job r)" "if created then jt_jobs (be_jobs b') = jt_jobs (be_jobs b) @ [r] else be_jobs b' = be_jobs b"
      "job_step (ap_checks a) s (moved (mi_now (rt_manager o1)) (be_jobs b') s)" "\<not> special (jr_job r)"
proof -
  let ?rq = "from_page bytes (submitAcquisitionJob_request i csrfToken auth)"
  have route: "serveAcquisitionJobs sessionFor csrf a o1 ?rq b = (answer, b')"
    using run by (simp add: exchange_def path_jobs submitAcquisitionJob_request_def paired_request_def del: js_simps_list)
  have request: "validateSearchRequest (server_intent i) = Inr request" if "decode_intent ?rq = Inr request" for request
    using that by (auto simp: decode_intent_page [OF assms(1)] split: if_splits sum.splits)
  show thesis
  proof (cases "ap_jobs a")
    case False
    with route show ?thesis
      by (intro failed) (auto simp: serveAcquisitionJobs_def notFound_def submitAcquisitionJob_def perform_def deliver_def
          submitAcquisitionJob_response_def with_session_def readJSON_def)
  next
    case True
    with route have "submitAcquisitionJob_route sessionFor csrf a o1 ?rq b = (answer, b')"
      by (simp add: serveAcquisitionJobs_def from_page_def submitAcquisitionJob_request_def paired_request_def)
    then show ?thesis
    proof (cases rule: submit_route_cases)
      case (refused r)
      with refused_reaches_page [OF refused(2), of dateFinite i csrfToken auth] show ?thesis by (auto intro: failed)
    next
      case (unseen e request jobID job created)
      obtain err where err: "submitAcquisitionJob dateFinite (\<lambda>_. Some (answer_to_page answer)) i csrfToken auth = Inl err"
        using refused_reaches_page [OF unseen(2), of dateFinite i csrfToken auth] unseen(1) by auto
      obtain r where r: "filter (\<lambda>r. active_row r \<and> same_intent (ap_checks a) (js_request (jr_job r)) request) (jt_jobs (be_jobs b')) = [r]"
        "if created then jt_jobs (be_jobs b') = jt_jobs (be_jobs b) @ [r] \<and> js_createdAt job = mi_now (rt_manager o1)
           \<and> js_updatedAt job = mi_now (rt_manager o1) else be_jobs b' = be_jobs b"
        by (rule Submit_held [OF ck ok store request [OF unseen(4)] unseen(5)]) blast
      show ?thesis
        using r(2) unseen(3) that(1) [OF err] that(2) [OF err request [OF unseen(4)] r(1)] by (cases created) auto
    next
      case (accepted request jobID job created token m)
      obtain r where r: "filter (\<lambda>r. active_row r \<and> same_intent (ap_checks a) (js_request (jr_job r)) request) (jt_jobs (be_jobs b')) = [r]"
        "if created then jt_jobs (be_jobs b') = jt_jobs (be_jobs b) @ [r] \<and> js_createdAt job = mi_now (rt_manager o1)
           \<and> js_updatedAt job = mi_now (rt_manager o1) else be_jobs b' = be_jobs b"
        "shows_job (as_acquisition_job (readable_object job)) (jr_job r)
           \<longleftrightarrow> shows_job (as_acquisition_job (readable_object job)) job"
        "special (jr_job r) \<longleftrightarrow> special job" "wf_snapshot job" "job_step (ap_checks a) s (moved (mi_now (rt_manager o1)) (be_jobs b') s)"
        by (rule Submit_held [OF ck ok store request [OF accepted(1)] accepted(2)]) blast
      show ?thesis
      proof (cases "submitAcquisitionJob dateFinite (\<lambda>_. Some (answer_to_page answer)) i csrfToken auth")
        case (Inr x)
        note ok1 = page_accepts_submission [OF r(5) Inr [unfolded accepted(4)]]
        note shown = submission_reaches_page [OF r(5) ok1 assms(2), of token created i csrfToken auth, folded accepted(4)]
        show ?thesis
          by (rule held [OF shown accepted(3) request [OF accepted(1)] r(1)])
            (use r readable_object_shows [OF r(5)] ok1 in \<open>auto split: if_splits\<close>)
      next
        case (Inl err)
        have "special job \<or> \<not> readable_times dateFinite job"
          using Inl submission_reaches_page [OF r(5) _ _ assms(2), of dateFinite token created i csrfToken auth] accepted(4) by auto
        then show ?thesis
          using r(2,4) that(1) [OF Inl] that(2) [OF Inl request [OF accepted(1)] r(1)]
          by (cases created) (auto simp: readable_times_def)
      qed
    qed
  qed
qed

section \<open>A sample request\<close>

definition page_intent :: acquisition_intent where
  "page_intent = EpisodeIntent (js ''Doctor Who'') (Fin 2005) (Fin 3) (Fin 1)"

definition jobs_api :: "(unit, unit) api" where
  "jobs_api = watchlist_api\<lparr>ap_jobs := True, ap_checks := sample_checks\<rparr>"

definition page_request :: http_request where
  "page_request = submitAcquisitionJob_request page_intent (js ''c5'') page_auth"

definition constant_session :: "gostring \<Rightarrow> gostring" where
  "constant_session token = replicate 64 97"

definition requested :: "answer \<times> (unit, unit) backend" where
  "requested = exchange constant_session (lit ''c5'') jobs_api quiet_outcomes 90 page_request paired_backend"

lemma page_intent_checked: "wf_intent page_intent" "server_intent page_intent = episode_request 3"
proof -
  have "trim (js ''Doctor Who'') = js ''Doctor Who''" by (simp add: trim_def is_space_cu_def unat_cu)
  then show "wf_intent page_intent" by (simp add: page_intent_def in_range_def isInteger_def del: js_simps_list) (simp add: js_def)
  show "server_intent page_intent = episode_request 3"
    by (simp add: page_intent_def episode_request_def number_int_def del: js_simps_list)
qed

lemma constant_session_hex: "hex_sessions constant_session"
  by (simp add: hex_sessions_def constant_session_def list_all_iff is_hex_rune_def)

lemma sample_time_readable:
  "readable (\<lambda>_. True) sample_time" "readable (\<lambda>_. True) (from_millis (UnixMilli sample_time))" "from_millis (UnixMilli sample_time) \<noteq> zero_time"
proof -
  have "fst (civil_date (sample_time div 10 ^ 9 div 86400)) = 2026" by code_simp
  then show "readable (\<lambda>_. True) sample_time" by (simp add: readable_def marshal_time_def)
  have "fst (civil_date (from_millis (UnixMilli sample_time) div 10 ^ 9 div 86400)) = 2026" by code_simp
  then show "readable (\<lambda>_. True) (from_millis (UnixMilli sample_time))" by (simp add: readable_def marshal_time_def)
  show "from_millis (UnixMilli sample_time) \<noteq> zero_time" by code_simp
qed

lemma page_request_stored:
  "\<exists>queued. jt_jobs (be_jobs (snd requested)) = [new_job_row (jobIntentKey sample_checks (episode_request 3)) queued (UnixMilli sample_time)]"
  "sv_stored (be_service (snd requested)) = sv_stored (be_service paired_backend)"
proof -
  let ?rq = "from_page 90 page_request" and ?st = "\<lparr>jt_jobs = [], jt_candidates = []\<rparr> :: (unit, unit) job_store"
  have url: "requested = serveAcquisitionJobs constant_session (lit ''c5'') jobs_api quiet_outcomes ?rq paired_backend"
    by (simp add: requested_def exchange_def path_jobs page_request_def submitAcquisitionJob_request_def paired_request_def
        del: js_simps_list)
  have rq: "wr_method ?rq = ''POST''" "authorizeBrowser (lit ''c5'') ?rq" "wr_bootstrap ?rq = lit ''pair''" "wr_session ?rq = []"
    "decode_intent ?rq = Inr (episode_request 3)"
    using decode_intent_page [OF page_intent_checked(1), of 90 "js ''c5''" page_auth]
    by (simp_all add: page_request_def page_intent_checked(2) sample_request maximumRequestBytes_def del: js_simps_list)
      (simp_all add: from_page_def submitAcquisitionJob_request_def paired_request_def authorizeBrowser_def authorizeBrowserRead_def
        header_value_def mutationHeaders_def header_if_def page_auth_def del: js_simps_list, simp add: js_def)
  obtain queued where queued: "Submit sample_checks False Executed sample_id (episode_request 3) sample_time ?st
      = (Inr (queued, True), \<lparr>jt_jobs = [new_job_row (jobIntentKey sample_checks (episode_request 3)) queued (UnixMilli sample_time)],
          jt_candidates = []\<rparr>)"
    using snapshot_of_queued [OF sample_id_valid(1) _ sample_request, of sample_time sample_checks]
    by (simp add: Submit_def Let_def) (simp add: queued_input_def sample_time_def zero_time_def)
  have auth: "authorizeAcquisition constant_session (rt_setup quiet_outcomes) ?rq (be_service paired_backend)
      = ([], markTokenConfigured (be_service paired_backend))"
    using rq(3) by (simp add: authorizeAcquisition_def AuthorizeSetup_def quiet_outcomes_def paired_backend_def service_start_def
        validBootstrap_def markTokenConfigured_def Let_def)
  obtain token m s2 where t: "sv_stored s2 = Some (token, m)" "sv_stored (be_service paired_backend) = Some (token, m)"
      "\<And>status v. issue_and_write constant_session (rt_setup quiet_outcomes) status v (markTokenConfigured (be_service paired_backend))
        = (if ro_issue_loads (rt_setup quiet_outcomes) then writeJSON status (Some (constant_session token)) v
           else refuse (writeServiceError [ErrUnavailable]), s2)"
    by (rule authorized_issue [OF auth]) (rule that)
  have "manager_Submit sample_checks (rt_manager quiet_outcomes) (episode_request 3) ?st
      = Submit sample_checks False Executed sample_id (episode_request 3) sample_time ?st"
    by (simp add: manager_Submit_def quiet_outcomes_def sample_id_def)
  moreover have "be_jobs paired_backend = ?st" "ap_jobs jobs_api" "ap_checks jobs_api = sample_checks"
    by (simp_all add: paired_backend_def jobs_api_def)
  ultimately show "\<exists>queued. jt_jobs (be_jobs (snd requested)) = [new_job_row (jobIntentKey sample_checks (episode_request 3)) queued
      (UnixMilli sample_time)]"
    "sv_stored (be_service (snd requested)) = sv_stored (be_service paired_backend)"
    using rq queued auth t
    by (auto simp: url serveAcquisitionJobs_def submitAcquisitionJob_route_def markTokenConfigured_def)
qed

text \<open>
  C4. A background request works from the page to the server and back. For an intent that the form has checked, whatever
  the state of the server, the outcomes of its calls and the bytes that the page sends: when the page shows a job, it is the job that the
  server holds for the intent, which is its only active one, whether it was just created or existed before, and the page holds a
  session that authorizes it. When the page is shown an error, nothing was stored, or the job was stored as the only active one of its
  intent and there is a reason why the page does not see it: it is a special, whose answer the page does not accept, the database
  executed the insertion and lost its answer, the session could not be issued afterwards, or the time of the server cannot be read.
\<close>

theorem console_requests_job:
  assumes "wf_intent i" "hex_sessions sessionFor"
    and ck: "checks_ok (ap_checks a)" "keys_ok (ap_checks a)"
    and store: "0 \<le> start" "job_run (ap_checks a) (open_jobs start) s" "be_jobs b = sy_store s" "sy_now s \<le> mi_now (rt_manager o1)"
    and run: "exchange sessionFor csrf a o1 bytes (submitAcquisitionJob_request i csrfToken auth) b = (answer, b')"
  shows "case submitAcquisitionJob dateFinite (\<lambda>_. Some (answer_to_page answer)) i csrfToken auth of
      Inl err \<Rightarrow> be_jobs b' = be_jobs b
        \<or> (\<exists>v r. validateSearchRequest (server_intent i) = Inr v
            \<and> filter (\<lambda>r. active_row r \<and> same_intent (ap_checks a) (js_request (jr_job r)) v) (jt_jobs (be_jobs b')) = [r]
            \<and> jt_jobs (be_jobs b') = jt_jobs (be_jobs b) @ [r]
            \<and> (special (jr_job r) \<or> mi_out (rt_manager o1) = Unreported \<or> \<not> ro_issue_loads (rt_setup o1)
               \<or> \<not> readable dateFinite (mi_now (rt_manager o1))))
    | Inr ((j, created), session) \<Rightarrow>
        \<exists>v r. validateSearchRequest (server_intent i) = Inr v
          \<and> filter (\<lambda>r. active_row r \<and> same_intent (ap_checks a) (js_request (jr_job r)) v) (jt_jobs (be_jobs b')) = [r]
          \<and> shows_job j (jr_job r)
          \<and> (if created then jt_jobs (be_jobs b') = jt_jobs (be_jobs b) @ [r] else be_jobs b' = be_jobs b)
          \<and> fst (AuthorizeSetup sessionFor True [] (decode_text session) [] (be_service b')) = []"
proof -
  have ok: "system_ok (ap_checks a) s" using ck(1) store(1,2) by (intro system_ok_open)
  from assms(1,2) ck ok store(3,4) run show ?thesis
  proof (cases rule: request_outcome [where dateFinite = dateFinite])
    case (unseen err v r)
    then show ?thesis by auto
  next
    case (held j created token m v r)
    with session_authorizes [OF assms(2) held(2)] show ?thesis by simp
  qed simp
qed

text \<open>What the two properties suppose holds for the sample request, and nothing hides its job.\<close>

lemma sample_context:
  "checks_ok (ap_checks jobs_api)" "keys_ok (ap_checks jobs_api)" "be_jobs paired_backend = sy_store (open_jobs 0)"
  "sy_now (open_jobs 0 :: (unit, unit) job_system) \<le> mi_now (rt_manager quiet_outcomes)"
  using sample_checks_ok
  by (simp_all add: jobs_api_def keys_ok_def sample_checks_def paired_backend_def open_jobs_def quiet_outcomes_def sample_time_def)

lemma sample_visible:
  "validateSearchRequest (server_intent page_intent) = Inr v \<Longrightarrow>
     filter (\<lambda>r. active_row r \<and> same_intent ck (js_request (jr_job r)) v) rows = [r] \<Longrightarrow> \<not> special (jr_job r)"
  "mi_out (rt_manager quiet_outcomes) = Executed" "ro_issue_loads (rt_setup quiet_outcomes)"
  "readable (\<lambda>_. True) (mi_now (rt_manager quiet_outcomes))"
proof -
  assume v: "validateSearchRequest (server_intent page_intent) = Inr v"
    and "filter (\<lambda>r. active_row r \<and> same_intent ck (js_request (jr_job r)) v) rows = [r]"
  then have "r \<in> set (filter (\<lambda>r. active_row r \<and> same_intent ck (js_request (jr_job r)) v) rows)" by simp
  moreover have "v = episode_request 3" using v by (simp add: page_intent_checked(2) sample_request)
  ultimately show "\<not> special (jr_job r)" by (auto simp: special_def same_intent_def episode_request_def)
qed (simp_all add: quiet_outcomes_def sample_time_readable(1))

lemma sample_exchange:
  "exchange constant_session (lit ''c5'') jobs_api quiet_outcomes 90 (submitAcquisitionJob_request page_intent (js ''c5'') page_auth)
     paired_backend = (fst requested, snd requested)"
  by (simp add: requested_def page_request_def del: js_simps_list)

theorem console_requests_job_witness:
  "\<exists>j session. submitAcquisitionJob (\<lambda>_. True) (\<lambda>_. Some (answer_to_page (fst requested))) page_intent (js ''c5'') page_auth
      = Inr ((j, True), session)
    \<and> fst (AuthorizeSetup constant_session True [] (decode_text session) [] (be_service (snd requested))) = []"
proof -
  have "be_jobs (snd requested) \<noteq> be_jobs paired_backend" using page_request_stored(1) by (auto simp: paired_backend_def)
  with console_requests_job [OF page_intent_checked(1) constant_session_hex sample_context(1,2) order.refl rtranclp.rtrancl_refl
      sample_context(3,4) sample_exchange, of "\<lambda>_. True"] sample_visible
  show ?thesis by (auto split: sum.splits if_splits)
qed

section \<open>Following a job\<close>

definition paired :: "jsstring \<Rightarrow> setup_authorization" where
  "paired session = \<lparr>auth_session = Some session, auth_bootstrap = None\<rparr>"

lemma poll_answer:
  assumes "system_ok (ap_checks a) s" "checks_ok (ap_checks a)" "be_jobs b = sy_store s" "r \<in> set (jt_jobs (sy_store s))"
    and page: "csrf = decode_text csrfToken" "hex_sessions sessionFor" "sv_stored (be_service b) = Some (token, m)"
    and outcomes: "ap_jobs a" "ro_authorize_loads (rt_setup o1)" "rt_jobs_read o1"
    and job: "readable_times dateFinite (jr_job r)" "\<not> special (jr_job r)"
  shows "getAcquisitionJob dateFinite (\<lambda>rq. Some (answer_to_page (fst (exchange sessionFor csrf a o1 bytes rq b)))) (utf16 (row_id r))
      csrfToken (paired (utf16 (sessionFor token))) = Inr (as_acquisition_job (readable_object (jr_job r)))"
proof -
  let ?id = "row_id r" and ?auth = "paired (utf16 (sessionFor token))"
  let ?rq = "paired_request ''GET'' (js ''/api/acquisition/jobs/'' @ utf16 ?id) csrfToken ?auth None"
  have sound: "sound_job (ap_checks a) (jr_job r)" using system_rows(1) [OF assms(1,4)] .
  then have hex: "list_all is_hex_rune ?id" "length ?id = 32" by (simp_all add: sound_job_def jobIDPattern_def)
  have id: "hex_string 32 (utf16 ?id)" using hex hex_runes_string [of ?id] by simp
  have "decode_text (js ''/api/acquisition/jobs/'' @ utf16 ?id) = jobs_prefix @ ?id"
    using decode_text_hex [OF hex(1)]
    by (subst decode_text_append) (simp_all add: jobs_prefix_def is_high_surrogate_def unat_cu del: js_simps_list, simp add: js_def unat_cu)
  then have path: "exchange sessionFor csrf a o1 bytes ?rq b
      = serveAcquisitionJob sessionFor csrf a o1 (jobs_prefix @ ?id) (from_page bytes ?rq) b"
    by (simp add: exchange_def paired_request_def path_job)
  have session: "sessionFor token \<noteq> []" "decode_text (utf16 (sessionFor token)) = sessionFor token"
    using page(2) decode_text_hex [of "sessionFor token"] by (auto simp: hex_sessions_def dest!: spec [of _ token])
  have "authorizeBrowserRead csrf (from_page bytes ?rq)" "wr_session (from_page bytes ?rq) = sessionFor token"
    using session
    by (simp_all add: authorizeBrowserRead_def from_page_def paired_request_def header_value_def mutationHeaders_def paired_def
        header_if_def page(1))
  moreover obtain s1 where "authorizeAcquisition sessionFor (rt_setup o1) (from_page bytes ?rq) (be_service b) = ([], s1)"
    using calculation page(3) outcomes(2) by (auto simp: authorizeAcquisition_def AuthorizeSetup_def Let_def)
  moreover have "slash \<notin> set ?id" "?id \<noteq> []" using hex by (auto simp: list_all_iff is_hex_rune_def)
  ultimately have "fst (serveAcquisitionJob sessionFor csrf a o1 (jobs_prefix @ ?id) (from_page bytes ?rq) b)
      = JSONAnswer \<lparr>ws_code = 200, ws_session = None, ws_json = readable_object (jr_job r)\<rparr>"
    using GetJob_row [OF assms(1,2,4)] assms(3) outcomes readable_response [OF job(1)]
    by (simp add: serveAcquisitionJob_def from_page_def paired_request_def writeJSON_def)
  moreover have "isAcquisitionJob dateFinite (readable_object (jr_job r))"
    using response_accepted_iff [OF sound_wf [OF sound] job(1)] job(2) by simp
  ultimately show ?thesis
    by (simp add: getAcquisitionJob_def getAcquisitionJob_request_def encodeURIComponent_hex [OF id] perform_def deliver_def path
        getAcquisitionJob_response_def readJSON_def to_page_def del: js_simps_list)
qed

lemma media_type_inject: "js (media_type_string m) = js (media_type_string n) \<Longrightarrow> m = n"
  by (cases m; cases n) (simp_all add: js_inject del: js_simps_list)

text \<open>
  C5. A submitted job can be followed: after a request of the page that succeeded, whatever jobs are submitted, claimed, prepared, finished
  or deferred afterwards (under a clock that does not go back), whatever is published, and as long as the token is not replaced, asking for
  the job with the session and the id of the answer shows the job as it is then, if its times can be read and the repository answers,
  and it is still the job of the same title.
\<close>

theorem submitted_job_followed:
  assumes "wf_intent i" "hex_sessions sessionFor"
    and ck: "checks_ok (ap_checks a)" "keys_ok (ap_checks a)"
    and store: "0 \<le> start" "job_run (ap_checks a) (open_jobs start) s" "be_jobs b = sy_store s" "sy_now s \<le> mi_now (rt_manager o1)"
    and run: "exchange sessionFor csrf a o1 bytes (submitAcquisitionJob_request i csrfToken auth) b = (answer, b')"
      "submitAcquisitionJob dateFinite (\<lambda>_. Some (answer_to_page answer)) i csrfToken auth = Inr ((j, created), session)"
    and later: "job_run (ap_checks a) (moved (mi_now (rt_manager o1)) (be_jobs b') s) s2" "be_jobs b2 = sy_store s2"
      "map_option fst (sv_stored (be_service b2)) = map_option fst (sv_stored (be_service b'))" "csrf = decode_text csrfToken2"
      "list_all (\<lambda>r. readable_times dateFinite (jr_job r)) (jt_jobs (be_jobs b2))"
    and poll: "ap_jobs a" "ro_authorize_loads (rt_setup o2)" "rt_jobs_read o2"
  shows "\<exists>j2 r. getAcquisitionJob dateFinite (\<lambda>rq. Some (answer_to_page (fst (exchange sessionFor csrf a o2 bytes2 rq b2)))) (aj_id j)
        csrfToken2 (paired session) = Inr j2
      \<and> r \<in> set (jt_jobs (be_jobs b2)) \<and> shows_job j2 (jr_job r)
      \<and> aj_id j2 = aj_id j \<and> aj_mediaType j2 = aj_mediaType j \<and> aj_title j2 = aj_title j \<and> aj_year j2 = aj_year j
      \<and> aj_season j2 = aj_season j \<and> aj_episode j2 = aj_episode j"
proof -
  have ok: "system_ok (ap_checks a) s" using ck(1) store(1,2) by (intro system_ok_open)
  from assms(1,2) ck ok store(3,4) run(1) show ?thesis
  proof (cases rule: request_outcome [where dateFinite = dateFinite])
    case (held j' created' token m v r)
    then have j: "j' = j" "session = utf16 (sessionFor token)" using run(2) by simp_all
    let ?s' = "moved (mi_now (rt_manager o1)) (be_jobs b') s"
    have ok': "system_ok (ap_checks a) ?s'" using system_ok_step [OF held(7) ok ck(1)] .
    have ok2: "system_ok (ap_checks a) s2" using system_ok_run [OF later(1) ok' ck(1)] .
    have r: "r \<in> set (filter (\<lambda>r. active_row r \<and> same_intent (ap_checks a) (js_request (jr_job r)) v) (jt_jobs (be_jobs b')))"
      by (simp add: held(4))
    then have mem: "r \<in> set (jt_jobs (sy_store ?s'))" by simp
    obtain r2 where r2: "r2 \<in> set (jt_jobs (sy_store s2))" "row_id r2 = row_id r" "js_request (jr_job r2) = js_request (jr_job r)"
      using job_identity.run [OF later(1) ok' ck(1) mem] by blast
    have special: "\<not> special (jr_job r2)"
      using held(8) r2(3) by (simp add: special_def)
    have readable2: "readable_times dateFinite (jr_job r2)" using later(2,5) r2(1) by (simp add: list_all_iff)
    obtain m2 where "sv_stored (be_service b2) = Some (token, m2)" using later(3) held(2) by auto
    then have "getAcquisitionJob dateFinite (\<lambda>rq. Some (answer_to_page (fst (exchange sessionFor csrf a o2 bytes2 rq b2)))) (utf16 (row_id r2))
        csrfToken2 (paired session) = Inr (as_acquisition_job (readable_object (jr_job r2)))"
      unfolding j(2) by (rule poll_answer [OF ok2 ck(1) later(2) r2(1) later(4) assms(2) _ poll readable2 special])
    moreover have shown: "shows_job (as_acquisition_job (readable_object (jr_job r2))) (jr_job r2)"
      using system_rows(1) [OF ok2 r2(1)] by (intro readable_object_shows sound_wf)
    moreover have "aj_id j = utf16 (row_id r2)" using held(5) r2(2) j(1) by (simp add: shows_job_def)
    moreover have "aj_mediaType (as_acquisition_job (readable_object (jr_job r2))) = aj_mediaType j"
      using held(5) shown r2(3) j(1) by (intro media_type_inject) (simp add: shows_job_def)
    ultimately show ?thesis
      using held(5) r2 j(1) later(2) by (intro exI [of _ "as_acquisition_job (readable_object (jr_job r2))"] exI [of _ r2])
        (simp add: shows_job_def)
  qed (use run(2) in simp_all)
qed

lemma page_request_succeeds:
  "\<exists>j session. submitAcquisitionJob (\<lambda>_. True) (\<lambda>_. Some (answer_to_page (fst requested))) page_intent (js ''c5'') page_auth
      = Inr ((j, True), session)"
proof -
  have ok: "system_ok (ap_checks jobs_api) (open_jobs 0)" by (rule system_ok_open [OF _ rtranclp.rtrancl_refl sample_context(1)]) simp
  have new: "be_jobs (snd requested) \<noteq> be_jobs paired_backend" using page_request_stored(1) by (auto simp: paired_backend_def)
  from page_intent_checked(1) constant_session_hex sample_context(1,2) ok sample_context(3,4) sample_exchange
  show ?thesis
  proof (cases rule: request_outcome [where dateFinite = "\<lambda>_. True"])
    case (failed err)
    with new show ?thesis by simp
  next
    case (unseen err v r)
    from sample_visible(1) [OF unseen(2,3)] sample_visible(2-4) unseen(5) show ?thesis by simp
  next
    case (held j created token m v r)
    with new show ?thesis by (auto split: if_splits)
  qed
qed

theorem submitted_job_followed_witness:
  "\<exists>j session j2. submitAcquisitionJob (\<lambda>_. True) (\<lambda>_. Some (answer_to_page (fst requested))) page_intent (js ''c5'') page_auth
      = Inr ((j, True), session)
    \<and> getAcquisitionJob (\<lambda>_. True) (\<lambda>rq. Some (answer_to_page (fst (exchange constant_session (lit ''c5'') jobs_api quiet_outcomes 0 rq
        (snd requested))))) (aj_id j) (js ''c5'') (paired session) = Inr j2
    \<and> aj_title j2 = aj_title j"
proof -
  obtain j session where submitted: "submitAcquisitionJob (\<lambda>_. True) (\<lambda>_. Some (answer_to_page (fst requested))) page_intent (js ''c5'')
      page_auth = Inr ((j, True), session)"
    using page_request_succeeds by blast
  have "list_all (\<lambda>r. readable_times (\<lambda>_. True) (jr_job r)) (jt_jobs (be_jobs (snd requested)))"
    using page_request_stored(1) sample_time_readable(2) by (auto simp: readable_times_def new_job_row_def)
  moreover have "ap_jobs jobs_api" "ro_authorize_loads (rt_setup quiet_outcomes)" "rt_jobs_read quiet_outcomes"
    "lit ''c5'' = decode_text (js ''c5'')"
    by (simp_all add: jobs_api_def quiet_outcomes_def del: js_simps_list)
  moreover have "be_jobs (snd requested) = sy_store (moved (mi_now (rt_manager quiet_outcomes)) (be_jobs (snd requested)) (open_jobs 0))"
    by simp
  ultimately show ?thesis
    using submitted submitted_job_followed [OF page_intent_checked(1) constant_session_hex sample_context(1,2) order.refl
        rtranclp.rtrancl_refl sample_context(3,4) sample_exchange submitted rtranclp.rtrancl_refl _ refl, of "js ''c5''" quiet_outcomes 0]
    by blast
qed

end
