(* ===== verification/Server_Selections.thy ===== *)
theory Server_Selections
  imports Server_JobRuns Server_Domain
begin

text \<open>
  What a background job selects, and how it is stored: releases and exact files (\<open>internal/acquisition/search.go\<close> and
  \<open>job.go\<close>), the columns that \<open>internal/repository/acquisitionjob\<close> writes for a selection and for a provider object, and what
  \<open>queryJob\<close> and \<open>queryCandidate\<close> rebuild from them. These are the checks that the repository of background jobs runs with.
\<close>

section \<open>Releases\<close>

record release_input =
  ri_provider :: gostring
  ri_sourceID :: gostring
  ri_title :: gostring
  ri_protocol :: gostring
  ri_size :: int
  ri_indexer :: gostring
  ri_infoHash :: gostring
  ri_magnetURL :: gostring
  ri_downloadURL :: gostring
  ri_seeders :: "int option"

record release =
  re_provider :: gostring
  re_sourceID :: gostring
  re_title :: gostring
  re_protocol :: gostring
  re_size :: int
  re_indexer :: gostring
  re_infoHash :: gostring
  re_magnetURL :: gostring
  re_downloadURL :: gostring
  re_seeders :: int
  re_hasSeeders :: bool

definition zero_release :: release where
  "zero_release = \<lparr>re_provider = [], re_sourceID = [], re_title = [], re_protocol = [], re_size = 0, re_indexer = [],
     re_infoHash = [], re_magnetURL = [], re_downloadURL = [], re_seeders = 0, re_hasSeeders = False\<rparr>"

definition maximumSourceIDBytes :: nat where
  "maximumSourceIDBytes = 512"

definition maximumIndexerNameBytes :: nat where
  "maximumIndexerNameBytes = 200"

definition search_text :: "gostring \<Rightarrow> nat \<Rightarrow> gostring option" where
  "search_text value maximumBytes = (case validateSearchText value maximumBytes of Inl _ \<Rightarrow> None | Inr clean \<Rightarrow> Some clean)"

text \<open>
  \<open>unicode.ToUpper\<close> where its result is ASCII: the small letters, the dotless i and the long s. The alphabet of base32 has no other
  rune, and its decoder skips line breaks.
\<close>

definition upper_rune :: "rune \<Rightarrow> rune" where
  "upper_rune r = (if 97 \<le> r \<and> r \<le> 122 then r - 32 else if r = 0x131 then 73 else if r = 0x17F then 83 else r)"

definition ToUpper :: "gostring \<Rightarrow> gostring" where
  "ToUpper s = map upper_rune s"

definition hex_digit_rune :: "rune \<Rightarrow> bool" where
  "hex_digit_rune r \<longleftrightarrow> 48 \<le> r \<and> r \<le> 57 \<or> 65 \<le> r \<and> r \<le> 70 \<or> 97 \<le> r \<and> r \<le> 102"

definition base32_text :: "gostring \<Rightarrow> bool" where
  "base32_text s \<longleftrightarrow> list_all (\<lambda>r. 65 \<le> r \<and> r \<le> 90 \<or> 50 \<le> r \<and> r \<le> 55 \<or> r = 10 \<or> r = 13) s"

definition normalizeInfoHash :: "gostring \<Rightarrow> gostring option" where
  "normalizeInfoHash value =
     (if value = [] then Some []
      else if go_len value = 40 then (if list_all hex_digit_rune value then Some (ToLower value) else None)
      else if go_len value = 32 then (if base32_text (ToUpper value) then Some (ToUpper value) else None)
      else None)"

text \<open>\<open>validateMagnetURL\<close> and \<open>validateReleaseDownloadURL\<close> rest on \<open>net/url\<close> and are arguments.\<close>

definition NewRelease :: "(gostring \<Rightarrow> bool) \<Rightarrow> (gostring \<Rightarrow> bool) \<Rightarrow> release_input \<Rightarrow> release option" where
  "NewRelease validMagnet validDownload i =
     (case NewBackingRef (ri_provider i) (lit ''release'') of Inl _ \<Rightarrow> None | Inr _ \<Rightarrow>
      Option.bind (search_text (ri_sourceID i) maximumSourceIDBytes) (\<lambda>sourceID.
      Option.bind (search_text (ri_title i) maximumSearchTitleBytes) (\<lambda>title.
      Option.bind (search_text (ri_indexer i) maximumIndexerNameBytes) (\<lambda>indexer.
      if ri_protocol i \<noteq> lit ''torrent'' \<and> ri_protocol i \<noteq> lit ''usenet'' then None
      else if ri_size i \<le> 0 then None
      else Option.bind (normalizeInfoHash (ri_infoHash i)) (\<lambda>infoHash.
      if ri_magnetURL i \<noteq> [] \<and> \<not> validMagnet (ri_magnetURL i) then None
      else if ri_downloadURL i \<noteq> [] \<and> \<not> validDownload (ri_downloadURL i) then None
      else if ri_protocol i = lit ''torrent'' \<and> infoHash = [] \<and> ri_magnetURL i = [] \<and> ri_downloadURL i = [] then None
      else if ri_protocol i = lit ''usenet'' \<and> ri_downloadURL i = [] then None
      else if (case ri_seeders i of None \<Rightarrow> False | Some n \<Rightarrow> n < 0) then None
      else Some \<lparr>re_provider = ri_provider i, re_sourceID = sourceID, re_title = title, re_protocol = ri_protocol i,
        re_size = ri_size i, re_indexer = indexer, re_infoHash = infoHash, re_magnetURL = ri_magnetURL i,
        re_downloadURL = ri_downloadURL i, re_seeders = (case ri_seeders i of None \<Rightarrow> 0 | Some n \<Rightarrow> n),
        re_hasSeeders = (ri_seeders i \<noteq> None)\<rparr>)))))"

section \<open>Selections\<close>

record range_candidate =
  rg_media :: go_candidate
  rg_indexer :: gostring
  rg_validator :: gostring

definition zero_range :: range_candidate where
  "zero_range = \<lparr>rg_media = \<lparr>cd_provider = [], cd_objectId = [], cd_name = [], cd_extension = [], cd_size = 0\<rparr>,
     rg_indexer = [], rg_validator = []\<rparr>"

definition maximumRangeValidatorBytes :: nat where
  "maximumRangeValidatorBytes = 512"

definition validateRangeValidator :: "gostring \<Rightarrow> gostring option" where
  "validateRangeValidator value =
     (let clean = TrimSpace value in
      if clean = [] \<or> clean \<noteq> value then None
      else if maximumRangeValidatorBytes < go_len clean then None
      else if list_ex is_control_rune clean then None
      else Some clean)"

definition NewRangeCandidate :: "go_candidate \<Rightarrow> gostring \<Rightarrow> gostring \<Rightarrow> range_candidate option" where
  "NewRangeCandidate media indexer tag =
     (case NewProviderMediaCandidate (candidate_backing media) (cd_name media) (cd_size media) of
        Inl _ \<Rightarrow> None
      | Inr validated \<Rightarrow>
          if cd_extension media \<noteq> [] \<and> cd_extension media \<noteq> cd_extension validated then None
          else Option.bind (search_text indexer maximumIndexerNameBytes) (\<lambda>cleanIndexer.
               map_option (\<lambda>cleanValidator. \<lparr>rg_media = validated, rg_indexer = cleanIndexer, rg_validator = cleanValidator\<rparr>)
                 (validateRangeValidator tag)))"

record job_selection =
  jo_kind :: gostring
  jo_release :: release
  jo_range :: range_candidate

text \<open>No locator is passed on, so the checks of the two URLs are not reached.\<close>

definition torrent_input :: "gostring \<Rightarrow> gostring \<Rightarrow> gostring \<Rightarrow> int \<Rightarrow> gostring \<Rightarrow> int option \<Rightarrow> release_input" where
  "torrent_input provider infoHash title bytes indexer seeders =
     \<lparr>ri_provider = provider, ri_sourceID = lit ''torrent:'' @ infoHash, ri_title = title, ri_protocol = lit ''torrent'',
      ri_size = bytes, ri_indexer = indexer, ri_infoHash = infoHash, ri_magnetURL = [], ri_downloadURL = [], ri_seeders = seeders\<rparr>"

abbreviation new_torrent_release :: "release_input \<Rightarrow> release option" where
  "new_torrent_release \<equiv> NewRelease (\<lambda>_. False) (\<lambda>_. False)"

definition NewTorrentJobSelection :: "release \<Rightarrow> job_selection option" where
  "NewTorrentJobSelection r =
     (if re_protocol r \<noteq> lit ''torrent'' \<or> re_infoHash r = [] then None
      else map_option (\<lambda>safe. \<lparr>jo_kind = lit ''torrent'', jo_release = safe, jo_range = zero_range\<rparr>)
        (new_torrent_release (torrent_input (re_provider r) (re_infoHash r) (re_title r) (re_size r) (re_indexer r)
          (if re_hasSeeders r then Some (re_seeders r) else None))))"

definition NewRangeJobSelection :: "range_candidate \<Rightarrow> job_selection option" where
  "NewRangeJobSelection c =
     map_option (\<lambda>validated. \<lparr>jo_kind = lit ''range'', jo_release = zero_release, jo_range = validated\<rparr>)
       (NewRangeCandidate (rg_media c) (rg_indexer c) (rg_validator c))"

definition cloneJobSelection :: "job_selection \<Rightarrow> job_selection option" where
  "cloneJobSelection s =
     (if jo_kind s = lit ''torrent'' then (if jo_range s \<noteq> zero_range then None else NewTorrentJobSelection (jo_release s))
      else if jo_kind s = lit ''range'' then (if jo_release s \<noteq> zero_release then None else NewRangeJobSelection (jo_range s))
      else None)"

text \<open>
  The fields of a release are private: a release that exists is zero or was made by \<open>NewRelease\<close>, so its fingerprint is a
  normalized one.
\<close>

definition normalized_hash :: "gostring \<Rightarrow> bool" where
  "normalized_hash h \<longleftrightarrow> h = [] \<or> go_len h = 40 \<and> list_all hex_digit_rune h \<and> ToLower h = h
     \<or> go_len h \<le> 32 \<and> base32_text h \<and> ToUpper h = h"

definition built_selection :: "job_selection \<Rightarrow> bool" where
  "built_selection s \<longleftrightarrow> normalized_hash (re_infoHash (jo_release s))"

section \<open>Columns\<close>

record selection_columns =
  co_kind :: gostring
  co_provider :: gostring
  co_title :: gostring
  co_size :: int
  co_indexer :: gostring
  co_identity :: gostring
  co_validator :: gostring
  co_infoHash :: gostring
  co_seeders :: int
  co_hasSeeders :: int

text \<open>The accessors of a selection, and the values that \<open>Select\<close>, \<open>Plan\<close> and \<open>Advance\<close> write for it.\<close>

definition selection_identity :: "job_selection \<Rightarrow> gostring" where
  "selection_identity s = (if jo_kind s = lit ''range'' then cd_objectId (rg_media (jo_range s)) else re_infoHash (jo_release s))"

definition selection_provider :: "job_selection \<Rightarrow> gostring" where
  "selection_provider s =
     (if jo_kind s = lit ''range'' then br_provider (candidate_backing (rg_media (jo_range s))) else re_provider (jo_release s))"

definition persistedValidator :: "job_selection \<Rightarrow> gostring" where
  "persistedValidator s = (if jo_kind s = lit ''range'' then rg_validator (jo_range s) else [])"

definition persistedSeeders :: "job_selection \<Rightarrow> int \<times> int" where
  "persistedSeeders s = (if re_hasSeeders (jo_release s) then (re_seeders (jo_release s), 1) else (0, 0))"

definition columns_of :: "job_selection \<Rightarrow> selection_columns" where
  "columns_of s =
     \<lparr>co_kind = jo_kind s, co_provider = selection_provider s,
      co_title = (if jo_kind s = lit ''range'' then cd_name (rg_media (jo_range s)) else re_title (jo_release s)),
      co_size = (if jo_kind s = lit ''range'' then cd_size (rg_media (jo_range s)) else re_size (jo_release s)),
      co_indexer = (if jo_kind s = lit ''range'' then rg_indexer (jo_range s) else re_indexer (jo_release s)),
      co_identity = selection_identity s, co_validator = persistedValidator s, co_infoHash = re_infoHash (jo_release s),
      co_seeders = fst (persistedSeeders s), co_hasSeeders = snd (persistedSeeders s)\<rparr>"

definition restoredRangeValidator :: "gostring \<Rightarrow> gostring" where
  "restoredRangeValidator value = (if value = [] then lit ''blackpearl:legacy-unverified'' else value)"

text \<open>The two branches that \<open>queryJob\<close> and \<open>queryCandidate\<close> share.\<close>

definition restore_torrent :: "selection_columns \<Rightarrow> job_selection option" where
  "restore_torrent c =
     Option.bind (new_torrent_release (torrent_input (co_provider c) (co_identity c) (co_title c) (co_size c) (co_indexer c)
         (if co_hasSeeders c = 1 then Some (co_seeders c) else None))) NewTorrentJobSelection"

definition restore_range :: "selection_columns \<Rightarrow> job_selection option" where
  "restore_range c =
     (case NewProviderMediaCandidate \<lparr>br_provider = co_provider c, br_objectId = co_identity c\<rparr> (co_title c) (co_size c) of
        Inl _ \<Rightarrow> None
      | Inr media \<Rightarrow>
          Option.bind (NewRangeCandidate media (co_indexer c) (restoredRangeValidator (co_validator c))) NewRangeJobSelection)"

definition read_job_selection :: "selection_columns \<Rightarrow> job_selection option option" where
  "read_job_selection c =
     (if co_identity c = [] then Some None
      else if co_kind c = lit ''torrent'' then
        (if co_infoHash c \<noteq> co_identity c then None else map_option Some (restore_torrent c))
      else if co_kind c = lit ''range'' then
        (if co_infoHash c \<noteq> [] \<or> co_seeders c \<noteq> 0 \<or> co_hasSeeders c \<noteq> 0 then None else map_option Some (restore_range c))
      else None)"

definition read_plan_selection :: "selection_columns \<Rightarrow> job_selection option" where
  "read_plan_selection c =
     (if co_kind c = lit ''torrent'' then restore_torrent c
      else if co_kind c = lit ''range'' then
        (if co_seeders c \<noteq> 0 \<or> co_hasSeeders c \<noteq> 0 then None else restore_range c)
      else None)"

text \<open>Provider objects.\<close>

definition NewCreatedObject :: "backing_ref \<Rightarrow> backing_ref option" where
  "NewCreatedObject b = (case NewBackingRef (br_provider b) (br_objectId b) of Inl _ \<Rightarrow> None | Inr v \<Rightarrow> Some v)"

definition read_created_object :: "backing_ref \<Rightarrow> backing_ref option option" where
  "read_created_object b = (if br_objectId b = [] then Some None else map_option Some (NewCreatedObject b))"

text \<open>
  The checks that the store runs with. \<open>Select\<close> checks with \<open>validateSelection\<close>, \<open>Plan\<close> and a snapshot with \<open>cloneJobSelection\<close>; they
  differ only when a selection carries the data of the other kind, and the private fields of a selection are set by
  \<open>NewTorrentJobSelection\<close> and \<open>NewRangeJobSelection\<close> alone, which leave the other part zero.
\<close>

definition server_checks :: "(gostring \<Rightarrow> gostring) \<Rightarrow> (job_selection, backing_ref) job_checks" where
  "server_checks lower =
     \<lparr>ck_selection = (\<lambda>s. if built_selection s then cloneJobSelection s else None), ck_object = NewCreatedObject,
      ck_stored = (\<lambda>s. read_job_selection (columns_of s)), ck_planned = (\<lambda>s. read_plan_selection (columns_of s)),
      ck_attached = read_created_object, ck_identity = (\<lambda>s. (jo_kind s, selection_provider s, selection_identity s)),
      ck_lower = lower\<rparr>"

section \<open>What a checked selection holds\<close>

lemma search_text_fixed: "search_text v n = Some t \<Longrightarrow> search_text t n = Some t"
  by (auto simp: search_text_def validateSearchText_def Let_def split: sum.splits if_splits)

lemma normalized_hash_fixed: "normalized_hash h \<Longrightarrow> normalizeInfoHash h = Some h' \<Longrightarrow> h' = h"
  by (auto simp: normalized_hash_def normalizeInfoHash_def split: if_splits)

text \<open>A release that is stripped of its locators, and what it is made of again.\<close>

abbreviation safe_input :: "release \<Rightarrow> release_input" where
  "safe_input r \<equiv> torrent_input (re_provider r) (re_infoHash r) (re_title r) (re_size r) (re_indexer r)
     (if re_hasSeeders r then Some (re_seeders r) else None)"

lemma safe_release:
  assumes "new_torrent_release (safe_input r) = Some safe" "normalized_hash (re_infoHash r)"
  shows "re_infoHash safe = re_infoHash r" "re_protocol safe = lit ''torrent''" "re_magnetURL safe = []" "re_downloadURL safe = []"
    "re_provider safe = re_provider r" "re_size safe = re_size r" "new_torrent_release (safe_input safe) = Some safe"
proof -
  have i: "ri_provider (torrent_input p h t n x d) = p" "ri_sourceID (torrent_input p h t n x d) = lit ''torrent:'' @ h"
    "ri_title (torrent_input p h t n x d) = t" "ri_protocol (torrent_input p h t n x d) = lit ''torrent''"
    "ri_size (torrent_input p h t n x d) = n" "ri_indexer (torrent_input p h t n x d) = x" "ri_infoHash (torrent_input p h t n x d) = h"
    "ri_magnetURL (torrent_input p h t n x d) = []" "ri_downloadURL (torrent_input p h t n x d) = []"
    "ri_seeders (torrent_input p h t n x d) = d" for p h t n x d
    by (simp_all add: torrent_input_def)
  from assms(1) obtain b source title indexer h where f:
    "NewBackingRef (re_provider r) (lit ''release'') = Inr b"
    "search_text (lit ''torrent:'' @ re_infoHash r) maximumSourceIDBytes = Some source"
    "search_text (re_title r) maximumSearchTitleBytes = Some title" "search_text (re_indexer r) maximumIndexerNameBytes = Some indexer"
    "\<not> re_size r \<le> 0" "normalizeInfoHash (re_infoHash r) = Some h" "h \<noteq> []" "re_hasSeeders r \<longrightarrow> \<not> re_seeders r < 0"
    "safe = \<lparr>re_provider = re_provider r, re_sourceID = source, re_title = title, re_protocol = lit ''torrent'', re_size = re_size r,
       re_indexer = indexer, re_infoHash = h, re_magnetURL = [], re_downloadURL = [],
       re_seeders = (if re_hasSeeders r then re_seeders r else 0), re_hasSeeders = re_hasSeeders r\<rparr>"
    by (auto simp: NewRelease_def i bind_eq_Some_conv split: sum.splits if_splits)
  have h: "h = re_infoHash r" using normalized_hash_fixed [OF assms(2) f(6)] .
  then show "re_infoHash safe = re_infoHash r" "re_protocol safe = lit ''torrent''" "re_magnetURL safe = []" "re_downloadURL safe = []"
    "re_provider safe = re_provider r" "re_size safe = re_size r" by (simp_all add: f(9))
  show "new_torrent_release (safe_input safe) = Some safe"
    unfolding NewRelease_def i f(9) using f(1,2,5,6,8) search_text_fixed [OF f(3)] search_text_fixed [OF f(4)] f(7) h by simp
qed

lemma torrent_selection:
  assumes "NewTorrentJobSelection r = Some t" "normalized_hash (re_infoHash r)"
  shows "jo_kind t = lit ''torrent''" "jo_range t = zero_range" "re_infoHash (jo_release t) = re_infoHash r" "re_infoHash r \<noteq> []"
    "re_magnetURL (jo_release t) = []" "re_downloadURL (jo_release t) = []"
    "new_torrent_release (safe_input (jo_release t)) = Some (jo_release t)" "NewTorrentJobSelection (jo_release t) = Some t"
proof -
  obtain safe where r: "re_protocol r = lit ''torrent''" "re_infoHash r \<noteq> []" "new_torrent_release (safe_input r) = Some safe"
    "t = \<lparr>jo_kind = lit ''torrent'', jo_release = safe, jo_range = zero_range\<rparr>"
    using assms(1) by (auto simp: NewTorrentJobSelection_def split: if_splits)
  note safe = safe_release [OF r(3) assms(2)]
  show "jo_kind t = lit ''torrent''" "jo_range t = zero_range" "re_infoHash (jo_release t) = re_infoHash r" "re_infoHash r \<noteq> []"
    "re_magnetURL (jo_release t) = []" "re_downloadURL (jo_release t) = []"
    using safe(1-4) r(2) by (simp_all add: r(4))
  show again: "new_torrent_release (safe_input (jo_release t)) = Some (jo_release t)"
    using safe(7) by (simp only: r(4) job_selection.select_convs)
  have "re_protocol (jo_release t) = lit ''torrent''" "re_infoHash (jo_release t) \<noteq> []" using safe(1,2) r(2) by (simp_all add: r(4))
  with again show "NewTorrentJobSelection (jo_release t) = Some t"
    unfolding NewTorrentJobSelection_def by (simp only: r(4) job_selection.select_convs) simp
qed

lemma range_validator_fixed:
  "validateRangeValidator v = Some w \<Longrightarrow> w = v \<and> v \<noteq> []"
  by (auto simp: validateRangeValidator_def Let_def split: if_splits)

lemma range_candidate:
  assumes "NewRangeCandidate media indexer tag = Some c"
  shows "valid_candidate (rg_media c)" "rg_validator c \<noteq> []" "NewRangeCandidate (rg_media c) (rg_indexer c) (rg_validator c) = Some c"
proof -
  obtain validated cleanIndexer cleanTag where c:
    "NewProviderMediaCandidate (candidate_backing media) (cd_name media) (cd_size media) = Inr validated"
    "search_text indexer maximumIndexerNameBytes = Some cleanIndexer" "validateRangeValidator tag = Some cleanTag"
    "c = \<lparr>rg_media = validated, rg_indexer = cleanIndexer, rg_validator = cleanTag\<rparr>"
    using assms by (auto simp: NewRangeCandidate_def bind_eq_Some_conv split: sum.splits if_splits)
  from c(1) have v: "valid_candidate validated" by (simp add: NewProviderMediaCandidate_Inr)
  then have "NewProviderMediaCandidate (candidate_backing validated) (cd_name validated) (cd_size validated) = Inr validated"
    by (cases "cd_provider validated") (auto simp: NewProviderMediaCandidate_Inr candidate_backing_def valid_candidate_def)
  moreover have "validateRangeValidator cleanTag = Some cleanTag" "cleanTag \<noteq> []"
    using c(3) range_validator_fixed [OF c(3)] by simp_all
  ultimately show "valid_candidate (rg_media c)" "rg_validator c \<noteq> []"
    "NewRangeCandidate (rg_media c) (rg_indexer c) (rg_validator c) = Some c"
    using v search_text_fixed [OF c(2)] by (simp_all add: c(4) NewRangeCandidate_def)
qed

text \<open>A checked selection: fixed, without a locator, and the same when it is rebuilt from its columns.\<close>

lemma checked_selection:
  assumes "cloneJobSelection s = Some t" "built_selection s"
  shows "cloneJobSelection t = Some t" "built_selection t" "selection_identity t \<noteq> []"
    "re_magnetURL (jo_release t) = []" "re_downloadURL (jo_release t) = []"
    "read_job_selection (columns_of t) = Some (Some t)" "read_plan_selection (columns_of t) = Some t"
proof -
  have kinds: "lit ''torrent'' \<noteq> lit ''range''" by simp
  consider (torrent) "NewTorrentJobSelection (jo_release s) = Some t" | (range) "NewRangeJobSelection (jo_range s) = Some t"
    using assms(1) by (auto simp: cloneJobSelection_def split: if_splits)
  then have "cloneJobSelection t = Some t \<and> built_selection t \<and> selection_identity t \<noteq> []
    \<and> re_magnetURL (jo_release t) = [] \<and> re_downloadURL (jo_release t) = []
    \<and> read_job_selection (columns_of t) = Some (Some t) \<and> read_plan_selection (columns_of t) = Some t"
  proof cases
    case torrent
    note t = torrent_selection [OF torrent assms(2) [unfolded built_selection_def]]
    have c: "co_kind (columns_of t) = lit ''torrent''" "co_identity (columns_of t) = re_infoHash (jo_release t)"
      "co_infoHash (columns_of t) = re_infoHash (jo_release t)" "co_provider (columns_of t) = re_provider (jo_release t)"
      "co_title (columns_of t) = re_title (jo_release t)" "co_size (columns_of t) = re_size (jo_release t)"
      "co_indexer (columns_of t) = re_indexer (jo_release t)"
      "(if co_hasSeeders (columns_of t) = 1 then Some (co_seeders (columns_of t)) else None)
        = (if re_hasSeeders (jo_release t) then Some (re_seeders (jo_release t)) else None)"
      using kinds t(1) by (simp_all add: columns_of_def selection_identity_def selection_provider_def persistedSeeders_def)
    have "restore_torrent (columns_of t) = Some t"
      unfolding restore_torrent_def c(2,4-8) t(7) using t(8) by simp
    moreover have "built_selection t" using assms(2) t(3) by (simp add: built_selection_def)
    ultimately show ?thesis
      using t(1-6,8) c(1-3) kinds
      by (simp add: cloneJobSelection_def selection_identity_def read_job_selection_def read_plan_selection_def)
  next
    case range
    then obtain c where r: "NewRangeCandidate (rg_media (jo_range s)) (rg_indexer (jo_range s)) (rg_validator (jo_range s)) = Some c"
      "t = \<lparr>jo_kind = lit ''range'', jo_release = zero_release, jo_range = c\<rparr>"
      by (auto simp: NewRangeJobSelection_def)
    note c = range_candidate [OF r(1)]
    have m: "cd_provider (rg_media c) \<noteq> []" "cd_objectId (rg_media c) \<noteq> []"
      using c(1) by (auto simp: valid_candidate_def TrimSpace_def)
    have media: "NewProviderMediaCandidate \<lparr>br_provider = cd_provider (rg_media c), br_objectId = cd_objectId (rg_media c)\<rparr>
        (cd_name (rg_media c)) (cd_size (rg_media c)) = Inr (rg_media c)"
    proof -
      have "clean_name (cd_name (rg_media c)) = cd_name (rg_media c)" using c(1) by (simp add: valid_candidate_def)
      with c(1) show ?thesis by (simp add: NewProviderMediaCandidate_Inr)
    qed
    have again: "NewRangeJobSelection c = Some t" using c(3) r(2) by (simp add: NewRangeJobSelection_def)
    have co: "co_kind (columns_of t) = lit ''range''" "co_provider (columns_of t) = cd_provider (rg_media c)"
      "co_identity (columns_of t) = cd_objectId (rg_media c)" "co_title (columns_of t) = cd_name (rg_media c)"
      "co_size (columns_of t) = cd_size (rg_media c)" "co_indexer (columns_of t) = rg_indexer c" "co_infoHash (columns_of t) = []"
      "restoredRangeValidator (co_validator (columns_of t)) = rg_validator c" "co_seeders (columns_of t) = 0" "co_hasSeeders (columns_of t) = 0"
      using m(1) c(2)
      by (simp_all add: columns_of_def selection_identity_def selection_provider_def persistedValidator_def persistedSeeders_def r(2)
          candidate_backing_def restoredRangeValidator_def zero_release_def)
    have "restore_range (columns_of t) = Some t"
      unfolding restore_range_def co(2-6,8) media by (simp add: c(3) again)
    then have "read_job_selection (columns_of t) = Some (Some t)" "read_plan_selection (columns_of t) = Some t"
      using m(2) kinds by (simp_all add: read_job_selection_def read_plan_selection_def co)
    moreover have "jo_kind t = lit ''range''" "jo_release t = zero_release" "jo_range t = c" by (simp_all add: r(2))
    moreover have "re_infoHash zero_release = []" "re_magnetURL zero_release = []" "re_downloadURL zero_release = []"
      by (simp_all add: zero_release_def)
    ultimately show ?thesis
      using again m(2) kinds
      by (simp add: cloneJobSelection_def built_selection_def normalized_hash_def selection_identity_def)
  qed
  then show "cloneJobSelection t = Some t" "built_selection t" "selection_identity t \<noteq> []"
    "re_magnetURL (jo_release t) = []" "re_downloadURL (jo_release t) = []"
    "read_job_selection (columns_of t) = Some (Some t)" "read_plan_selection (columns_of t) = Some t" by simp_all
qed

lemma NewCreatedObject_fixed: "NewCreatedObject b = Some v \<Longrightarrow> NewCreatedObject v = Some v \<and> br_objectId v \<noteq> []"
  by (auto simp: NewCreatedObject_def NewBackingRef_Inr split: sum.splits) (auto simp: NewBackingRef_def result_simps TrimSpace_def)

lemma server_checks_ok: "checks_ok (server_checks lower)"
  unfolding checks_ok_def
proof (intro conjI allI impI)
  fix s t assume "ck_selection (server_checks lower) s = Some t"
  then show "ck_selection (server_checks lower) t = Some t"
    using checked_selection(1,2) [of s t] by (simp add: server_checks_def split: if_splits)
next
  fix s t assume "ck_object (server_checks lower) s = Some t"
  then show "ck_object (server_checks lower) t = Some t" using NewCreatedObject_fixed [of s t] by (simp add: server_checks_def)
next
  fix s assume "ck_selection (server_checks lower) s = Some s"
  then show "ck_stored (server_checks lower) s = Some (Some s)" "ck_planned (server_checks lower) s = Some s"
    using checked_selection(6,7) [of s s] by (simp_all add: server_checks_def split: if_splits)
next
  fix v assume "ck_object (server_checks lower) v = Some v"
  then show "ck_attached (server_checks lower) v = Some (Some v)"
    using NewCreatedObject_fixed [of v v] by (simp add: server_checks_def read_created_object_def)
qed

section \<open>Reading back\<close>

text \<open>
  C16. What a job selects survives the database: a selection that passes its checks is read back unchanged, both from the columns of
  its job and from the columns of a candidate plan, a torrent with its fingerprint and seed count as well as an exact file with
  its content fingerprint, and nothing that is stored holds a magnet or a download URL.
\<close>

theorem selection_read_back:
  assumes "cloneJobSelection s = Some t" "built_selection s"
  shows "read_job_selection (columns_of t) = Some (Some t) \<and> read_plan_selection (columns_of t) = Some t
    \<and> selection_identity t \<noteq> [] \<and> re_magnetURL (jo_release t) = [] \<and> re_downloadURL (jo_release t) = []"
  using checked_selection [OF assms] by simp

definition sample_torrent :: job_selection where
  "sample_torrent = \<lparr>jo_kind = lit ''torrent'',
     jo_release = \<lparr>re_provider = lit ''prowlarr'', re_sourceID = lit ''torrent:'' @ replicate 40 97, re_title = lit ''Doctor Who'',
       re_protocol = lit ''torrent'', re_size = 700, re_indexer = lit ''Doctor Who'', re_infoHash = replicate 40 97, re_magnetURL = [],
       re_downloadURL = [], re_seeders = 5, re_hasSeeders = True\<rparr>,
     jo_range = zero_range\<rparr>"

lemma sample_torrent_checked: "cloneJobSelection sample_torrent = Some sample_torrent" "built_selection sample_torrent"
proof -
  have "go_len (replicate 40 97) = 40" by (simp add: go_len_def utf8_bytes_def sum_list_replicate)
  moreover have "list_all hex_digit_rune (replicate 40 97)" by (simp add: list_all_iff hex_digit_rune_def)
  moreover have "ToLower (replicate 40 97) = replicate 40 97" by (simp add: ToLower_def lower_rune_def)
  ultimately have hash: "normalizeInfoHash (replicate 40 97) = Some (replicate 40 97)" "normalized_hash (replicate 40 97)"
    by (simp_all add: normalizeInfoHash_def normalized_hash_def)
  have source: "search_text (lit ''torrent:'' @ replicate 40 97) maximumSourceIDBytes = Some (lit ''torrent:'' @ replicate 40 97)"
  proof -
    have "TrimSpace (lit ''torrent:'' @ replicate 40 97) = lit ''torrent:'' @ replicate 40 97"
      by (rule TrimSpace_fixed) (simp_all add: lit_def is_space_rune_def)
    moreover have "go_len (lit ''torrent:'' @ replicate 40 97) = 48" by (simp add: go_len_def lit_def utf8_bytes_def sum_list_replicate)
    moreover have "\<not> list_ex is_control_rune (lit ''torrent:'' @ replicate 40 97)"
      by (simp add: lit_def is_control_rune_def list_ex_iff)
    ultimately show ?thesis by (simp add: search_text_def validateSearchText_def maximumSourceIDBytes_def)
  qed
  have title: "search_text (lit ''Doctor Who'') n = Some (lit ''Doctor Who'')" if "n = 200" for n
    using validate_sample_text that by (simp add: search_text_def)
  have provider: "NewBackingRef (lit ''prowlarr'') (lit ''release'') = Inr \<lparr>br_provider = lit ''prowlarr'', br_objectId = lit ''release''\<rparr>"
  proof -
    have "TrimSpace (lit ''release'') = lit ''release''" by (rule TrimSpace_fixed) (simp_all add: lit_def is_space_rune_def)
    then show ?thesis by (simp add: NewBackingRef_Inr) (simp add: lit_def provider_rune_def)
  qed
  show "cloneJobSelection sample_torrent = Some sample_torrent" "built_selection sample_torrent"
    using hash source title provider
    by (simp_all add: sample_torrent_def cloneJobSelection_def NewTorrentJobSelection_def NewRelease_def torrent_input_def
        built_selection_def maximumSearchTitleBytes_def maximumIndexerNameBytes_def)
qed

theorem selection_read_back_witness:
  "read_job_selection (columns_of sample_torrent) = Some (Some sample_torrent)"
  using selection_read_back [OF sample_torrent_checked] by simp

text \<open>
  C15. Whatever was submitted, claimed, selected, planned, attached, deferred, finished or interrupted, every stored job can be read: a
  lookup rebuilds the job of its row from its columns, the selection and the provider object included, and a listing returns the
  most recently changed jobs, newest first. The operations run under a clock that does not go back, with claims that were
  granted, and a job that has no provider object yet is deferred without progress, which \<open>Defer\<close> leaves to its callers.
\<close>

theorem stored_jobs_readable:
  assumes "0 \<le> start" "job_run (server_checks lower) (open_jobs start) s" "1 \<le> limit" "limit \<le> 100"
  shows "(\<forall>r \<in> set (jt_jobs (sy_store s)). GetJob (server_checks lower) True (row_id r) (sy_store s) = Inr (jr_job r))
    \<and> (\<exists>rows. mset rows = mset (jt_jobs (sy_store s)) \<and> sorted_wrt (\<lambda>r r'. recent r' \<le> recent r) rows
        \<and> ListJobs (server_checks lower) True limit (sy_store s) = Inr (map jr_job (take (nat limit) rows)))"
proof -
  have ok: "system_ok (server_checks lower) s" using assms(1,2) server_checks_ok by (intro system_ok_open)
  let ?rows = "rev (sort_key recent (jt_jobs (sy_store s)))"
  have "sorted_wrt (\<lambda>r r'. recent r' \<le> recent r) ?rows"
    using sorted_sort_key [of recent "jt_jobs (sy_store s)"] by (simp add: sorted_wrt_rev sorted_wrt_map)
  with ListJobs_rows [OF ok server_checks_ok assms(3,4)] GetJob_row [OF ok server_checks_ok] show ?thesis
    by (intro conjI ballI exI [of _ ?rows]) simp_all
qed

section \<open>A sample job with a torrent\<close>

definition torrent_row ::
  "(job_selection, backing_ref) job_snapshot \<Rightarrow> int \<Rightarrow> int \<Rightarrow> (job_selection, backing_ref) job_row" where
  "torrent_row job version leaseUntil =
     \<lparr>jr_job = job, jr_intentKey = jobIntentKey (server_checks ToLower) (episode_request 3), jr_leaseVersion = version,
      jr_leaseUntil = leaseUntil, jr_nextAttempt = 0\<rparr>"

definition torrent_store ::
  "(job_selection, backing_ref) job_snapshot \<Rightarrow> int \<Rightarrow> int \<Rightarrow> (job_selection, backing_ref) job_store" where
  "torrent_store job version leaseUntil = \<lparr>jt_jobs = [torrent_row job version leaseUntil], jt_candidates = []\<rparr>"

definition queued_at :: "int \<Rightarrow> int \<Rightarrow> (job_selection, backing_ref) job_snapshot" where
  "queued_at attempt updated =
     (queued_input sample_id (episode_request 3) (from_millis 1000))\<lparr>js_attempt := attempt, js_updatedAt := from_millis updated\<rparr>"

definition torrent_claim :: "(job_selection, backing_ref) job_claim" where
  "torrent_claim = \<lparr>jc_job = queued_at 1 2000, jc_leaseVersion = 1\<rparr>"

definition torrent_job :: "(job_selection, backing_ref) job_snapshot" where
  "torrent_job = (selected_job sample_torrent None (queued_at 1 2000))\<lparr>js_updatedAt := from_millis 2500\<rparr>"

lemma torrent_submitted:
  "Submit (server_checks ToLower) False Executed sample_id (episode_request 3) (from_millis 1000) \<lparr>jt_jobs = [], jt_candidates = []\<rparr>
    = (Inr (queued_at 0 1000, True), torrent_store (queued_at 0 1000) 0 0)"
  by (simp add: Submit_def Let_def snapshot_of_queued [OF sample_id_valid(1) _ sample_request])
    (simp add: queued_input_def new_job_row_def torrent_store_def torrent_row_def queued_at_def)

lemma torrent_claimed:
  "ClaimJob (server_checks ToLower) Executed True (from_millis 2000) (from_millis 1000) (torrent_store (queued_at 0 1000) 0 0)
    = (Inr torrent_claim, torrent_store (queued_at 1 2000) 1 3000)"
proof -
  have lease: "job_leased 2000 3000 (torrent_row (queued_at 0 1000) 0 0) = torrent_row (queued_at 1 2000) 1 3000"
    by (simp add: job_leased_def torrent_row_def queued_at_def queued_input_def)
  have "sound_job (server_checks ToLower) (queued_at 1 2000)"
    using sample_id_valid request_check.result_valid [OF sample_request]
    by (simp add: sound_job_def queued_at_def queued_input_def validateJobErrorCode_def validateOptionalPublishedObjectID_def
        validateJobStage_def validateSelectedCandidateOrdinal_def validateCreatedByJob_def)
  then have "queryJob (server_checks ToLower) (torrent_row (queued_at 1 2000) 1 3000) = Inr (queued_at 1 2000)"
    using queryJob_sound [OF _ server_checks_ok, of ToLower "torrent_row (queued_at 1 2000) 1 3000"] by (simp add: torrent_row_def)
  moreover have "due 2000 (torrent_row (queued_at 0 1000) 0 0)" by (simp add: due_def torrent_row_def queued_at_def queued_input_def)
  moreover have "NewAcquisitionJobClaim (queued_at 1 2000) 1 = Some torrent_claim"
    using sample_id_valid(2) by (simp add: NewAcquisitionJobClaim_def torrent_claim_def) (simp add: queued_at_def queued_input_def)
  moreover have "jr_leaseVersion (torrent_row (queued_at 1 2000) 1 3000) = 1" by (simp add: torrent_row_def)
  ultimately show ?thesis
    by (simp add: ClaimJob_def torrent_store_def next_due_def Let_def update_jobs_def lease)
qed

lemma torrent_selected:
  "Select (server_checks ToLower) Executed torrent_claim sample_torrent (from_millis 2500) (torrent_store (queued_at 1 2000) 1 3000)
    = (Inr (), torrent_store torrent_job 1 0)"
proof -
  have "ck_selection (server_checks ToLower) sample_torrent = Some sample_torrent"
    using sample_torrent_checked by (simp add: server_checks_def)
  moreover have "validateTransitionInput torrent_claim (from_millis 2500)"
    using sample_id_valid(2) by (simp add: validateTransitionInput_def torrent_claim_def queued_at_def queued_input_def)
  moreover have "holds_lease torrent_claim [lit ''queued''] 2500 (torrent_row (queued_at 1 2000) 1 3000)"
    by (simp add: holds_lease_def torrent_claim_def torrent_row_def) (simp add: queued_at_def queued_input_def)
  moreover have "released 2500 (retry_at 0 \<circ> set_job (selected_job sample_torrent None)) (torrent_row (queued_at 1 2000) 1 3000)
      = torrent_row torrent_job 1 0"
    by (simp add: released_def retry_at_def set_job_def torrent_row_def torrent_job_def)
  ultimately show ?thesis
    by (simp add: Select_def transitionWithStates_def Let_def torrent_store_def update_jobs_def)
qed

lemma torrent_run:
  "\<exists>s. job_run (server_checks ToLower) (open_jobs 0) s \<and> sy_store s = torrent_store torrent_job 1 0"
proof -
  let ?ck = "server_checks ToLower"
  let ?s1 = "moved (from_millis 1000) (torrent_store (queued_at 0 1000) 0 0) (open_jobs 0)"
  let ?s2 = "(moved (from_millis 2000) (torrent_store (queued_at 1 2000) 1 3000) ?s1)\<lparr>sy_claims := torrent_claim # sy_claims ?s1\<rparr>"
  let ?s3 = "moved (from_millis 2500) (torrent_store torrent_job 1 0) ?s2"
  have step1: "job_step ?ck (open_jobs 0) ?s1"
    using submit [of "open_jobs 0" "from_millis 1000" ?ck False Executed sample_id "episode_request 3"] torrent_submitted
    by (simp add: open_jobs_def)
  have step2: "job_step ?ck ?s1 ?s2" using torrent_claimed by (intro granted) simp_all
  have step3: "job_step ?ck ?s2 ?s3"
    using select [of ?s2 "from_millis 2500" torrent_claim ?ck Executed sample_torrent] torrent_selected by simp
  from step1 have "job_run ?ck (open_jobs 0) ?s1" by (rule r_into_rtranclp)
  from this step2 have "job_run ?ck (open_jobs 0) ?s2" by (rule rtranclp.rtrancl_into_rtrancl)
  from this step3 have "job_run ?ck (open_jobs 0) ?s3" by (rule rtranclp.rtrancl_into_rtrancl)
  then show ?thesis by (intro exI [of _ ?s3]) simp
qed

theorem stored_jobs_readable_witness:
  "GetJob (server_checks ToLower) True sample_id (torrent_store torrent_job 1 0) = Inr torrent_job
   \<and> ListJobs (server_checks ToLower) True 20 (torrent_store torrent_job 1 0) = Inr [torrent_job]
   \<and> js_selection torrent_job = Some sample_torrent"
proof -
  obtain s where s: "job_run (server_checks ToLower) (open_jobs 0) s" "sy_store s = torrent_store torrent_job 1 0"
    using torrent_run by blast
  have row: "jt_jobs (torrent_store torrent_job 1 0) = [torrent_row torrent_job 1 0]" "row_id (torrent_row torrent_job 1 0) = sample_id"
    "jr_job (torrent_row torrent_job 1 0) = torrent_job" and selection: "js_selection torrent_job = Some sample_torrent"
    by (simp_all add: torrent_store_def torrent_row_def torrent_job_def queued_at_def queued_input_def selected_job_def)
  note read = stored_jobs_readable [OF order.refl s(1), of 20, unfolded s(2) row(1)]
  obtain rows where rows: "mset rows = {#torrent_row torrent_job 1 0#}"
    "ListJobs (server_checks ToLower) True 20 (torrent_store torrent_job 1 0) = Inr (map jr_job (take (nat 20) rows))"
    using read by auto
  then have "rows = [torrent_row torrent_job 1 0]" by simp
  moreover have "GetJob (server_checks ToLower) True sample_id (torrent_store torrent_job 1 0) = Inr torrent_job"
    using read row(2,3) by simp
  ultimately show ?thesis using rows(2) row(3) selection by simp
qed

end
