(* ===== verification/Server_Candidates.thy ===== *)
theory Server_Candidates
  imports Server_Setup "HOL-Library.Sublist" "HOL-Library.List_Lexorder" "HOL-Library.Product_Lexorder"
begin

text \<open>
  The choice of a file: \<open>SelectCandidate\<close> of \<open>internal/service/acquisition/service.go\<close> chooses among the files of a prepared object,
  and \<open>internal/acquisition/result.go\<close> binds the chosen file to the request. The tables of the Unicode standard
  (\<open>unicode.IsLetter\<close>, \<open>unicode.IsNumber\<close>, \<open>unicode.ToLower\<close>) are an argument.
\<close>

section \<open>Providers\<close>

text \<open>What \<open>errors.Is\<close> finds in a failure of a provider.\<close>

datatype failure = PUnauthorized | PNotFound | PAmbiguous | PStalled | PNotReady | PUnplayable | PContext

type_synonym 'a provided = "failure list + 'a"

section \<open>Comparing names\<close>

record unicode =
  uc_word :: "rune \<Rightarrow> bool"
  uc_lower :: "rune \<Rightarrow> rune"

text \<open>\<open>strings.Fields\<close>: the words between white space.\<close>

function fields :: "gostring \<Rightarrow> gostring list" where
  "fields [] = []"
| "fields (c # s) =
     (if is_space_rune c then fields s
      else (c # takeWhile (\<lambda>r. \<not> is_space_rune r) s) # fields (dropWhile (\<lambda>r. \<not> is_space_rune r) s))"
  by pat_completeness auto

termination
  by (relation "measure length") (simp_all add: le_imp_less_Suc length_dropWhile_le)

fun join_words :: "gostring list \<Rightarrow> gostring" where
  "join_words [] = []"
| "join_words [w] = w"
| "join_words (w # ws) = w @ 32 # join_words ws"

definition comparison_words :: "unicode \<Rightarrow> gostring \<Rightarrow> gostring list" where
  "comparison_words u value = fields (map (\<lambda>c. if uc_word u c then uc_lower u c else 32) value)"

definition normalizeComparisonText :: "unicode \<Rightarrow> gostring \<Rightarrow> gostring" where
  "normalizeComparisonText u value = join_words (comparison_words u value)"

definition containsComparisonPhrase :: "unicode \<Rightarrow> gostring \<Rightarrow> gostring \<Rightarrow> bool" where
  "containsComparisonPhrase u value phrase =
     (let haystack = 32 # normalizeComparisonText u value @ [32]; needle = 32 # normalizeComparisonText u phrase @ [32]
      in needle \<noteq> [32, 32] \<and> sublist needle haystack)"

section \<open>Choosing\<close>

text \<open>The order of the sort: larger files first, then the name in lower case, then the object.\<close>

definition candidate_order :: "unicode \<Rightarrow> go_candidate \<Rightarrow> int \<times> gostring \<times> gostring" where
  "candidate_order u c = (- cd_size c, map (uc_lower u) (cd_name c), cd_objectId c)"

definition episode_token :: "search_request \<Rightarrow> gostring" where
  "episode_token request = lit ''s'' @ decimal02 (sr_season request) @ lit ''e'' @ decimal02 (sr_episode request)"

definition matching_candidates :: "unicode \<Rightarrow> search_request \<Rightarrow> go_candidate list \<Rightarrow> go_candidate list" where
  "matching_candidates u request candidates =
     (if sr_mediaType request = lit ''episode''
      then filter (\<lambda>c. containsComparisonPhrase u (cd_name c) (episode_token request)) candidates
      else let named = filter (\<lambda>c. containsComparisonPhrase u (cd_name c) (sr_title request)) candidates
           in if named = [] then candidates else named)"

definition SelectCandidate :: "unicode \<Rightarrow> search_request \<Rightarrow> go_candidate list \<Rightarrow> go_candidate option" where
  "SelectCandidate u request candidates =
     (case matching_candidates u request candidates of
        [] \<Rightarrow> None | c # cs \<Rightarrow> Some (arg_min_list (candidate_order u) (c # cs)))"

section \<open>Acquired media\<close>

definition NewRangeAcquiredMedia :: "search_request \<Rightarrow> go_candidate \<Rightarrow> acquired_media option" where
  "NewRangeAcquiredMedia request candidate =
     (case validateSearchRequest request of
        Inl _ \<Rightarrow> None
      | Inr validatedRequest \<Rightarrow>
          (case NewProviderMediaCandidate (candidate_backing candidate) (cd_name candidate) (cd_size candidate) of
             Inl _ \<Rightarrow> None
           | Inr validatedCandidate \<Rightarrow>
               if cd_extension candidate \<noteq> [] \<and> cd_extension candidate \<noteq> cd_extension validatedCandidate then None
               else Some \<lparr>am_request = validatedRequest, am_candidate = validatedCandidate\<rparr>))"

text \<open>The flag tells whether the release is a torrent with provider, source and hash.\<close>

definition NewAcquiredMedia :: "search_request \<Rightarrow> bool \<Rightarrow> go_candidate \<Rightarrow> acquired_media option" where
  "NewAcquiredMedia request hasRelease candidate =
     (if isl (validateSearchRequest request) then None
      else if \<not> hasRelease then None
      else NewRangeAcquiredMedia request candidate)"

lemma acquired_request:
  assumes "wf_request request"
  shows "NewRangeAcquiredMedia request candidate = Some media \<Longrightarrow> am_request media = request"
    "NewAcquiredMedia request hasRelease candidate = Some media \<Longrightarrow> am_request media = request"
  using request_check.valid_fixed [OF assms]
  by (auto simp: NewRangeAcquiredMedia_def NewAcquiredMedia_def split: sum.splits if_splits)

section \<open>Phrases are words\<close>

text \<open>Words and a space after each of them.\<close>

definition spaced :: "gostring list \<Rightarrow> gostring" where
  "spaced ws = concat (map (\<lambda>w. w @ [32]) ws)"

lemma spaced_simps [simp]: "spaced [] = []" "spaced (w # ws) = w @ 32 # spaced ws"
  by (simp_all add: spaced_def)

lemma join_spaced: "ws \<noteq> [] \<Longrightarrow> join_words ws @ [32] = spaced ws"
  by (induction ws rule: join_words.induct) simp_all

lemma spaced_append: "spaced (ws @ vs) = spaced ws @ spaced vs"
  by (simp add: spaced_def)

lemma fields_words: "w \<in> set (fields s) \<Longrightarrow> w \<noteq> [] \<and> 32 \<notin> set w"
proof (induction s rule: fields.induct)
  case (2 c s)
  have "is_space_rune 32" by (simp add: is_space_rune_def)
  with 2 show ?case by (auto split: if_splits dest: set_takeWhileD)
qed simp

lemma split_at_space: "a @ 32 # b = c @ 32 # d \<Longrightarrow> 32 \<notin> set a \<Longrightarrow> 32 \<notin> set c \<Longrightarrow> a = c \<and> b = (d :: gostring)"
  by (auto simp: append_eq_append_conv2 append_eq_Cons_conv Cons_eq_append_conv)

lemma spaced_prefix:
  assumes "\<forall>w \<in> set ws \<union> set vs. 32 \<notin> set w" "spaced vs = spaced ws @ rest"
  shows "\<exists>more. vs = ws @ more \<and> rest = spaced more"
  using assms
proof (induction ws arbitrary: vs)
  case (Cons w ws)
  then obtain v us where v: "vs = v # us" by (cases vs) auto
  with Cons.prems have "v @ 32 # spaced us = w @ 32 # (spaced ws @ rest)" by simp
  with Cons.prems(1) v have "v = w \<and> spaced us = spaced ws @ rest" by (intro split_at_space) auto
  with Cons v show ?case by auto
qed simp

lemma spaced_sublist:
  assumes "\<forall>w \<in> set ws \<union> set vs. 32 \<notin> set w" "32 # spaced vs = before @ (32 # spaced ws) @ rest"
  shows "sublist ws vs"
  using assms
proof (induction vs arbitrary: before)
  case Nil
  then show ?case by (cases ws) (auto simp: Cons_eq_append_conv)
next
  case (Cons v vs)
  show ?case
  proof (cases before)
    case Nil
    with Cons.prems obtain more where "v # vs = ws @ more" using spaced_prefix [of ws "v # vs" rest] by auto
    then show ?thesis by (metis prefix_def prefix_imp_sublist)
  next
    case (Cons b xs)
    with Cons.prems(2) have eq: "v @ (32 # spaced vs) = xs @ (32 # (spaced ws @ rest))" by simp
    have v: "32 \<notin> set v" using Cons.prems(1) by simp
    from eq obtain us where "v @ us = xs \<and> 32 # spaced vs = us @ 32 # (spaced ws @ rest)
      \<or> v = xs @ us \<and> us @ 32 # spaced vs = 32 # (spaced ws @ rest)"
      by (auto simp: append_eq_append_conv2)
    then have "\<exists>us. 32 # spaced vs = us @ (32 # spaced ws) @ rest"
    proof
      assume "v = xs @ us \<and> us @ 32 # spaced vs = 32 # (spaced ws @ rest)"
      with v show ?thesis by (cases us) auto
    qed auto
    then obtain us where "32 # spaced vs = us @ (32 # spaced ws) @ rest" ..
    with Cons.IH Cons.prems(1) have "sublist ws vs" by simp
    then show ?thesis by (simp add: sublist_Cons_right)
  qed
qed

lemma spaced_last: "\<exists>s. 32 # spaced ws = s @ [32]"
proof (cases ws rule: rev_cases)
  case (snoc us w)
  then have "32 # spaced ws = (32 # spaced us @ w) @ [32]" by (simp add: spaced_append)
  then show ?thesis ..
qed simp

lemma spaced_sublist_iff:
  assumes "\<forall>w \<in> set ws \<union> set vs. 32 \<notin> set w"
  shows "sublist (32 # spaced ws) (32 # spaced vs) \<longleftrightarrow> sublist ws vs"
proof
  assume "sublist (32 # spaced ws) (32 # spaced vs)"
  then obtain xs ys where "32 # spaced vs = xs @ (32 # spaced ws) @ ys" by (auto simp: sublist_def)
  with assms show "sublist ws vs" by (rule spaced_sublist)
next
  assume "sublist ws vs"
  then obtain xs ys where vs: "vs = xs @ ws @ ys" by (auto simp: sublist_def)
  obtain s where "32 # spaced xs = s @ [32]" using spaced_last by blast
  then have "32 # spaced vs = s @ (32 # spaced ws) @ spaced ys" by (simp add: vs spaced_append)
  then show "sublist (32 # spaced ws) (32 # spaced vs)" by (auto simp: sublist_def)
qed

text \<open>
  A phrase is contained in a text exactly when its words follow one another among the words of the text: separators, their number
  and the case of letters make no difference, and no word is matched in part.
\<close>

lemma containsComparisonPhrase_iff:
  "containsComparisonPhrase u value phrase \<longleftrightarrow>
     comparison_words u phrase \<noteq> [] \<and> sublist (comparison_words u phrase) (comparison_words u value)"
proof -
  let ?p = "comparison_words u phrase" and ?v = "comparison_words u value"
  have words: "w \<noteq> [] \<and> 32 \<notin> set w" if "w \<in> set (comparison_words u t)" for w t
    using that fields_words by (auto simp: comparison_words_def)
  show ?thesis
  proof (cases "?p = []")
    case True
    then show ?thesis by (simp add: containsComparisonPhrase_def normalizeComparisonText_def)
  next
    case p: False
    then obtain r w ps where first: "?p = (r # w) # ps" using words by (metis list.exhaust list.set_intros(1))
    then have needle: "32 # normalizeComparisonText u phrase @ [32] = 32 # spaced ?p"
      using join_spaced [OF p] by (simp add: normalizeComparisonText_def)
    moreover have "32 # spaced ?p \<noteq> [32, 32]" using first by (cases w) auto
    moreover have "sublist (32 # spaced ?p) (32 # normalizeComparisonText u value @ [32]) \<longleftrightarrow> sublist ?p ?v"
    proof (cases "?v = []")
      case True
      have "\<not> sublist (32 # spaced ?p) [32, 32]" using first by (auto dest!: sublist_length_le)
      with True p show ?thesis by (simp add: normalizeComparisonText_def)
    next
      case False
      have "\<forall>w \<in> set ?p \<union> set ?v. 32 \<notin> set w" using words by blast
      from spaced_sublist_iff [OF this] join_spaced [OF False] show ?thesis by (simp add: normalizeComparisonText_def False)
    qed
    ultimately show ?thesis using p by (simp add: containsComparisonPhrase_def)
  qed
qed

section \<open>The chosen file\<close>

text \<open>
  C8. The file that is published fits the request and is the largest that does: for an episode its name has the word of its season and
  episode, for a movie its name has the words of the title whenever some name has them, and no file that fits is larger. There
  is no choice only if no file fits.
\<close>

theorem selected_candidate_best:
  "case SelectCandidate u request candidates of
     None \<Rightarrow> (if sr_mediaType request = lit ''episode''
       then \<not> (\<exists>c \<in> set candidates. sublist (comparison_words u (episode_token request)) (comparison_words u (cd_name c))
            \<and> comparison_words u (episode_token request) \<noteq> [])
       else candidates = [])
   | Some c \<Rightarrow> c \<in> set candidates
       \<and> (let phrase = comparison_words u (if sr_mediaType request = lit ''episode'' then episode_token request else sr_title request);
              names = (\<lambda>d. phrase \<noteq> [] \<and> sublist phrase (comparison_words u (cd_name d)))
          in if sr_mediaType request = lit ''episode'' \<or> (\<exists>d \<in> set candidates. names d)
             then names c \<and> (\<forall>d \<in> set candidates. names d \<longrightarrow> cd_size d \<le> cd_size c)
             else (\<forall>d \<in> set candidates. cd_size d \<le> cd_size c))"
proof -
  let ?m = "matching_candidates u request candidates"
  have least: "c \<in> set ?m \<and> (\<forall>d \<in> set ?m. cd_size d \<le> cd_size c)" if chosen: "SelectCandidate u request candidates = Some c" for c
  proof -
    obtain x xs where m: "?m = x # xs" "c = arg_min_list (candidate_order u) (x # xs)"
      using chosen unfolding SelectCandidate_def by (cases ?m) simp_all
    then have "c \<in> set ?m" using arg_min_list_in [of "x # xs"] by simp
    moreover have "candidate_order u c \<le> candidate_order u d" if "d \<in> set ?m" for d
    proof -
      have "candidate_order u c = Min (candidate_order u ` set ?m)" unfolding m by (rule f_arg_min_list_f) simp
      with that show ?thesis by (metis Min_le finite_imageI imageI List.finite_set)
    qed
    ultimately show ?thesis by (fastforce simp: candidate_order_def less_eq_prod_def)
  qed
  have none: "SelectCandidate u request candidates = None \<longleftrightarrow> ?m = []" by (simp add: SelectCandidate_def split: list.split)
  show ?thesis
  proof (cases "SelectCandidate u request candidates")
    case None
    with none show ?thesis
      by (auto simp: matching_candidates_def Let_def containsComparisonPhrase_iff filter_empty_conv split: if_splits)
  next
    case (Some c)
    with least [OF this] show ?thesis
      by (auto simp: matching_candidates_def Let_def containsComparisonPhrase_iff filter_empty_conv split: if_splits)
  qed
qed

text \<open>ASCII letters and digits suffice for a sample.\<close>

definition ascii_text :: unicode where
  "ascii_text = \<lparr>uc_word = (\<lambda>c. 48 \<le> c \<and> c \<le> 57 \<or> 65 \<le> c \<and> c \<le> 90 \<or> 97 \<le> c \<and> c \<le> 122),
     uc_lower = (\<lambda>c. if 65 \<le> c \<and> c \<le> 90 then c + 32 else c)\<rparr>"

definition sample_file :: "string \<Rightarrow> int \<Rightarrow> go_candidate" where
  "sample_file name bytes = \<lparr>cd_provider = defaultSetupProvider, cd_objectId = lit ''7:1'', cd_name = lit name,
     cd_extension = lit ''.mkv'', cd_size = bytes\<rparr>"

definition sample_files :: "go_candidate list" where
  "sample_files = [sample_file ''Who.S02E01.mkv'' 4096, sample_file ''Who.S02E10.mkv'' 9000, sample_file ''who s02e01 (uhd).mkv'' 8192]"

definition sample_episode :: search_request where
  "sample_episode = \<lparr>sr_mediaType = lit ''episode'', sr_title = lit ''Who'', sr_year = 2005, sr_season = 2, sr_episode = 1\<rparr>"

lemma sample_words:
  "comparison_words ascii_text (lit ''Who.S02E01.mkv'') = map lit [''who'', ''s02e01'', ''mkv'']"
  "comparison_words ascii_text (lit ''Who.S02E10.mkv'') = map lit [''who'', ''s02e10'', ''mkv'']"
  "comparison_words ascii_text (lit ''who s02e01 (uhd).mkv'') = map lit [''who'', ''s02e01'', ''uhd'', ''mkv'']"
  "comparison_words ascii_text (episode_token sample_episode) = [lit ''s02e01'']"
  by (simp_all add: comparison_words_def ascii_text_def lit_def is_space_rune_def episode_token_def sample_episode_def decimal02_def
      decimal_digits.simps Let_def)

lemma sublist_single: "sublist [x] ys \<longleftrightarrow> x \<in> set ys"
  by (auto simp: sublist_def in_set_conv_decomp)

lemma sample_choice: "SelectCandidate ascii_text sample_episode sample_files = Some (sample_file ''who s02e01 (uhd).mkv'' 8192)"
proof -
  have "matching_candidates ascii_text sample_episode sample_files
      = [sample_file ''Who.S02E01.mkv'' 4096, sample_file ''who s02e01 (uhd).mkv'' 8192]"
    by (simp add: matching_candidates_def sample_files_def containsComparisonPhrase_iff sample_file_def sample_words
        sublist_single) (simp add: sample_episode_def lit_def)
  then show ?thesis by (simp add: SelectCandidate_def candidate_order_def sample_file_def)
qed

theorem selected_candidate_best_witness:
  "comparison_words ascii_text (episode_token sample_episode) \<noteq> []
   \<and> sublist (comparison_words ascii_text (episode_token sample_episode)) (comparison_words ascii_text (lit ''who s02e01 (uhd).mkv''))"
proof -
  have "sr_mediaType sample_episode = lit ''episode''" by (simp add: sample_episode_def)
  with selected_candidate_best [where u = ascii_text and request = sample_episode and candidates = sample_files] show ?thesis
    by (simp add: sample_choice Let_def) (simp add: sample_file_def)
qed

end
