(* ===== verification/Server_JobWorker.thy ===== *)
theory Server_JobWorker
  imports Server_Selections Server_Publication Server_Candidates
begin

text \<open>
  The worker of background jobs: \<open>internal/service/acquisitionjob/worker.go\<close>. It leases one job at a time and advances it by at
  most one transition: a plan of release candidates for a queued job, a provider object for a selected one, and the publication of
  a prepared one. The store of jobs, the choice of a file and the setup service are modelled; the answers of the providers, the clock and the
  database are inputs, and so are the parts of releases and selections that the worker looks at.
\<close>

section \<open>Options\<close>

record job_worker_options =
  jo_leaseDuration :: int
  jo_operationTimeout :: int
  jo_idleInterval :: int
  jo_preparingPollInterval :: int
  jo_retryInterval :: int

definition durableTransitionTimeout :: int where
  "durableTransitionTimeout = 5 * 10 ^ 9"

definition maximumCacheProbeCandidates :: nat where
  "maximumCacheProbeCandidates = 100"

definition NewJobWorker :: "job_worker_options \<Rightarrow> job_worker_options option" where
  "NewJobWorker options =
     (if list_ex (\<lambda>d. d \<le> 0) [jo_leaseDuration options, jo_operationTimeout options, jo_idleInterval options,
           jo_preparingPollInterval options, jo_retryInterval options] then None
      else if jo_leaseDuration options \<le> jo_operationTimeout options + durableTransitionTimeout then None
      else Some options)"

section \<open>Inputs\<close>

text \<open>What the worker reads from releases and selections, and how it makes selections.\<close>

record ('sel, 'rel, 'cand) selections =
  sl_isRange :: "'sel \<Rightarrow> bool"
  sl_isTorrent :: "'sel \<Rightarrow> bool"
  sl_infoHash :: "'sel \<Rightarrow> gostring"
  sl_rangeCandidate :: "'sel \<Rightarrow> 'cand option"
  sl_hasRelease :: "'sel \<Rightarrow> bool"
  sl_newTorrent :: "'rel \<Rightarrow> 'sel option"
  sl_newRange :: "'cand \<Rightarrow> 'sel option"
  rl_isTorrent :: "'rel \<Rightarrow> bool"
  rl_infoHash :: "'rel \<Rightarrow> gostring"

record provider_set =
  ps_complete :: bool
  ps_directResolver :: bool
  ps_rangePreparer :: bool

record inspection =
  in_error :: "failure list option"
  in_progress :: int
  in_candidates :: "go_candidate list"

record ('obj, 'rel, 'cand) job_inputs =
  ji_claimNow :: instant
  ji_claimOut :: db_outcome
  ji_versionReads :: bool
  ji_providers :: "provider_set provided"
  ji_search :: "failure list option \<times> 'rel list"
  ji_direct :: "failure list option \<times> 'cand list"
  ji_cached :: "'rel list provided"
  ji_rangePrepare :: "'obj provided"
  ji_find :: "'obj provided"
  ji_materialize :: "unit provided"
  ji_create :: "'obj provided"
  ji_reconcile :: "'obj provided"
  ji_inspection :: inspection
  ji_unicode :: unicode
  ji_deletes :: bool
  ji_publishLoads :: bool
  ji_publishFaults :: commit_faults
  ji_publishContext :: bool
  ji_commitNow :: instant
  ji_commitOut :: db_outcome
  ji_ended :: bool

datatype job_worker_error = JClaim queue_error | JContext | JUnsupported | JCommit queue_error

type_synonym job_state = gostring

section \<open>Transitions\<close>

text \<open>\<open>commit\<close> around one transition that reports a state.\<close>

definition commit_transition :: "job_state \<Rightarrow> (queue_error + 'a) \<times> 's \<Rightarrow> (job_worker_error + job_state) \<times> 's" where
  "commit_transition state transition =
     (case transition of (Inl e, st) \<Rightarrow> (Inl (JCommit e), st) | (Inr _, st) \<Rightarrow> (Inr state, st))"

definition fail_job ::
  "('sel, 'obj) job_checks \<Rightarrow> ('obj, 'rel, 'cand) job_inputs \<Rightarrow> ('sel, 'obj) job_claim \<Rightarrow> gostring \<Rightarrow> bool \<Rightarrow> ('sel, 'obj) job_store
   \<Rightarrow> (job_worker_error + job_state) \<times> ('sel, 'obj) job_store" where
  "fail_job ck i claim code manualReview st =
     commit_transition (if manualReview then lit ''manual_review'' else lit ''failed'')
       (Fail ck (ji_commitOut i) claim code manualReview (ji_commitNow i) st)"

definition deferJobWithProgress ::
  "('obj, 'rel, 'cand) job_inputs \<Rightarrow> ('sel, 'obj) job_claim \<Rightarrow> gostring \<Rightarrow> int \<Rightarrow> int \<Rightarrow> ('sel, 'obj) job_store
   \<Rightarrow> (job_worker_error + job_state) \<times> ('sel, 'obj) job_store" where
  "deferJobWithProgress i claim code delay progress st =
     commit_transition (js_state (jc_job claim))
       (DeferAcquisition (ji_commitOut i) claim (ji_commitNow i + delay) code progress (ji_commitNow i) st)"

definition deferProviderFailure ::
  "job_worker_options \<Rightarrow> ('obj, 'rel, 'cand) job_inputs \<Rightarrow> ('sel, 'obj) job_claim \<Rightarrow> failure list \<Rightarrow> ('sel, 'obj) job_store
   \<Rightarrow> (job_worker_error + job_state) \<times> ('sel, 'obj) job_store" where
  "deferProviderFailure options i claim cause st =
     (if PContext \<in> set cause \<and> ji_ended i then (Inl JContext, st)
      else deferJobWithProgress i claim
             (if PUnauthorized \<in> set cause then lit ''unauthorized'' else lit ''provider_unavailable'')
             (jo_retryInterval options) (js_progress (jc_job claim)) st)"

definition attach_object ::
  "('sel, 'obj) job_checks \<Rightarrow> ('obj, 'rel, 'cand) job_inputs \<Rightarrow> ('sel, 'obj) job_claim \<Rightarrow> 'obj \<Rightarrow> bool \<Rightarrow> ('sel, 'obj) job_store
   \<Rightarrow> (job_worker_error + job_state) \<times> ('sel, 'obj) job_store" where
  "attach_object ck i claim created createdByJob st =
     commit_transition (lit ''preparing'') (AttachPrepared ck (ji_commitOut i) claim created createdByJob (ji_commitNow i) st)"

definition abandonCandidate ::
  "('sel, 'obj) job_checks \<Rightarrow> ('obj, 'rel, 'cand) job_inputs \<Rightarrow> ('sel, 'obj) job_claim \<Rightarrow> gostring \<Rightarrow> gostring \<Rightarrow> bool
   \<Rightarrow> ('sel, 'obj) job_store \<Rightarrow> (job_worker_error + job_state) \<times> ('sel, 'obj) job_store" where
  "abandonCandidate ck i claim outcome terminalCode alreadyMissing st =
     (if js_createdByJob (jc_job claim) \<and> \<not> alreadyMissing \<and> \<not> ji_deletes i
      then fail_job ck i claim (lit ''ambiguous_mutation'') True st
      else case Advance ck (ji_commitOut i) claim outcome terminalCode (ji_commitNow i) st of
        (Inl e, st') \<Rightarrow> (Inl (JCommit e), st')
      | (Inr moreLeft, st') \<Rightarrow> (Inr (if moreLeft then lit ''selected'' else lit ''failed''), st'))"

text \<open>The choice that recurs: a planned candidate is abandoned, a job without a plan fails.\<close>

definition abandon_or_fail ::
  "('sel, 'obj) job_checks \<Rightarrow> ('obj, 'rel, 'cand) job_inputs \<Rightarrow> ('sel, 'obj) job_claim \<Rightarrow> gostring \<Rightarrow> gostring \<Rightarrow> bool \<Rightarrow> gostring \<Rightarrow> bool
   \<Rightarrow> ('sel, 'obj) job_store \<Rightarrow> (job_worker_error + job_state) \<times> ('sel, 'obj) job_store" where
  "abandon_or_fail ck i claim outcome terminalCode alreadyMissing code manualReview st =
     (if js_ordinal (jc_job claim) \<noteq> None then abandonCandidate ck i claim outcome terminalCode alreadyMissing st
      else fail_job ck i claim code manualReview st)"

section \<open>Queued jobs\<close>

text \<open>The releases that are probed: torrents with a hash, each hash once, at most a hundred.\<close>

fun eligible_releases :: "('sel, 'rel, 'cand) selections \<Rightarrow> gostring list \<Rightarrow> 'rel list \<Rightarrow> 'rel list" where
  "eligible_releases sl seen [] = []"
| "eligible_releases sl seen (r # rs) =
     (if \<not> rl_isTorrent sl r \<or> rl_infoHash sl r = [] then eligible_releases sl seen rs
      else if rl_infoHash sl r \<in> set seen then eligible_releases sl seen rs
      else r # eligible_releases sl (rl_infoHash sl r # seen) rs)"

definition partitionCached :: "('sel, 'rel, 'cand) selections \<Rightarrow> 'rel list \<Rightarrow> 'rel list \<Rightarrow> 'rel list \<times> 'rel list" where
  "partitionCached sl eligible cached =
     (let hashes = rl_infoHash sl ` set cached
      in (filter (\<lambda>r. rl_infoHash sl r \<in> hashes) eligible, filter (\<lambda>r. rl_infoHash sl r \<notin> hashes) eligible))"

definition appendJobCandidate :: "('sel, 'obj) job_checks \<Rightarrow> 'sel job_candidate list \<Rightarrow> 'sel \<Rightarrow> 'sel job_candidate list" where
  "appendJobCandidate ck candidates selection =
     (let outcome = (if candidates = [] then lit ''selected'' else lit ''pending'') in
      case NewJobCandidate ck selection (int (length candidates)) outcome of
        None \<Rightarrow> candidates
      | Some candidate \<Rightarrow> candidates @ [candidate])"

text \<open>One of the three loops of \<open>resolve\<close>: selections are added until the limit is reached.\<close>

fun add_candidates ::
  "('sel, 'obj) job_checks \<Rightarrow> int \<Rightarrow> ('a \<Rightarrow> 'sel option) \<Rightarrow> 'a list \<Rightarrow> 'sel job_candidate list \<Rightarrow> 'sel job_candidate list" where
  "add_candidates ck limit new_selection [] candidates = candidates"
| "add_candidates ck limit new_selection (x # xs) candidates =
     (if int (length candidates) = limit then candidates
      else case new_selection x of
        None \<Rightarrow> add_candidates ck limit new_selection xs candidates
      | Some selection \<Rightarrow> add_candidates ck limit new_selection xs (appendJobCandidate ck candidates selection))"

definition plan_candidates ::
  "('sel, 'obj) job_checks \<Rightarrow> ('sel, 'rel, 'cand) selections \<Rightarrow> 'rel list \<Rightarrow> 'cand list \<Rightarrow> 'rel list \<Rightarrow> 'sel job_candidate list" where
  "plan_candidates ck sl cachedReleases direct uncachedReleases =
     (let cachedLimit = (if direct \<noteq> [] then maximumJobCandidates - 1 else maximumJobCandidates);
          fromCache = add_candidates ck cachedLimit (sl_newTorrent sl) cachedReleases [];
          fromDirect = add_candidates ck maximumJobCandidates (sl_newRange sl) direct fromCache
      in add_candidates ck maximumJobCandidates (sl_newTorrent sl) uncachedReleases fromDirect)"

definition provided_list :: "'a list provided \<Rightarrow> 'a list" where
  "provided_list p = (case p of Inl _ \<Rightarrow> [] | Inr xs \<Rightarrow> xs)"

definition resolve ::
  "('sel, 'obj) job_checks \<Rightarrow> ('sel, 'rel, 'cand) selections \<Rightarrow> job_worker_options \<Rightarrow> ('obj, 'rel, 'cand) job_inputs \<Rightarrow> provider_set
   \<Rightarrow> ('sel, 'obj) job_claim \<Rightarrow> ('sel, 'obj) job_store \<Rightarrow> (job_worker_error + job_state) \<times> ('sel, 'obj) job_store" where
  "resolve ck sl options i providers claim st =
     (let (searchErr, releases) = ji_search i;
         eligible = take maximumCacheProbeCandidates (eligible_releases sl [] releases);
         (directErr, direct) = (if ps_directResolver providers then ji_direct i else (None, [])) in
      if searchErr \<noteq> None \<and> (directErr \<noteq> None \<or> direct = []) then deferProviderFailure options i claim (the searchErr) st
      else let cacheAnswer = (if eligible \<noteq> [] then ji_cached i else Inr []) in
        if isl cacheAnswer \<and> direct = [] then deferProviderFailure options i claim (projl cacheAnswer) st
        else
          let (cachedReleases, uncachedReleases) = partitionCached sl eligible (provided_list cacheAnswer);
              candidates = plan_candidates ck sl cachedReleases direct uncachedReleases in
          if candidates = [] then
            (case directErr of Some err \<Rightarrow> deferProviderFailure options i claim err st
             | None \<Rightarrow> fail_job ck i claim (lit ''no_release'') False st)
          else commit_transition (lit ''selected'') (Plan ck (ji_commitOut i) claim candidates (ji_commitNow i) st))"

section \<open>Selected jobs\<close>

definition prepare ::
  "('sel, 'obj) job_checks \<Rightarrow> ('sel, 'rel, 'cand) selections \<Rightarrow> job_worker_options \<Rightarrow> ('obj, 'rel, 'cand) job_inputs
   \<Rightarrow> ('sel, 'obj) job_claim \<Rightarrow> 'sel \<Rightarrow> ('sel, 'obj) job_store \<Rightarrow> (job_worker_error + job_state) \<times> ('sel, 'obj) job_store" where
  "prepare ck sl options i claim selection st =
     (if sl_isRange sl selection then
        (case sl_rangeCandidate sl selection of
           None \<Rightarrow> fail_job ck i claim (lit ''no_playable_media'') False st
         | Some _ \<Rightarrow>
             (case ji_rangePrepare i of
                Inr created \<Rightarrow> attach_object ck i claim created False st
              | Inl err \<Rightarrow>
                  if PNotFound \<in> set err \<or> PUnplayable \<in> set err then
                    abandon_or_fail ck i claim (lit ''missing'') (lit ''no_playable_media'') True (lit ''no_playable_media'') False st
                  else deferProviderFailure options i claim err st))
      else if \<not> sl_isTorrent sl selection then fail_job ck i claim (lit ''no_release'') False st
      else case ji_find i of
        Inr created \<Rightarrow> attach_object ck i claim created False st
      | Inl err \<Rightarrow>
          if PAmbiguous \<in> set err then fail_job ck i claim (lit ''ambiguous_mutation'') True st
          else if PUnauthorized \<in> set err then deferProviderFailure options i claim err st
          else if PNotFound \<notin> set err then deferProviderFailure options i claim err st
          else case ji_search i of
            (Some searchErr, _) \<Rightarrow> deferProviderFailure options i claim searchErr st
          | (None, releases) \<Rightarrow>
              (case find (\<lambda>r. rl_isTorrent sl r \<and> rl_infoHash sl r = sl_infoHash sl selection) releases of
                 None \<Rightarrow>
                   abandon_or_fail ck i claim (lit ''missing'') (lit ''materialization_failed'') True (lit ''materialization_failed'') False st
               | Some ephemeral \<Rightarrow>
                   if rl_infoHash sl ephemeral = [] then
                     abandon_or_fail ck i claim (lit ''missing'') (lit ''materialization_failed'') True (lit ''materialization_failed'') False st
                   else (case ji_materialize i of
                     Inl materializeErr \<Rightarrow> deferProviderFailure options i claim materializeErr st
                   | Inr _ \<Rightarrow>
                       (case ji_create i of
                          Inr created \<Rightarrow> attach_object ck i claim created True st
                        | Inl createErr \<Rightarrow>
                            if PUnauthorized \<in> set createErr then deferProviderFailure options i claim createErr st
                            else (case ji_reconcile i of
                              Inr reconciled \<Rightarrow> attach_object ck i claim reconciled True st
                            | Inl _ \<Rightarrow> fail_job ck i claim (lit ''ambiguous_mutation'') True st)))))"

section \<open>Preparing jobs\<close>

text \<open>The end that \<open>publish\<close> and \<open>publishRange\<close> share: the media is published, then the job is completed.\<close>

definition publish_media ::
  "('sel, 'obj) job_checks \<Rightarrow> job_worker_options \<Rightarrow> ('obj, 'rel, 'cand) job_inputs \<Rightarrow> ('sel, 'obj) job_claim \<Rightarrow> acquired_media
   \<Rightarrow> ('sel, 'obj) job_store \<Rightarrow> service \<Rightarrow> (job_worker_error + job_state) \<times> ('sel, 'obj) job_store \<times> service" where
  "publish_media ck options i claim media st s =
     (case PublishAcquired (ji_publishLoads i) (ji_publishFaults i) media s of
        (Inl e, s') \<Rightarrow>
          (case deferProviderFailure options i claim ((if e = ErrUnauthorized then [PUnauthorized] else [])
                @ (if ji_publishContext i then [PContext] else [])) st of (r, st') \<Rightarrow> (r, st', s'))
      | (Inr _, s') \<Rightarrow>
          (case commit_transition (lit ''succeeded'')
                (Succeed ck (ji_commitOut i) claim (cd_objectId (am_candidate media)) (ji_commitNow i) st) of (r, st') \<Rightarrow> (r, st', s')))"

definition publish ::
  "('sel, 'obj) job_checks \<Rightarrow> job_worker_options \<Rightarrow> ('obj, 'rel, 'cand) job_inputs
   \<Rightarrow> ('sel, 'obj) job_claim \<Rightarrow> bool \<Rightarrow> ('sel, 'obj) job_store \<Rightarrow> service
   \<Rightarrow> (job_worker_error + job_state) \<times> ('sel, 'obj) job_store \<times> service" where
  "publish ck options i claim hasRelease st s =
     (let inspected = ji_inspection i;
          keep = (\<lambda>(r, st'). (r, st', s));
          unplayable = abandon_or_fail ck i claim (lit ''unplayable'') (lit ''no_playable_media'') False (lit ''no_playable_media'') False st
      in case in_error inspected of
        Some err \<Rightarrow> keep
          (if PStalled \<in> set err then abandon_or_fail ck i claim (lit ''stalled'') (lit ''stalled'') False (lit ''stalled'') False st
           else if PNotReady \<in> set err then deferJobWithProgress i claim [] (jo_preparingPollInterval options)
                  (max (js_progress (jc_job claim)) (in_progress inspected)) st
           else if PNotFound \<in> set err then
             abandon_or_fail ck i claim (lit ''missing'') (lit ''no_playable_media'') True (lit ''ambiguous_mutation'') True st
           else if PAmbiguous \<in> set err then fail_job ck i claim (lit ''ambiguous_mutation'') True st
           else deferProviderFailure options i claim err st)
      | None \<Rightarrow>
          (case SelectCandidate (ji_unicode i) (js_request (jc_job claim)) (in_candidates inspected) of
             None \<Rightarrow> keep unplayable
           | Some selected \<Rightarrow>
               (case NewAcquiredMedia (js_request (jc_job claim)) hasRelease selected of
                  None \<Rightarrow> keep unplayable
                | Some media \<Rightarrow> publish_media ck options i claim media st s)))"

definition publishRange ::
  "('sel, 'obj) job_checks \<Rightarrow> job_worker_options \<Rightarrow> ('obj, 'rel, 'cand) job_inputs
   \<Rightarrow> ('sel, 'obj) job_claim \<Rightarrow> ('sel, 'obj) job_store \<Rightarrow> service
   \<Rightarrow> (job_worker_error + job_state) \<times> ('sel, 'obj) job_store \<times> service" where
  "publishRange ck options i claim st s =
     (let inspected = ji_inspection i;
          keep = (\<lambda>(r, st'). (r, st', s));
          unplayable = abandon_or_fail ck i claim (lit ''unplayable'') (lit ''no_playable_media'') False (lit ''no_playable_media'') False st
      in case in_error inspected of
        Some err \<Rightarrow> keep
          (if PNotReady \<in> set err then deferJobWithProgress i claim [] (jo_preparingPollInterval options)
                  (max (js_progress (jc_job claim)) (in_progress inspected)) st
           else if PNotFound \<in> set err then
             abandon_or_fail ck i claim (lit ''missing'') (lit ''no_playable_media'') True (lit ''no_playable_media'') False st
           else if PUnplayable \<in> set err then
             abandon_or_fail ck i claim (lit ''unplayable'') (lit ''no_playable_media'') True (lit ''no_playable_media'') False st
           else deferProviderFailure options i claim err st)
      | None \<Rightarrow>
          (case SelectCandidate (ji_unicode i) (js_request (jc_job claim)) (in_candidates inspected) of
             None \<Rightarrow> keep unplayable
           | Some selected \<Rightarrow>
               (case NewRangeAcquiredMedia (js_request (jc_job claim)) selected of
                  None \<Rightarrow> keep unplayable
                | Some media \<Rightarrow> publish_media ck options i claim media st s)))"

section \<open>One job\<close>

definition dispatch ::
  "('sel, 'obj) job_checks \<Rightarrow> ('sel, 'rel, 'cand) selections \<Rightarrow> job_worker_options \<Rightarrow> ('obj, 'rel, 'cand) job_inputs
   \<Rightarrow> ('sel, 'obj) job_claim \<Rightarrow> ('sel, 'obj) job_store \<Rightarrow> service
   \<Rightarrow> (job_worker_error + job_state) \<times> ('sel, 'obj) job_store \<times> service" where
  "dispatch ck sl options i claim st s =
     (let keep = (\<lambda>(r, st'). (r, st', s)); state = js_state (jc_job claim); selection = js_selection (jc_job claim) in
      case ji_providers i of
        Inl err \<Rightarrow> keep (deferProviderFailure options i claim err st)
      | Inr providers \<Rightarrow>
          if \<not> ps_complete providers then keep (deferProviderFailure options i claim [] st)
          else if ps_directResolver providers \<noteq> ps_rangePreparer providers then keep (deferProviderFailure options i claim [] st)
          else if state \<noteq> lit ''queued'' \<and> (case selection of None \<Rightarrow> False | Some x \<Rightarrow> sl_isRange sl x)
              \<and> \<not> ps_rangePreparer providers
          then keep (deferProviderFailure options i claim [] st)
          else if state = lit ''queued'' then keep (resolve ck sl options i providers claim st)
          else if state = lit ''selected'' then
            (case selection of
               None \<Rightarrow> keep (fail_job ck i claim (lit ''no_release'') False st)
             | Some x \<Rightarrow> keep (prepare ck sl options i claim x st))
          else if state = lit ''preparing'' then
            (if (case selection of None \<Rightarrow> False | Some x \<Rightarrow> sl_isRange sl x) then publishRange ck options i claim st s
             else publish ck options i claim (case selection of None \<Rightarrow> False | Some x \<Rightarrow> sl_hasRelease sl x) st s)
          else (Inl JUnsupported, st, s))"

definition job_ProcessOne ::
  "('sel, 'obj) job_checks \<Rightarrow> ('sel, 'rel, 'cand) selections \<Rightarrow> job_worker_options \<Rightarrow> ('obj, 'rel, 'cand) job_inputs
   \<Rightarrow> ('sel, 'obj) job_store \<Rightarrow> service \<Rightarrow> (job_worker_error + job_state) \<times> ('sel, 'obj) job_store \<times> service" where
  "job_ProcessOne ck sl options i st s =
     (case ClaimJob ck (ji_claimOut i) (ji_versionReads i) (ji_claimNow i) (jo_leaseDuration options) st of
        (Inl e, st') \<Rightarrow> (Inl (JClaim e), st', s)
      | (Inr claim, st') \<Rightarrow> dispatch ck sl options i claim st' s)"

section \<open>The worker makes steps of the store\<close>

definition steps_to :: "('sel, 'obj) job_checks \<Rightarrow> ('sel, 'obj) job_system \<Rightarrow> instant \<Rightarrow> ('sel, 'obj) job_store \<Rightarrow> bool" where
  "steps_to ck s now st \<longleftrightarrow> st = sy_store s \<or> job_step ck s (moved now st s)"

lemma snd_commit [simp]: "snd (commit_transition state t) = snd t"
  by (simp add: commit_transition_def split: prod.split sum.split)

lemma commit_Inr: "commit_transition state t = (Inr state', st) \<longleftrightarrow> state' = state \<and> (\<exists>x. t = (Inr x, st))"
  by (auto simp: commit_transition_def split: prod.splits sum.splits)

text \<open>A claim of the system at a later time, and a job that has progress only while it is being prepared.\<close>

definition in_hand :: "('sel, 'obj) job_system \<Rightarrow> instant \<Rightarrow> ('sel, 'obj) job_claim \<Rightarrow> bool" where
  "in_hand s now c \<longleftrightarrow> c \<in> set (sy_claims s) \<and> sy_now s \<le> now \<and> (js_state (jc_job c) = lit ''preparing'' \<or> js_progress (jc_job c) = 0)"

lemma helper_advances:
  assumes "in_hand s (ji_commitNow i) c"
  shows "steps_to ck s (ji_commitNow i) (snd (fail_job ck i c code manualReview (sy_store s)))"
    "steps_to ck s (ji_commitNow i) (snd (deferProviderFailure options i c cause (sy_store s)))"
    "steps_to ck s (ji_commitNow i) (snd (attach_object ck i c created byJob (sy_store s)))"
    "steps_to ck s (ji_commitNow i) (snd (abandonCandidate ck i c outcome code alreadyMissing (sy_store s)))"
    "steps_to ck s (ji_commitNow i) (snd (Plan ck out c candidates (ji_commitNow i) (sy_store s)))"
    "js_state (jc_job c) = lit ''preparing''
      \<Longrightarrow> steps_to ck s (ji_commitNow i) (snd (deferJobWithProgress i c code delay progress (sy_store s)))"
proof -
  have c: "sy_now s \<le> ji_commitNow i" "c \<in> set (sy_claims s)" using assms by (simp_all add: in_hand_def)
  show f: "steps_to ck s (ji_commitNow i) (snd (fail_job ck i c code manualReview (sy_store s)))" for code manualReview
    by (simp add: fail_job_def steps_to_def job_step.fail [OF c])
  show "steps_to ck s (ji_commitNow i) (snd (attach_object ck i c created byJob (sy_store s)))"
    by (simp add: attach_object_def steps_to_def attach [OF c])
  show "steps_to ck s (ji_commitNow i) (snd (Plan ck out c candidates (ji_commitNow i) (sy_store s)))"
    by (simp add: steps_to_def plan [OF c])
  have d: "steps_to ck s (ji_commitNow i) (snd (deferJobWithProgress i c code delay progress (sy_store s)))"
    if "js_state (jc_job c) = lit ''preparing'' \<or> progress = 0" for code delay progress
    using defers [OF c that] by (simp add: deferJobWithProgress_def steps_to_def)
  then show "js_state (jc_job c) = lit ''preparing''
      \<Longrightarrow> steps_to ck s (ji_commitNow i) (snd (deferJobWithProgress i c code delay progress (sy_store s)))" by blast
  show "steps_to ck s (ji_commitNow i) (snd (deferProviderFailure options i c cause (sy_store s)))"
    using d [of "js_progress (jc_job c)"] assms by (simp add: deferProviderFailure_def in_hand_def) (simp add: steps_to_def)
  have "snd (case Advance ck (ji_commitOut i) c outcome code (ji_commitNow i) (sy_store s) of (Inl e, st') \<Rightarrow> (Inl (JCommit e), st')
      | (Inr m, st') \<Rightarrow> (Inr (if m then lit ''selected'' else lit ''failed''), st'))
    = snd (Advance ck (ji_commitOut i) c outcome code (ji_commitNow i) (sy_store s))"
    by (simp split: prod.split sum.split)
  then show "steps_to ck s (ji_commitNow i) (snd (abandonCandidate ck i c outcome code alreadyMissing (sy_store s)))"
    using f advance [OF c, of ck "ji_commitOut i" outcome code] by (simp add: abandonCandidate_def steps_to_def)
qed

lemma abandon_or_fail_advances:
  "in_hand s (ji_commitNow i) c
    \<Longrightarrow> steps_to ck s (ji_commitNow i) (snd (abandon_or_fail ck i c outcome terminal missing code manualReview (sy_store s)))"
  by (simp add: abandon_or_fail_def helper_advances)

lemma resolve_advances:
  "in_hand s (ji_commitNow i) c \<Longrightarrow> steps_to ck s (ji_commitNow i) (snd (resolve ck sl options i providers c (sy_store s)))"
  by (simp add: resolve_def Let_def helper_advances split_def split: option.split)

lemma prepare_advances:
  "in_hand s (ji_commitNow i) c \<Longrightarrow> steps_to ck s (ji_commitNow i) (snd (prepare ck sl options i c selection (sy_store s)))"
  by (simp add: prepare_def helper_advances abandon_or_fail_advances split: option.split sum.split prod.split)

lemma kept_store [simp]: "fst (snd ((\<lambda>(r, st). (r, st, s)) t)) = snd t" "snd (snd ((\<lambda>(r, st). (r, st, s)) t)) = s"
  "fst ((\<lambda>(r, st). (r, st, s)) t) = fst t"
  by (simp_all split: prod.split)

lemma publish_media_advances:
  assumes "in_hand s (ji_commitNow i) c"
  shows "steps_to ck s (ji_commitNow i) (fst (snd (publish_media ck options i c media (sy_store s) svc)))"
proof -
  have c: "sy_now s \<le> ji_commitNow i" "c \<in> set (sy_claims s)" using assms by (simp_all add: in_hand_def)
  obtain result svc' where "PublishAcquired (ji_publishLoads i) (ji_publishFaults i) media svc = (result, svc')" by force
  then show ?thesis
    using helper_advances(2) [OF assms, of ck options] succeed [OF c]
    by (cases result) (simp_all add: publish_media_def steps_to_def split_def)
qed

lemma publish_advances:
  assumes "in_hand s (ji_commitNow i) c" "js_state (jc_job c) = lit ''preparing''"
  shows "steps_to ck s (ji_commitNow i) (fst (snd (publish ck options i c hasRelease (sy_store s) svc)))"
    "steps_to ck s (ji_commitNow i) (fst (snd (publishRange ck options i c (sy_store s) svc)))"
  using assms
  by (simp_all add: publish_def publishRange_def Let_def helper_advances abandon_or_fail_advances publish_media_advances
      del: split_paired_All split: option.split)

lemma dispatch_advances:
  assumes "in_hand s (ji_commitNow i) c"
  shows "steps_to ck s (ji_commitNow i) (fst (snd (dispatch ck sl options i c (sy_store s) svc)))"
  using assms publish_advances [OF assms]
  by (simp add: dispatch_def Let_def helper_advances resolve_advances prepare_advances split: sum.split option.split)
    (simp add: steps_to_def)

section \<open>What a reported state means\<close>

text \<open>The row of the claim holds this job and is no longer leased.\<close>

definition holds_job :: "('sel, 'obj) job_store \<Rightarrow> ('sel, 'obj) job_snapshot \<Rightarrow> bool" where
  "holds_job st j \<longleftrightarrow> (\<exists>r \<in> set (jt_jobs st). jr_job r = j \<and> jr_leaseUntil r = 0)"

definition settled_job :: "('sel, 'obj) job_store \<Rightarrow> ('sel, 'obj) job_claim \<Rightarrow> job_state \<Rightarrow> bool" where
  "settled_job st c state \<longleftrightarrow> (\<exists>j. holds_job st j \<and> js_id j = js_id (jc_job c) \<and> js_request j = js_request (jc_job c) \<and> js_state j = state)"

lemma leased_job:
  assumes "system_ok ck s" "c \<in> set (sy_claims s)" "r \<in> set (jt_jobs (sy_store s))" "holds_lease c states (UnixMilli now) r" "0 \<le> now"
  shows "jr_job r = jc_job c"
proof -
  have "0 \<le> UnixMilli now" using assms(5) by (simp add: UnixMilli_def pos_imp_zdiv_nonneg_iff)
  then have "jr_leaseUntil r \<noteq> 0" "row_id r = js_id (jc_job c)" "jr_leaseVersion r = jc_leaseVersion c"
    using assms(4) by (auto simp: holds_lease_def)
  with assms(1-3) show ?thesis by (auto simp: store_ok_def claim_current_def)
qed

lemma update_holds:
  assumes "system_ok ck s" "in_hand s now c" "length (filter (holds_lease c states (UnixMilli now)) (jt_jobs (sy_store s))) = 1"
  shows "holds_job (update_jobs (holds_lease c states (UnixMilli now)) (released (UnixMilli now) (retry_at m \<circ> set_job f))
      ((sy_store s)\<lparr>jt_candidates := cs\<rparr>)) (stamped now (f (jc_job c)))"
proof -
  have now: "0 \<le> now" "c \<in> set (sy_claims s)" using assms(1,2) by (auto simp: store_ok_def in_hand_def)
  obtain r where r: "r \<in> set (jt_jobs (sy_store s))" "holds_lease c states (UnixMilli now) r"
    using assms(3) by (metis filter_empty_conv list.size(3) zero_neq_one)
  have "jr_job r = jc_job c" by (rule leased_job [OF assms(1) now(2) r now(1)])
  moreover have "released (UnixMilli now) (retry_at m \<circ> set_job f) r \<in> set (jt_jobs (update_jobs (holds_lease c states (UnixMilli now))
      (released (UnixMilli now) (retry_at m \<circ> set_job f)) ((sy_store s)\<lparr>jt_candidates := cs\<rparr>)))"
    using r by force
  ultimately show ?thesis unfolding holds_job_def by (intro bexI) simp_all
qed

lemma transition_holds:
  assumes "system_ok ck s" "in_hand s now c" "transitionWithStates out c states now (retry_at m \<circ> set_job f) (sy_store s) = (Inr x, st')"
  shows "holds_job st' (stamped now (f (jc_job c)))"
proof -
  have "length (filter (holds_lease c states (UnixMilli now)) (jt_jobs (sy_store s))) = 1"
    "st' = update_jobs (holds_lease c states (UnixMilli now)) (released (UnixMilli now) (retry_at m \<circ> set_job f))
      ((sy_store s)\<lparr>jt_candidates := jt_candidates (sy_store s)\<rparr>)"
    using assms(3) by (auto simp: transitionWithStates_def Let_def split: if_splits)
  with update_holds [OF assms(1,2), of states m f "jt_candidates (sy_store s)"] show ?thesis by simp
qed

lemma settled_by:
  assumes "holds_job st (stamped now (f (jc_job c)))" "keeps_identity f" "js_state (f (jc_job c)) = state"
  shows "settled_job st c state"
  using assms by (auto simp: settled_job_def keeps_identity_def intro!: exI [of _ "stamped now (f (jc_job c))"])

lemma update_settles:
  assumes "system_ok ck s" "in_hand s now c" "length (filter (holds_lease c states (UnixMilli now)) (jt_jobs (sy_store s))) = 1"
    "keeps_identity f" "js_state (f (jc_job c)) = state"
  shows "settled_job (update_jobs (holds_lease c states (UnixMilli now)) (released (UnixMilli now) (retry_at m \<circ> set_job f))
      ((sy_store s)\<lparr>jt_candidates := cs\<rparr>)) c state"
  by (rule settled_by [where f = f and now = now, OF _ assms(4,5)]) (rule update_holds [OF assms(1-3)])

definition identified :: "('sel, 'obj) job_checks \<Rightarrow> bool" where
  "identified ck \<longleftrightarrow> (\<forall>v. ck_selection ck v = Some v \<longrightarrow> snd (snd (ck_identity ck v)) \<noteq> [])"

lemma server_checks_identified: "identified (server_checks lower)"
  using checked_selection(3) by (fastforce simp: identified_def server_checks_def split: if_splits)

lemma Advance_result:
  assumes "Advance ck out c outcome code now st = (Inr further_one, st')"
  obtains (exhausted) cs where "\<not> further_one" "length (filter (holds_lease c [js_state (jc_job c)] (UnixMilli now)) (jt_jobs st)) = 1"
      "st' = update_jobs (holds_lease c [js_state (jc_job c)] (UnixMilli now))
        (released (UnixMilli now) (retry_at 0 \<circ> set_job (failed_job code))) (st\<lparr>jt_candidates := cs\<rparr>)"
    | (advanced) cs pending next_one where "queryCandidate ck pending = Some next_one"
        "further_one = (snd (snd (ck_identity ck (ca_selection next_one))) \<noteq> [])"
        "length (filter (holds_lease c [js_state (jc_job c)] (UnixMilli now)) (jt_jobs st)) = 1"
        "st' = update_jobs (holds_lease c [js_state (jc_job c)] (UnixMilli now)) (released (UnixMilli now)
          (retry_at 0 \<circ> set_job (without_object \<circ> selected_job (ca_selection next_one) (Some (ca_ordinal next_one)))))
          (st\<lparr>jt_candidates := cs\<rparr>)"
  using assms by (auto simp: Advance_def Let_def split: option.splits if_splits)

lemma helper_settles:
  assumes ok: "system_ok ck s" and c: "in_hand s (ji_commitNow i) c" and ck: "checks_ok ck" "identified ck"
  shows "fail_job ck i c code manualReview (sy_store s) = (Inr state, st') \<Longrightarrow> settled_job st' c state"
    "deferJobWithProgress i c code delay progress (sy_store s) = (Inr state, st') \<Longrightarrow> settled_job st' c state"
    "deferProviderFailure options i c cause (sy_store s) = (Inr state, st') \<Longrightarrow> settled_job st' c state"
    "attach_object ck i c created byJob (sy_store s) = (Inr state, st') \<Longrightarrow> settled_job st' c state"
    "commit_transition state (Plan ck out c candidates (ji_commitNow i) (sy_store s)) = (Inr state', st')
      \<Longrightarrow> state = lit ''selected'' \<Longrightarrow> settled_job st' c state'"
    "abandonCandidate ck i c outcome code alreadyMissing (sy_store s) = (Inr state, st') \<Longrightarrow> settled_job st' c state"
proof -
  show f: "fail_job ck i c code manualReview (sy_store s) = (Inr state, st') \<Longrightarrow> settled_job st' c state" for code manualReview
    unfolding fail_job_def commit_Inr
    by (auto simp: Fail_def Let_def keeps_identity_changes dest!: transition_holds [OF ok c] intro: settled_by split: sum.splits if_splits)
  show d: "deferJobWithProgress i c code delay progress (sy_store s) = (Inr state, st') \<Longrightarrow> settled_job st' c state" for code delay progress
    unfolding deferJobWithProgress_def commit_Inr
    by (auto simp: DeferAcquisition_def keeps_identity_changes dest!: transition_holds [OF ok c] intro!: settled_by split: if_splits)
  then show "deferProviderFailure options i c cause (sy_store s) = (Inr state, st') \<Longrightarrow> settled_job st' c state"
    by (auto simp: deferProviderFailure_def split: if_splits)
  show "attach_object ck i c created byJob (sy_store s) = (Inr state, st') \<Longrightarrow> settled_job st' c state"
    unfolding attach_object_def commit_Inr
    by (auto simp: AttachPrepared_def dest!: transition_holds [OF ok c] intro!: settled_by [OF _ keeps_identity_changes(3)]
        split: option.splits) (simp add: prepared_job_def)
  show "commit_transition state (Plan ck out c candidates (ji_commitNow i) (sy_store s)) = (Inr state', st')
      \<Longrightarrow> state = lit ''selected'' \<Longrightarrow> settled_job st' c state'"
    unfolding commit_Inr
    by (auto simp: Plan_def Let_def intro!: update_settles [OF ok c _ keeps_identity_changes(2)]
        split: option.splits if_splits) (simp add: without_object_def selected_job_def)
  show "abandonCandidate ck i c outcome code alreadyMissing (sy_store s) = (Inr state, st') \<Longrightarrow> settled_job st' c state"
  proof -
    assume run: "abandonCandidate ck i c outcome code alreadyMissing (sy_store s) = (Inr state, st')"
    show ?thesis
    proof (cases "js_createdByJob (jc_job c) \<and> \<not> alreadyMissing \<and> \<not> ji_deletes i")
      case True
      with run f show ?thesis by (simp add: abandonCandidate_def)
    next
      case False
      with run obtain further_one where a: "Advance ck (ji_commitOut i) c outcome code (ji_commitNow i) (sy_store s) = (Inr further_one, st')"
        "state = (if further_one then lit ''selected'' else lit ''failed'')"
        by (auto simp: abandonCandidate_def split: prod.splits sum.splits)
      from a(1) show ?thesis
      proof (cases rule: Advance_result)
        case (exhausted cs)
        then show ?thesis
          unfolding exhausted(3) a(2) by (intro update_settles [OF ok c _ keeps_identity_changes(5)]) (simp_all add: failed_job_def)
      next
        case (advanced cs pending next_one)
        have "further_one"
          using queryCandidate_Some [OF advanced(1) ck(1)] ck(2) advanced(2) by (auto simp: identified_def)
        with advanced(3) show ?thesis
          unfolding advanced(4) a(2)
          by (intro update_settles [OF ok c _ keeps_identity_changes(2)]) (simp_all add: without_object_def selected_job_def)
      qed
    qed
  qed
qed

section \<open>Success is publication\<close>

text \<open>
  What a reported state promises: the row of the job has this state and is not leased, and a job that succeeded names
  the object that the setup service now publishes for its request.
\<close>

definition reported :: "service \<Rightarrow> ('sel, 'obj) job_store \<Rightarrow> ('sel, 'obj) job_claim \<Rightarrow> job_state \<Rightarrow> bool" where
  "reported svc st c state \<longleftrightarrow> (\<exists>j. holds_job st j \<and> js_id j = js_id (jc_job c) \<and> js_request j = js_request (jc_job c)
     \<and> js_state j = state \<and> (state = lit ''succeeded'' \<longrightarrow> FindPublished True (js_request j) svc = Inr (Some (js_publishedObjectID j))))"

definition reports :: "('sel, 'obj) job_claim \<Rightarrow> (job_worker_error + job_state) \<times> ('sel, 'obj) job_store \<times> service \<Rightarrow> bool" where
  "reports c t \<longleftrightarrow> (\<forall>state. fst t = Inr state \<longrightarrow> reported (snd (snd t)) (fst (snd t)) c state)"

lemma settled_reported: "settled_job st c state \<Longrightarrow> state \<noteq> lit ''succeeded'' \<Longrightarrow> reported svc st c state"
  by (auto simp: settled_job_def reported_def)

definition in_service :: "service \<Rightarrow> (job_worker_error + job_state) \<times> ('sel, 'obj) job_store
    \<Rightarrow> (job_worker_error + job_state) \<times> ('sel, 'obj) job_store \<times> service" where
  "in_service svc t = (fst t, snd t, svc)"

lemma in_service_fold: "(\<lambda>(r, st). (r, st, svc)) = in_service svc"
  by (auto simp: in_service_def)

lemma reports_settled:
  assumes "\<And>state st'. t = (Inr state, st') \<Longrightarrow> settled_job st' c state" "\<And>state. fst t = Inr state \<Longrightarrow> state \<noteq> lit ''succeeded''"
  shows "reports c (in_service svc t)"
  using assms by (cases t) (auto simp: reports_def in_service_def intro!: settled_reported)

lemma other_words: "lit ''failed'' \<noteq> lit ''succeeded''" "lit ''manual_review'' \<noteq> lit ''succeeded''" "lit ''preparing'' \<noteq> lit ''succeeded''"
  "lit ''selected'' \<noteq> lit ''succeeded''"
  by (simp_all add: lit_def)

lemma unfinished_report:
  assumes "js_state (jc_job c) \<noteq> lit ''succeeded''"
  shows "fst (fail_job ck i c code manualReview st) = Inr state \<Longrightarrow> state \<noteq> lit ''succeeded''"
    "fst (deferJobWithProgress i c code delay progress st) = Inr state \<Longrightarrow> state \<noteq> lit ''succeeded''"
    "fst (deferProviderFailure options i c cause st) = Inr state \<Longrightarrow> state \<noteq> lit ''succeeded''"
    "fst (attach_object ck i c created byJob st) = Inr state \<Longrightarrow> state \<noteq> lit ''succeeded''"
    "fst (abandonCandidate ck i c outcome code alreadyMissing st) = Inr state \<Longrightarrow> state \<noteq> lit ''succeeded''"
    "fst (commit_transition (lit ''selected'') t) = Inr state \<Longrightarrow> state \<noteq> lit ''succeeded''"
  using assms other_words
  by (auto simp: fail_job_def deferJobWithProgress_def deferProviderFailure_def attach_object_def abandonCandidate_def
      commit_transition_def split: prod.splits sum.splits if_splits)

text \<open>A sound claim of the system, taken by the worker.\<close>

definition working :: "('sel, 'obj) job_checks \<Rightarrow> ('sel, 'obj) job_system \<Rightarrow> instant \<Rightarrow> ('sel, 'obj) job_claim \<Rightarrow> bool" where
  "working ck s now c \<longleftrightarrow> checks_ok ck \<and> identified ck \<and> system_ok ck s \<and> in_hand s now c
     \<and> sound_job ck (jc_job c) \<and> js_state (jc_job c) \<noteq> lit ''succeeded''"

lemma helper_reports:
  assumes "working ck s (ji_commitNow i) c"
  shows "reports c (in_service svc (fail_job ck i c code manualReview (sy_store s)))"
    "reports c (in_service svc (deferJobWithProgress i c code delay progress (sy_store s)))"
    "reports c (in_service svc (deferProviderFailure options i c cause (sy_store s)))"
    "reports c (in_service svc (attach_object ck i c created byJob (sy_store s)))"
    "reports c (in_service svc (abandonCandidate ck i c outcome terminal alreadyMissing (sy_store s)))"
    "reports c (in_service svc (abandon_or_fail ck i c outcome terminal alreadyMissing code manualReview (sy_store s)))"
    "reports c (in_service svc (commit_transition (lit ''selected'') (Plan ck out c candidates (ji_commitNow i) (sy_store s))))"
proof -
  have w: "system_ok ck s" "in_hand s (ji_commitNow i) c" "checks_ok ck" "identified ck" "js_state (jc_job c) \<noteq> lit ''succeeded''"
    using assms by (simp_all add: working_def)
  note settles = helper_settles [OF w(1-4)] and unfinished = unfinished_report [OF w(5)]
  show f: "reports c (in_service svc (fail_job ck i c code manualReview (sy_store s)))" for code manualReview
    by (rule reports_settled [OF settles(1) unfinished(1)])
  show "reports c (in_service svc (deferJobWithProgress i c code delay progress (sy_store s)))"
    by (rule reports_settled [OF settles(2) unfinished(2)])
  show "reports c (in_service svc (deferProviderFailure options i c cause (sy_store s)))"
    by (rule reports_settled [OF settles(3) unfinished(3)])
  show "reports c (in_service svc (attach_object ck i c created byJob (sy_store s)))"
    by (rule reports_settled [OF settles(4) unfinished(4)])
  show a: "reports c (in_service svc (abandonCandidate ck i c outcome terminal alreadyMissing (sy_store s)))" for outcome terminal alreadyMissing
    by (rule reports_settled [OF settles(6) unfinished(5)])
  show "reports c (in_service svc (abandon_or_fail ck i c outcome terminal alreadyMissing code manualReview (sy_store s)))"
    using f a by (simp add: abandon_or_fail_def)
  show "reports c (in_service svc (commit_transition (lit ''selected'') (Plan ck out c candidates (ji_commitNow i) (sy_store s))))"
    by (rule reports_settled [OF settles(5) unfinished(6)]) auto
qed

lemma resolve_reports:
  "working ck s (ji_commitNow i) c \<Longrightarrow> reports c (in_service svc (resolve ck sl options i providers c (sy_store s)))"
  by (simp add: resolve_def Let_def helper_reports split_def split: option.split)

lemma prepare_reports:
  "working ck s (ji_commitNow i) c \<Longrightarrow> reports c (in_service svc (prepare ck sl options i c selection (sy_store s)))"
  by (simp add: prepare_def helper_reports split: option.split sum.split prod.split)

lemma publish_media_reports:
  assumes "working ck s (ji_commitNow i) c" "service_reachable svc"
    "am_request media = js_request (jc_job c)"
  shows "reports c (publish_media ck options i c media (sy_store s) svc)"
proof -
  have w: "system_ok ck s" "in_hand s (ji_commitNow i) c" "checks_ok ck" and wf: "wf_request (am_request media)"
    using assms(1,3) by (simp_all add: working_def sound_job_def)
  obtain result svc' where published: "PublishAcquired (ji_publishLoads i) (ji_publishFaults i) media svc = (result, svc')" by force
  show ?thesis
  proof (cases result)
    case (Inl e)
    then show ?thesis using published helper_reports(3) [OF assms(1), of svc' options]
      by (simp add: publish_media_def in_service_fold)
  next
    case (Inr m)
    with published_acquired [OF assms(2) wf] published
    have found: "FindPublished True (am_request media) svc' = Inr (Some (cd_objectId (am_candidate media)))" by blast
    have "reported svc' st' c state"
      if run: "commit_transition (lit ''succeeded'')
        (Succeed ck (ji_commitOut i) c (cd_objectId (am_candidate media)) (ji_commitNow i) (sy_store s)) = (Inr state, st')" for state st'
    proof -
      let ?j = "(succeeded_job (cd_objectId (am_candidate media)) (jc_job c))\<lparr>js_updatedAt := ji_commitNow i\<rparr>"
      obtain validated u where v: "snapshot_of ck ?j = Inr validated" and t: "transitionWithStates (ji_commitOut i) c [lit ''preparing''] (ji_commitNow i)
            (retry_at 0 \<circ> set_job (succeeded_job (js_publishedObjectID validated))) (sy_store s) = (Inr u, st')"
        and state: "state = lit ''succeeded''"
        using run by (auto simp: commit_Inr Succeed_def split: sum.splits)
      have id: "js_publishedObjectID validated = cd_objectId (am_candidate media)"
        using snapshot_of_Inr(2) [OF v w(3)] by (auto simp: succeeded_job_def)
      let ?k = "stamped (ji_commitNow i) (succeeded_job (cd_objectId (am_candidate media)) (jc_job c))"
      have "holds_job st' ?k" using transition_holds [OF w(1,2) t] by (simp add: id)
      with state found assms(3) show ?thesis
        unfolding reported_def by (intro exI [of _ ?k]) (simp add: succeeded_job_def stamped_def)
    qed
    then have "reports c (in_service svc' (commit_transition (lit ''succeeded'')
        (Succeed ck (ji_commitOut i) c (cd_objectId (am_candidate media)) (ji_commitNow i) (sy_store s))))"
      by (simp add: reports_def in_service_def del: snd_commit) (metis prod.collapse)
    then show ?thesis using Inr published by (simp add: publish_media_def in_service_fold)
  qed
qed

lemma publish_reports:
  assumes "working ck s (ji_commitNow i) c" "service_reachable svc"
  shows "reports c (publish ck options i c hasRelease (sy_store s) svc)" "reports c (publishRange ck options i c (sy_store s) svc)"
proof -
  have "wf_request (js_request (jc_job c))" using assms(1) by (simp add: working_def sound_job_def)
  note media = publish_media_reports [OF assms acquired_request(1) [OF this]] publish_media_reports [OF assms acquired_request(2) [OF this]]
  show "reports c (publish ck options i c hasRelease (sy_store s) svc)" "reports c (publishRange ck options i c (sy_store s) svc)"
    using helper_reports [OF assms(1)] media
    by (simp_all add: publish_def publishRange_def Let_def in_service_fold split: option.split)
qed

lemma dispatch_reports:
  assumes "working ck s (ji_commitNow i) c" "service_reachable svc"
  shows "reports c (dispatch ck sl options i c (sy_store s) svc)"
proof -
  have "reports c (Inl JUnsupported, sy_store s, svc)" by (simp add: reports_def)
  then show ?thesis
    using helper_reports [OF assms(1)] resolve_reports [OF assms(1)] prepare_reports [OF assms(1)] publish_reports [OF assms]
    by (simp add: dispatch_def Let_def in_service_fold split: sum.split option.split)
qed

text \<open>A claim is a sound job in an active state, and has progress only while it is prepared.\<close>

lemma claimed_job:
  assumes "ClaimJob ck out versionReads now leaseDuration st = (Inr c, st')" "checks_ok ck"
  shows "sound_job ck (jc_job c)" "js_state (jc_job c) \<in> set active_states"
    "js_state (jc_job c) = lit ''preparing'' \<or> js_progress (jc_job c) = 0"
proof -
  obtain r job where r: "next_due (UnixMilli now) (jt_jobs st) = Some r"
    and q: "queryJob ck (job_leased (UnixMilli now) (UnixMilli (now + leaseDuration)) r) = Inr job" and c: "jc_job c = job"
    using assms(1) by (auto simp: ClaimJob_def Let_def NewAcquisitionJobClaim_def split: if_splits sum.splits option.splits)
  let ?r = "job_leased (UnixMilli now) (UnixMilli (now + leaseDuration)) r"
  obtain request selection created where q': "snapshot_of ck ((jr_job ?r)\<lparr>js_request := request, js_selection := selection,
      js_createdObject := created, js_ordinal := read_ordinal (js_ordinal (jr_job ?r))\<rparr>) = Inr job"
    using q by (rule queryJob_Inr)
  show sound: "sound_job ck (jc_job c)" using snapshot_of_Inr(1) [OF q' assms(2)] c by simp
  have "js_state job = js_state (jr_job r)" using snapshot_of_Inr(2) [OF q' assms(2)] by (auto simp: job_leased_def)
  with next_due_SomeD [OF r] c show "js_state (jc_job c) \<in> set active_states" by (simp add: due_def)
  with sound queued_stage [OF sound] selected_stage [OF sound]
  show "js_state (jc_job c) = lit ''preparing'' \<or> js_progress (jc_job c) = 0"
    by (auto simp: active_states_def)
qed

text \<open>
  C6. The worker of background jobs keeps the repository and the library in step: from every state of the job repository
  and every state of the setup service that is reached without a second fault in one publication, a round is a run of the
  repository, whatever the providers and the databases answer, under a clock that does not go back. The round's own publication may
  fail in every way.
  When it reports a state, the job it leased has this state and is not leased any more, and a job that it reports as succeeded
  names the object that the service now publishes for the job's request.
\<close>

theorem job_worker_advances:
  assumes "checks_ok ck" "identified ck" "0 \<le> start" "job_run ck (open_jobs start) s" "service_reachable svc"
    "sy_now s \<le> ji_claimNow i" "ji_claimNow i \<le> ji_commitNow i"
    "job_ProcessOne ck sl options i (sy_store s) svc = (result, st', svc')"
  shows "\<exists>s'. job_run ck s s' \<and> sy_store s' = st' \<and> (\<forall>state. result = Inr state \<longrightarrow>
    (\<exists>c r. sy_claims s' = c # sy_claims s \<and> r \<in> set (jt_jobs st') \<and> row_id r = js_id (jc_job c) \<and> jr_leaseUntil r = 0
      \<and> js_state (jr_job r) = state
      \<and> (state = lit ''succeeded'' \<longrightarrow> FindPublished True (js_request (jr_job r)) svc' = Inr (Some (js_publishedObjectID (jr_job r))))))"
proof -
  obtain claimed st where claim: "ClaimJob ck (ji_claimOut i) (ji_versionReads i) (ji_claimNow i) (jo_leaseDuration options) (sy_store s)
      = (claimed, st)" by force
  show ?thesis
  proof (cases claimed)
    case (Inl e)
    with claim assms(6,8) show ?thesis
      by (intro exI [of _ "moved (ji_claimNow i) st s"]) (auto simp: job_ProcessOne_def intro!: r_into_rtranclp refused)
  next
    case (Inr c)
    let ?t = "(moved (ji_claimNow i) st s)\<lparr>sy_claims := c # sy_claims s\<rparr>"
    have step: "job_step ck s ?t" using granted [OF assms(6)] claim Inr by blast
    then have t: "job_run ck (open_jobs start) ?t" using assms(4) by simp
    note sound = claimed_job [OF claim [unfolded Inr] assms(1)]
    have hand: "in_hand ?t (ji_commitNow i) c" using assms(7) sound(3) by (simp add: in_hand_def)
    have "js_state (jc_job c) \<noteq> lit ''succeeded''" using sound(2) by (auto simp: active_states_def lit_def)
    then have w: "working ck ?t (ji_commitNow i) c"
      using assms(1,2) sound(1) hand system_ok_open [OF assms(3) t assms(1)] unfolding working_def by blast
    have run: "dispatch ck sl options i c (sy_store ?t) svc = (result, st', svc')"
      using assms(8) claim Inr by (simp add: job_ProcessOne_def)
    have "steps_to ck ?t (ji_commitNow i) st'" using dispatch_advances [OF hand, of ck sl options svc] unfolding run by simp
    then obtain s' where s': "job_run ck s s'" "sy_store s' = st'" "sy_claims s' = c # sy_claims s"
      unfolding steps_to_def
    proof
      assume "st' = sy_store ?t"
      with step show thesis by (intro that [of ?t]) auto
    next
      assume "job_step ck ?t (moved (ji_commitNow i) st' ?t)"
      with step show thesis by (intro that [of "moved (ji_commitNow i) st' ?t"]) auto
    qed
    moreover have "reported svc' st' c state" if "result = Inr state" for state
      using dispatch_reports [OF w assms(5), of sl options] that unfolding run by (simp add: reports_def)
    ultimately show ?thesis by (intro exI [of _ s']) (fastforce simp: reported_def holds_job_def)
  qed
qed

section \<open>Plans\<close>

text \<open>A plan numbers its candidates, and the first of them is the selected one.\<close>

definition plan_entry :: "('sel, 'obj) job_checks \<Rightarrow> int \<Rightarrow> 'sel job_candidate \<Rightarrow> bool" where
  "plan_entry ck k c \<longleftrightarrow> ca_ordinal c = k \<and> ca_outcome c = (if k = 0 then lit ''selected'' else lit ''pending'')
     \<and> ck_selection ck (ca_selection c) = Some (ca_selection c)"

definition numbered :: "('sel, 'obj) job_checks \<Rightarrow> 'sel job_candidate list \<Rightarrow> bool" where
  "numbered ck cs \<longleftrightarrow> (\<forall>k < length cs. plan_entry ck (int k) (cs ! k))"

lemma numbered_append [simp]: "numbered ck (cs @ [c]) \<longleftrightarrow> numbered ck cs \<and> plan_entry ck (int (length cs)) c"
  by (auto simp: numbered_def nth_append less_Suc_eq)

definition from_source :: "('sel, 'obj) job_checks \<Rightarrow> ('a \<Rightarrow> 'sel option) \<Rightarrow> 'a list \<Rightarrow> 'sel \<Rightarrow> bool" where
  "from_source ck new_selection xs v \<longleftrightarrow> (\<exists>x \<in> set xs. \<exists>w. new_selection x = Some w \<and> ck_selection ck w = Some v)"

lemma appendJobCandidate_eq:
  assumes "int (length cs) < maximumJobCandidates"
  shows "appendJobCandidate ck cs w = (case ck_selection ck w of None \<Rightarrow> cs
    | Some v \<Rightarrow> cs @ [\<lparr>ca_selection = v, ca_ordinal = int (length cs),
        ca_outcome = (if cs = [] then lit ''selected'' else lit ''pending'')\<rparr>])"
  using assms
  by (simp add: appendJobCandidate_def Let_def NewJobCandidate_def candidate_outcomes_def split: option.split)

lemma add_candidates_plan:
  assumes "checks_ok ck" "numbered ck cs" "int (length cs) \<le> limit" "limit \<le> maximumJobCandidates"
  shows "\<exists>new. add_candidates ck limit new_selection xs cs = cs @ new \<and> numbered ck (cs @ new) \<and> int (length (cs @ new)) \<le> limit
    \<and> (\<forall>c \<in> set new. from_source ck new_selection xs (ca_selection c))
    \<and> (int (length cs) < limit \<and> (\<exists>v. from_source ck new_selection xs v) \<longrightarrow> new \<noteq> [])"
  using assms(2,3)
proof (induction xs arbitrary: cs)
  case (Cons x xs)
  show ?case
  proof (cases "int (length cs) = limit \<or> new_selection x = None \<or> (\<exists>w. new_selection x = Some w \<and> ck_selection ck w = None)")
    case True
    with Cons assms(4) show ?thesis
      by (cases "int (length cs) = limit"; cases "new_selection x") (fastforce simp: from_source_def appendJobCandidate_eq)+
  next
    case False
    then obtain w v where w: "new_selection x = Some w" "ck_selection ck w = Some v" "int (length cs) < limit" using Cons.prems by auto
    let ?c = "\<lparr>ca_selection = v, ca_ordinal = int (length cs), ca_outcome = (if cs = [] then lit ''selected'' else lit ''pending'')\<rparr>"
    have "numbered ck (cs @ [?c])" using assms(1) Cons.prems(1) w(2) by (auto simp: plan_entry_def checks_ok_def)
    from Cons.IH [OF this] w obtain new where "add_candidates ck limit new_selection xs (cs @ [?c]) = (cs @ [?c]) @ new"
      "numbered ck ((cs @ [?c]) @ new)" "int (length ((cs @ [?c]) @ new)) \<le> limit"
      "\<forall>c \<in> set new. from_source ck new_selection xs (ca_selection c)" by auto
    with w assms(4) show ?thesis
      by (intro exI [of _ "?c # new"]) (auto simp: appendJobCandidate_eq from_source_def)
  qed
qed (simp add: from_source_def)

lemma plan_items_numbered:
  assumes "\<forall>k < length cs. plan_entry ck (j + int k) (cs ! k)" "0 \<le> j" "j + int (length cs) \<le> maximumJobCandidates"
  shows "plan_items ck j identities cs = Some cs \<longleftrightarrow> distinct (map (\<lambda>c. ck_identity ck (ca_selection c)) cs)
    \<and> set (map (\<lambda>c. ck_identity ck (ca_selection c)) cs) \<inter> set identities = {}"
  using assms
proof (induction cs arbitrary: j identities)
  case (Cons c cs)
  have "plan_entry ck (j + 1 + int k) (cs ! k)" if "k < length cs" for k
    using Cons.prems(1) that by (auto dest!: spec [of _ "Suc k"] simp: algebra_simps)
  then have IH: "plan_items ck (j + 1) (ck_identity ck (ca_selection c) # identities) cs = Some cs
      \<longleftrightarrow> distinct (map (\<lambda>c. ck_identity ck (ca_selection c)) cs)
        \<and> set (map (\<lambda>c. ck_identity ck (ca_selection c)) cs) \<inter> set (ck_identity ck (ca_selection c) # identities) = {}"
    using Cons.prems(2,3) by (intro Cons.IH) simp_all
  have "plan_entry ck j c" using Cons.prems(1) by (auto dest!: spec [of _ 0])
  then have "ca_ordinal c = j" "ca_outcome c = (if j = 0 then lit ''selected'' else lit ''pending'')"
    "NewJobCandidate ck (ca_selection c) j (ca_outcome c) = Some c"
    using Cons.prems(2,3) by (auto simp: plan_entry_def NewJobCandidate_def candidate_outcomes_def)
  then show ?case using IH by (auto simp: Let_def split: if_splits)
qed simp

text \<open>
  C7. The plan of the worker fits the store: it has at most the permitted number of candidates, it is accepted as it is exactly when it is
  not empty and no selection occurs twice, and when a provider offers a file that can be read directly then the plan has one
  of these files, however many cached releases there are.
\<close>

theorem worker_plan_accepted:
  assumes "checks_ok ck" "plan = plan_candidates ck sl cached direct uncached"
  shows "int (length plan) \<le> maximumJobCandidates
    \<and> (validateCandidatePlan ck plan = Some plan \<longleftrightarrow> plan \<noteq> [] \<and> distinct (map (\<lambda>c. ck_identity ck (ca_selection c)) plan))
    \<and> ((\<exists>x \<in> set direct. \<exists>w v. sl_newRange sl x = Some w \<and> ck_selection ck w = Some v)
        \<longrightarrow> (\<exists>c \<in> set plan. \<exists>x \<in> set direct. \<exists>w. sl_newRange sl x = Some w \<and> ck_selection ck w = Some (ca_selection c)))"
proof -
  let ?limit = "if direct \<noteq> [] then maximumJobCandidates - 1 else maximumJobCandidates"
  have limit: "0 \<le> ?limit" "?limit \<le> maximumJobCandidates" by (simp_all add: maximumJobCandidates_def)
  obtain a where a: "add_candidates ck ?limit (sl_newTorrent sl) cached [] = a" "numbered ck a" "int (length a) \<le> ?limit"
    using add_candidates_plan [OF assms(1) _ _ limit(2), of "[]" "sl_newTorrent sl" cached] limit(1) by (auto simp: numbered_def)
  obtain b where b: "add_candidates ck maximumJobCandidates (sl_newRange sl) direct a = a @ b" "numbered ck (a @ b)"
      "int (length (a @ b)) \<le> maximumJobCandidates" "\<forall>c \<in> set b. from_source ck (sl_newRange sl) direct (ca_selection c)"
      "int (length a) < maximumJobCandidates \<and> (\<exists>v. from_source ck (sl_newRange sl) direct v) \<longrightarrow> b \<noteq> []"
    using add_candidates_plan [OF assms(1) a(2) order.trans [OF a(3) limit(2)] order.refl] by blast
  obtain d where d: "plan = (a @ b) @ d" "numbered ck plan" "int (length plan) \<le> maximumJobCandidates"
    using add_candidates_plan [OF assms(1) b(2,3) order.refl, of "sl_newTorrent sl" uncached] a(1) b(1)
    unfolding assms(2) plan_candidates_def Let_def by auto
  have "validateCandidatePlan ck plan = Some plan \<longleftrightarrow> plan \<noteq> [] \<and> distinct (map (\<lambda>c. ck_identity ck (ca_selection c)) plan)"
    using plan_items_numbered [of plan ck 0 "[]"] d(2,3) by (auto simp: validateCandidatePlan_def numbered_def)
  moreover have "\<exists>c \<in> set plan. from_source ck (sl_newRange sl) direct (ca_selection c)" if v: "from_source ck (sl_newRange sl) direct v" for v
  proof -
    have "direct \<noteq> []" using v by (auto simp: from_source_def)
    with a(3) b(5) v have "b \<noteq> []" by auto
    with b(4) d(1) show ?thesis by (cases b) auto
  qed
  ultimately show ?thesis using d(3) unfolding from_source_def by blast
qed

text \<open>Eight cached releases, one file that can be read directly and one more release.\<close>

definition number_checks :: "(int, unit) job_checks" where
  "number_checks = \<lparr>ck_selection = Some, ck_object = Some, ck_stored = (\<lambda>s. Some (Some s)), ck_planned = Some,
     ck_attached = (\<lambda>v. Some (Some v)), ck_identity = (\<lambda>k. ([], [], decimal k)), ck_lower = (\<lambda>t. t)\<rparr>"

definition number_selections :: "(int, int, int) selections" where
  "number_selections = \<lparr>sl_isRange = (\<lambda>k. k = 9), sl_isTorrent = (\<lambda>k. k \<noteq> 9), sl_infoHash = decimal, sl_rangeCandidate = Some,
     sl_hasRelease = (\<lambda>k. k \<noteq> 9), sl_newTorrent = Some, sl_newRange = Some, rl_isTorrent = (\<lambda>_. True), rl_infoHash = decimal\<rparr>"

lemma number_plan:
  "map ca_selection (plan_candidates number_checks number_selections [1, 2, 3, 4, 5, 6, 7, 8] [9] [10]) = [1, 2, 3, 4, 9]"
  by (simp add: plan_candidates_def number_checks_def number_selections_def appendJobCandidate_def NewJobCandidate_def candidate_outcomes_def
      maximumJobCandidates_def Let_def)

theorem worker_plan_accepted_witness:
  "validateCandidatePlan number_checks (plan_candidates number_checks number_selections [1, 2, 3, 4, 5, 6, 7, 8] [9] [10])
    = Some (plan_candidates number_checks number_selections [1, 2, 3, 4, 5, 6, 7, 8] [9] [10])"
proof -
  have "checks_ok number_checks" by (simp add: checks_ok_def number_checks_def)
  note accepted = worker_plan_accepted [OF this refl, of number_selections "[1, 2, 3, 4, 5, 6, 7, 8]" "[9]" "[10]"]
  let ?plan = "plan_candidates number_checks number_selections [1, 2, 3, 4, 5, 6, 7, 8] [9] [10]"
  have "map (\<lambda>c. ck_identity number_checks (ca_selection c)) ?plan = map (ck_identity number_checks) [1, 2, 3, 4, 9]"
    by (simp only: number_plan [symmetric] map_map comp_def)
  moreover have "distinct (map (ck_identity number_checks) [1, 2, 3, 4, 9])"
    by (auto simp: number_checks_def dest!: decimal_inj [rotated 2])
  moreover have "?plan \<noteq> []" using number_plan by auto
  ultimately show ?thesis using accepted by simp
qed

section \<open>A sample round\<close>

definition sample_selections :: "(unit, unit, unit) selections" where
  "sample_selections = \<lparr>sl_isRange = (\<lambda>_. False), sl_isTorrent = (\<lambda>_. True), sl_infoHash = (\<lambda>_. lit ''6:1''),
     sl_rangeCandidate = (\<lambda>_. None), sl_hasRelease = (\<lambda>_. True), sl_newTorrent = Some, sl_newRange = Some,
     rl_isTorrent = (\<lambda>_. True), rl_infoHash = (\<lambda>_. lit ''6:1'')\<rparr>"

definition sample_worker_options :: job_worker_options where
  "sample_worker_options = \<lparr>jo_leaseDuration = from_millis 1000, jo_operationTimeout = from_millis 500, jo_idleInterval = from_millis 100,
     jo_preparingPollInterval = from_millis 100, jo_retryInterval = from_millis 100\<rparr>"

text \<open>Two seconds after the start a search finds nothing, and half a second later this is stored.\<close>

definition nothing_found :: "(unit, unit, unit) job_inputs" where
  "nothing_found = \<lparr>ji_claimNow = from_millis 2000, ji_claimOut = Executed, ji_versionReads = True,
     ji_providers = Inr \<lparr>ps_complete = True, ps_directResolver = False, ps_rangePreparer = False\<rparr>,
     ji_search = (None, []), ji_direct = (None, []), ji_cached = Inr [], ji_rangePrepare = Inl [], ji_find = Inl [], ji_materialize = Inl [],
     ji_create = Inl [], ji_reconcile = Inl [], ji_inspection = \<lparr>in_error = None, in_progress = 0, in_candidates = []\<rparr>,
     ji_unicode = ascii_text, ji_deletes = True, ji_publishLoads = True, ji_publishFaults = no_faults, ji_publishContext = False,
     ji_commitNow = from_millis 2500, ji_commitOut = Executed, ji_ended = False\<rparr>"

lemma sample_round:
  "job_ProcessOne sample_checks sample_selections sample_worker_options nothing_found (sample_store 0 1000 0) svc
    = (Inr (lit ''failed''), sample_failed, svc)"
proof -
  have "ClaimJob sample_checks Executed True (from_millis 2000) (from_millis 1000) (sample_store 0 1000 0)
      = (Inr (sample_job_claim 1 2000), sample_store 1 2000 3000)"
    using sample_claimed [of 0 1000 2000 0 1000] by simp
  moreover have "js_state (jc_job (sample_job_claim 1 2000)) = lit ''queued''" by (simp add: sample_job_claim_def)
  ultimately show ?thesis
    by (simp add: job_ProcessOne_def dispatch_def resolve_def nothing_found_def sample_worker_options_def provided_list_def partitionCached_def
        plan_candidates_def fail_job_def sample_Fail commit_transition_def Let_def)
qed

theorem job_worker_advances_witness:
  "\<exists>s' c r. job_run sample_checks sample_system s' \<and> sy_store s' = sample_failed \<and> sy_claims s' = [c]
     \<and> r \<in> set (jt_jobs sample_failed) \<and> row_id r = js_id (jc_job c) \<and> jr_leaseUntil r = 0 \<and> js_state (jr_job r) = lit ''failed''"
proof -
  have checks: "identified sample_checks" by (simp add: identified_def sample_checks_def lit_def)
  have service: "service_reachable (service_start [] None)" by (rule service_reachable.start) simp
  have round: "job_ProcessOne sample_checks sample_selections sample_worker_options nothing_found (sy_store sample_system)
      (service_start [] None) = (Inr (lit ''failed''), sample_failed, service_start [] None)"
    by (simp add: sample_system_def sample_round)
  have times: "sy_now sample_system \<le> ji_claimNow nothing_found"
    "ji_claimNow nothing_found \<le> ji_commitNow nothing_found"
    by (simp_all add: nothing_found_def sample_system_def)
  from job_worker_advances [OF sample_checks_ok checks order.refl sample_runs(1) service times round]
  show ?thesis by (simp add: sample_system_def)
qed

end
