(* ===== verification/Spec2Isabelle.thy ===== *)
theory Spec2Isabelle
  imports Console_Names Console_Drafts Console_Progress Console_Server Server_Access Console_Jobs Server_JobWorker
begin

text \<open>
  BlackPearl: a verification library for the setup console and the control API behind it.

  BlackPearl publishes media from a TorBox account to Plex through a rolling range cache. A server
  written in Go owns the account, the manifest and the background jobs; the console under
  \<open>web/src\<close> is the program a user works with, and it is what this library models first:
  \<open>web/src/lib/api.ts\<close> (the client of the server's JSON API and the guards that decide
  which answers are accepted) and \<open>web/src/components/setup-console.tsx\<close> (a React component:
  its state, two effects, the handlers, the page it renders, and the helpers below it).

  \<^bold>\<open>JavaScript.\<close>
  \<^item> \<open>Js_Prelude\<close>: strings as lists of 16-bit code units, the character classes and the string methods
    the console calls, and results as a sum of an error and a value.
  \<^item> \<open>Js_Number\<close>: numbers as \<open>NaN\<close>, the infinities and rational values, with every arithmetic result rounded
    to the nearest double; printing and parsing. Integers below \<open>2\<^sup>5\<^sup>3\<close> in absolute value are shown to be
    exact. Negative zero is not distinguished from zero; the console never depends on its sign.
  \<^item> \<open>Js_Regex\<close>: the backtracking matcher of ECMAScript for the constructs the console's patterns use, with
    captures, proved sound for the language of a pattern and complete for anchored patterns.
  \<^item> \<open>Js_Json\<close>: parsed JSON with \<open>typeof\<close>, and the locale \<open>type_guard\<close>, the contract of a function that
    narrows an unknown value: reading loses no member, the constraints hold, and exactly the
    constrained values are accepted when they are written as JSON.
  \<^item> \<open>Js_Url\<close>: \<open>encodeURIComponent\<close> and the parser of \<open>URLSearchParams\<close>, with a proof that decoding
    undoes encoding.

  \<^bold>\<open>The API client\<close> (\<open>api.ts\<close>).
  \<^item> \<open>Setup_Types\<close>: the exported types as records and datatypes.
  \<^item> \<open>Setup_Guards\<close>: every guard, and an interpretation of \<open>type_guard\<close> for candidates, configurations,
    the Watchlist queue and status, and background jobs.
  \<^item> \<open>Setup_Client\<close>: every operation as a request, the reading of a response, and the two joined by
    \<open>perform\<close>; \<open>mutationHeaders\<close>, \<open>readSession\<close> and \<open>readJSON\<close>.
  \<^item> \<open>Setup_Contract\<close>: what the client promises: consistent availability counts, exact guards, round
    trips of jobs, Watchlist status and manifests, sessions on every mutation, safe paths.

  \<^bold>\<open>The console\<close> (\<open>setup-console.tsx\<close>).
  \<^item> \<open>Console_Suggest\<close> and \<open>Console_Names\<close>: drafts suggested from file names, with the patterns of the
    source run by the matcher; the round trip with the label of an episode.
  \<^item> \<open>Console_Format\<close>: labels, messages, form validation, sizes.
  \<^item> \<open>Console_State\<close>: the React state as a record, derived values, the editing of drafts and
    the browser's session storage.
  \<^item> \<open>Console_World\<close>: the running component. A world is the state, the browser, the requests in flight with
    what their continuations captured, and the polling effect (its dependencies, its generation, its
    timer). Each handler is split at its \<open>await\<close>s into a function that runs at once and one
    continuation per response.
  \<^item> \<open>Console_View\<close>: the page, section by section, with the event of each control. A user event is possible when the
    page offers it through a control that is not disabled.
  \<^item> \<open>Console_Steps\<close>: the handlers of these events, and the step relation: a user event, any
    answer to any request in flight, the timer, or the effect running again after a dependency changed.
    Nothing is assumed of the order or of the content of answers; the parameter \<open>M\<close> states an assumption
    about the manifests in answers where a property needs one (\<open>manifest_ok\<close> of \<open>Console_Drafts\<close>).
  \<^item> \<open>Console_Invariants\<close>: the locale \<open>state_invariant\<close> and its first interpretation: operations do not
    overlap. \<open>Console_Data\<close>: validated data and requests, failures, pairing. \<open>Console_Drafts\<close>: the locale
    \<open>draft_editor\<close>, interpreted for the four editing operations, the refinement to a finite map and the
    bounds of a submitted manifest. \<open>Console_Polling\<close>: polling of background jobs.
    \<open>Console_Progress\<close>: no deadlock, reloading, the Watchlist switches.

  \<^bold>\<open>The server\<close> (Go). What the console is told depends on it, so its side of the API is modelled down to the stores.
  \<^item> \<open>Server_Wire\<close>, \<open>Server_Time\<close>, \<open>Server_Path\<close>: Go strings and JSON with \<open>omitempty\<close>; instants, the columns of
    milliseconds and RFC 3339; path segments and decimals. \<open>Server_Wire\<close> declares the locale \<open>validator\<close>, a check whose results pass it
    again unchanged, which is interpreted for candidates, configurations, manifests, search requests, Watchlist items and observations.
  \<^item> \<open>Server_Domain\<close>: candidates, configurations, manifests and published media of \<open>internal/domain\<close>, with the value that
    the console reads from a configuration. \<open>Server_Intent\<close>: search requests (\<open>internal/acquisition/search.go\<close>).
  \<^item> \<open>Server_Setup\<close>: the state of \<open>internal/service/setup/service.go\<close> and every operation, the transaction \<open>commitManifest\<close> with its
    rollback included; every outcome of every boundary call is an input. \<open>Server_Contract\<close>: what reaches the console from
    every reachable service. \<open>Server_Publication\<close>: what \<open>Apply\<close> and \<open>PublishAcquired\<close> publish, and what the lookups find.
    The service's mutex runs the operations one at a time.
  \<^item> \<open>Server_Handler\<close>, \<open>Server_Routes\<close>, \<open>Server_Access\<close>: \<open>internal/handler/setup\<close>: decoding of bodies, the gate for requests of the local
    page, every route with its answers, the dispatch, and the proof that nothing changes without authorization.
  \<^item> \<open>Server_Jobs\<close>: job snapshots (\<open>internal/acquisition/job.go\<close>) and job answers. \<open>Server_JobStore\<close>: the repository of jobs
    (\<open>internal/repository/acquisitionjob\<close>), its tables as lists of rows and one function for each operation, and the manager.
    \<open>Server_JobLife\<close>: the invariant of the store with the claims that were granted, kept by every operation, and the runs
    \<open>job_step\<close> of a store. \<open>Server_JobRuns\<close>: every step is one of three moves; the locale \<open>job_history\<close>, what is kept of a row, is
    interpreted for the identity of a job, for its lease version and for finished jobs. \<open>Server_Selections\<close>: release selections,
    exact files and provider objects with the checks of their constructors, the columns they are stored in and their reading
    (\<open>queryJob\<close>, \<open>queryCandidate\<close>); they are the instance \<open>server_checks\<close> of the record of checks that the store works with.
    \<open>Server_JobWorker\<close>: a round of the worker
    (\<open>internal/service/acquisitionjob/worker.go\<close>), which leases a job and plans, prepares or publishes it; it makes steps of the store
    only, and it reports success only for media that the setup service then publishes. Its plans fit the store. \<open>Server_Candidates\<close>: the choice
    among the files of a prepared object (\<open>SelectCandidate\<close> of \<open>internal/service/acquisition/service.go\<close>), which compares names by words.
  \<^item> \<open>Server_Watchlist\<close>, \<open>Server_Queue\<close>, \<open>Server_Leases\<close>: Watchlist items, observations and claims, the queue
    (\<open>internal/repository/watchlist\<close>) and its leases, with the locale \<open>row_history\<close>. \<open>Server_Observer\<close> and \<open>Server_Worker\<close>: the
    synchronisation with the Plex Watchlist and the worker that turns claims into jobs (\<open>internal/service/watchlist\<close>).
  \<^item> \<open>Console_Server\<close> and \<open>Console_Jobs\<close>: the console's client against the server's routes: a publication, a background
    request and the polling of a job, from the page to the stores and back.

  \<^bold>\<open>Parameters.\<close> The network is a function from requests to optional responses, or, for the running console,
  any answer. The current year (\<open>new Date().getFullYear()\<close>), \<open>toLocaleLowerCase\<close>, whether
  \<open>Date.parse\<close> of a string is finite and the formatting of a date by \<open>Intl.DateTimeFormat\<close> depend on the
  host and are arguments. On the server the session of a token (an HMAC), \<open>strings.ToLower\<close>, the tables of
  the Unicode standard, the coordinator of instant acquisition and the outcomes of provider, runtime and databases are arguments or inputs; an SQL statement
  is an atomic function of the tables, and whether it runs and whether its answer arrives is an input (\<open>db_outcome\<close>). The store of jobs
  works with any selections (\<open>job_checks\<close>) whose checks and reading satisfy \<open>checks_ok\<close>, which \<open>server_checks\<close> is shown to do.

  \<^bold>\<open>Assumptions.\<close> Where a property speaks of reachable stores, the clock of the server does not go back, and a job without a
  provider object is deferred without progress, as every caller of \<open>Defer\<close> does. The reachable states of the setup service
  (\<open>service_reachable\<close>) are those without a second fault in one publication (\<open>atomic_commit\<close>: the rollback of a failed
  publication does not fail too); \<open>apply_publishes_selection\<close> states what such a second fault leaves.

  \<^bold>\<open>Loops and fuel.\<close> Every definition is total and none uses fuel: the loop of \<open>formatBytes\<close> ends by the
  length of its table, the matcher by the length of the remaining input and the size of the pattern,
  the UTF-8 decoder by the bytes left.

  \<^bold>\<open>Scheduling.\<close> The setters called in one synchronous stretch take effect together, before the next event, and
  the polling effect runs at some later step; both orders of the effect and a pending answer are runs.
  The component is not unmounted.

  \<^bold>\<open>Not modelled.\<close> Class names, layout and accessibility attributes of the markup; the limits that the
  browser puts on typed input (\<open>maxLength\<close>, \<open>required\<close>), so that the model allows more input than
  a browser does; \<open>formatWatchlistTime\<close>, which only calls the host; \<open>layout.tsx\<close>, \<open>page.tsx\<close> and the build configuration, which hold
  no logic; the generated site. Of the server: the loops that run the workers, instant acquisition, the ranking of releases,
  playback advancement, the range cache and the virtual file systems, the gateways and the wiring of the process, on which the
  console does not rely beyond what its guards check; migrations of the databases.

  \<^bold>\<open>Deviations that the proofs show.\<close> One failed poll ends polling (\<open>polling_stops_after_failure\<close>); the refresh
  after a polled job succeeds is discarded when the effect runs first (\<open>success_refresh_lost\<close>); a
  refresh without active items leaves a page without controls (\<open>refresh_can_empty_page\<close>);
  background jobs for specials are refused by the guard (\<open>server_jobs_accepted_iff\<close>), and editing a
  manifest moves specials to season 1 (\<open>special_changes_season\<close>).
\<close>

section \<open>Specials between the server and the console\<close>

text \<open>
  C37. What happens to the coordinates of a published episode when the manifest is opened for editing and
  applied again: the page labels the episode with its season and its episode, and the item that is
  submitted has the same episode, but the season only when it is not 0. The server leaves a zero season
  out of its answer; the label reads a missing season as 0 and the draft as 1, so a special that the
  user does not touch is moved to season 1.
\<close>

theorem special_changes_season:
  assumes "gc_mediaType c = lit ''episode''" "gc_showTitle c \<noteq> []" "0 \<le> gc_season c" "gc_season c \<le> 99"
    "1 \<le> gc_episode c" "gc_episode c \<le> 999" "utf16 (gc_objectId c) \<in> set (map mc_objectId found)"
  shows "manifestLabel (received c) =
      utf16 (gc_showTitle c) @ js '' S'' @ pad2 (Fin (of_int (gc_season c)))
        @ js ''E'' @ pad2 (Fin (of_int (gc_episode c)))
    \<and> map (\<lambda>draft. (ai_season (toApplyItem draft), ai_episode (toApplyItem draft)))
          (drafts_from_selection found [received c])
      = [(Some (Fin (if gc_season c = 0 then 1 else of_int (gc_season c))), Some (Fin (of_int (gc_episode c))))]"
proof -
  have "safe_integer (gc_season c)" "safe_integer (gc_episode c)"
    using assms(3-6) by (auto simp: safe_integer_def)
  then have "to_double (of_int (gc_season c)) = Fin (of_int (gc_season c))"
    "to_double (of_int (gc_episode c)) = Fin (of_int (gc_episode c))"
    by (simp_all add: to_double_safe_integer)
  with assms show ?thesis
    by (simp add: received_def manifestLabel_def drafts_from_selection_def toApplyItem_def)
qed

definition special_item :: go_configuration where
  "special_item = sample_item\<lparr>gc_season := 0\<rparr>"

definition special_candidate :: media_candidate where
  "special_candidate = \<lparr>mc_provider = None, mc_objectId = js ''7:1'', mc_name = js ''Who.S00E01.mkv'',
     mc_extension = Mkv, mc_size = Fin 4096\<rparr>"

theorem special_changes_season_witness:
  "manifestLabel (received special_item) = js ''Who S00E01''
   \<and> map (\<lambda>draft. (ai_season (toApplyItem draft), ai_episode (toApplyItem draft)))
       (drafts_from_selection [special_candidate] [received special_item])
     = [(Some (Fin 1), Some (Fin 1))]"
proof -
  have label: "pad2 (Fin 0) = js ''00''" "pad2 (Fin 1) = js ''01''"
    using pad2_of_count [of 0] pad2_of_count [of 1]
    by (simp_all add: of_count_def padStart_def nat_to_string_def decimal_digits.simps digit_cu_def cu_def)
  show ?thesis
    using special_changes_season [of special_item "[special_candidate]"] label
    by (simp add: special_item_def sample_item_def special_candidate_def)
qed

end
